(* ===== verification/Prelude.thy ===== *)
theory Prelude
  imports Complex_Main "HOL-Library.Word" "HOL-Library.List_Lexorder" "HOL-Library.Sublist"
    "HOL-Library.AList"
begin

text \<open>
  Shared vocabulary of the development: bytes and byte arrays, thrown errors and the
  result type, insertion-ordered maps, typed-array slices, splitting and joining, and the
  generic lemmas on them that the component theories use. Nothing here models a particular
  function of the repository; the JavaScript language values are in theory JS Values.
\<close>

section \<open>Types and collections of rules\<close>

named_theorems result_simps \<open>case analysis of results\<close>
named_theorems slice_simps \<open>reading back what was written into a byte array\<close>

type_synonym byte = "8 word"
type_synonym bytes = "byte list"
type_synonym code_unit = "16 word"
type_synonym jsstr = "code_unit list"

section \<open>Thrown errors and results\<close>

text \<open>
  Every class of error the compiler package throws, with the code or message it carries.
  A function that may throw returns a value of type \<open>'a result\<close>; \<open>Inl\<close> is the
  thrown error. \<open>IoError\<close> is a rejected file-system promise with its \<open>code\<close>.
\<close>

datatype js_error =
    CompilerFailure string
  | WorldSeedFailure string
  | ServiceIdentityError string
  | ToolchainCatalogFailure string
  | HttpWorkerError nat string
  | TypeError string
  | ErrorCode string
  | PlainError string
  | IoError string

type_synonym 'a result = "js_error + 'a"

definition bindR :: "'e + 'a \<Rightarrow> ('a \<Rightarrow> 'e + 'b) \<Rightarrow> 'e + 'b" where
  "bindR m f = (case m of Inl e \<Rightarrow> Inl e | Inr x \<Rightarrow> f x)"

definition require :: "bool \<Rightarrow> 'e \<Rightarrow> 'e + unit" where
  "require b e = (if b then Inr () else Inl e)"

text \<open>\<open>try { m } catch { throw e }\<close>: every error of the body is replaced.\<close>

definition recast :: "'e + 'a \<Rightarrow> 'e \<Rightarrow> 'e + 'a" where
  "recast m e = (case m of Inl _ \<Rightarrow> Inl e | Inr x \<Rightarrow> Inr x)"

definition of_option :: "'e \<Rightarrow> 'a option \<Rightarrow> 'e + 'a" where
  "of_option e v = (case v of None \<Rightarrow> Inl e | Some x \<Rightarrow> Inr x)"

fun foldR :: "('s \<Rightarrow> 'x \<Rightarrow> 'e + 's) \<Rightarrow> 's \<Rightarrow> 'x list \<Rightarrow> 'e + 's" where
  "foldR f s [] = Inr s"
| "foldR f s (x # xs) = bindR (f s x) (\<lambda>s'. foldR f s' xs)"

fun mapR :: "('x \<Rightarrow> 'e + 'y) \<Rightarrow> 'x list \<Rightarrow> 'e + 'y list" where
  "mapR f [] = Inr []"
| "mapR f (x # xs) = bindR (f x) (\<lambda>y. bindR (mapR f xs) (\<lambda>ys. Inr (y # ys)))"

lemma bindR_simps [simp]: "bindR (Inl e) f = Inl e" "bindR (Inr x) f = f x"
  by (simp_all add: bindR_def)

lemma bindR_eq_Inr [result_simps]: "bindR m f = Inr y \<longleftrightarrow> (\<exists>x. m = Inr x \<and> f x = Inr y)"
  by (cases m) auto

lemma bindR_eq_Inl [result_simps]:
  "bindR m f = Inl e \<longleftrightarrow> m = Inl e \<or> (\<exists>x. m = Inr x \<and> f x = Inl e)"
  by (cases m) auto

lemma require_simps [simp]: "require True e = Inr ()" "require False e = Inl e"
  by (simp_all add: require_def)

lemma require_eq_Inr [result_simps]: "require b e = Inr u \<longleftrightarrow> b"
  by (simp add: require_def)

lemma require_eq_Inl [result_simps]: "require b e = Inl e' \<longleftrightarrow> \<not> b \<and> e' = e"
  by (auto simp: require_def)

lemma recast_simps [simp]: "recast (Inl x) e = Inl e" "recast (Inr y) e = Inr y"
  by (simp_all add: recast_def)

lemma recast_eq_Inr [result_simps]: "recast m e = Inr y \<longleftrightarrow> m = Inr y"
  by (cases m) auto

lemma recast_eq_Inl [result_simps]: "recast m e = Inl e' \<longleftrightarrow> e' = e \<and> (\<exists>x. m = Inl x)"
  by (cases m) auto

lemma of_option_simps [simp]: "of_option e None = Inl e" "of_option e (Some x) = Inr x"
  by (simp_all add: of_option_def)

lemma of_option_eq_Inr [result_simps]: "of_option e v = Inr x \<longleftrightarrow> v = Some x"
  by (cases v) auto

lemma foldR_append: "foldR f s (xs @ ys) = bindR (foldR f s xs) (\<lambda>s'. foldR f s' ys)"
proof (induction xs arbitrary: s)
  case (Cons x xs)
  then show ?case by (cases "f s x") auto
qed simp

text \<open>An invariant kept by every step of a failing loop holds of its result.\<close>

lemma foldR_invariant:
  assumes "foldR f s xs = Inr s'" and "I s"
    and "\<And>s x t. x \<in> set xs \<Longrightarrow> I s \<Longrightarrow> f s x = Inr t \<Longrightarrow> I t"
  shows "I s'"
  using assms
proof (induction xs arbitrary: s)
  case (Cons x xs)
  from Cons.prems(1) obtain t where t: "f s x = Inr t" "foldR f t xs = Inr s'"
    by (auto simp: result_simps)
  from t(1) Cons.prems have "I t" by (meson list.set_intros(1))
  with t(2) Cons.IH Cons.prems(3) show ?case by (meson list.set_intros(2))
qed simp

lemma foldR_unit: "foldR f () xs = Inr () \<longleftrightarrow> (\<forall>x \<in> set xs. f () x = Inr ())"
  by (induction xs) (auto simp: result_simps)

lemma mapR_cong [fundef_cong]:
  "xs = ys \<Longrightarrow> (\<And>x. x \<in> set ys \<Longrightarrow> f x = g x) \<Longrightarrow> mapR f xs = mapR g ys"
  by (induction xs arbitrary: ys) auto

lemma mapR_length: "mapR f xs = Inr ys \<Longrightarrow> length ys = length xs"
  by (induction xs arbitrary: ys) (auto simp: result_simps)

lemma mapR_Inr_iff: "mapR f xs = Inr ys \<longleftrightarrow> list_all2 (\<lambda>x y. f x = Inr y) xs ys"
proof (induction xs arbitrary: ys)
  case Nil
  then show ?case by auto
next
  case (Cons x xs)
  then show ?case by (auto simp: result_simps list_all2_Cons1)
qed

section \<open>Insertion-ordered maps\<close>

text \<open>
  A JavaScript \<open>Map\<close> is an association list with distinct keys in insertion order:
  \<open>get\<close> is \<open>map_of\<close>, \<open>set\<close> is \<open>AList.update\<close> (a known key keeps its
  place), \<open>delete\<close> is \<open>AList.delete\<close>.
\<close>

type_synonym ('k, 'v) jsmap = "('k \<times> 'v) list"

abbreviation has :: "('k, 'v) jsmap \<Rightarrow> 'k \<Rightarrow> bool" where
  "has m k \<equiv> k \<in> set (map fst m)"

lemma has_map_of: "has m k \<longleftrightarrow> map_of m k \<noteq> None"
  by (simp add: map_of_eq_None_iff)

lemma map_of_update [simp]: "map_of (AList.update k v m) = (map_of m)(k \<mapsto> v)"
  by (simp add: update_conv')

lemma map_of_delete [simp]: "map_of (AList.delete k m) = (map_of m)(k := None)"
  by (simp add: delete_conv')

lemma update_fresh: "\<not> has m k \<Longrightarrow> AList.update k v m = m @ [(k, v)]"
  by (induction m) auto

section \<open>Words and byte arrays\<close>

lemma unat_of_nat_small: "n < 2 ^ LENGTH('a) \<Longrightarrow> unat (of_nat n :: 'a::len word) = n"
  by (simp add: unat_of_nat take_bit_eq_mod)

lemma unat_of_nat_byte [simp]: "n < 256 \<Longrightarrow> unat (of_nat n :: byte) = n"
  by (rule unat_of_nat_small) simp

lemma unat_of_nat_unit [simp]: "n < 65536 \<Longrightarrow> unat (of_nat n :: code_unit) = n"
  by (rule unat_of_nat_small) simp

lemma unat_byte_bound [simp]: "unat (b :: byte) < 256"
  by (rule order.strict_trans2 [OF unsigned_less]) simp

lemma unat_unit_bound [simp]: "unat (u :: code_unit) < 65536"
  by (rule order.strict_trans2 [OF unsigned_less]) simp

text \<open>
  \<open>subarray(a, b)\<close> and \<open>target.set(bs, off)\<close> of a typed array. The second is
  only used where \<open>bs\<close> fits, as in the source.
\<close>

definition subarray :: "'a list \<Rightarrow> nat \<Rightarrow> nat \<Rightarrow> 'a list" where
  "subarray xs a b = take (b - a) (drop a xs)"

definition set_at :: "'a list \<Rightarrow> nat \<Rightarrow> 'a list \<Rightarrow> 'a list" where
  "set_at xs off bs = take off xs @ bs @ drop (off + length bs) xs"

lemma length_set_at [simp]:
  "off + length bs \<le> length xs \<Longrightarrow> length (set_at xs off bs) = length xs"
  by (simp add: set_at_def)

lemma length_subarray [simp]:
  "b \<le> length xs \<Longrightarrow> length (subarray xs a b) = b - a"
  by (simp add: subarray_def)

lemma subarray_set_at_before [slice_simps]:
  "b \<le> off \<Longrightarrow> off \<le> length xs \<Longrightarrow> subarray (set_at xs off bs) a b = subarray xs a b"
  by (simp add: subarray_def set_at_def drop_take)

lemma subarray_set_at_after [slice_simps]:
  "off + length bs \<le> a \<Longrightarrow> off \<le> length xs \<Longrightarrow>
    subarray (set_at xs off bs) a b = subarray xs a b"
  by (simp add: subarray_def set_at_def)

lemma subarray_set_at_same [slice_simps]:
  assumes "off + length bs \<le> b" and "off \<le> length xs"
  shows "subarray (set_at xs off bs) off b = bs @ subarray xs (off + length bs) b"
  using assms by (simp add: subarray_def set_at_def)

lemma subarray_replicate [slice_simps]:
  "b \<le> n \<Longrightarrow> subarray (replicate n x) a b = replicate (b - a) x"
  by (simp add: subarray_def min_def)

lemma subarray_append_right [simp]:
  "subarray (xs @ ys) (length xs + a) (length xs + b) = subarray ys a b"
  by (simp add: subarray_def)

lemma subarray_append_left:
  "b \<le> length xs \<Longrightarrow> subarray (xs @ ys) a b = subarray xs a b"
  by (simp add: subarray_def)

lemma subarray_full [simp]: "subarray xs 0 (length xs) = xs"
  by (simp add: subarray_def)

text \<open>A sequence of writes into one array, and what a range of it reads afterwards.\<close>

definition writes :: "'a list \<Rightarrow> (nat \<times> 'a list) list \<Rightarrow> 'a list" where
  "writes xs ws = foldl (\<lambda>ys (off, bs). set_at ys off bs) xs ws"

definition in_bounds :: "nat \<Rightarrow> nat \<times> 'a list \<Rightarrow> bool" where
  "in_bounds n w = (fst w + length (snd w) \<le> n)"

definition outside :: "nat \<Rightarrow> nat \<Rightarrow> nat \<times> 'a list \<Rightarrow> bool" where
  "outside a b w = (b \<le> fst w \<or> fst w + length (snd w) \<le> a)"

lemma writes_snoc [simp]: "writes xs (ws @ [w]) = set_at (writes xs ws) (fst w) (snd w)"
  by (simp add: writes_def split: prod.splits)

lemma writes_Nil [simp]: "writes xs [] = xs"
  by (simp add: writes_def)

lemma length_writes: "list_all (in_bounds (length xs)) ws \<Longrightarrow> length (writes xs ws) = length xs"
  by (induction ws rule: rev_induct) (auto simp: in_bounds_def)

lemma subarray_writes_outside:
  "list_all (in_bounds (length xs)) ws \<Longrightarrow> list_all (outside a b) ws \<Longrightarrow>
    subarray (writes xs ws) a b = subarray xs a b"
proof (induction ws rule: rev_induct)
  case (snoc w ws)
  have "length (writes xs ws) = length xs" using snoc.prems(1) by (simp add: length_writes)
  then have "subarray (writes xs (ws @ [w])) a b = subarray (writes xs ws) a b"
    using snoc.prems
    by (auto simp: outside_def in_bounds_def subarray_set_at_before subarray_set_at_after)
  with snoc show ?case by simp
qed simp

lemma subarray_writes_at:
  assumes "list_all (in_bounds (length xs)) ws" and "(a, bs) \<in> set ws"
    and "list_all (\<lambda>w. w = (a, bs) \<or> outside a b w) ws" and "a + length bs \<le> b"
  shows "subarray (writes xs ws) a b = bs @ subarray xs (a + length bs) b"
  using assms
proof (induction ws rule: rev_induct)
  case (snoc w ws)
  have len: "length (writes xs ws) = length xs" using snoc.prems(1) by (simp add: length_writes)
  show ?case
  proof (cases "w = (a, bs)")
    case True
    have "list_all (outside (a + length bs) b) ws"
      using snoc.prems(3) by (auto simp: list_all_iff outside_def)
    then have "subarray (writes xs ws) (a + length bs) b = subarray xs (a + length bs) b"
      using snoc.prems(1) by (simp add: subarray_writes_outside)
    then show ?thesis
      using True snoc.prems len by (simp add: in_bounds_def subarray_set_at_same)
  next
    case False
    then have "subarray (writes xs (ws @ [w])) a b = subarray (writes xs ws) a b"
      using snoc.prems len
      by (auto simp: outside_def in_bounds_def subarray_set_at_before subarray_set_at_after)
    with False snoc show ?thesis by simp
  qed
qed simp

section \<open>Splitting and joining\<close>

fun split_on :: "'a \<Rightarrow> 'a list \<Rightarrow> 'a list list" where
  "split_on s [] = [[]]"
| "split_on s (x # xs) =
     (if x = s then [] # split_on s xs
      else (case split_on s xs of [] \<Rightarrow> [[x]] | p # ps \<Rightarrow> (x # p) # ps))"

fun join_on :: "'a list \<Rightarrow> 'a list list \<Rightarrow> 'a list" where
  "join_on s [] = []"
| "join_on s [p] = p"
| "join_on s (p # q # ps) = p @ s @ join_on s (q # ps)"

lemma split_on_not_Nil [simp]: "split_on s xs \<noteq> []"
  by (induction xs) (auto split: list.splits)

lemma join_on_Cons: "ps \<noteq> [] \<Longrightarrow> join_on s (p # ps) = p @ s @ join_on s ps"
  by (cases ps) auto

lemma join_split_on [simp]: "join_on [s] (split_on s xs) = xs"
proof (induction xs)
  case (Cons x xs)
  obtain p ps where "split_on s xs = p # ps" by (cases "split_on s xs") simp_all
  with Cons show ?case by (cases ps) auto
qed simp

lemma split_on_no_sep: "p \<in> set (split_on s xs) \<Longrightarrow> s \<notin> set p"
  by (induction xs arbitrary: p) (force split: if_splits list.splits)+

lemma set_split_on: "p \<in> set (split_on s xs) \<Longrightarrow> set p \<subseteq> set xs"
  by (induction xs arbitrary: p) (force split: if_splits list.splits)+

lemma join_on_take_drop:
  assumes "0 < i" and "i < length ps"
  shows "join_on s ps = join_on s (take i ps) @ s @ join_on s (drop i ps)"
  using assms
proof (induction ps arbitrary: i)
  case (Cons p ps)
  show ?case
  proof (cases "i = 1")
    case True
    with Cons.prems show ?thesis by (cases ps) (auto simp: join_on_Cons)
  next
    case False
    then obtain j where j: "i = Suc j" "0 < j" using Cons.prems(1) by (cases i) auto
    with Cons.prems have "j < length ps" by simp
    with Cons.IH j(2) have
      "join_on s ps = join_on s (take j ps) @ s @ join_on s (drop j ps)" by blast
    moreover have "ps \<noteq> []" "take j ps \<noteq> []" using \<open>j < length ps\<close> j(2) by auto
    ultimately show ?thesis using j(1) by (simp add: join_on_Cons)
  qed
qed simp

end
