(* ===== verification/JS_Values.thy ===== *)
theory JS_Values
  imports Prelude
begin

text \<open>
  The part of JavaScript the compiler package uses: strings as lists of UTF-16 code units,
  the values a JSON document can hold (plus \<open>undefined\<close>), property access, strict
  equality, \<open>Number.isSafeInteger\<close>, decimal and octal numerals, the character classes
  of the package's regular expressions, and the validators that every module of the package
  repeats (\<open>plainObject\<close>, \<open>sameKeys\<close>, \<open>validSha256\<close>, safe relative paths).
  The record \<open>platform\<close> collects what the package takes from outside the
  repository (node:crypto, node:zlib, JSON, URL and Date parsing); the model holds for every
  value of it.
\<close>

section \<open>Strings\<close>

definition js :: "string \<Rightarrow> jsstr" where
  "js s = map of_char s"

lemma of_char_16_inj: "(of_char c :: code_unit) = of_char d \<longleftrightarrow> c = d"
proof -
  have small: "of_char e < (2::nat) ^ 16" for e
    by (rule order.strict_trans2 [of _ 256]) (simp_all add: of_char_def)
  have un: "unat (of_char e :: code_unit) = of_char e" for e
  proof -
    have "(of_char e :: code_unit) = of_nat (of_char e)"
      by (simp add: of_nat_of_char)
    then show ?thesis using small [of e] by (simp add: unat_of_nat_unit)
  qed
  show ?thesis
    by (metis un of_char_eq_iff)
qed

lemma js_simps [simp]: "js [] = []" "js (c # cs) = of_char c # js cs"
  by (simp_all add: js_def)

lemma js_append: "js (a @ b) = js a @ js b"
  by (simp add: js_def)

lemma length_js [simp]: "length (js s) = length s"
  by (simp add: js_def)

lemma js_inject [simp]: "js a = js b \<longleftrightarrow> a = b"
  by (induction a arbitrary: b; case_tac b) (auto simp: of_char_16_inj)

lemma js_eq_Nil [simp]: "js a = [] \<longleftrightarrow> a = []" "[] = js a \<longleftrightarrow> a = []"
  by (cases a; simp)+

declare js_simps [simp del]

text \<open>Character classes of the regular expressions.\<close>

definition in_range :: "'a::linorder \<Rightarrow> 'a \<Rightarrow> 'a \<Rightarrow> bool" where
  "in_range a b u \<longleftrightarrow> a \<le> u \<and> u \<le> b"

definition is_digit :: "code_unit \<Rightarrow> bool" where
  "is_digit u = in_range 48 57 u"

definition is_upper :: "code_unit \<Rightarrow> bool" where
  "is_upper u = in_range 65 90 u"

definition is_lower :: "code_unit \<Rightarrow> bool" where
  "is_lower u = in_range 97 122 u"

definition is_alnum :: "code_unit \<Rightarrow> bool" where
  "is_alnum u = (is_digit u \<or> is_upper u \<or> is_lower u)"

definition is_hex_lower :: "code_unit \<Rightarrow> bool" where
  "is_hex_lower u = (is_digit u \<or> in_range 97 102 u)"

definition is_hex :: "code_unit \<Rightarrow> bool" where
  "is_hex u = (is_hex_lower u \<or> in_range 65 70 u)"

definition is_control :: "code_unit \<Rightarrow> bool" where
  "is_control u = (u \<le> 31 \<or> u = 127)"

definition one_of :: "string \<Rightarrow> code_unit \<Rightarrow> bool" where
  "one_of cs u = (u \<in> set (js cs))"

lemmas char_class_defs = in_range_def is_digit_def is_upper_def is_lower_def is_alnum_def
  is_hex_lower_def is_hex_def is_control_def one_of_def

text \<open>
  Lower-casing restricted to ASCII. Applied to a string of hexadecimal digits or any other
  ASCII text it is \<open>String.prototype.toLowerCase\<close>.
\<close>

definition ascii_lower_unit :: "code_unit \<Rightarrow> code_unit" where
  "ascii_lower_unit u = (if is_upper u then u + 32 else u)"

definition ascii_lower :: "jsstr \<Rightarrow> jsstr" where
  "ascii_lower s = map ascii_lower_unit s"

lemma length_ascii_lower [simp]: "length (ascii_lower s) = length s"
  by (simp add: ascii_lower_def)

section \<open>Values\<close>

text \<open>
  \<open>Num\<close> is a finite double, as the rational it denotes; \<open>Infinite\<close> is what
  \<open>JSON.parse\<close> makes of an overflowing literal. An object lists its own properties in
  order.
\<close>

datatype jsval =
    Undefined
  | Null
  | Bool bool
  | Num rat
  | Infinite bool
  | Str jsstr
  | Arr "jsval list"
  | Obj "(jsstr \<times> jsval) list"

abbreviation JInt :: "int \<Rightarrow> jsval" where
  "JInt n \<equiv> Num (of_int n)"

text \<open>Own property read; a value that is not an object has none of the names read.\<close>

fun get :: "jsval \<Rightarrow> string \<Rightarrow> jsval" where
  "get (Obj ps) k = (case map_of ps (js k) of None \<Rightarrow> Undefined | Some v \<Rightarrow> v)"
| "get _ k = Undefined"

fun keys :: "jsval \<Rightarrow> jsstr list" where
  "keys (Obj ps) = map fst ps"
| "keys _ = []"

text \<open>\<open>===\<close> between values of different documents: objects and arrays are never identical.\<close>

fun strict_eq :: "jsval \<Rightarrow> jsval \<Rightarrow> bool" where
  "strict_eq Undefined Undefined = True"
| "strict_eq Null Null = True"
| "strict_eq (Bool a) (Bool b) = (a = b)"
| "strict_eq (Num a) (Num b) = (a = b)"
| "strict_eq (Infinite a) (Infinite b) = (a = b)"
| "strict_eq (Str a) (Str b) = (a = b)"
| "strict_eq _ _ = False"

fun truthy :: "jsval \<Rightarrow> bool" where
  "truthy Undefined = False"
| "truthy Null = False"
| "truthy (Bool b) = b"
| "truthy (Num q) = (q \<noteq> 0)"
| "truthy (Str s) = (s \<noteq> [])"
| "truthy _ = True"

definition nullish :: "jsval \<Rightarrow> bool" where
  "nullish v = (v = Undefined \<or> v = Null)"

text \<open>A destructured property with a default.\<close>

definition default_to :: "jsval \<Rightarrow> jsval \<Rightarrow> jsval" where
  "default_to v d = (if v = Undefined then d else v)"

text \<open>\<open>v.k\<close> where \<open>v\<close> may be \<open>null\<close> or \<open>undefined\<close>: the access throws.\<close>

definition access :: "jsval \<Rightarrow> string \<Rightarrow> jsval result" where
  "access v k = (if nullish v then Inl (TypeError ''cannot read properties'') else Inr (get v k))"

fun is_str :: "jsval \<Rightarrow> bool" where
  "is_str (Str _) = True"
| "is_str _ = False"

fun the_str :: "jsval \<Rightarrow> jsstr" where
  "the_str (Str s) = s"
| "the_str _ = []"

fun is_arr :: "jsval \<Rightarrow> bool" where
  "is_arr (Arr _) = True"
| "is_arr _ = False"

fun the_arr :: "jsval \<Rightarrow> jsval list" where
  "the_arr (Arr vs) = vs"
| "the_arr _ = []"

text \<open>\<open>Number.isSafeInteger\<close> and the integer of a value that passed it.\<close>

definition max_safe_integer :: int where
  "max_safe_integer = 2 ^ 53 - 1"

fun isSafeInteger :: "jsval \<Rightarrow> bool" where
  "isSafeInteger (Num q) = (of_int \<lfloor>q\<rfloor> = q \<and> \<bar>\<lfloor>q\<rfloor>\<bar> \<le> max_safe_integer)"
| "isSafeInteger _ = False"

fun the_int :: "jsval \<Rightarrow> int" where
  "the_int (Num q) = \<lfloor>q\<rfloor>"
| "the_int _ = 0"

lemma isSafeInteger_Int [simp]: "isSafeInteger (JInt n) \<longleftrightarrow> \<bar>n\<bar> \<le> max_safe_integer"
  by simp

lemma the_int_Int [simp]: "the_int (JInt n) = n"
  by simp

lemma isSafeInteger_the_int: "isSafeInteger v \<Longrightarrow> v = JInt (the_int v)"
  by (cases v) auto

lemma is_str_the_str: "is_str v \<Longrightarrow> v = Str (the_str v)"
  by (cases v) auto

lemma is_arr_the_arr: "is_arr v \<Longrightarrow> v = Arr (the_arr v)"
  by (cases v) auto

section \<open>The shared validators\<close>

fun plainObject :: "jsval \<Rightarrow> bool" where
  "plainObject (Obj _) = True"
| "plainObject _ = False"

definition sameKeys :: "jsval \<Rightarrow> string list \<Rightarrow> bool" where
  "sameKeys value expected = (sort (keys value) = sort (map js expected))"

lemma sameKeysI: "keys v = map js ks \<Longrightarrow> sameKeys v ks"
  by (simp add: sameKeys_def)

definition validSha256 :: "jsval \<Rightarrow> bool" where
  "validSha256 value =
     (is_str value \<and> length (the_str value) = 64 \<and> list_all is_hex (the_str value))"

definition validIdentifier :: "jsval \<Rightarrow> bool" where
  "validIdentifier value = (is_str value \<and>
     (case the_str value of [] \<Rightarrow> False
      | c # cs \<Rightarrow> length cs \<le> 127 \<and> is_alnum c \<and>
          list_all (\<lambda>u. is_alnum u \<or> one_of ''._-'' u) cs))"

definition validKeySegment :: "jsval \<Rightarrow> bool" where
  "validKeySegment value = (is_str value \<and>
     (case the_str value of [] \<Rightarrow> False
      | c # cs \<Rightarrow> length cs \<le> 254 \<and> is_alnum c \<and>
          list_all (\<lambda>u. is_alnum u \<or> one_of ''._-'' u) cs))"

definition validLoaderVersion :: "jsval \<Rightarrow> bool" where
  "validLoaderVersion value = (is_str value \<and>
     (case the_str value of [] \<Rightarrow> False
      | c # cs \<Rightarrow> length (the_str value) \<le> 128 \<and> is_alnum c \<and>
          list_all (\<lambda>u. is_alnum u \<or> one_of ''._+-'' u) cs))"

definition validId :: "jsval \<Rightarrow> bool" where
  "validId value = (is_str value \<and> the_str value \<noteq> [] \<and> length (the_str value) \<le> 255 \<and>
     \<not> list_ex is_control (the_str value))"

text \<open>
  One numeric component \<open>0|[1-9]\d{0,2}\<close> of a Minecraft version, and the whole
  expression: \<open>1.<n>.<n>\<close>, or a two- to four-digit year-like major without leading
  zero followed by one or two components.
\<close>

definition version_part :: "jsstr \<Rightarrow> bool" where
  "version_part p = (p = js ''0'' \<or>
     (case p of [] \<Rightarrow> False
      | c # cs \<Rightarrow> is_digit c \<and> c \<noteq> 48 \<and> length cs \<le> 2 \<and> list_all is_digit cs))"

definition version_major :: "jsstr \<Rightarrow> bool" where
  "version_major p =
     (case p of [] \<Rightarrow> False
      | c # cs \<Rightarrow> is_digit c \<and> c \<noteq> 48 \<and> 1 \<le> length cs \<and> length cs \<le> 3 \<and> list_all is_digit cs)"

definition validMinecraftVersion :: "jsval \<Rightarrow> bool" where
  "validMinecraftVersion value = (is_str value \<and>
     (case split_on 46 (the_str value) of
        [a, b] \<Rightarrow> version_major a \<and> version_part b
      | [a, b, c] \<Rightarrow> (a = js ''1'' \<or> version_major a) \<and> version_part b \<and> version_part c
      | _ \<Rightarrow> False))"

text \<open>A relative slash-separated path with no empty, \<open>.\<close> or \<open>..\<close> segment.\<close>

definition drive_prefix :: "jsstr \<Rightarrow> bool" where
  "drive_prefix p = (case p of c # d # _ \<Rightarrow> (is_upper c \<or> is_lower c) \<and> d = 58 | _ \<Rightarrow> False)"

definition safe_segments :: "jsstr \<Rightarrow> bool" where
  "safe_segments p = list_all (\<lambda>q. q \<noteq> [] \<and> q \<noteq> js ''.'' \<and> q \<noteq> js ''..'') (split_on 47 p)"

definition safe_path :: "nat \<Rightarrow> jsstr \<Rightarrow> bool" where
  "safe_path limit p = (p \<noteq> [] \<and> length p \<le> limit \<and> 92 \<notin> set p \<and> \<not> prefix (js ''/'') p \<and>
     \<not> drive_prefix p \<and> safe_segments p)"

text \<open>
  \<open>resolve(value) === value\<close> of \<open>node:path\<close> on a POSIX host, for a path other than
  the root: absolute, and no empty, \<open>.\<close> or \<open>..\<close> segment.
\<close>

definition absoluteNormalizedPath :: "jsval \<Rightarrow> bool" where
  "absoluteNormalizedPath value = (is_str value \<and> 1 < length (the_str value) \<and>
     length (the_str value) \<le> 1024 \<and>
     (case the_str value of [] \<Rightarrow> False | c # r \<Rightarrow> c = 47 \<and> safe_segments r))"

definition comparePath :: "jsstr \<Rightarrow> jsstr \<Rightarrow> int" where
  "comparePath left right = (if left < right then -1 else if left > right then 1 else 0)"

section \<open>Numerals\<close>

fun digits_of :: "nat \<Rightarrow> nat \<Rightarrow> code_unit list" where
  "digits_of b n =
     (if b < 2 \<or> n < b then [48 + of_nat n] else digits_of b (n div b) @ [48 + of_nat (n mod b)])"

declare digits_of.simps [simp del]

text \<open>\<open>value.toString(radix)\<close> for an integer and a radix of at most ten.\<close>

definition int_to_string :: "nat \<Rightarrow> int \<Rightarrow> jsstr" where
  "int_to_string b n = (if n < 0 then 45 # digits_of b (nat (- n)) else digits_of b (nat n))"

definition padStart :: "nat \<Rightarrow> code_unit \<Rightarrow> jsstr \<Rightarrow> jsstr" where
  "padStart n u s = replicate (n - length s) u @ s"

definition digits_value :: "nat \<Rightarrow> jsstr \<Rightarrow> nat" where
  "digits_value b s = foldl (\<lambda>acc u. acc * b + unat (u - 48)) 0 s"

lemma digits_value_Nil [simp]: "digits_value b [] = 0"
  by (simp add: digits_value_def)

lemma digits_value_snoc [simp]: "digits_value b (s @ [u]) = digits_value b s * b + unat (u - 48)"
  by (simp add: digits_value_def)

lemma digits_value_zeros: "digits_value b (replicate k 48 @ s) = digits_value b s"
  by (induction k) (simp_all add: digits_value_def)

lemma digits_of_nonempty [simp]: "digits_of b n \<noteq> []"
  by (subst digits_of.simps) simp

lemma unat_digit: "d < 10 \<Longrightarrow> unat (48 + of_nat d - 48 :: code_unit) = d"
  by (simp add: unat_of_nat_unit)

lemma digits_of_value:
  assumes "2 \<le> b" "b \<le> 10"
  shows "digits_value b (digits_of b n) = n"
  using assms
proof (induction b n rule: digits_of.induct)
  case (1 b n)
  show ?case
  proof (cases "n < b")
    case True
    with 1(2,3) show ?thesis
      by (subst digits_of.simps) (simp add: digits_value_def unat_of_nat_unit)
  next
    case False
    with 1 have "digits_value b (digits_of b (n div b)) = n div b" by simp
    with False 1(2,3) show ?thesis
      by (subst digits_of.simps) (simp add: unat_of_nat_unit less_le_trans [OF mod_less_divisor])
  qed
qed

lemma digits_of_range:
  assumes "2 \<le> b" "b \<le> 10"
  shows "list_all (\<lambda>u. 48 \<le> u \<and> u < 48 + of_nat b) (digits_of b n)"
  using assms
proof (induction b n rule: digits_of.induct)
  case (1 b n)
  have dig: "48 \<le> (48 + of_nat d :: code_unit) \<and> (48 + of_nat d :: code_unit) < 48 + of_nat b"
    if "d < b" for d
    using that 1(3) by (simp add: word_le_nat_alt word_less_nat_alt unat_of_nat_unit unat_word_ariths)
  show ?case
  proof (cases "n < b")
    case True
    with dig 1(2,3) show ?thesis by (subst digits_of.simps) simp
  next
    case False
    with 1 have "list_all (\<lambda>u. 48 \<le> u \<and> u < 48 + of_nat b) (digits_of b (n div b))" by simp
    with False dig [of "n mod b"] 1(2,3) show ?thesis by (subst digits_of.simps) simp
  qed
qed

lemma length_digits_of:
  assumes "2 \<le> b" "n < b ^ k" "0 < k"
  shows "length (digits_of b n) \<le> k"
  using assms
proof (induction b n arbitrary: k rule: digits_of.induct)
  case (1 b n)
  show ?case
  proof (cases "n < b")
    case True
    with 1(4) show ?thesis by (subst digits_of.simps) simp
  next
    case False
    with 1(2-4) have k: "1 < k" by (cases "k = 1") auto
    then obtain j where j: "k = Suc j" "0 < j" by (cases k) auto
    with 1(2,3) have "n div b < b ^ j" by (simp add: less_mult_imp_div_less mult.commute)
    with 1(1) [of j] False 1(2) j have "length (digits_of b (n div b)) \<le> j" by simp
    with False j 1(2) show ?thesis by (subst digits_of.simps) simp
  qed
qed

section \<open>The platform\<close>

text \<open>
  What the package imports from outside the repository. \<open>URL\<close> components are those the
  source reads; \<open>date_parse\<close> is \<open>Date.parse\<close> with \<open>None\<close> for \<open>NaN\<close>;
  \<open>lower\<close> is the full \<open>toLowerCase\<close>, \<open>nfkc\<close> is \<open>normalize("NFKC")\<close>;
  \<open>number_to_string\<close> is the decimal text of a number and \<open>string_to_number\<close> is
  \<open>Number(text)\<close>, \<open>Undefined\<close> standing for \<open>NaN\<close>; \<open>json_pretty\<close> is
  \<open>JSON.stringify(value, null, 2)\<close>.
\<close>

record url =
  protocol :: jsstr
  username :: jsstr
  password :: jsstr
  hostname :: jsstr
  port :: jsstr
  pathname :: jsstr
  search :: jsstr
  hash :: jsstr
  href :: jsstr
  origin :: jsstr

record platform =
  sha256 :: "bytes \<Rightarrow> jsstr"
  sha1 :: "bytes \<Rightarrow> jsstr"
  hmac_sha256 :: "bytes \<Rightarrow> bytes \<Rightarrow> bytes"
  inflateRaw :: "bytes \<Rightarrow> bytes option"
  json_parse :: "jsstr \<Rightarrow> jsval option"
  json_stringify :: "jsval \<Rightarrow> jsstr"
  json_pretty :: "jsval \<Rightarrow> jsstr"
  parse_url :: "jsstr \<Rightarrow> url option"
  date_parse :: "jsval \<Rightarrow> int option"
  lower :: "jsstr \<Rightarrow> jsstr"
  nfkc :: "jsstr \<Rightarrow> jsstr"
  number_to_string :: "rat \<Rightarrow> jsstr"
  string_to_number :: "jsstr \<Rightarrow> jsval"
  base64 :: "bytes \<Rightarrow> jsstr"
  base64_decode :: "jsstr \<Rightarrow> bytes"
  base64url :: "bytes \<Rightarrow> jsstr"
  base64url_decode :: "jsstr \<Rightarrow> bytes"

text \<open>
  \<open>String(value)\<close>. A property named \<open>toString\<close> of a parsed object hides the inherited
  method and cannot be called, and the inherited \<open>valueOf\<close> returns the object, so the
  conversion throws.
\<close>

fun js_String :: "platform \<Rightarrow> jsval \<Rightarrow> jsstr result" where
  "js_String P Undefined = Inr (js ''undefined'')"
| "js_String P Null = Inr (js ''null'')"
| "js_String P (Bool b) = Inr (js (if b then ''true'' else ''false''))"
| "js_String P (Num q) = Inr (number_to_string P q)"
| "js_String P (Infinite negative) = Inr (js (if negative then ''-Infinity'' else ''Infinity''))"
| "js_String P (Str s) = Inr s"
| "js_String P (Arr vs) =
     bindR (mapR (\<lambda>v. if nullish v then Inr [] else js_String P v) vs) (\<lambda>parts. Inr (join_on (js '','') parts))"
| "js_String P (Obj ps) = (if js ''toString'' \<in> set (map fst ps)
     then Inl (TypeError ''cannot convert object to primitive value'') else Inr (js ''[object Object]''))"

text \<open>
  Documented behaviour of the platform that named hypotheses refer to: a SHA-256 hex digest
  is 64 lower-case hexadecimal digits, and decoding inverts encoding for base64.
\<close>

definition sha256_hex :: "platform \<Rightarrow> bool" where
  "sha256_hex P = (\<forall>bs. length (sha256 P bs) = 64 \<and> list_all is_hex_lower (sha256 P bs))"

definition base64_ok :: "platform \<Rightarrow> bool" where
  "base64_ok P = (\<forall>bs. base64_decode P (base64 P bs) = bs)"

definition base64url_ok :: "platform \<Rightarrow> bool" where
  "base64url_ok P = (\<forall>bs. base64url_decode P (base64url P bs) = bs)"

lemma sha256_validSha256: "sha256_hex P \<Longrightarrow> validSha256 (Str (sha256 P bs))"
  by (auto simp: sha256_hex_def validSha256_def is_hex_def list_all_iff)

lemma ascii_lower_hex_lower: "list_all is_hex_lower s \<Longrightarrow> ascii_lower s = s"
  by (induction s)
    (auto simp: ascii_lower_def ascii_lower_unit_def char_class_defs word_le_nat_alt)

lemma sha256_lower [simp]: "sha256_hex P \<Longrightarrow> ascii_lower (sha256 P bs) = sha256 P bs"
  by (simp add: sha256_hex_def ascii_lower_hex_lower)

end
