(* ===== verification/Sample_Platform.thy ===== *)
theory Sample_Platform
  imports JS_Values "HOL-Library.Countable"
begin

text \<open>
  A small executable platform. The model takes the platform as a parameter; the witnesses
  of the properties need one that satisfies the documented behaviour they rely on.
\<close>

definition sample_hash :: "bytes \<Rightarrow> nat" where
  "sample_hash bs = foldl (\<lambda>h b. (h * 257 + unat b + 1) mod 10 ^ 12) 7 bs"

definition sample_sha256 :: "bytes \<Rightarrow> jsstr" where
  "sample_sha256 bs = padStart 64 48 (digits_of 10 (sample_hash bs))"

definition sample_url :: "jsstr \<Rightarrow> url option" where
  "sample_url s = (if prefix (js ''https://files.example/'') s then
     Some \<lparr>protocol = js ''https:'', username = [], password = [], hostname = js ''files.example'',
       port = [], pathname = drop 21 s, search = [], hash = [], href = s,
       origin = js ''https://files.example''\<rparr> else None)"

text \<open>
  A document is written as the decimal digits of its code, except for one, the runtime
  descriptor of the sample build, whose text is short.
\<close>

instance jsval :: countable
  by countable_datatype

definition sample_runtime :: jsval where
  "sample_runtime = Obj [(js ''schemaVersion'', JInt 1), (js ''runtimeCatalogRevision'', Str (replicate 64 97)),
     (js ''minecraftVersion'', Str (js ''1.21.1'')),
     (js ''loader'', Obj [(js ''kind'', Str (js ''fabric'')), (js ''version'', Str (js ''0.16.9''))]),
     (js ''java'', Obj [(js ''component'', Str (js ''java-runtime-delta'')), (js ''major'', JInt 21), (js ''jreId'', Str (js ''jre-21''))]),
     (js ''launch'', Obj [(js ''path'', Str (js ''.xmcl/launch.sh'')), (js ''kind'', Str (js ''generated-server-launcher'')),
       (js ''arguments'', Arr [Str (js ''-jar''), Str (js ''server.jar''), Str (js ''nogui'')])])]"

definition sample_text :: "jsval \<Rightarrow> jsstr" where
  "sample_text v = (if v = sample_runtime then js ''r'' else digits_of 10 (to_nat v))"

definition sample_value :: "jsstr \<Rightarrow> jsval option" where
  "sample_value s = (if s = js ''r'' then Some sample_runtime
     else if s \<noteq> [] \<and> list_all is_digit s then Some (from_nat (digits_value 10 s)) else None)"

definition sample_platform :: platform where
  "sample_platform = \<lparr>sha256 = sample_sha256, sha1 = (\<lambda>bs. drop 24 (sample_sha256 bs)),
     hmac_sha256 = (\<lambda>key msg. take 32 (rev msg @ key @ replicate 32 0)),
     inflateRaw = (\<lambda>bs. Some bs), json_parse = sample_value, json_stringify = sample_text, json_pretty = sample_text,
     parse_url = sample_url, date_parse = (\<lambda>v. Some (int (length (the_str v)))),
     lower = ascii_lower, nfkc = (\<lambda>s. s),
     number_to_string = (\<lambda>q. int_to_string 10 \<lfloor>q\<rfloor>),
     string_to_number = (\<lambda>s. if s \<noteq> [] \<and> list_all is_digit s then JInt (int (digits_value 10 s)) else Undefined),
     base64 = map ucast, base64_decode = map ucast,
     base64url = map ucast, base64url_decode = map ucast\<rparr>"

lemma sample_hash_bound: "sample_hash bs < 10 ^ 64"
proof -
  have "foldl (\<lambda>h b. (h * 257 + unat b + 1) mod 10 ^ 12) n bs \<le> max n (10 ^ 12)" for n
    by (induction bs rule: rev_induct) (auto simp: less_imp_le)
  from this [of 7] show ?thesis by (simp add: sample_hash_def)
qed

lemma sample_sha256_hex: "sha256_hex sample_platform"
proof -
  have "length (digits_of 10 (sample_hash bs)) \<le> 64" for bs
    by (rule length_digits_of) (use sample_hash_bound in simp_all)
  moreover have "list_all is_hex_lower (digits_of 10 (sample_hash bs))" for bs
    using digits_of_range [of 10 "sample_hash bs"]
    by (auto simp: list_all_iff char_class_defs word_le_nat_alt word_less_nat_alt)
  ultimately show ?thesis
    by (auto simp: sha256_hex_def sample_platform_def sample_sha256_def padStart_def list_all_iff
        char_class_defs)
qed

lemma ucast_byte_unit: "ucast (ucast (b :: byte) :: code_unit) = b"
  by (rule bit_word_eqI) (simp add: bit_simps)

lemma sample_base64: "base64_ok sample_platform" "base64url_ok sample_platform"
  by (simp_all add: base64_ok_def base64url_ok_def sample_platform_def o_def ucast_byte_unit)

lemma digits_digit: "list_all is_digit (digits_of 10 n)"
  using digits_of_range [of 10 n]
  by (auto simp: list_all_iff char_class_defs word_le_nat_alt word_less_nat_alt)

lemma sample_json: "json_parse sample_platform (json_stringify sample_platform v) = Some v"
proof (cases "v = sample_runtime")
  case False
  have "digits_of 10 n \<noteq> js ''r''" for n
  proof
    assume "digits_of 10 n = js ''r''"
    then show False using digits_digit [of n] by (simp add: js_simps char_class_defs)
  qed
  moreover have "digits_of 10 n \<noteq> []" for n by (subst digits_of.simps) simp
  ultimately show ?thesis using False
    by (simp add: sample_platform_def sample_value_def sample_text_def digits_digit digits_of_value)
qed (simp add: sample_platform_def sample_value_def sample_text_def)

end
