(* ===== verification/Utf8.thy ===== *)
theory Utf8
  imports JS_Values
begin

text \<open>
  The WHATWG encoders the package builds once per module: \<open>new TextEncoder()\<close> and
  \<open>new TextDecoder("utf-8", { fatal: true })\<close>. Encoding replaces a lone surrogate by
  U+FFFD; the fatal decoder rejects every ill-formed sequence and drops one leading byte
  order mark. The main fact is the round trip on well-formed strings that do not start with
  a byte order mark.
\<close>

section \<open>Code points\<close>

definition is_high :: "code_unit \<Rightarrow> bool" where
  "is_high u = in_range 0xD800 0xDBFF (unat u)"

definition is_low :: "code_unit \<Rightarrow> bool" where
  "is_low u = in_range 0xDC00 0xDFFF (unat u)"

fun scalars :: "jsstr \<Rightarrow> nat list" where
  "scalars [] = []"
| "scalars [u] = [if is_high u \<or> is_low u then 0xFFFD else unat u]"
| "scalars (u # v # r) =
     (if is_high u \<and> is_low v
      then (0x10000 + (unat u - 0xD800) * 0x400 + (unat v - 0xDC00)) # scalars r
      else (if is_high u \<or> is_low u then 0xFFFD else unat u) # scalars (v # r))"

definition units :: "nat \<Rightarrow> jsstr" where
  "units c = (if c < 0x10000 then [of_nat c]
     else [of_nat (0xD800 + (c - 0x10000) div 0x400), of_nat (0xDC00 + (c - 0x10000) mod 0x400)])"

text \<open>No lone surrogate (\<open>isWellFormed\<close>).\<close>

fun well_formed :: "jsstr \<Rightarrow> bool" where
  "well_formed [] = True"
| "well_formed [u] = (\<not> is_high u \<and> \<not> is_low u)"
| "well_formed (u # v # r) =
     (if is_high u then is_low v \<and> well_formed r else \<not> is_low u \<and> well_formed (v # r))"

lemma units_scalars: "well_formed s \<Longrightarrow> concat (map units (scalars s)) = s"
proof (induction s rule: scalars.induct)
  case (2 u)
  then show ?case by (simp add: units_def)
next
  case (3 u v r)
  show ?case
  proof (cases "is_high u")
    case True
    with 3 have v: "is_low v" and IH: "concat (map units (scalars r)) = r" by auto
    define c where "c = (unat u - 0xD800) * 0x400 + (unat v - 0xDC00)"
    from True v have b: "0xD800 \<le> unat u" "unat v - 0xDC00 < 0x400" "0xDC00 \<le> unat v"
      by (auto simp: is_high_def is_low_def in_range_def)
    have "(a * 0x400 + d) div 0x400 = a" "(a * 0x400 + d) mod 0x400 = d" if "d < 0x400" for a d :: nat
      using that by simp_all
    from this [OF b(2)] have "c div 0x400 = unat u - 0xD800" "c mod 0x400 = unat v - 0xDC00"
      unfolding c_def by blast+
    with b have "units (0x10000 + c) = [u, v]" by (simp add: units_def)
    with True v IH show ?thesis by (simp add: c_def add.assoc)
  next
    case False
    with 3 show ?thesis by (simp add: units_def)
  qed
qed simp

section \<open>Encoding\<close>

definition utf8_scalar :: "nat \<Rightarrow> bytes" where
  "utf8_scalar c = map of_nat
     (if c < 0x80 then [c]
      else if c < 0x800 then [0xC0 + c div 0x40, 0x80 + c mod 0x40]
      else if c < 0x10000 then [0xE0 + c div 0x1000, 0x80 + c div 0x40 mod 0x40, 0x80 + c mod 0x40]
      else [0xF0 + c div 0x40000, 0x80 + c div 0x1000 mod 0x40, 0x80 + c div 0x40 mod 0x40,
            0x80 + c mod 0x40])"

definition encode :: "jsstr \<Rightarrow> bytes" where
  "encode s = concat (map utf8_scalar (scalars s))"

section \<open>Decoding\<close>

definition cont :: "byte \<Rightarrow> bool" where
  "cont b = in_range 0x80 0xBF (unat b)"

definition cont_value :: "byte \<Rightarrow> nat" where
  "cont_value b = unat b - 0x80"

definition valid_scalar :: "nat \<Rightarrow> nat \<Rightarrow> bool" where
  "valid_scalar least c = (least \<le> c \<and> c \<le> 0x10FFFF \<and> \<not> in_range 0xD800 0xDFFF c)"

text \<open>The next code point of the input and the rest, or a decoding error.\<close>

definition utf8_next :: "bytes \<Rightarrow> (nat \<times> bytes) option" where
  "utf8_next bs = (case bs of [] \<Rightarrow> None
    | b # r \<Rightarrow>
      (if unat b < 0x80 then Some (unat b, r)
       else if in_range 0xC0 0xDF (unat b) then
         (case r of x # r' \<Rightarrow>
            (let c = (unat b - 0xC0) * 0x40 + cont_value x
             in if cont x \<and> valid_scalar 0x80 c then Some (c, r') else None)
          | _ \<Rightarrow> None)
       else if in_range 0xE0 0xEF (unat b) then
         (case r of x # y # r' \<Rightarrow>
            (let c = (unat b - 0xE0) * 0x1000 + cont_value x * 0x40 + cont_value y
             in if cont x \<and> cont y \<and> valid_scalar 0x800 c then Some (c, r') else None)
          | _ \<Rightarrow> None)
       else if in_range 0xF0 0xF7 (unat b) then
         (case r of x # y # z # r' \<Rightarrow>
            (let c = (unat b - 0xF0) * 0x40000 + cont_value x * 0x1000 + cont_value y * 0x40 +
                     cont_value z
             in if cont x \<and> cont y \<and> cont z \<and> valid_scalar 0x10000 c then Some (c, r') else None)
          | _ \<Rightarrow> None)
       else None))"

lemma utf8_next_shorter: "utf8_next bs = Some (c, r) \<Longrightarrow> length r < length bs"
  by (auto simp: utf8_next_def Let_def split: list.splits if_splits)

function decode_scalars :: "bytes \<Rightarrow> nat list option" where
  "decode_scalars bs =
     (if bs = [] then Some []
      else (case utf8_next bs of None \<Rightarrow> None
            | Some (c, r) \<Rightarrow> map_option (Cons c) (decode_scalars r)))"
  by pat_completeness auto
termination
  by (relation "measure length") (auto dest: utf8_next_shorter)

declare decode_scalars.simps [simp del]

definition strip_bom :: "nat list \<Rightarrow> nat list" where
  "strip_bom cs = (case cs of c # r \<Rightarrow> if c = 0xFEFF then r else cs | [] \<Rightarrow> [])"

definition decode :: "bytes \<Rightarrow> jsstr option" where
  "decode bs = map_option (\<lambda>cs. concat (map units (strip_bom cs))) (decode_scalars bs)"

section \<open>Round trip\<close>

definition scalar :: "nat \<Rightarrow> bool" where
  "scalar c = valid_scalar 0 c"

lemma scalars_scalar: "c \<in> set (scalars s) \<Longrightarrow> scalar c"
proof (induction s rule: scalars.induct)
  case (2 u)
  have "unat u \<le> 0x10FFFF" using unat_unit_bound [of u] by linarith
  then show ?case using 2
    by (auto simp: scalar_def valid_scalar_def is_high_def is_low_def in_range_def
        split: if_splits)
next
  case (3 u v r)
  have "unat u \<le> 0x10FFFF" using unat_unit_bound [of u] by linarith
  then show ?case using 3
    by (auto simp: scalar_def valid_scalar_def is_high_def is_low_def in_range_def
        split: if_splits)
qed simp

lemma div_step: "(c::nat) div (a * b) * b + c div a mod b = c div a"
  by (simp add: div_mult2_eq)

lemma utf8_value3: "(c::nat) div 0x1000 * 0x1000 + c div 0x40 mod 0x40 * 0x40 + c mod 0x40 = c"
proof -
  have "a * 0x1000 + b * 0x40 + m = c" if "a * 0x40 + b = d" "d * 0x40 + m = c" for a b d m :: nat
    using that by linarith
  from this [OF div_step [of c "0x40" "0x40", simplified] div_mult_mod_eq] show ?thesis .
qed

lemma utf8_value4: "(c::nat) div 0x40000 * 0x40000 + c div 0x1000 mod 0x40 * 0x1000 +
    c div 0x40 mod 0x40 * 0x40 + c mod 0x40 = c"
proof -
  have "a * 0x40000 + b * 0x1000 + n + m = c" if "a * 0x40 + b = d" "d * 0x1000 + n + m = c"
    for a b d n m :: nat
    using that by linarith
  from this [OF div_step [of c "0x1000" "0x40", simplified] utf8_value3] show ?thesis .
qed

lemma utf8_next_scalar:
  assumes "scalar c"
  shows "utf8_next (utf8_scalar c @ r) = Some (c, r)"
proof -
  have top: "c < 0x110000" and sur: "\<not> in_range 0xD800 0xDFFF c"
    using assms by (simp_all add: scalar_def valid_scalar_def)
  have m: "x mod 0x40 \<le> 0x3F" for x :: nat
    by (rule less_Suc_eq_le [THEN iffD1]) simp
  consider "c < 0x80" | "0x80 \<le> c" "c < 0x800" | "0x800 \<le> c" "c < 0x10000" | "0x10000 \<le> c"
    by linarith
  then show ?thesis
  proof cases
    case 1
    then show ?thesis by (simp add: utf8_next_def utf8_scalar_def)
  next
    case 2
    then have "c div 0x40 < 0x20" by (simp add: less_mult_imp_div_less)
    then have "c div 0x40 \<le> 0x1F" by simp
    moreover have "c div 0x40 * 0x40 + c mod 0x40 = c" by simp
    ultimately show ?thesis using 2 sur m [of c]
      by (simp add: utf8_next_def utf8_scalar_def cont_def cont_value_def in_range_def
          valid_scalar_def Let_def
          del: of_nat_add of_nat_mod of_nat_div)
  next
    case 3
    then have "c div 0x1000 < 0x10" by (simp add: less_mult_imp_div_less)
    then have "c div 0x1000 \<le> 0xF" by simp
    moreover note utf8_value3 [of c]
    ultimately show ?thesis using 3 sur m [of c] m [of "c div 0x40"]
      by (simp add: utf8_next_def utf8_scalar_def cont_def cont_value_def in_range_def
          valid_scalar_def Let_def
          del: of_nat_add of_nat_mod of_nat_div)
  next
    case 4
    then have "c div 0x40000 < 8" using top by (simp add: less_mult_imp_div_less)
    then have "c div 0x40000 \<le> 7" by simp
    moreover note utf8_value4 [of c]
    ultimately show ?thesis using 4 top sur m [of c] m [of "c div 0x40"] m [of "c div 0x1000"]
      by (simp add: utf8_next_def utf8_scalar_def cont_def cont_value_def in_range_def
          valid_scalar_def Let_def
          del: of_nat_add of_nat_mod of_nat_div)
  qed
qed

lemma utf8_scalar_nonempty [simp]: "utf8_scalar c \<noteq> []"
  by (simp add: utf8_scalar_def)

lemma decode_encode_scalars:
  "\<forall>c \<in> set cs. scalar c \<Longrightarrow> decode_scalars (concat (map utf8_scalar cs)) = Some cs"
  by (induction cs) (subst decode_scalars.simps, simp add: utf8_next_scalar)+

definition no_bom :: "jsstr \<Rightarrow> bool" where
  "no_bom s = (case s of u # _ \<Rightarrow> u \<noteq> 0xFEFF | [] \<Rightarrow> True)"

lemma no_bom_scalars: "no_bom s \<Longrightarrow> strip_bom (scalars s) = scalars s"
proof (induction s rule: scalars.induct)
  case (2 u)
  then show ?case
    by (auto simp: no_bom_def strip_bom_def is_high_def is_low_def in_range_def word_unat_eq_iff)
next
  case (3 u v r)
  then show ?case
    by (auto simp: no_bom_def strip_bom_def is_high_def is_low_def in_range_def word_unat_eq_iff)
qed (simp add: strip_bom_def)

lemma decode_encode: "well_formed s \<Longrightarrow> no_bom s \<Longrightarrow> decode (encode s) = Some s"
  by (simp add: decode_def encode_def decode_encode_scalars scalars_scalar no_bom_scalars
      units_scalars)

section \<open>ASCII text\<close>

definition ascii :: "jsstr \<Rightarrow> bool" where
  "ascii s = list_all (\<lambda>u. u < 0x80) s"

lemma ascii_unit: "u < 0x80 \<Longrightarrow> \<not> is_high u \<and> \<not> is_low u \<and> unat u < 0x80"
  by (simp add: is_high_def is_low_def in_range_def word_less_nat_alt)

lemma scalars_ascii: "ascii s \<Longrightarrow> scalars s = map unat s"
  by (induction s rule: scalars.induct) (auto simp: ascii_def dest: ascii_unit)

lemma ascii_well_formed: "ascii s \<Longrightarrow> well_formed s"
  by (induction s rule: well_formed.induct) (auto simp: ascii_def dest: ascii_unit)

lemma ascii_no_bom: "ascii s \<Longrightarrow> no_bom s"
  by (cases s) (auto simp: ascii_def no_bom_def)

lemma encode_ascii: "ascii s \<Longrightarrow> encode s = map (\<lambda>u. of_nat (unat u)) s"
  by (induction s) (auto simp: ascii_def encode_def scalars_ascii utf8_scalar_def
      word_less_nat_alt)

lemma decode_encode_ascii: "ascii s \<Longrightarrow> decode (encode s) = Some s"
  by (simp add: decode_encode ascii_well_formed ascii_no_bom)

text \<open>Encoding never produces a zero byte unless the string has a zero unit.\<close>

lemma utf8_scalar_nonzero: "scalar c \<Longrightarrow> c \<noteq> 0 \<Longrightarrow> 0 \<notin> set (utf8_scalar c)"
proof -
  assume "scalar c" "c \<noteq> 0"
  have nz: "(of_nat n :: byte) \<noteq> 0" if "0 < n" "n < 256" for n
  proof -
    have "unat (of_nat n :: byte) \<noteq> 0" using that by simp
    then show ?thesis by (simp add: unat_eq_0)
  qed
  have top: "c < 0x110000" using \<open>scalar c\<close> by (simp add: scalar_def valid_scalar_def)
  then have "c < 0x800 \<Longrightarrow> c div 0x40 < 0x20" "c < 0x10000 \<Longrightarrow> c div 0x1000 < 0x10"
    "c div 0x40000 < 8" by (auto simp: less_mult_imp_div_less)
  moreover have "c mod 0x40 < 0x40" "c div 0x40 mod 0x40 < 0x40" "c div 0x1000 mod 0x40 < 0x40"
    by simp_all
  ultimately show ?thesis using \<open>c \<noteq> 0\<close> nz top
    by (auto simp: utf8_scalar_def simp del: of_nat_add of_nat_div of_nat_mod dest!: sym [of 0])
qed

lemma scalars_nonzero: "0 \<notin> set s \<Longrightarrow> 0 \<notin> set (scalars s)"
  by (induction s rule: scalars.induct) (auto simp: unat_eq_0 [symmetric] simp del: unat_eq_0)

lemma encode_nonzero: "0 \<notin> set s \<Longrightarrow> 0 \<notin> set (encode s)"
  using scalars_nonzero [of s] utf8_scalar_nonzero scalars_scalar
  by (fastforce simp: encode_def)

section \<open>Separators and injectivity\<close>

lemma well_formed_sep:
  assumes "\<not> is_high u" "\<not> is_low u"
  shows "well_formed (a @ u # b) \<longleftrightarrow> well_formed a \<and> well_formed b"
proof (induction a rule: well_formed.induct)
  case 1
  then show ?case using assms by (cases b) auto
next
  case (2 v)
  then show ?case using assms by (cases b) auto
qed auto

lemma encode_inj: "well_formed s \<Longrightarrow> well_formed t \<Longrightarrow> encode s = encode t \<Longrightarrow> s = t"
proof -
  assume s: "well_formed s" and t: "well_formed t" and eq: "encode s = encode t"
  have "decode_scalars (encode x) = Some (scalars x)" for x
    using decode_encode_scalars [of "scalars x"] scalars_scalar by (auto simp: encode_def)
  with eq have "scalars s = scalars t" by (metis option.inject)
  with units_scalars s t show "s = t" by metis
qed

end
