(* ===== verification/Replay_Store.thy ===== *)
theory Replay_Store
  imports Sample_Platform Utf8
begin

text \<open>
  The two nonce stores of \<open>service-identity.mjs\<close>, \<open>InMemoryReplayCache\<close> and
  \<open>FilesystemReplayStore\<close>, and the contract a request verifier relies on.
\<close>

section \<open>The in-memory cache\<close>

record memory_cache =
  cache_maxEntries :: int
  cache_entries :: "(jsstr, int) jsmap"

abbreviation rejected :: js_error where
  "rejected \<equiv> ServiceIdentityError ''replay_store_rejected''"

definition InMemoryReplayCache :: "jsval \<Rightarrow> memory_cache result" where
  "InMemoryReplayCache options =
     (let maxEntries = default_to (get options ''maxEntries'') (JInt 100000) in
      if \<not> plainObject options \<or> list_ex (\<lambda>k. k \<noteq> js ''maxEntries'') (keys options)
      then Inl (TypeError ''invalid replay cache configuration'')
      else if \<not> isSafeInteger maxEntries \<or> the_int maxEntries < 1 \<or> the_int maxEntries > 1000000
      then Inl (TypeError ''invalid replay cache configuration'')
      else Inr \<lparr>cache_maxEntries = the_int maxEntries, cache_entries = []\<rparr>)"

definition memory_consume ::
    "memory_cache \<Rightarrow> jsval \<Rightarrow> jsval \<Rightarrow> jsval \<Rightarrow> bool result \<times> memory_cache" where
  "memory_consume c key expiresAt now =
     (if \<not> is_str key \<or> \<not> isSafeInteger expiresAt \<or> \<not> isSafeInteger now then (Inl rejected, c)
      else (let kept = filter (\<lambda>(k, expiry). \<not> expiry \<le> the_int now) (cache_entries c);
                c' = c\<lparr>cache_entries := kept\<rparr> in
        if has kept (the_str key) \<or> int (length kept) \<ge> cache_maxEntries c then (Inr False, c')
        else (Inr True, c\<lparr>cache_entries := AList.update (the_str key) (the_int expiresAt) kept\<rparr>)))"

section \<open>The filesystem store\<close>

text \<open>
  The directory lists its files in the order \<open>readdir\<close> gives them. What the file system
  answers to the next attempts to create a file is part of the state: \<open>Open_failed\<close> is an
  \<open>open\<close> that rejects with a code other than \<open>EEXIST\<close>, \<open>Write_failed\<close> a
  failure after the file was created. An exhausted list answers \<open>Io_ok\<close>.
\<close>

datatype io_outcome = Io_ok | Open_failed | Write_failed

record replay_directory =
  rd_maxEntries :: int
  rd_private :: bool
  rd_files :: "(jsstr, jsstr) jsmap"
  rd_outcomes :: "io_outcome list"

definition next_outcome :: "replay_directory \<Rightarrow> io_outcome" where
  "next_outcome d = (case rd_outcomes d of [] \<Rightarrow> Io_ok | x # _ \<Rightarrow> x)"

definition FilesystemReplayStore :: "jsval \<Rightarrow> jsval \<Rightarrow> int result" where
  "FilesystemReplayStore directory maxEntries =
     (let m = default_to maxEntries (JInt 1000000) in
      if \<not> absoluteNormalizedPath directory \<or> \<not> isSafeInteger m \<or> the_int m < 1 \<or>
         the_int m > 10000000
      then Inl (TypeError ''invalid filesystem replay store configuration'')
      else Inr (the_int m))"

definition replay_initialize :: "replay_directory \<Rightarrow> unit result" where
  "replay_initialize d = require (rd_private d) rejected"

definition hex_name :: "jsstr \<Rightarrow> bool" where
  "hex_name name = (length name = 64 \<and> list_all is_hex_lower name)"

text \<open>\<open>/^[1-9]\d{0,15}\n$/\<close> and the number before the newline.\<close>

definition timestamp_text :: "jsstr \<Rightarrow> bool" where
  "timestamp_text s = (case s of [] \<Rightarrow> False
     | c # cs \<Rightarrow> is_digit c \<and> c \<noteq> 48 \<and> length cs \<le> 15 \<and> list_all is_digit cs)"

definition expired_text :: "jsstr \<Rightarrow> int \<Rightarrow> bool" where
  "expired_text text now = (text \<noteq> [] \<and> last text = 10 \<and> timestamp_text (butlast text) \<and>
     int (digits_value 10 (butlast text)) \<le> now)"

definition removeExpired ::
    "jsstr list \<Rightarrow> int \<Rightarrow> (jsstr, jsstr) jsmap \<Rightarrow> (jsstr, jsstr) jsmap" where
  "removeExpired entries now files =
     foldl (\<lambda>fs name. if \<not> hex_name name then fs
              else (case map_of fs name of None \<Rightarrow> fs
                    | Some text \<Rightarrow> if expired_text text now then AList.delete name fs else fs))
       files (take 1024 entries)"

text \<open>The directory after the optional clean-up of a full store.\<close>

definition swept :: "replay_directory \<Rightarrow> int \<Rightarrow> (jsstr, jsstr) jsmap" where
  "swept d now = (if int (length (rd_files d)) \<ge> rd_maxEntries d
     then removeExpired (map fst (rd_files d)) now (rd_files d) else rd_files d)"

definition fs_consume ::
    "platform \<Rightarrow> replay_directory \<Rightarrow> jsval \<Rightarrow> jsval \<Rightarrow> jsval \<Rightarrow> bool result \<times> replay_directory" where
  "fs_consume P d key expiresAt now =
     (if \<not> is_str key \<or> length (the_str key) > 512 \<or> \<not> isSafeInteger expiresAt \<or>
         \<not> isSafeInteger now \<or> the_int expiresAt \<le> the_int now
      then (Inl rejected, d)
      else case replay_initialize d of Inl e \<Rightarrow> (Inl e, d)
      | Inr _ \<Rightarrow>
        (let full = (\<lambda>files. int (length files) \<ge> rd_maxEntries d);
             files = swept d (the_int now);
             name = sha256 P (encode (the_str key));
             rest = tl (rd_outcomes d)
         in if full (rd_files d) \<and> full files then (Inr False, d\<lparr>rd_files := files\<rparr>)
            else case next_outcome d of
                Open_failed \<Rightarrow>
                  (Inl rejected, d\<lparr>rd_files := AList.delete name files, rd_outcomes := rest\<rparr>)
              | Write_failed \<Rightarrow>
                  (if has files name then (Inr False, d\<lparr>rd_files := files, rd_outcomes := rest\<rparr>)
                   else (Inl rejected, d\<lparr>rd_files := files, rd_outcomes := rest\<rparr>))
              | Io_ok \<Rightarrow>
                  (if has files name then (Inr False, d\<lparr>rd_files := files, rd_outcomes := rest\<rparr>)
                   else (Inr True, d\<lparr>rd_files := files @
                     [(name, int_to_string 10 (the_int expiresAt) @ [10])], rd_outcomes := rest\<rparr>))))"

section \<open>The contract\<close>

text \<open>
  What a verifier needs of a nonce store: a key that was accepted is recorded until its
  expiry, and a recorded key is refused. A strict store also refuses a key that is already
  expired when it is consumed.
\<close>

locale replay_store =
  fixes consume :: "'s \<Rightarrow> jsstr \<Rightarrow> int \<Rightarrow> int \<Rightarrow> bool result \<times> 's"
    and inv :: "'s \<Rightarrow> bool"
    and recorded :: "'s \<Rightarrow> jsstr \<Rightarrow> int \<Rightarrow> bool"
  assumes inv_consume: "inv s \<Longrightarrow> inv (snd (consume s key expiry now))"
    and accept_records: "inv s \<Longrightarrow> fst (consume s key expiry now) = Inr True \<Longrightarrow>
          recorded (snd (consume s key expiry now)) key expiry"
    and record_kept: "inv s \<Longrightarrow> recorded s key expiry \<Longrightarrow> now < expiry \<Longrightarrow>
          recorded (snd (consume s key' expiry' now)) key expiry"
    and record_refused: "inv s \<Longrightarrow> recorded s key expiry \<Longrightarrow> now < expiry \<Longrightarrow>
          fst (consume s key expiry' now) \<noteq> Inr True"

locale strict_replay_store = replay_store +
  assumes expired_refused: "expiry \<le> now \<Longrightarrow> fst (consume s key expiry now) \<noteq> Inr True"

section \<open>The in-memory cache meets the contract\<close>

lemma map_of_filter_value:
  "distinct (map fst xs) \<Longrightarrow>
    map_of (filter (\<lambda>(k, v). Q v) xs) k = (case map_of xs k of Some v \<Rightarrow> if Q v then Some v else None | None \<Rightarrow> None)"
  by (induction xs) (auto split: option.splits simp: map_of_eq_None_iff image_iff)

definition cache_ok :: "memory_cache \<Rightarrow> bool" where
  "cache_ok c = distinct (map fst (cache_entries c))"

definition cache_recorded :: "memory_cache \<Rightarrow> jsstr \<Rightarrow> int \<Rightarrow> bool" where
  "cache_recorded c key expiry = (map_of (cache_entries c) key = Some expiry)"

lemma memory_consume_cases:
  assumes "cache_ok c"
  obtains (reject) "memory_consume c key e n = (Inl rejected, c)"
  | (refuse) c' where "memory_consume c key e n = (Inr False, c')" "cache_ok c'"
      "\<And>k x. cache_recorded c k x \<Longrightarrow> the_int n < x \<Longrightarrow> cache_recorded c' k x"
  | (accept) c' where "memory_consume c key e n = (Inr True, c')" "cache_ok c'"
      "cache_recorded c' (the_str key) (the_int e)"
      "\<And>x. cache_recorded c (the_str key) x \<Longrightarrow> x \<le> the_int n"
      "\<And>k x. cache_recorded c k x \<Longrightarrow> the_int n < x \<Longrightarrow> cache_recorded c' k x"
proof -
  let ?kept = "filter (\<lambda>(k, expiry). \<not> expiry \<le> the_int n) (cache_entries c)"
  have d: "distinct (map fst ?kept)"
    using assms by (auto simp: cache_ok_def intro: distinct_map_filter)
  have m: "map_of ?kept k = (case map_of (cache_entries c) k of Some v \<Rightarrow>
      if \<not> v \<le> the_int n then Some v else None | None \<Rightarrow> None)" for k
    using assms by (intro map_of_filter_value) (simp add: cache_ok_def)
  consider "\<not> is_str key \<or> \<not> isSafeInteger e \<or> \<not> isSafeInteger n"
    | "is_str key" "isSafeInteger e" "isSafeInteger n"
      "has ?kept (the_str key) \<or> int (length ?kept) \<ge> cache_maxEntries c"
    | "is_str key" "isSafeInteger e" "isSafeInteger n" "\<not> has ?kept (the_str key)"
      "\<not> int (length ?kept) \<ge> cache_maxEntries c" by blast
  then show thesis
  proof cases
    case 1
    then show ?thesis by (intro reject) (auto simp: memory_consume_def)
  next
    case 2
    then have "memory_consume c key e n = (Inr False, c\<lparr>cache_entries := ?kept\<rparr>)"
      by (auto simp: memory_consume_def Let_def)
    then show ?thesis
      by (rule refuse) (use d m in \<open>auto simp: cache_ok_def cache_recorded_def\<close>)
  next
    case 3
    then have run: "memory_consume c key e n =
        (Inr True, c\<lparr>cache_entries := AList.update (the_str key) (the_int e) ?kept\<rparr>)"
      by (auto simp: memory_consume_def Let_def)
    from 3(4) have no: "map_of ?kept (the_str key) = None" by (simp add: map_of_eq_None_iff)
    show ?thesis
    proof (rule accept [OF run])
      show "\<And>x. cache_recorded c (the_str key) x \<Longrightarrow> x \<le> the_int n"
        using no m [of "the_str key"] by (auto simp: cache_recorded_def split: if_splits)
      then show "\<And>k x. cache_recorded c k x \<Longrightarrow> the_int n < x \<Longrightarrow>
          cache_recorded (c\<lparr>cache_entries := AList.update (the_str key) (the_int e) ?kept\<rparr>) k x"
        using m by (fastforce simp: cache_recorded_def)
    qed (use d in \<open>auto simp: cache_ok_def cache_recorded_def distinct_update\<close>)
  qed
qed

interpretation memory: replay_store
  "\<lambda>c key expiry now. memory_consume c (Str key) (JInt expiry) (JInt now)" cache_ok cache_recorded
proof
  fix c :: memory_cache and key key' :: jsstr and expiry expiry' now :: int
  assume ok: "cache_ok c"
  show "cache_ok (snd (memory_consume c (Str key) (JInt expiry) (JInt now)))"
    by (rule memory_consume_cases [OF ok, of "Str key" "JInt expiry" "JInt now"]) (use ok in auto)
  show "fst (memory_consume c (Str key) (JInt expiry) (JInt now)) = Inr True \<Longrightarrow>
      cache_recorded (snd (memory_consume c (Str key) (JInt expiry) (JInt now))) key expiry"
    by (rule memory_consume_cases [OF ok, of "Str key" "JInt expiry" "JInt now"]) auto
  show "cache_recorded c key expiry \<Longrightarrow> now < expiry \<Longrightarrow>
      cache_recorded (snd (memory_consume c (Str key') (JInt expiry') (JInt now))) key expiry"
    by (rule memory_consume_cases [OF ok, of "Str key'" "JInt expiry'" "JInt now"]) auto
  show "cache_recorded c key expiry \<Longrightarrow> now < expiry \<Longrightarrow>
      fst (memory_consume c (Str key) (JInt expiry') (JInt now)) \<noteq> Inr True"
    by (rule memory_consume_cases [OF ok, of "Str key" "JInt expiry'" "JInt now"]) fastforce+
qed

section \<open>The filesystem store meets the strict contract\<close>

text \<open>As long as no \<open>open\<close> rejects for a reason other than an existing file.\<close>

definition directory_ok :: "replay_directory \<Rightarrow> bool" where
  "directory_ok d = (distinct (map fst (rd_files d)) \<and> Open_failed \<notin> set (rd_outcomes d))"

definition directory_recorded :: "platform \<Rightarrow> replay_directory \<Rightarrow> jsstr \<Rightarrow> int \<Rightarrow> bool" where
  "directory_recorded P d key expiry =
     (map_of (rd_files d) (sha256 P (encode key)) = Some (int_to_string 10 expiry @ [10]))"

lemma expired_text_written:
  assumes "expired_text (int_to_string 10 expiry @ [10]) now"
  shows "expiry \<le> now"
proof (cases "expiry < 0")
  case True
  with assms show ?thesis
    by (auto simp: expired_text_def int_to_string_def timestamp_text_def char_class_defs)
next
  case False
  with assms show ?thesis
    by (simp add: expired_text_def int_to_string_def digits_of_value)
qed

lemma removeExpired_distinct:
  assumes "distinct (map fst files)"
  shows "distinct (map fst (removeExpired entries now files))"
proof -
  have "distinct (map fst (foldl (\<lambda>fs name. if \<not> hex_name name then fs
      else (case map_of fs name of None \<Rightarrow> fs
        | Some text \<Rightarrow> if expired_text text now then AList.delete name fs else fs)) files ns))" for ns
    using assms by (induction ns arbitrary: files) (auto simp: distinct_delete split: option.splits)
  then show ?thesis by (simp add: removeExpired_def)
qed

lemma removeExpired_keeps:
  assumes "map_of files name = Some text" and "\<not> expired_text text now"
  shows "map_of (removeExpired entries now files) name = Some text"
proof -
  have "map_of (foldl (\<lambda>fs name. if \<not> hex_name name then fs
      else (case map_of fs name of None \<Rightarrow> fs
        | Some text \<Rightarrow> if expired_text text now then AList.delete name fs else fs)) files ns) name =
      Some text" for ns
    using assms
  proof (induction ns arbitrary: files)
    case (Cons n ns)
    then show ?case by (cases "n = name") (auto split: option.splits)
  qed simp
  then show ?thesis by (simp add: removeExpired_def)
qed

lemma swept_distinct: "distinct (map fst (rd_files d)) \<Longrightarrow> distinct (map fst (swept d now))"
  by (simp add: swept_def removeExpired_distinct)

lemma swept_keeps:
  "directory_recorded P d key expiry \<Longrightarrow> now < expiry \<Longrightarrow>
    map_of (swept d now) (sha256 P (encode key)) = Some (int_to_string 10 expiry @ [10])"
  using expired_text_written [of expiry now]
  by (auto simp: swept_def directory_recorded_def intro!: removeExpired_keeps)

lemma fs_consume_run:
  assumes "length key \<le> 512" "isSafeInteger (JInt e)" "isSafeInteger (JInt n)" "n < e" "rd_private d"
  shows "fs_consume P d (Str key) (JInt e) (JInt n) =
    (let name = sha256 P (encode key); rest = tl (rd_outcomes d); files = swept d n in
     if int (length (rd_files d)) \<ge> rd_maxEntries d \<and> int (length files) \<ge> rd_maxEntries d
     then (Inr False, d\<lparr>rd_files := files\<rparr>)
     else case next_outcome d of
         Open_failed \<Rightarrow> (Inl rejected, d\<lparr>rd_files := AList.delete name files, rd_outcomes := rest\<rparr>)
       | Write_failed \<Rightarrow>
           (if has files name then Inr False else Inl rejected, d\<lparr>rd_files := files, rd_outcomes := rest\<rparr>)
       | Io_ok \<Rightarrow> if has files name then (Inr False, d\<lparr>rd_files := files, rd_outcomes := rest\<rparr>)
           else (Inr True, d\<lparr>rd_files := files @ [(name, int_to_string 10 e @ [10])], rd_outcomes := rest\<rparr>))"
proof -
  have "the_int (JInt n) = n" "the_int (JInt e) = e" by simp_all
  then show ?thesis
    using assms
    by (simp add: fs_consume_def replay_initialize_def Let_def split: io_outcome.splits del: the_int.simps isSafeInteger.simps)
qed

lemma fs_consume_cases:
  assumes "directory_ok d"
  obtains (unchanged) err where "fs_consume P d (Str key) (JInt e) (JInt n) = (Inl err, d)"
  | (refuse) r os where "r \<noteq> Inr True" "set os \<subseteq> set (rd_outcomes d)"
      "fs_consume P d (Str key) (JInt e) (JInt n) = (r, d\<lparr>rd_files := swept d n, rd_outcomes := os\<rparr>)"
  | (accept) os where "n < e" "\<not> has (swept d n) (sha256 P (encode key))"
      "set os \<subseteq> set (rd_outcomes d)"
      "fs_consume P d (Str key) (JInt e) (JInt n) = (Inr True, d\<lparr>rd_files := swept d n @
         [(sha256 P (encode key), int_to_string 10 e @ [10])], rd_outcomes := os\<rparr>)"
proof (cases "length key > 512 \<or> \<not> isSafeInteger (JInt e) \<or> \<not> isSafeInteger (JInt n) \<or> e \<le> n \<or>
    \<not> rd_private d")
  case True
  then show thesis
    by (intro unchanged [of rejected]) (auto simp: fs_consume_def replay_initialize_def)
next
  case False
  let ?name = "sha256 P (encode key)"
  have no_fail: "next_outcome d \<noteq> Open_failed" "set (tl (rd_outcomes d)) \<subseteq> set (rd_outcomes d)"
    using assms by (cases "rd_outcomes d"; auto simp: directory_ok_def next_outcome_def)+
  from False have run: "length key \<le> 512" "isSafeInteger (JInt e)" "isSafeInteger (JInt n)" "n < e"
    "rd_private d" by auto
  consider "int (length (rd_files d)) \<ge> rd_maxEntries d \<and> int (length (swept d n)) \<ge> rd_maxEntries d"
    | "\<not> (int (length (rd_files d)) \<ge> rd_maxEntries d \<and> int (length (swept d n)) \<ge> rd_maxEntries d)"
      "next_outcome d = Io_ok \<and> \<not> has (swept d n) ?name"
    | "\<not> (int (length (rd_files d)) \<ge> rd_maxEntries d \<and> int (length (swept d n)) \<ge> rd_maxEntries d)"
      "\<not> (next_outcome d = Io_ok \<and> \<not> has (swept d n) ?name)" by blast
  then show thesis
  proof cases
    case 1
    then show thesis
      by (intro refuse [of "Inr False" "rd_outcomes d"]) (simp_all add: fs_consume_run [OF run])
  next
    case 2
    then show thesis
      using run(4) no_fail(2)
      by (intro accept [of "tl (rd_outcomes d)"]) (simp_all add: fs_consume_run [OF run] Let_def)
  next
    case 3
    then show thesis
      using no_fail
      by (intro refuse [of "if has (swept d n) ?name then Inr False else Inl rejected"
            "tl (rd_outcomes d)"])
        (auto simp: fs_consume_run [OF run] Let_def split: io_outcome.splits)
  qed
qed

interpretation filesystem: strict_replay_store
  "\<lambda>d key expiry now. fs_consume P d (Str key) (JInt expiry) (JInt now)" directory_ok
  "directory_recorded P" for P
proof
  fix d :: replay_directory and key key' :: jsstr and expiry expiry' now :: int
  show "fst (fs_consume P d (Str key) (JInt expiry) (JInt now)) \<noteq> Inr True" if "expiry \<le> now"
    using that by (simp add: fs_consume_def)
  assume ok: "directory_ok d"
  show "directory_ok (snd (fs_consume P d (Str key) (JInt expiry) (JInt now)))"
    by (rule fs_consume_cases [OF ok, of P key expiry now])
      (use ok swept_distinct [of d now] in \<open>auto simp: directory_ok_def\<close>)
  show "fst (fs_consume P d (Str key) (JInt expiry) (JInt now)) = Inr True \<Longrightarrow>
      directory_recorded P (snd (fs_consume P d (Str key) (JInt expiry) (JInt now))) key expiry"
    by (rule fs_consume_cases [OF ok, of P key expiry now])
      (auto simp: directory_recorded_def map_add_def map_of_eq_None_iff [symmetric])
  assume rec: "directory_recorded P d key expiry" and lt: "now < expiry"
  note kept = swept_keeps [OF rec lt]
  show "directory_recorded P (snd (fs_consume P d (Str key') (JInt expiry') (JInt now))) key expiry"
    by (rule fs_consume_cases [OF ok, of P key' expiry' now])
      (use kept rec in \<open>auto simp: directory_recorded_def map_add_def\<close>)
  show "fst (fs_consume P d (Str key) (JInt expiry') (JInt now)) \<noteq> Inr True"
    by (rule fs_consume_cases [OF ok, of P key expiry' now])
      (use kept in \<open>auto simp: map_of_eq_None_iff [symmetric]\<close>)
qed

end
