(* ===== verification/Service_Identity.thy ===== *)
theory Service_Identity
  imports Replay_Store
begin

text \<open>
  Workload identities of \<open>service-identity.mjs\<close>: request validation, the HMAC and
  Ed25519 verifiers and signers, and the adapter \<open>ServiceIdentity\<close>. The signature
  primitives and the nonce store are parameters.
\<close>

section \<open>Requests and headers\<close>

text \<open>
  A header container is absent, an object with a \<open>get\<close> method, or a plain record whose
  values are strings or arrays of strings. A body that is not a \<open>Uint8Array\<close> is
  \<open>None\<close>.
\<close>

datatype header_value = HText jsstr | HList "jsstr list"

datatype headers =
    No_headers
  | Headers "jsstr \<Rightarrow> jsstr option"
  | Header_record "(jsstr, header_value) jsmap"

record request =
  r_method :: jsval
  r_target :: jsval
  r_headers :: headers
  r_body :: "bytes option"

fun header :: "headers \<Rightarrow> string \<Rightarrow> jsstr option" where
  "header No_headers name = None"
| "header (Headers getter) name = getter (js name)"
| "header (Header_record m) name =
     (case (case map_of m (js name) of None \<Rightarrow> map_of m (ascii_lower (js name)) | v \<Rightarrow> v) of
        Some (HText s) \<Rightarrow> Some s | _ \<Rightarrow> None)"

definition nonce_pattern :: "jsstr \<Rightarrow> bool" where
  "nonce_pattern s = (16 \<le> length s \<and> length s \<le> 128 \<and>
     list_all (\<lambda>u. is_alnum u \<or> one_of ''_-'' u) s)"

definition parseTimestamp :: "jsstr option \<Rightarrow> int option" where
  "parseTimestamp value = (case value of None \<Rightarrow> None
     | Some s \<Rightarrow> if \<not> timestamp_text s then None
         else if isSafeInteger (JInt (int (digits_value 10 s))) then Some (int (digits_value 10 s))
         else None)"

abbreviation identity_rejected :: js_error where
  "identity_rejected \<equiv> ServiceIdentityError ''request_identity_rejected''"

definition valid_method :: "jsval \<Rightarrow> bool" where
  "valid_method m = (is_str m \<and> the_str m \<noteq> [] \<and> list_all is_upper (the_str m))"

definition valid_target :: "jsval \<Rightarrow> bool" where
  "valid_target t = (is_str t \<and> prefix (js ''/'') (the_str t) \<and> length (the_str t) \<le> 2048)"

definition validateSignedRequest ::
    "jsval \<Rightarrow> jsval \<Rightarrow> bytes option \<Rightarrow> int option \<Rightarrow> jsstr option \<Rightarrow> int \<Rightarrow> int \<Rightarrow> unit result" where
  "validateSignedRequest method target body timestamp nonce now maxAgeMs =
     (if \<not> valid_method method \<or> \<not> valid_target target \<or> body = None \<or>
         (case timestamp of None \<Rightarrow> True | Some t \<Rightarrow> \<not> isSafeInteger (JInt t)) \<or>
         \<not> nonce_pattern (case nonce of None \<Rightarrow> [] | Some n \<Rightarrow> n) \<or> \<not> isSafeInteger (JInt now) \<or>
         (maxAgeMs > 0 \<and> \<bar>now - the timestamp\<bar> > maxAgeMs)
      then Inl identity_rejected else Inr ())"

definition bodyDigest :: "platform \<Rightarrow> bytes \<Rightarrow> jsstr" where
  "bodyDigest P body = sha256 P body"

definition payload_text :: "platform \<Rightarrow> jsstr \<Rightarrow> jsstr \<Rightarrow> int \<Rightarrow> jsstr \<Rightarrow> bytes \<Rightarrow> jsstr" where
  "payload_text P method target timestamp nonce body =
     method @ [10] @ target @ [10] @ int_to_string 10 timestamp @ [10] @ nonce @ [10] @
     bodyDigest P body"

definition signedPayload :: "platform \<Rightarrow> jsstr \<Rightarrow> jsstr \<Rightarrow> int \<Rightarrow> jsstr \<Rightarrow> bytes \<Rightarrow> bytes" where
  "signedPayload P method target timestamp nonce body =
     encode (payload_text P method target timestamp nonce body)"

text \<open>The bytes of a signature in an authorization header with the given prefix.\<close>

definition parseSignature :: "platform \<Rightarrow> jsstr \<Rightarrow> nat \<Rightarrow> jsstr option \<Rightarrow> bytes option" where
  "parseSignature P pre len value = (case value of None \<Rightarrow> None
     | Some s \<Rightarrow> if \<not> prefix pre s then None
         else (let signature = base64url_decode P (drop (length pre) s) in
               if length signature = len then Some signature else None))"

definition parseAuthorization :: "platform \<Rightarrow> jsstr option \<Rightarrow> jsstr \<Rightarrow> bytes option" where
  "parseAuthorization P value keyId = parseSignature P (js ''HMAC '' @ keyId @ js '':'') 32 value"

definition parseEd25519Authorization :: "platform \<Rightarrow> jsstr option \<Rightarrow> jsstr \<Rightarrow> bytes option" where
  "parseEd25519Authorization P value keyId =
     parseSignature P (js ''Signature Ed25519 '' @ keyId @ js '':'') 64 value"

section \<open>The HMAC identity\<close>

datatype secret = Secret_bytes bytes | Secret_text jsstr | No_secret

fun toSecret :: "secret \<Rightarrow> bytes option" where
  "toSecret (Secret_bytes bs) = Some bs"
| "toSecret (Secret_text s) = Some (encode s)"
| "toSecret No_secret = None"

record hmac_identity =
  h_keyId :: jsstr
  h_key :: bytes
  h_maxAgeMs :: int
  h_replayProtected :: bool

text \<open>The constructor; \<open>durable\<close> is what the nonce store attests.\<close>

definition HmacServiceIdentity ::
    "jsval \<Rightarrow> secret \<Rightarrow> bool \<Rightarrow> jsval \<Rightarrow> jsval \<Rightarrow> hmac_identity result" where
  "HmacServiceIdentity keyId secret durable maxAgeMs requireDurableReplay =
     (let age = default_to maxAgeMs (JInt 60000);
          dur = default_to requireDurableReplay (Bool False) in
      case toSecret secret of
        None \<Rightarrow> Inl (TypeError ''invalid HMAC service identity configuration'')
      | Some key \<Rightarrow>
        if \<not> validIdentifier keyId \<or> length key < 32 \<or> \<not> isSafeInteger age \<or>
           the_int age < 1000 \<or> the_int age > 300000 \<or> (dur \<noteq> Bool True \<and> dur \<noteq> Bool False) \<or>
           (dur = Bool True \<and> \<not> durable)
        then Inl (TypeError ''invalid HMAC service identity configuration'')
        else Inr \<lparr>h_keyId = the_str keyId, h_key = key, h_maxAgeMs = the_int age,
               h_replayProtected = durable\<rparr>)"

definition hmac_signature ::
    "platform \<Rightarrow> hmac_identity \<Rightarrow> jsstr \<Rightarrow> jsstr \<Rightarrow> int \<Rightarrow> jsstr \<Rightarrow> bytes \<Rightarrow> bytes" where
  "hmac_signature P h method target timestamp nonce body =
     hmac_sha256 P (h_key h) (encode (payload_text P method target timestamp nonce body))"

type_synonym 's store = "'s \<Rightarrow> jsstr \<Rightarrow> int \<Rightarrow> int \<Rightarrow> bool result \<times> 's"

text \<open>The last step of both verifiers: the nonce is consumed for the key.\<close>

definition consume_nonce ::
    "'s store \<Rightarrow> jsstr \<Rightarrow> jsstr \<Rightarrow> int \<Rightarrow> int \<Rightarrow> 's \<Rightarrow> unit result \<times> 's" where
  "consume_nonce consume keyId nonce expiresAt now s =
     (case consume s (keyId @ js '':'' @ nonce) expiresAt now of
        (Inl e, s') \<Rightarrow> (Inl e, s')
      | (Inr accepted, s') \<Rightarrow>
          (if accepted then Inr () else Inl (ServiceIdentityError ''request_replayed''), s'))"

definition hmac_verifyIncoming ::
    "platform \<Rightarrow> 's store \<Rightarrow> hmac_identity \<Rightarrow> int \<Rightarrow> request \<Rightarrow> 's \<Rightarrow> unit result \<times> 's" where
  "hmac_verifyIncoming P consume h now r s =
     (let timestamp = parseTimestamp (header (r_headers r) ''x-xmcl-timestamp'');
          nonce = header (r_headers r) ''x-xmcl-nonce'';
          authorization = header (r_headers r) ''authorization'' in
      case validateSignedRequest (r_method r) (r_target r) (r_body r) timestamp nonce now (h_maxAgeMs h) of
        Inl e \<Rightarrow> (Inl e, s)
      | Inr _ \<Rightarrow>
        (let expected = hmac_signature P h (the_str (r_method r)) (the_str (r_target r))
                          (the timestamp) (the nonce) (the (r_body r)) in
         case parseAuthorization P authorization (h_keyId h) of
           None \<Rightarrow> (Inl identity_rejected, s)
         | Some actual \<Rightarrow>
             if length actual \<noteq> length expected \<or> actual \<noteq> expected then (Inl identity_rejected, s)
             else consume_nonce consume (h_keyId h) (the nonce) (the timestamp + h_maxAgeMs h) now s))"

record signed_headers =
  sh_authorization :: jsstr
  sh_timestamp :: jsstr
  sh_nonce :: jsstr

text \<open>\<open>signOutgoing\<close>; \<open>nonce\<close> is the encoding of the 24 random bytes.\<close>

definition hmac_signOutgoing ::
    "platform \<Rightarrow> hmac_identity \<Rightarrow> int \<Rightarrow> jsstr \<Rightarrow> request \<Rightarrow> signed_headers result" where
  "hmac_signOutgoing P h timestamp nonce r =
     bindR (validateSignedRequest (r_method r) (r_target r) (r_body r) (Some timestamp) (Some nonce)
              timestamp 0) (\<lambda>_.
     Inr \<lparr>sh_authorization = js ''HMAC '' @ h_keyId h @ js '':'' @
            base64url P (hmac_signature P h (the_str (r_method r)) (the_str (r_target r)) timestamp
              nonce (the (r_body r))),
          sh_timestamp = int_to_string 10 timestamp, sh_nonce = nonce\<rparr>)"

section \<open>The Ed25519 identity\<close>

text \<open>The keys are held as the verification predicate and the signing function they give.\<close>

record ed25519_identity =
  e_verificationKeyId :: jsstr
  e_signingKeyId :: jsstr
  e_verify :: "bytes \<Rightarrow> bytes \<Rightarrow> bool"
  e_sign :: "bytes \<Rightarrow> bytes"
  e_maxAgeMs :: int

datatype key_material = Ed25519_key | Other_key | Bad_key

definition Ed25519ServiceIdentity ::
    "jsval \<Rightarrow> jsval \<Rightarrow> key_material \<Rightarrow> key_material \<Rightarrow> bool \<Rightarrow> jsval \<Rightarrow>
     (bytes \<Rightarrow> bytes \<Rightarrow> bool) \<Rightarrow> (bytes \<Rightarrow> bytes) \<Rightarrow> ed25519_identity result" where
  "Ed25519ServiceIdentity verificationKeyId signingKeyId verificationKey signingKey durable maxAgeMs
     verify sign =
     (let age = default_to maxAgeMs (JInt 60000) in
      if \<not> validIdentifier verificationKeyId \<or> \<not> validIdentifier signingKeyId \<or> \<not> durable \<or>
         \<not> isSafeInteger age \<or> the_int age < 1000 \<or> the_int age > 300000
      then Inl (TypeError ''invalid Ed25519 service identity configuration'')
      else if verificationKey \<noteq> Ed25519_key \<or> signingKey \<noteq> Ed25519_key
      then Inl (TypeError ''invalid Ed25519 service identity configuration'')
      else Inr \<lparr>e_verificationKeyId = the_str verificationKeyId, e_signingKeyId = the_str signingKeyId,
             e_verify = verify, e_sign = sign, e_maxAgeMs = the_int age\<rparr>)"

definition ed25519_verifyIncoming ::
    "platform \<Rightarrow> 's store \<Rightarrow> ed25519_identity \<Rightarrow> int \<Rightarrow> request \<Rightarrow> 's \<Rightarrow> unit result \<times> 's" where
  "ed25519_verifyIncoming P consume k now r s =
     (let timestamp = parseTimestamp (header (r_headers r) ''x-xmcl-timestamp'');
          nonce = header (r_headers r) ''x-xmcl-nonce'';
          authorization = header (r_headers r) ''authorization'' in
      case validateSignedRequest (r_method r) (r_target r) (r_body r) timestamp nonce now (e_maxAgeMs k) of
        Inl e \<Rightarrow> (Inl e, s)
      | Inr _ \<Rightarrow>
        (case parseEd25519Authorization P authorization (e_verificationKeyId k) of
           None \<Rightarrow> (Inl identity_rejected, s)
         | Some actual \<Rightarrow>
             if \<not> e_verify k (signedPayload P (the_str (r_method r)) (the_str (r_target r))
                   (the timestamp) (the nonce) (the (r_body r))) actual
             then (Inl identity_rejected, s)
             else consume_nonce consume (e_verificationKeyId k) (the nonce)
                    (the timestamp + e_maxAgeMs k) now s))"

definition ed25519_signOutgoing ::
    "platform \<Rightarrow> ed25519_identity \<Rightarrow> int \<Rightarrow> jsstr \<Rightarrow> request \<Rightarrow> signed_headers result" where
  "ed25519_signOutgoing P k timestamp nonce r =
     bindR (validateSignedRequest (r_method r) (r_target r) (r_body r) (Some timestamp) (Some nonce)
              timestamp 0) (\<lambda>_.
     Inr \<lparr>sh_authorization = js ''Signature Ed25519 '' @ e_signingKeyId k @ js '':'' @
            base64url P (e_sign k (signedPayload P (the_str (r_method r)) (the_str (r_target r))
              timestamp nonce (the (r_body r)))),
          sh_timestamp = int_to_string 10 timestamp, sh_nonce = nonce\<rparr>)"

section \<open>The adapter\<close>

definition plainStringRecord :: "jsval \<Rightarrow> bool" where
  "plainStringRecord value = (plainObject value \<and>
     (case value of Obj ps \<Rightarrow> list_all (\<lambda>(key, item).
        key \<noteq> [] \<and> list_all (\<lambda>u. is_lower u \<or> is_digit u \<or> u = 45) key \<and>
        is_str item \<and> \<not> list_ex (\<lambda>u. u = 10 \<or> u = 13) (the_str item)) ps
      | _ \<Rightarrow> False))"

definition adapter_verifyIncoming :: "jsval result \<Rightarrow> unit result" where
  "adapter_verifyIncoming verified =
     bindR verified (\<lambda>accepted. if accepted = Bool False then Inl identity_rejected else Inr ())"

definition adapter_signOutgoing :: "jsval result \<Rightarrow> jsval result" where
  "adapter_signOutgoing produced =
     bindR produced (\<lambda>hs. if \<not> plainStringRecord hs
       then Inl (ServiceIdentityError ''callback_identity_rejected'') else Inr hs)"

end
