(* ===== verification/Identity_Security.thy ===== *)
theory Identity_Security
  imports Service_Identity
begin

text \<open>
  What the request verifiers guarantee: the signed payload determines the request, an
  accepted request carries the expected signature and a fresh timestamp, a signed request is
  accepted, and no request is accepted twice with a strict nonce store.
\<close>

section \<open>The signed payload\<close>

lemma sep_left:
  "c \<notin> set a \<Longrightarrow> c \<notin> set b \<Longrightarrow> a @ c # x = b @ c # y \<longleftrightarrow> a = b \<and> x = y"
  by (induction a arbitrary: b) (case_tac b; auto)+

lemma sep_right:
  assumes "c \<notin> set x" and "c \<notin> set y"
  shows "a @ c # x = b @ c # y \<longleftrightarrow> a = b \<and> x = y"
proof
  assume "a @ c # x = b @ c # y"
  then have "rev (a @ c # x) = rev (b @ c # y)" by (rule arg_cong)
  then have "rev x @ c # rev a = rev y @ c # rev b" by simp
  with assms have "rev x = rev y \<and> rev a = rev b" by (subst (asm) sep_left) auto
  then show "a = b \<and> x = y" by simp
qed simp

lemma digits_no_newline: "10 \<notin> set (digits_of 10 n)" "45 \<notin> set (digits_of 10 n)"
  using digits_of_range [of 10 n] by (auto simp: list_all_iff)

lemma int_to_string_newline: "10 \<notin> set (int_to_string 10 i)"
  using digits_no_newline by (auto simp: int_to_string_def)

lemma int_to_string_inj: "int_to_string 10 i = int_to_string 10 j \<Longrightarrow> i = j"
proof -
  assume eq: "int_to_string 10 i = int_to_string 10 j"
  have d: "m = n" if "digits_of 10 m = digits_of 10 n" for m n
    using arg_cong [OF that, of "digits_value 10"] by (simp add: digits_of_value)
  have h: "False" if "45 # x = digits_of 10 n" for x n
    using arg_cong [OF that, of set] digits_no_newline(2) [of n] by auto
  consider "i < 0" "j < 0" | "\<not> i < 0" "\<not> j < 0" | "i < 0" "\<not> j < 0" | "\<not> i < 0" "j < 0"
    by blast
  then show "i = j"
  proof cases
    case 1
    with eq d [of "nat (- i)" "nat (- j)"] show ?thesis by (simp add: int_to_string_def)
  next
    case 2
    with eq d [of "nat i" "nat j"] show ?thesis by (simp add: int_to_string_def)
  next
    case 3
    with eq h [of "digits_of 10 (nat (- i))" "nat j"] show ?thesis by (simp add: int_to_string_def)
  next
    case 4
    with eq [symmetric] h [of "digits_of 10 (nat (- j))" "nat i"] show ?thesis
      by (simp add: int_to_string_def)
  qed
qed

lemma is_str_eq: "is_str a \<Longrightarrow> is_str b \<Longrightarrow> the_str a = the_str b \<Longrightarrow> a = b"
  by (cases a; cases b) auto

definition signable :: "jsval \<Rightarrow> jsval \<Rightarrow> jsstr \<Rightarrow> bool" where
  "signable method target nonce = (valid_method method \<and> valid_target target \<and>
     well_formed (the_str target) \<and> nonce_pattern nonce)"

lemma class_plain:
  "is_upper u \<Longrightarrow> u < 128 \<and> u \<noteq> 10" "is_lower u \<Longrightarrow> u < 128 \<and> u \<noteq> 10"
  "is_digit u \<Longrightarrow> u < 128 \<and> u \<noteq> 10" "is_hex_lower u \<Longrightarrow> u < 128 \<and> u \<noteq> 10"
  by (auto simp: is_upper_def is_lower_def is_digit_def is_hex_lower_def in_range_def
      word_le_nat_alt word_less_nat_alt)

lemma class_plain_list:
  assumes "list_all Q s" and "\<And>u. Q u \<Longrightarrow> u < 128 \<and> u \<noteq> 10"
  shows "ascii s \<and> 10 \<notin> set s"
  using assms by (auto simp: ascii_def list_all_iff)

lemma method_plain: "valid_method m \<Longrightarrow> ascii (the_str m) \<and> 10 \<notin> set (the_str m)"
  unfolding valid_method_def
  by (rule class_plain_list [OF _ class_plain(1)]) auto

lemma nonce_plain: "nonce_pattern n \<Longrightarrow> ascii n \<and> 10 \<notin> set n"
proof -
  have "is_alnum u \<or> one_of ''_-'' u \<Longrightarrow> u < 128 \<and> u \<noteq> 10" for u
    using class_plain by (auto simp: is_alnum_def one_of_def js_simps)
  from class_plain_list [OF _ this] show "nonce_pattern n \<Longrightarrow> ascii n \<and> 10 \<notin> set n"
    unfolding nonce_pattern_def by blast
qed

lemma digest_plain: "sha256_hex P \<Longrightarrow> ascii (bodyDigest P b) \<and> 10 \<notin> set (bodyDigest P b)"
  unfolding sha256_hex_def bodyDigest_def
  by (rule class_plain_list [OF _ class_plain(4)]) auto

lemma newline_sep: "well_formed (a @ 10 # b) \<longleftrightarrow> well_formed a \<and> well_formed b"
  by (rule well_formed_sep) (simp_all add: is_high_def is_low_def in_range_def)

lemma payload_well_formed:
  assumes "signable m target nonce" and "sha256_hex P"
  shows "well_formed (payload_text P (the_str m) (the_str target) ts nonce body)"
proof -
  have "ascii (int_to_string 10 ts)"
    using digits_of_range [of 10 "nat ts"] digits_of_range [of 10 "nat (- ts)"]
    by (auto simp: int_to_string_def ascii_def list_all_iff word_le_nat_alt word_less_nat_alt)
  then show ?thesis
    using assms method_plain [of m] nonce_plain [of nonce] digest_plain [of P body]
    by (simp add: payload_text_def signable_def newline_sep ascii_well_formed)
qed

lemma signedPayload_determines:
  assumes "sha256_hex P" and "signable m t n" and "signable m' t' n'"
    and "signedPayload P (the_str m) (the_str t) ts n body =
         signedPayload P (the_str m') (the_str t') ts' n' body'"
  shows "m = m' \<and> t = t' \<and> ts = ts' \<and> n = n' \<and> sha256 P body = sha256 P body'"
proof -
  have eq: "payload_text P (the_str m) (the_str t) ts n body =
      payload_text P (the_str m') (the_str t') ts' n' body'"
    using assms(4) encode_inj payload_well_formed assms(1-3) by (auto simp: signedPayload_def)
  note no_nl = method_plain nonce_plain digest_plain [OF assms(1)] int_to_string_newline
  have v: "valid_method m" "valid_method m'" "nonce_pattern n" "nonce_pattern n'"
    "valid_target t" "valid_target t'" using assms(2,3) by (auto simp: signable_def)
  have "the_str m = the_str m'" and
    r: "(the_str t @ 10 # int_to_string 10 ts @ 10 # n) @ 10 # bodyDigest P body =
        (the_str t' @ 10 # int_to_string 10 ts' @ 10 # n') @ 10 # bodyDigest P body'"
    using eq [unfolded payload_text_def, simplified] sep_left [of 10 "the_str m" "the_str m'"]
      no_nl(1) v by auto
  have d: "bodyDigest P body = bodyDigest P body'" and
    r2: "the_str t @ 10 # int_to_string 10 ts @ 10 # n = the_str t' @ 10 # int_to_string 10 ts' @ 10 # n'"
    using sep_right [THEN iffD1, OF _ _ r] no_nl(3) by auto
  then have r2: "(the_str t @ 10 # int_to_string 10 ts) @ 10 # n =
      (the_str t' @ 10 # int_to_string 10 ts') @ 10 # n'" by simp
  have n: "n = n'" and r3: "the_str t @ 10 # int_to_string 10 ts = the_str t' @ 10 # int_to_string 10 ts'"
    using sep_right [THEN iffD1, OF _ _ r2] no_nl(2) v by auto
  have "the_str t = the_str t'" "int_to_string 10 ts = int_to_string 10 ts'"
    using sep_right [THEN iffD1, OF _ _ r3] no_nl(4) by auto
  with \<open>the_str m = the_str m'\<close> d n v int_to_string_inj show ?thesis
    by (auto simp: bodyDigest_def valid_method_def valid_target_def intro: is_str_eq)
qed

section \<open>Both verifiers as one guarded consumption\<close>

definition timestamp_of :: "request \<Rightarrow> int option" where
  "timestamp_of r = parseTimestamp (header (r_headers r) ''x-xmcl-timestamp'')"

definition nonce_of :: "request \<Rightarrow> jsstr option" where
  "nonce_of r = header (r_headers r) ''x-xmcl-nonce''"

definition well_dated :: "int \<Rightarrow> int \<Rightarrow> request \<Rightarrow> bool" where
  "well_dated maxAge now r = (validateSignedRequest (r_method r) (r_target r) (r_body r)
     (timestamp_of r) (nonce_of r) now maxAge = Inr ())"

definition hmac_authentic :: "platform \<Rightarrow> hmac_identity \<Rightarrow> request \<Rightarrow> bool" where
  "hmac_authentic P h r =
     (parseAuthorization P (header (r_headers r) ''authorization'') (h_keyId h) =
      Some (hmac_signature P h (the_str (r_method r)) (the_str (r_target r)) (the (timestamp_of r))
        (the (nonce_of r)) (the (r_body r))))"

definition ed25519_authentic :: "platform \<Rightarrow> ed25519_identity \<Rightarrow> request \<Rightarrow> bool" where
  "ed25519_authentic P k r =
     (\<exists>signature. parseEd25519Authorization P (header (r_headers r) ''authorization'')
        (e_verificationKeyId k) = Some signature \<and>
      e_verify k (signedPayload P (the_str (r_method r)) (the_str (r_target r)) (the (timestamp_of r))
        (the (nonce_of r)) (the (r_body r))) signature)"

lemma hmac_accepts_iff:
  "hmac_verifyIncoming P consume h now r s = (Inr (), s') \<longleftrightarrow>
    well_dated (h_maxAgeMs h) now r \<and> hmac_authentic P h r \<and>
    consume s (h_keyId h @ js '':'' @ the (nonce_of r)) (the (timestamp_of r) + h_maxAgeMs h) now =
      (Inr True, s')"
  by (auto simp: hmac_verifyIncoming_def well_dated_def hmac_authentic_def consume_nonce_def Let_def
      timestamp_of_def nonce_of_def split: sum.splits option.splits prod.splits if_splits)

lemma ed25519_accepts_iff:
  "ed25519_verifyIncoming P consume k now r s = (Inr (), s') \<longleftrightarrow>
    well_dated (e_maxAgeMs k) now r \<and> ed25519_authentic P k r \<and>
    consume s (e_verificationKeyId k @ js '':'' @ the (nonce_of r)) (the (timestamp_of r) + e_maxAgeMs k) now =
      (Inr True, s')"
  by (auto simp: ed25519_verifyIncoming_def well_dated_def ed25519_authentic_def consume_nonce_def
      Let_def timestamp_of_def nonce_of_def split: sum.splits option.splits prod.splits if_splits)

lemma hmac_authentic_consumes:
  assumes "well_dated (h_maxAgeMs h) now r" and "hmac_authentic P h r"
  shows "hmac_verifyIncoming P consume h now r s = consume_nonce consume (h_keyId h)
    (the (nonce_of r)) (the (timestamp_of r) + h_maxAgeMs h) now s"
  using assms by (simp add: hmac_verifyIncoming_def well_dated_def hmac_authentic_def Let_def
      timestamp_of_def nonce_of_def)

lemma hmac_accept_store:
  assumes "fst (hmac_verifyIncoming P consume h now r s) = Inr ()"
  defines "step \<equiv> consume s (h_keyId h @ js '':'' @ the (nonce_of r))
    (the (timestamp_of r) + h_maxAgeMs h) now"
  shows "fst step = Inr True \<and> snd (hmac_verifyIncoming P consume h now r s) = snd step"
proof -
  obtain s' where eq: "hmac_verifyIncoming P consume h now r s = (Inr (), s')"
    using assms(1) by (cases "hmac_verifyIncoming P consume h now r s") auto
  from hmac_accepts_iff [THEN iffD1, OF eq] eq show ?thesis by (simp add: step_def)
qed

lemma ed25519_accept_store:
  assumes "fst (ed25519_verifyIncoming P consume k now r s) = Inr ()"
  defines "step \<equiv> consume s (e_verificationKeyId k @ js '':'' @ the (nonce_of r))
    (the (timestamp_of r) + e_maxAgeMs k) now"
  shows "fst step = Inr True \<and> snd (ed25519_verifyIncoming P consume k now r s) = snd step"
proof -
  obtain s' where eq: "ed25519_verifyIncoming P consume k now r s = (Inr (), s')"
    using assms(1) by (cases "ed25519_verifyIncoming P consume k now r s") auto
  from ed25519_accepts_iff [THEN iffD1, OF eq] eq show ?thesis by (simp add: step_def)
qed

text \<open>A rejected request leaves the store unchanged, or as the store's own refusal left it.\<close>

lemma hmac_store_step:
  "snd (hmac_verifyIncoming P consume h now r s) = s \<or>
   snd (hmac_verifyIncoming P consume h now r s) =
     snd (consume s (h_keyId h @ js '':'' @ the (nonce_of r)) (the (timestamp_of r) + h_maxAgeMs h) now)"
  by (auto simp: hmac_verifyIncoming_def consume_nonce_def Let_def timestamp_of_def nonce_of_def
      split: sum.splits option.splits prod.splits)

lemma ed25519_store_step:
  "snd (ed25519_verifyIncoming P consume k now r s) = s \<or>
   snd (ed25519_verifyIncoming P consume k now r s) =
     snd (consume s (e_verificationKeyId k @ js '':'' @ the (nonce_of r))
       (the (timestamp_of r) + e_maxAgeMs k) now)"
  by (auto simp: ed25519_verifyIncoming_def consume_nonce_def Let_def timestamp_of_def nonce_of_def
      split: sum.splits option.splits prod.splits)

section \<open>Sequences of requests\<close>

text \<open>The requests that reach a verifier, each with the clock at its arrival.\<close>

fun verify_all ::
    "(int \<Rightarrow> request \<Rightarrow> 's \<Rightarrow> unit result \<times> 's) \<Rightarrow> (int \<times> request) list \<Rightarrow> 's \<Rightarrow> unit result list" where
  "verify_all verify [] s = []"
| "verify_all verify ((now, r) # rs) s =
     fst (verify now r s) # verify_all verify rs (snd (verify now r s))"

lemma length_verify_all [simp]: "length (verify_all verify rs s) = length rs"
  by (induction verify rs s rule: verify_all.induct) simp_all

text \<open>
  A verifier in front of a strict nonce store: it accepts only when the store does, and it
  touches the store only through one consumption per request.
\<close>

locale store_verifier = strict_replay_store +
  fixes verify :: "int \<Rightarrow> request \<Rightarrow> 'a \<Rightarrow> unit result \<times> 'a"
    and key_of :: "request \<Rightarrow> jsstr"
    and expiry_of :: "request \<Rightarrow> int"
  assumes accepts: "fst (verify now r s) = Inr () \<Longrightarrow>
        fst (consume s (key_of r) (expiry_of r) now) = Inr True \<and>
        snd (verify now r s) = snd (consume s (key_of r) (expiry_of r) now)"
    and steps: "snd (verify now r s) = s \<or>
        snd (verify now r s) = snd (consume s (key_of r) (expiry_of r) now)"
begin

lemma inv_verify: "inv s \<Longrightarrow> inv (snd (verify now r s))"
  using steps [of now r s] inv_consume [of s "key_of r" "expiry_of r" now] by auto

lemma record_kept_verify:
  "inv s \<Longrightarrow> recorded s key expiry \<Longrightarrow> now < expiry \<Longrightarrow> recorded (snd (verify now r s)) key expiry"
  using steps [of now r s] record_kept [of s key expiry now "key_of r" "expiry_of r"] by auto

lemma recorded_never_accepted:
  assumes "inv s" and "recorded s key expiry" and "sorted (map fst rs)"
    and "j < length rs" and "key_of (snd (rs ! j)) = key" and "expiry_of (snd (rs ! j)) = expiry"
  shows "verify_all verify rs s ! j \<noteq> Inr ()"
  using assms
proof (induction rs arbitrary: s j)
  case (Cons e rs)
  obtain now r where e: "e = (now, r)" by (cases e)
  have late: "verify_all verify rs' s' ! i \<noteq> Inr ()"
    if "i < length rs'" "\<forall>x \<in> set rs'. expiry \<le> fst x" "expiry_of (snd (rs' ! i)) = expiry"
    for rs' s' i
    using that
  proof (induction rs' arbitrary: s' i)
    case (Cons x xs)
    obtain n q where x: "x = (n, q)" by (cases x)
    have "fst (verify n q s') \<noteq> Inr ()" if "expiry_of q = expiry"
      using accepts [of n q s'] expired_refused [of "expiry_of q" n s' "key_of q"] that Cons.prems(2)
      by (auto simp: x)
    with Cons x show ?case by (cases i) auto
  qed simp
  show ?case
  proof (cases "now < expiry")
    case True
    show ?thesis
    proof (cases j)
      case 0
      with accepts [of now r s] record_refused [of s key expiry now] Cons.prems True e
      show ?thesis by auto
    next
      case (Suc i)
      with Cons.prems e True show ?thesis
        using Cons.IH [of "snd (verify now r s)" i] inv_verify record_kept_verify by auto
    qed
  next
    case False
    with Cons.prems e have "\<forall>x \<in> set (e # rs). expiry \<le> fst x" by fastforce
    with late [of j "e # rs" s] Cons.prems show ?thesis by blast
  qed
qed simp

lemma accepted_once:
  assumes "inv s" and "sorted (map fst rs)" and "i < j" and "j < length rs"
    and "key_of (snd (rs ! i)) = key_of (snd (rs ! j))"
    and "expiry_of (snd (rs ! i)) = expiry_of (snd (rs ! j))"
    and "verify_all verify rs s ! i = Inr ()"
  shows "verify_all verify rs s ! j \<noteq> Inr ()"
  using assms
proof (induction rs arbitrary: s i j)
  case (Cons e rs)
  obtain now r where e: "e = (now, r)" by (cases e)
  obtain j' where j': "j = Suc j'" using Cons.prems(3) by (cases j) auto
  show ?case
  proof (cases i)
    case 0
    with Cons.prems(7) e have acc: "fst (verify now r s) = Inr ()" by simp
    from accepts [OF this] accept_records [OF Cons.prems(1)]
    have "recorded (snd (verify now r s)) (key_of r) (expiry_of r)" by metis
    from recorded_never_accepted [OF inv_verify [OF Cons.prems(1)] this, of rs j'] Cons.prems e j' 0
    show ?thesis by simp
  next
    case (Suc i')
    with Cons.prems e j' show ?thesis
      using Cons.IH [of "snd (verify now r s)" i' j'] inv_verify by auto
  qed
qed simp

end

abbreviation fs_store :: "platform \<Rightarrow> replay_directory store" where
  "fs_store P \<equiv> \<lambda>d key expiry now. fs_consume P d (Str key) (JInt expiry) (JInt now)"

interpretation hmac: store_verifier "fs_store P" directory_ok "directory_recorded P"
  "\<lambda>now r d. hmac_verifyIncoming P (fs_store P) h now r d"
  "\<lambda>r. h_keyId h @ js '':'' @ the (nonce_of r)" "\<lambda>r. the (timestamp_of r) + h_maxAgeMs h"
  for P h
  by unfold_locales (erule hmac_accept_store, rule hmac_store_step)

interpretation ed25519: store_verifier "fs_store P" directory_ok "directory_recorded P"
  "\<lambda>now r d. ed25519_verifyIncoming P (fs_store P) k now r d"
  "\<lambda>r. e_verificationKeyId k @ js '':'' @ the (nonce_of r)"
  "\<lambda>r. the (timestamp_of r) + e_maxAgeMs k" for P k
  by unfold_locales (erule ed25519_accept_store, rule ed25519_store_step)

section \<open>A signed request is accepted\<close>

lemma hd_digits_of: "0 < n \<Longrightarrow> 2 \<le> b \<Longrightarrow> b \<le> 10 \<Longrightarrow> hd (digits_of b n) \<noteq> 48"
proof (induction b n rule: digits_of.induct)
  case (1 b n)
  show ?case
  proof (cases "n < b")
    case True
    with 1(2-4) have "(48 + of_nat n :: code_unit) \<noteq> 48"
      using unat_of_nat_unit [of n] by (auto simp del: unat_of_nat_unit)
    with True show ?thesis by (subst digits_of.simps) simp
  next
    case False
    with 1 have "hd (digits_of b (n div b)) \<noteq> 48" by (simp add: div_greater_zero_iff)
    with False 1(3) show ?thesis by (subst digits_of.simps) simp
  qed
qed

lemma timestamp_text_written:
  assumes "0 < t" and "isSafeInteger (JInt t)"
  shows "parseTimestamp (Some (int_to_string 10 t)) = Some t"
proof -
  let ?ds = "digits_of 10 (nat t)"
  obtain c cs where ds: "?ds = c # cs" by (cases ?ds) auto
  have "nat t < 10 ^ 16" using assms(2) by (simp add: max_safe_integer_def)
  then have "length ?ds \<le> 16" by (intro length_digits_of) simp_all
  moreover have "c \<noteq> 48" using hd_digits_of [of "nat t" 10] assms(1) ds by simp
  moreover have "list_all is_digit ?ds"
    using digits_of_range [of 10 "nat t"]
    by (auto simp: list_all_iff is_digit_def in_range_def word_le_nat_alt word_less_nat_alt)
  ultimately have "timestamp_text ?ds" by (simp add: timestamp_text_def ds)
  then show ?thesis
    using assms by (simp add: parseTimestamp_def int_to_string_def digits_of_value)
qed

definition with_headers :: "request \<Rightarrow> signed_headers \<Rightarrow> request" where
  "with_headers r hs = r\<lparr>r_headers := Header_record
     [(js ''authorization'', HText (sh_authorization hs)),
      (js ''x-xmcl-timestamp'', HText (sh_timestamp hs)),
      (js ''x-xmcl-nonce'', HText (sh_nonce hs))]\<rparr>"

lemma with_headers_simps [simp]:
  "r_method (with_headers r hs) = r_method r" "r_target (with_headers r hs) = r_target r"
  "r_body (with_headers r hs) = r_body r"
  "header (r_headers (with_headers r hs)) ''authorization'' = Some (sh_authorization hs)"
  "timestamp_of (with_headers r hs) = parseTimestamp (Some (sh_timestamp hs))"
  "nonce_of (with_headers r hs) = Some (sh_nonce hs)"
  by (simp_all add: with_headers_def timestamp_of_def nonce_of_def)

text \<open>The digest of an HMAC with SHA-256 has 32 bytes.\<close>

definition hmac_32 :: "platform \<Rightarrow> bool" where
  "hmac_32 P = (\<forall>key msg. length (hmac_sha256 P key msg) = 32)"

lemma hmac_signed_accepted:
  assumes "hmac_signOutgoing P h timestamp nonce r = Inr hs"
    and "base64url_ok P" "hmac_32 P" "0 < timestamp" "isSafeInteger (JInt now)"
    and "\<bar>now - timestamp\<bar> \<le> h_maxAgeMs h"
    and "consume s (h_keyId h @ js '':'' @ nonce) (timestamp + h_maxAgeMs h) now = (Inr True, s')"
  shows "hmac_verifyIncoming P consume h now (with_headers r hs) s = (Inr (), s')"
proof -
  from assms(1) have v: "validateSignedRequest (r_method r) (r_target r) (r_body r) (Some timestamp)
      (Some nonce) timestamp 0 = Inr ()"
    and hs: "sh_timestamp hs = int_to_string 10 timestamp" "sh_nonce hs = nonce"
      "sh_authorization hs = (js ''HMAC '' @ h_keyId h @ js '':'') @ base64url P (hmac_signature P h
        (the_str (r_method r)) (the_str (r_target r)) timestamp nonce (the (r_body r)))"
    by (auto simp: hmac_signOutgoing_def result_simps)
  from v have safe: "isSafeInteger (JInt timestamp)"
    by (simp add: validateSignedRequest_def split: if_splits del: isSafeInteger.simps)
  note ts = timestamp_text_written [OF assms(4) safe]
  have "well_dated (h_maxAgeMs h) now (with_headers r hs)"
    using v assms(5,6)
    by (auto simp: well_dated_def validateSignedRequest_def hs ts split: if_splits)
  moreover have "hmac_authentic P h (with_headers r hs)"
    using assms(2,3)
    by (simp add: hmac_authentic_def parseAuthorization_def parseSignature_def hs ts
        hmac_signature_def hmac_32_def base64url_ok_def del: append_assoc)
  ultimately show ?thesis
    using assms(7) by (simp add: hmac_accepts_iff hs ts)
qed

section \<open>A sample identity, request and directory\<close>

definition sample_identity :: hmac_identity where
  "sample_identity = \<lparr>h_keyId = js ''worker-1'', h_key = replicate 32 9, h_maxAgeMs = 60000,
     h_replayProtected = True\<rparr>"

definition sample_request :: request where
  "sample_request = \<lparr>r_method = Str (js ''POST''), r_target = Str (js ''/v1/jobs''),
     r_headers = No_headers, r_body = Some [1, 2, 3]\<rparr>"

definition sample_nonce :: jsstr where
  "sample_nonce = js ''abcdefghijklmnop''"

definition sample_headers :: signed_headers where
  "sample_headers = \<lparr>sh_authorization = js ''HMAC '' @ h_keyId sample_identity @ js '':'' @
       base64url sample_platform (hmac_signature sample_platform sample_identity (js ''POST'')
         (js ''/v1/jobs'') 1000000 sample_nonce [1, 2, 3]),
     sh_timestamp = int_to_string 10 1000000, sh_nonce = sample_nonce\<rparr>"

definition sample_directory :: replay_directory where
  "sample_directory = \<lparr>rd_maxEntries = 10, rd_private = True, rd_files = [], rd_outcomes = []\<rparr>"

lemma sample_nonce_pattern: "nonce_pattern sample_nonce"
  by (simp add: nonce_pattern_def sample_nonce_def js_simps char_class_defs)

lemma sample_method: "valid_method (Str (js ''POST''))" "valid_target (Str (js ''/v1/jobs''))"
  by (simp_all add: valid_method_def valid_target_def js_simps char_class_defs)

lemma sample_signed:
  "hmac_signOutgoing sample_platform sample_identity 1000000 sample_nonce sample_request = Inr sample_headers"
  using sample_nonce_pattern sample_method
  by (simp add: hmac_signOutgoing_def validateSignedRequest_def sample_request_def sample_headers_def
      max_safe_integer_def)

lemma sample_hmac_32: "hmac_32 sample_platform"
  by (auto simp: hmac_32_def sample_platform_def min_def)

lemma sample_directory_accepts:
  "\<exists>d'. fs_store P sample_directory (h_keyId sample_identity @ js '':'' @ sample_nonce)
     (1000000 + h_maxAgeMs sample_identity) 1000100 = (Inr True, d')"
  by (simp add: fs_consume_def sample_directory_def sample_identity_def sample_nonce_def
      replay_initialize_def swept_def next_outcome_def max_safe_integer_def Let_def)

lemma sample_accepted:
  "\<exists>d'. hmac_verifyIncoming sample_platform (fs_store sample_platform) sample_identity 1000100
     (with_headers sample_request sample_headers) sample_directory = (Inr (), d')"
proof -
  obtain d' where "fs_store sample_platform sample_directory
      (h_keyId sample_identity @ js '':'' @ sample_nonce)
      (1000000 + h_maxAgeMs sample_identity) 1000100 = (Inr True, d')"
    using sample_directory_accepts by blast
  from hmac_signed_accepted [where consume = "fs_store sample_platform" and s = sample_directory,
      OF sample_signed sample_base64(2) sample_hmac_32 _ _ _ this]
  show ?thesis by (auto simp: sample_identity_def max_safe_integer_def)
qed

section \<open>Properties of the identities\<close>

text \<open>
  C11. Two signed requests with the same payload bytes agree on the method, the target, the
  timestamp, the nonce and the body digest: no field can be shifted into another, although the
  target may itself contain the separator.
\<close>

theorem signed_payload_injective:
  assumes "sha256_hex P"
    and "valid_method m" "valid_target t" "well_formed (the_str t)" "nonce_pattern n"
    and "valid_method m'" "valid_target t'" "well_formed (the_str t')" "nonce_pattern n'"
    and "signedPayload P (the_str m) (the_str t) ts n body =
         signedPayload P (the_str m') (the_str t') ts' n' body'"
  shows "m = m' \<and> t = t' \<and> ts = ts' \<and> n = n' \<and> sha256 P body = sha256 P body'"
  using signedPayload_determines [OF assms(1) _ _ assms(10)] assms(2-9) by (simp add: signable_def)

theorem signed_payload_injective_witness:
  "\<exists>P m t n. sha256_hex P \<and> valid_method m \<and> valid_target t \<and> nonce_pattern n \<and>
    signedPayload P (the_str m) (the_str t) 5 n [1] \<noteq> signedPayload P (the_str m) (the_str t) 6 n [1]"
proof -
  have wf: "well_formed (js ''/v1/jobs'')" by (rule ascii_well_formed) (simp add: ascii_def js_simps)
  have "signedPayload sample_platform (the_str (Str (js ''POST''))) (the_str (Str (js ''/v1/jobs''))) 5
      sample_nonce [1] \<noteq> signedPayload sample_platform (the_str (Str (js ''POST'')))
      (the_str (Str (js ''/v1/jobs''))) 6 sample_nonce [1]"
    using signed_payload_injective [OF sample_sha256_hex sample_method _ sample_nonce_pattern
        sample_method _ sample_nonce_pattern, of 5 "[1]" 6 "[1]"] wf by auto
  then show ?thesis using sample_sha256_hex sample_method sample_nonce_pattern by blast
qed

text \<open>
  C2. What \<open>hmac_signOutgoing\<close> signs, \<open>hmac_verifyIncoming\<close> of the same identity
  accepts as long as the clock is within the maximal age and the nonce store accepts the nonce.
\<close>

theorem hmac_sign_verify:
  assumes "hmac_signOutgoing P h timestamp nonce r = Inr hs"
    and "base64url_ok P" "hmac_32 P" "0 < timestamp" "isSafeInteger (JInt now)"
    and "\<bar>now - timestamp\<bar> \<le> h_maxAgeMs h"
    and "consume s (h_keyId h @ js '':'' @ nonce) (timestamp + h_maxAgeMs h) now = (Inr True, s')"
  shows "hmac_verifyIncoming P consume h now (with_headers r hs) s = (Inr (), s')"
  by (rule hmac_signed_accepted [where consume = consume and s = s, OF assms])

theorem hmac_sign_verify_witness:
  "\<exists>d'. hmac_verifyIncoming sample_platform (fs_store sample_platform) sample_identity 1000100
     (with_headers sample_request sample_headers) sample_directory = (Inr (), d')"
proof -
  obtain d' where "fs_store sample_platform sample_directory
      (h_keyId sample_identity @ js '':'' @ sample_nonce)
      (1000000 + h_maxAgeMs sample_identity) 1000100 = (Inr True, d')"
    using sample_directory_accepts by blast
  from hmac_sign_verify [where consume = "fs_store sample_platform" and s = sample_directory,
      OF sample_signed sample_base64(2) sample_hmac_32 _ _ _ this]
  show ?thesis by (auto simp: sample_identity_def max_safe_integer_def)
qed

text \<open>
  C13. A request that the HMAC verifier accepts carries the HMAC of exactly its own method,
  target, timestamp, nonce and body digest under the identity's key, is at most the maximal age
  away from the clock, and its nonce was accepted by the store in this very step.
\<close>

theorem hmac_accept_sound:
  assumes "hmac_verifyIncoming P consume h now r s = (Inr (), s')" and "0 < h_maxAgeMs h"
  shows "\<exists>timestamp nonce body sig.
    header (r_headers r) ''x-xmcl-nonce'' = Some nonce \<and> nonce_pattern nonce \<and>
    parseTimestamp (header (r_headers r) ''x-xmcl-timestamp'') = Some timestamp \<and>
    \<bar>now - timestamp\<bar> \<le> h_maxAgeMs h \<and> r_body r = Some body \<and>
    header (r_headers r) ''authorization'' = Some (js ''HMAC '' @ h_keyId h @ js '':'' @ sig) \<and>
    base64url_decode P sig = hmac_sha256 P (h_key h)
      (signedPayload P (the_str (r_method r)) (the_str (r_target r)) timestamp nonce body) \<and>
    consume s (h_keyId h @ js '':'' @ nonce) (timestamp + h_maxAgeMs h) now = (Inr True, s')"
proof -
  from assms(1) have dated: "well_dated (h_maxAgeMs h) now r" and auth: "hmac_authentic P h r"
    and con: "consume s (h_keyId h @ js '':'' @ the (nonce_of r)) (the (timestamp_of r) + h_maxAgeMs h) now =
      (Inr True, s')" by (simp_all add: hmac_accepts_iff)
  from dated assms(2) obtain ts n b where f: "timestamp_of r = Some ts" "nonce_of r = Some n"
    "r_body r = Some b" "nonce_pattern n" "\<bar>now - ts\<bar> \<le> h_maxAgeMs h"
    by (auto simp: well_dated_def validateSignedRequest_def nonce_pattern_def
        split: if_splits option.splits)
  from auth obtain sig where "header (r_headers r) ''authorization'' =
      Some ((js ''HMAC '' @ h_keyId h @ js '':'') @ sig)"
    "base64url_decode P sig = hmac_signature P h (the_str (r_method r)) (the_str (r_target r)) ts n b"
    by (auto simp: hmac_authentic_def parseAuthorization_def parseSignature_def f Let_def prefix_def
        split: option.splits if_splits)
  with f con show ?thesis
    by (intro exI [of _ ts] exI [of _ n] exI [of _ b] exI [of _ sig])
      (simp add: timestamp_of_def nonce_of_def hmac_signature_def signedPayload_def)
qed

theorem hmac_accept_sound_witness:
  "\<exists>sig. header (r_headers (with_headers sample_request sample_headers)) ''authorization'' =
    Some (js ''HMAC '' @ h_keyId sample_identity @ js '':'' @ sig)"
proof -
  obtain d' where "hmac_verifyIncoming sample_platform (fs_store sample_platform) sample_identity 1000100
     (with_headers sample_request sample_headers) sample_directory = (Inr (), d')"
    using sample_accepted by blast
  from hmac_accept_sound [OF this] show ?thesis by (auto simp: sample_identity_def)
qed



definition sample_ed25519 :: ed25519_identity where
  "sample_ed25519 = \<lparr>e_verificationKeyId = js ''worker-1'', e_signingKeyId = js ''worker-1'',
     e_verify = (\<lambda>msg sig. sig = replicate 64 (of_nat (length msg))),
     e_sign = (\<lambda>msg. replicate 64 (of_nat (length msg))), e_maxAgeMs = 60000\<rparr>"

definition sample_ed25519_headers :: signed_headers where
  "sample_ed25519_headers = \<lparr>sh_authorization = js ''Signature Ed25519 worker-1:'' @
       base64url sample_platform (e_sign sample_ed25519 (signedPayload sample_platform (js ''POST'')
         (js ''/v1/jobs'') 1000000 sample_nonce [1, 2, 3])),
     sh_timestamp = int_to_string 10 1000000, sh_nonce = sample_nonce\<rparr>"

lemma sample_timestamp: "parseTimestamp (Some (int_to_string 10 1000000)) = Some 1000000"
  by (rule timestamp_text_written) (simp_all add: max_safe_integer_def)

lemma sample_ed25519_accepted:
  "\<exists>d'. ed25519_verifyIncoming sample_platform (fs_store sample_platform) sample_ed25519 1000100
     (with_headers sample_request sample_ed25519_headers) sample_directory = (Inr (), d')"
proof -
  let ?r = "with_headers sample_request sample_ed25519_headers"
  obtain d' where "fs_store sample_platform sample_directory
      (h_keyId sample_identity @ js '':'' @ sample_nonce)
      (1000000 + h_maxAgeMs sample_identity) 1000100 = (Inr True, d')"
    using sample_directory_accepts by blast
  moreover have "js ''Signature Ed25519 worker-1:'' = js ''Signature Ed25519 '' @ js ''worker-1'' @ js '':''"
    by (simp add: js_simps)
  then have "ed25519_authentic sample_platform sample_ed25519 ?r"
    using sample_base64(2)
    by (simp add: ed25519_authentic_def parseEd25519Authorization_def parseSignature_def
        sample_ed25519_headers_def sample_ed25519_def sample_request_def sample_timestamp
        base64url_ok_def del: append_assoc)
  moreover have "well_dated 60000 1000100 ?r"
    using sample_nonce_pattern sample_method
    by (simp add: well_dated_def validateSignedRequest_def sample_request_def
        sample_ed25519_headers_def sample_timestamp max_safe_integer_def)
  ultimately show ?thesis
    by (auto simp: ed25519_accepts_iff sample_ed25519_def sample_identity_def
        sample_ed25519_headers_def sample_timestamp)
qed

text \<open>
  The same replay protection for the Ed25519 identity in front of the filesystem store.
\<close>

theorem ed25519_request_accepted_once:
  assumes "directory_ok d" and "sorted (map fst rs)" and "i < j" and "j < length rs"
    and "timestamp_of (snd (rs ! i)) = timestamp_of (snd (rs ! j))"
    and "nonce_of (snd (rs ! i)) = nonce_of (snd (rs ! j))"
    and "verify_all (ed25519_verifyIncoming P (fs_store P) k) rs d ! i = Inr ()"
  shows "verify_all (ed25519_verifyIncoming P (fs_store P) k) rs d ! j \<noteq> Inr ()"
  using ed25519.accepted_once [OF assms(1-4), where k = k and P = P] assms(5-7) by simp

theorem ed25519_request_accepted_once_witness:
  "verify_all (ed25519_verifyIncoming sample_platform (fs_store sample_platform) sample_ed25519)
     [(1000100, with_headers sample_request sample_ed25519_headers),
      (1060000, with_headers sample_request sample_ed25519_headers)] sample_directory ! 1 \<noteq> Inr ()"
  using ed25519_request_accepted_once [of sample_directory
      "[(1000100, with_headers sample_request sample_ed25519_headers),
        (1060000, with_headers sample_request sample_ed25519_headers)]" 0 1 sample_platform sample_ed25519]
    sample_ed25519_accepted
  by (auto simp: directory_ok_def sample_directory_def)

section \<open>Where replay protection ends\<close>

text \<open>
  The in-memory cache forgets a nonce at its expiry, and the verifier still accepts a request
  whose age is exactly the maximal one: at that instant the same request is accepted twice.
\<close>

abbreviation memory_store :: "memory_cache store" where
  "memory_store \<equiv> \<lambda>c key expiry now. memory_consume c (Str key) (JInt expiry) (JInt now)"

lemma memory_cache_accepts_replay_at_expiry:
  "verify_all (hmac_verifyIncoming sample_platform memory_store sample_identity)
     [(1060000, with_headers sample_request sample_headers),
      (1060000, with_headers sample_request sample_headers)]
     \<lparr>cache_maxEntries = 10, cache_entries = []\<rparr> = [Inr (), Inr ()]"
proof -
  let ?k = "h_keyId sample_identity @ js '':'' @ sample_nonce"
  have step: "hmac_verifyIncoming sample_platform memory_store sample_identity 1060000
      (with_headers sample_request sample_headers) c =
      (Inr (), \<lparr>cache_maxEntries = 10, cache_entries = [(?k, 1060000)]\<rparr>)"
    if "c = \<lparr>cache_maxEntries = 10, cache_entries = []\<rparr> \<or>
        c = \<lparr>cache_maxEntries = 10, cache_entries = [(?k, 1060000)]\<rparr>" for c
  proof (rule hmac_signed_accepted [where consume = memory_store and s = c,
        OF sample_signed sample_base64(2) sample_hmac_32])
    show "memory_store c ?k (1000000 + h_maxAgeMs sample_identity) 1060000 =
        (Inr True, \<lparr>cache_maxEntries = 10, cache_entries = [(?k, 1060000)]\<rparr>)"
      using that by (auto simp: memory_consume_def sample_identity_def max_safe_integer_def Let_def)
  qed (simp_all add: sample_identity_def max_safe_integer_def)
  then show ?thesis by simp
qed

text \<open>
  When \<open>open\<close> fails for another reason than an existing file, the store removes the file
  it could not create. If the nonce had been recorded, the record is lost and the request is
  accepted again.
\<close>

lemma failed_open_forgets_nonce:
  "verify_all (hmac_verifyIncoming sample_platform (fs_store sample_platform) sample_identity)
     [(1000100, with_headers sample_request sample_headers),
      (1000200, with_headers sample_request sample_headers),
      (1000300, with_headers sample_request sample_headers)]
     (sample_directory\<lparr>rd_outcomes := [Io_ok, Open_failed]\<rparr>) = [Inr (), Inl rejected, Inr ()]"
proof -
  let ?v = "hmac_verifyIncoming sample_platform (fs_store sample_platform) sample_identity"
  let ?r = "with_headers sample_request sample_headers"
  let ?k = "h_keyId sample_identity @ js '':'' @ sample_nonce"
  let ?file = "(sha256 sample_platform (encode ?k), int_to_string 10 1060000 @ [10])"
  define d where "d = (\<lambda>fs os. sample_directory\<lparr>rd_files := fs, rd_outcomes := os\<rparr>)"
  have bounds: "0 < (1000000::int)" "isSafeInteger (JInt 1000100)" "isSafeInteger (JInt 1000300)"
    "\<bar>1000100 - 1000000\<bar> \<le> h_maxAgeMs sample_identity" "\<bar>1000300 - 1000000\<bar> \<le> h_maxAgeMs sample_identity"
    by (simp_all add: max_safe_integer_def sample_identity_def)
  note ev = d_def fs_consume_def sample_directory_def sample_identity_def sample_nonce_def
    replay_initialize_def swept_def next_outcome_def max_safe_integer_def Let_def
  have 1: "?v 1000100 ?r (d [] [Io_ok, Open_failed]) = (Inr (), d [?file] [Open_failed])"
    by (rule hmac_signed_accepted [where consume = "fs_store sample_platform" and now = 1000100,
          OF sample_signed sample_base64(2) sample_hmac_32 bounds(1,2,4)]) (simp add: ev)
  have "well_dated 60000 1000200 ?r" "hmac_authentic sample_platform sample_identity ?r"
    using sample_accepted hmac_accepts_iff [of sample_platform "fs_store sample_platform" sample_identity
        1000100 ?r sample_directory]
    by (auto simp: well_dated_def validateSignedRequest_def sample_identity_def sample_headers_def
        sample_timestamp max_safe_integer_def split: if_splits)
  then have "?v 1000200 ?r (d [?file] [Open_failed]) = consume_nonce (fs_store sample_platform)
      (h_keyId sample_identity) sample_nonce (1000000 + h_maxAgeMs sample_identity) 1000200
      (d [?file] [Open_failed])"
    by (subst hmac_authentic_consumes)
      (simp_all add: sample_identity_def sample_headers_def sample_timestamp)
  then have 2: "?v 1000200 ?r (d [?file] [Open_failed]) = (Inl rejected, d [] [])"
    by (simp add: consume_nonce_def ev)
  have 3: "fst (?v 1000300 ?r (d [] [])) = Inr ()"
    by (subst hmac_signed_accepted [where consume = "fs_store sample_platform" and now = 1000300,
          OF sample_signed sample_base64(2) sample_hmac_32 bounds(1,3,5)]) (simp_all add: ev)
  show ?thesis using 1 2 3 by (simp add: d_def sample_directory_def)
qed

end
