(* ===== verification/Job_Queue.thy ===== *)
theory Job_Queue
  imports Sample_Platform Utf8
begin

text \<open>
  The two compiler job queues of \<open>job-queue.mjs\<close>. The filesystem queue keeps one JSON
  document per job in the directories \<open>pending\<close> and \<open>archive\<close>; a file holds the
  document its text parses to. Every operation is the list of its durable effects, in order,
  and its result: a crash or a failing disk stops the operation after a prefix of the list.
  \<open>clock i\<close> is the value of the \<open>i\<close>-th call of \<open>this.now()\<close> in an operation
  (in \<open>initialize\<close>, of the call in the \<open>i\<close>-th pass of its loop).
\<close>

section \<open>Documents\<close>

text \<open>\<open>{...v, k: x, ...}\<close>, and the document that is read back after \<open>JSON.stringify\<close>.\<close>

fun spread :: "jsval \<Rightarrow> (string \<times> jsval) list \<Rightarrow> jsval" where
  "spread (Obj ps) us = Obj (foldl (\<lambda>m (k, v). AList.update (js k) v m) ps us)"
| "spread _ us = Obj (foldl (\<lambda>m (k, v). AList.update (js k) v m) [] us)"

fun stored :: "jsval \<Rightarrow> jsval" where
  "stored (Obj ps) = Obj (filter (\<lambda>(k, _). map_of ps k \<noteq> Some Undefined) ps)"
| "stored v = v"

datatype json_file = Unreadable | Document jsval

type_synonym directory = "(jsstr, json_file) jsmap"

record disk =
  pending_dir :: directory
  archive_dir :: directory

datatype disk_effect =
    Write_pending jsstr jsval
  | Write_archive jsstr jsval
  | Remove_pending jsstr

text \<open>\<open>atomicWrite\<close> and \<open>durableRemove\<close>: a rename and an unlink are atomic.\<close>

fun apply_effect :: "disk_effect \<Rightarrow> disk \<Rightarrow> disk" where
  "apply_effect (Write_pending name v) d =
     d\<lparr>pending_dir := AList.update name (Document (stored v)) (pending_dir d)\<rparr>"
| "apply_effect (Write_archive name v) d =
     d\<lparr>archive_dir := AList.update name (Document (stored v)) (archive_dir d)\<rparr>"
| "apply_effect (Remove_pending name) d =
     d\<lparr>pending_dir := AList.delete name (pending_dir d)\<rparr>"

fun apply_effects :: "disk_effect list \<Rightarrow> disk \<Rightarrow> disk" where
  "apply_effects [] d = d"
| "apply_effects (e # es) d = apply_effects es (apply_effect e d)"

section \<open>Records\<close>

abbreviation bad_record :: js_error where
  "bad_record \<equiv> PlainError ''invalid persisted compiler job''"

definition decodeBody :: "platform \<Rightarrow> jsval \<Rightarrow> bytes result" where
  "decodeBody P v =
     (let body = base64_decode P (the_str (get v ''body'')) in
      if Str (sha256 P body) \<noteq> get v ''bodySha256'' then Inl bad_record else Inr body)"

definition record_states :: "jsval list" where
  "record_states = map (\<lambda>s. Str (js s)) [''pending'', ''running'', ''retry'', ''terminal'']"

definition record_fields_ok :: "jsval \<Rightarrow> bool" where
  "record_fields_ok v = (truthy v \<and> get v ''schemaVersion'' = JInt 1 \<and> is_str (get v ''id'') \<and>
     is_str (get v ''deploymentId'') \<and> is_str (get v ''jobFingerprint'') \<and>
     is_str (get v ''body'') \<and> is_str (get v ''bodySha256'') \<and>
     get v ''state'' \<in> set record_states \<and>
     isSafeInteger (get v ''attempts'') \<and> isSafeInteger (get v ''nextAttemptAt''))"

definition check_redelivery :: "platform \<Rightarrow> jsval \<Rightarrow> unit result" where
  "check_redelivery P v =
     (let r = get v ''redeliveryBody''; h = get v ''redeliveryBodySha256'' in
      if (r = Undefined) \<noteq> (h = Undefined) then Inl bad_record
      else if r = Undefined then Inr ()
      else if \<not> is_str r then Inl (TypeError ''Buffer.from'')
      else if Str (sha256 P (base64_decode P (the_str r))) \<noteq> h then Inl bad_record
      else Inr ())"

definition readRecord :: "platform \<Rightarrow> directory \<Rightarrow> jsstr \<Rightarrow> jsval result" where
  "readRecord P dir name =
     (case map_of dir name of
        None \<Rightarrow> Inl (IoError ''ENOENT'')
      | Some Unreadable \<Rightarrow> Inl (PlainError ''unreadable'')
      | Some (Document v) \<Rightarrow>
          if \<not> record_fields_ok v then Inl bad_record
          else bindR (decodeBody P v) (\<lambda>_. bindR (check_redelivery P v) (\<lambda>_. Inr v)))"

definition readRecordIfPresent :: "platform \<Rightarrow> directory \<Rightarrow> jsstr \<Rightarrow> jsval option result" where
  "readRecordIfPresent P dir name =
     (case readRecord P dir name of
        Inr v \<Rightarrow> Inr (Some v)
      | Inl e \<Rightarrow> if e = IoError ''ENOENT'' then Inr None else Inl e)"

definition json_file_name :: "jsstr \<Rightarrow> bool" where
  "json_file_name name = (length name = 69 \<and> list_all is_hex_lower (take 64 name) \<and>
     drop 64 name = js ''.json'')"

definition jsonFiles :: "directory \<Rightarrow> jsstr list" where
  "jsonFiles dir = sort (filter json_file_name (map fst dir))"

definition queueKey :: "platform \<Rightarrow> jsstr \<Rightarrow> jsstr" where
  "queueKey P jid = sha256 P (encode jid)"

definition file_name :: "platform \<Rightarrow> jsstr \<Rightarrow> jsstr" where
  "file_name P jid = queueKey P jid @ js ''.json''"

text \<open>\<open>base * 2 ** min(max(attempts - 1, 0), 8)\<close>, capped at five minutes.\<close>

definition retryDelay :: "int \<Rightarrow> int \<Rightarrow> int" where
  "retryDelay base attempts = min (base * 2 ^ nat (min (max (attempts - 1) 0) 8)) 300000"

record enqueue_input =
  in_id :: jsval
  in_deploymentId :: jsval
  in_jobFingerprint :: jsval
  in_body :: "bytes option"

definition validateEnqueue :: "enqueue_input \<Rightarrow> unit result" where
  "validateEnqueue inp =
     require (is_str (in_id inp) \<and> the_str (in_id inp) \<noteq> [] \<and>
       is_str (in_deploymentId inp) \<and> the_str (in_deploymentId inp) \<noteq> [] \<and>
       is_str (in_jobFingerprint inp) \<and> length (the_str (in_jobFingerprint inp)) = 64 \<and>
       list_all is_hex_lower (the_str (in_jobFingerprint inp)) \<and> in_body inp \<noteq> None)
     (TypeError ''invalid compiler queue job'')"

abbreviation conflict :: js_error where
  "conflict \<equiv> ErrorCode ''idempotency_conflict''"

definition assertSameIdentity ::
    "jsval \<times> jsval \<times> jsval \<Rightarrow> jsval \<times> jsval \<times> jsval \<Rightarrow> unit result" where
  "assertSameIdentity a b = require (a = b) conflict"

definition doc_identity :: "jsval \<Rightarrow> jsval \<times> jsval \<times> jsval" where
  "doc_identity v = (get v ''id'', get v ''deploymentId'', get v ''jobFingerprint'')"

definition input_identity :: "enqueue_input \<Rightarrow> jsval \<times> jsval \<times> jsval" where
  "input_identity inp = (in_id inp, in_deploymentId inp, in_jobFingerprint inp)"

section \<open>The filesystem queue\<close>

type_synonym clock = "nat \<Rightarrow> int"
type_synonym 'a effectful = "disk_effect list \<times> 'a result"

definition FilesystemCompilerJobQueue :: "jsval \<Rightarrow> jsval \<Rightarrow> int result" where
  "FilesystemCompilerJobQueue directory retryDelayMs =
     (let delay = default_to retryDelayMs (JInt 1000) in
      if \<not> is_str directory \<or> the_str directory = [] \<or> \<not> isSafeInteger delay \<or>
         the_int delay < 100 \<or> the_int delay > 300000
      then Inl (TypeError ''invalid compiler job queue configuration'')
      else Inr (the_int delay))"

definition recovered_record :: "jsval \<Rightarrow> jsval \<Rightarrow> jsval" where
  "recovered_record v u = spread v [(''state'', Str (js ''pending'')), (''updatedAt'', u)]"

text \<open>One pass of the loop of \<open>initialize\<close>; \<open>now\<close> is the clock at that pass.\<close>

definition recover_entry :: "platform \<Rightarrow> disk \<Rightarrow> int \<Rightarrow> jsstr \<Rightarrow> disk_effect list result" where
  "recover_entry P d now name =
     bindR (readRecord P (pending_dir d) name) (\<lambda>v.
     bindR (readRecordIfPresent P (archive_dir d) name) (\<lambda>archived.
       case archived of
         Some a \<Rightarrow>
           bindR (assertSameIdentity (doc_identity a) (doc_identity v)) (\<lambda>_.
             if get a ''state'' \<noteq> Str (js ''terminal'')
             then Inl (PlainError ''invalid compiler queue archive state'')
             else Inr [Remove_pending name])
       | None \<Rightarrow>
           Inr (if get v ''state'' = Str (js ''running'')
                then [Write_pending name (recovered_record v (JInt now))]
                else [])))"

fun recover_loop :: "platform \<Rightarrow> clock \<Rightarrow> nat \<Rightarrow> jsstr list \<Rightarrow> disk \<Rightarrow> unit effectful" where
  "recover_loop P clock i [] d = ([], Inr ())"
| "recover_loop P clock i (name # names) d =
     (case recover_entry P d (clock i) name of
        Inl e \<Rightarrow> ([], Inl e)
      | Inr es \<Rightarrow>
          (let (rest, r) = recover_loop P clock (Suc i) names (apply_effects es d)
           in (es @ rest, r)))"

definition fs_initialize :: "platform \<Rightarrow> clock \<Rightarrow> disk \<Rightarrow> unit effectful" where
  "fs_initialize P clock d = recover_loop P clock 0 (jsonFiles (pending_dir d)) d"

definition encoded_body :: "platform \<Rightarrow> bytes \<Rightarrow> jsval" where
  "encoded_body P body = Str (base64 P body)"

definition body_digest :: "platform \<Rightarrow> bytes \<Rightarrow> jsval" where
  "body_digest P body = Str (sha256 P body)"

definition new_record :: "platform \<Rightarrow> enqueue_input \<Rightarrow> int \<Rightarrow> jsval" where
  "new_record P inp now = Obj [
     (js ''schemaVersion'', JInt 1), (js ''id'', in_id inp),
     (js ''deploymentId'', in_deploymentId inp), (js ''jobFingerprint'', in_jobFingerprint inp),
     (js ''body'', encoded_body P (the (in_body inp))),
     (js ''bodySha256'', body_digest P (the (in_body inp))),
     (js ''state'', Str (js ''pending'')), (js ''attempts'', JInt 0),
     (js ''nextAttemptAt'', JInt now), (js ''createdAt'', JInt now), (js ''updatedAt'', JInt now)]"

text \<open>The two documents of a repeated delivery.\<close>

definition redelivery_running :: "platform \<Rightarrow> bytes \<Rightarrow> int \<Rightarrow> jsval \<Rightarrow> jsval" where
  "redelivery_running P body now v = spread v [(''redeliveryBody'', encoded_body P body),
     (''redeliveryBodySha256'', body_digest P body), (''updatedAt'', JInt now)]"

definition redelivery_waiting :: "platform \<Rightarrow> bytes \<Rightarrow> int \<Rightarrow> int \<Rightarrow> jsval \<Rightarrow> jsval" where
  "redelivery_waiting P body now now' v = spread v [(''body'', encoded_body P body),
     (''bodySha256'', body_digest P body), (''state'', Str (js ''pending'')),
     (''nextAttemptAt'', JInt now), (''updatedAt'', JInt now')]"

text \<open>The answer is the \<open>duplicate\<close> flag.\<close>

definition fs_enqueue :: "platform \<Rightarrow> clock \<Rightarrow> enqueue_input \<Rightarrow> disk \<Rightarrow> bool effectful" where
  "fs_enqueue P clock inp d =
     (case validateEnqueue inp of Inl e \<Rightarrow> ([], Inl e)
      | Inr _ \<Rightarrow>
        (let name = file_name P (the_str (in_id inp)); body = the (in_body inp) in
         case readRecordIfPresent P (archive_dir d) name of Inl e \<Rightarrow> ([], Inl e)
         | Inr (Some archived) \<Rightarrow>
             ([], bindR (assertSameIdentity (doc_identity archived) (input_identity inp)) (\<lambda>_. Inr True))
         | Inr None \<Rightarrow>
           (case readRecordIfPresent P (pending_dir d) name of Inl e \<Rightarrow> ([], Inl e)
            | Inr (Some existing) \<Rightarrow>
              (case assertSameIdentity (doc_identity existing) (input_identity inp) of
                 Inl e \<Rightarrow> ([], Inl e)
               | Inr _ \<Rightarrow>
                 if get existing ''state'' = Str (js ''running'') then
                   ([Write_pending name (redelivery_running P body (clock 0) existing)], Inr True)
                 else
                   ([Write_pending name (redelivery_waiting P body (clock 0) (clock 1) existing)],
                    Inr True))
            | Inr None \<Rightarrow> ([Write_pending name (new_record P inp (clock 0))], Inr False))))"

record claimed =
  c_id :: jsval
  c_deploymentId :: jsval
  c_body :: bytes
  c_attempts :: int

definition due :: "jsval \<Rightarrow> int \<Rightarrow> bool" where
  "due v now = (get v ''state'' \<noteq> Str (js ''running'') \<and> the_int (get v ''nextAttemptAt'') \<le> now)"

definition running_record :: "jsval \<Rightarrow> int \<Rightarrow> jsval" where
  "running_record v now = spread v [(''state'', Str (js ''running'')),
     (''attempts'', JInt (the_int (get v ''attempts'') + 1)), (''updatedAt'', JInt now)]"

fun claim_loop :: "platform \<Rightarrow> int \<Rightarrow> jsstr list \<Rightarrow> disk \<Rightarrow> claimed option effectful" where
  "claim_loop P now [] d = ([], Inr None)"
| "claim_loop P now (name # names) d =
     (case readRecord P (pending_dir d) name of Inl e \<Rightarrow> ([], Inl e)
      | Inr v \<Rightarrow>
        if \<not> due v now then claim_loop P now names d
        else (let running = running_record v now in
          ([Write_pending name running],
           bindR (decodeBody P running) (\<lambda>body.
             Inr (Some \<lparr>c_id = get running ''id'', c_deploymentId = get running ''deploymentId'',
               c_body = body, c_attempts = the_int (get running ''attempts'')\<rparr>)))))"

definition fs_claim :: "platform \<Rightarrow> clock \<Rightarrow> disk \<Rightarrow> claimed option effectful" where
  "fs_claim P clock d = claim_loop P (clock 0) (jsonFiles (pending_dir d)) d"

definition valid_outcome :: "jsval \<Rightarrow> bool" where
  "valid_outcome outcome = (truthy outcome \<and>
     get outcome ''kind'' \<in> {Str (js ''terminal''), Str (js ''retry'')})"

text \<open>\<open>a ?? b\<close>.\<close>

definition coalesce :: "jsval \<Rightarrow> jsval \<Rightarrow> jsval" where
  "coalesce a b = (if nullish a then b else a)"

definition retry_record :: "jsval \<Rightarrow> int \<Rightarrow> jsval \<Rightarrow> clock \<Rightarrow> jsval" where
  "retry_record v retryDelayMs outcome clock = spread v [
     (''body'', coalesce (get v ''redeliveryBody'') (get v ''body'')),
     (''bodySha256'', coalesce (get v ''redeliveryBodySha256'') (get v ''bodySha256'')),
     (''redeliveryBody'', Undefined), (''redeliveryBodySha256'', Undefined),
     (''state'', Str (js ''retry'')),
     (''nextAttemptAt'', JInt (clock 0 + retryDelay retryDelayMs (the_int (get v ''attempts'')))),
     (''lastResult'', get outcome ''result''), (''updatedAt'', JInt (clock 1))]"

definition terminal_record :: "jsval \<Rightarrow> jsval \<Rightarrow> jsval \<Rightarrow> jsval" where
  "terminal_record v r u =
     spread v [(''state'', Str (js ''terminal'')), (''terminalResult'', r), (''updatedAt'', u)]"

definition fs_finish ::
    "platform \<Rightarrow> int \<Rightarrow> clock \<Rightarrow> jsval \<Rightarrow> jsval \<Rightarrow> disk \<Rightarrow> unit effectful" where
  "fs_finish P retryDelayMs clock jid outcome d =
     (if \<not> is_str jid \<or> the_str jid = [] \<or> \<not> valid_outcome outcome
      then ([], Inl (TypeError ''invalid compiler queue outcome''))
      else (let name = file_name P (the_str jid) in
        case readRecord P (pending_dir d) name of Inl e \<Rightarrow> ([], Inl e)
        | Inr v \<Rightarrow>
          if get v ''id'' \<noteq> jid \<or> get v ''state'' \<noteq> Str (js ''running'')
          then ([], Inl (PlainError ''compiler queue state conflict''))
          else if get outcome ''kind'' = Str (js ''terminal'')
          then ([Write_archive name (terminal_record v (get outcome ''result'') (JInt (clock 0))),
                 Remove_pending name], Inr ())
          else ([Write_pending name (retry_record v retryDelayMs outcome clock)], Inr ())))"

definition fs_counts :: "disk \<Rightarrow> nat \<times> nat" where
  "fs_counts d = (length (jsonFiles (pending_dir d)), length (jsonFiles (archive_dir d)))"

section \<open>The in-memory queue\<close>

record memory_record =
  m_id :: jsval
  m_deploymentId :: jsval
  m_jobFingerprint :: jsval
  m_body :: bytes
  m_redeliveryBody :: "bytes option"
  m_state :: string
  m_attempts :: int
  m_nextAttemptAt :: int
  m_result :: jsval

record memory_queue =
  mq_pending :: "(jsstr, memory_record) jsmap"
  mq_archive :: "(jsstr, memory_record) jsmap"

definition mem_initialize :: "memory_queue \<Rightarrow> memory_queue" where
  "mem_initialize q = q\<lparr>mq_pending := map (\<lambda>(k, r).
     (k, if m_state r = ''running'' then r\<lparr>m_state := ''pending''\<rparr> else r)) (mq_pending q)\<rparr>"

definition mem_identity :: "memory_record \<Rightarrow> jsval \<times> jsval \<times> jsval" where
  "mem_identity r = (m_id r, m_deploymentId r, m_jobFingerprint r)"

definition mem_enqueue :: "clock \<Rightarrow> enqueue_input \<Rightarrow> memory_queue \<Rightarrow> bool result \<times> memory_queue" where
  "mem_enqueue clock inp q =
     (case validateEnqueue inp of Inl e \<Rightarrow> (Inl e, q)
      | Inr _ \<Rightarrow>
        (let jid = the_str (in_id inp); body = the (in_body inp) in
         case map_of (mq_archive q) jid of
           Some archived \<Rightarrow>
             (bindR (assertSameIdentity (mem_identity archived) (input_identity inp)) (\<lambda>_. Inr True), q)
         | None \<Rightarrow>
           (case map_of (mq_pending q) jid of
              Some r \<Rightarrow>
                (case assertSameIdentity (mem_identity r) (input_identity inp) of
                   Inl e \<Rightarrow> (Inl e, q)
                 | Inr _ \<Rightarrow> (Inr True, q\<lparr>mq_pending := AList.update jid
                     (if m_state r = ''running'' then r\<lparr>m_redeliveryBody := Some body\<rparr>
                      else r\<lparr>m_body := body, m_state := ''pending'', m_nextAttemptAt := clock 0\<rparr>)
                     (mq_pending q)\<rparr>))
            | None \<Rightarrow> (Inr False, q\<lparr>mq_pending := AList.update jid
                \<lparr>m_id = in_id inp, m_deploymentId = in_deploymentId inp,
                 m_jobFingerprint = in_jobFingerprint inp, m_body = body, m_redeliveryBody = None,
                 m_state = ''pending'', m_attempts = 0, m_nextAttemptAt = clock 0,
                 m_result = Undefined\<rparr> (mq_pending q)\<rparr>))))"

text \<open>The first entry, in insertion order, that is due when the loop looks at it.\<close>

fun mem_claim_loop ::
    "clock \<Rightarrow> nat \<Rightarrow> (jsstr, memory_record) jsmap \<Rightarrow> (jsstr \<times> memory_record) option" where
  "mem_claim_loop clock i [] = None"
| "mem_claim_loop clock i ((k, r) # rs) =
     (if m_state r = ''running'' then mem_claim_loop clock i rs
      else if m_nextAttemptAt r > clock i then mem_claim_loop clock (Suc i) rs
      else Some (k, r))"

definition mem_claim :: "clock \<Rightarrow> memory_queue \<Rightarrow> claimed option \<times> memory_queue" where
  "mem_claim clock q =
     (case mem_claim_loop clock 0 (mq_pending q) of
        None \<Rightarrow> (None, q)
      | Some (k, r) \<Rightarrow>
          (Some \<lparr>c_id = m_id r, c_deploymentId = m_deploymentId r, c_body = m_body r,
             c_attempts = m_attempts r + 1\<rparr>,
           q\<lparr>mq_pending := AList.update k
               (r\<lparr>m_state := ''running'', m_attempts := m_attempts r + 1\<rparr>) (mq_pending q)\<rparr>))"

definition mem_finish ::
    "int \<Rightarrow> clock \<Rightarrow> jsstr \<Rightarrow> jsval \<Rightarrow> memory_queue \<Rightarrow> unit result \<times> memory_queue" where
  "mem_finish retryDelayMs clock jid outcome q =
     (case map_of (mq_pending q) jid of
        None \<Rightarrow> (Inl (PlainError ''compiler queue state conflict''), q)
      | Some r \<Rightarrow>
        if m_state r \<noteq> ''running'' then (Inl (PlainError ''compiler queue state conflict''), q)
        else if get outcome ''kind'' = Str (js ''terminal'') then
          (Inr (), q\<lparr>mq_pending := AList.delete jid (mq_pending q),
             mq_archive := AList.update jid
               (r\<lparr>m_state := ''terminal'', m_result := get outcome ''result''\<rparr>) (mq_archive q)\<rparr>)
        else
          (Inr (), q\<lparr>mq_pending := AList.update jid
             (r\<lparr>m_body := (case m_redeliveryBody r of None \<Rightarrow> m_body r | Some b \<Rightarrow> b),
               m_redeliveryBody := None, m_state := ''retry'',
               m_nextAttemptAt := clock 0 + retryDelay retryDelayMs (m_attempts r),
               m_result := get outcome ''result''\<rparr>) (mq_pending q)\<rparr>))"

definition mem_counts :: "memory_queue \<Rightarrow> nat \<times> nat" where
  "mem_counts q = (length (mq_pending q), length (mq_archive q))"

end
