(* ===== verification/Queue_Spec.thy ===== *)
theory Queue_Spec
  imports Job_Queue
begin

text \<open>
  What a compiler job queue promises, as an abstract queue of jobs under keys, and the
  interface locale that both implementations meet. The lemmas about whole sequences of
  operations are proved once, in the locale.
\<close>

section \<open>Abstract jobs\<close>

datatype job_status = Pending | Running | Retrying | Terminal

record job =
  job_identity :: "jsval \<times> jsval \<times> jsval"
  job_body :: bytes
  job_redelivery :: "bytes option"
  job_status :: job_status
  job_attempts :: int
  job_due :: int

record 'k queue =
  waiting :: "'k \<rightharpoonup> job"
  finished :: "'k \<rightharpoonup> job"

definition job_input :: "enqueue_input \<Rightarrow> int \<Rightarrow> job" where
  "job_input inp now = \<lparr>job_identity = input_identity inp, job_body = the (in_body inp),
     job_redelivery = None, job_status = Pending, job_attempts = 0, job_due = now\<rparr>"

definition redeliver :: "bytes \<Rightarrow> int \<Rightarrow> job \<Rightarrow> job" where
  "redeliver body now j = (if job_status j = Running then j\<lparr>job_redelivery := Some body\<rparr>
     else j\<lparr>job_body := body, job_status := Pending, job_due := now\<rparr>)"

definition spec_enqueue ::
    "(jsstr \<Rightarrow> 'k) \<Rightarrow> enqueue_input \<Rightarrow> int \<Rightarrow> 'k queue \<Rightarrow> bool result \<times> 'k queue" where
  "spec_enqueue key inp now q =
     (case validateEnqueue inp of Inl e \<Rightarrow> (Inl e, q)
      | Inr _ \<Rightarrow> (let k = key (the_str (in_id inp)) in
        case finished q k of
          Some j \<Rightarrow> (if job_identity j = input_identity inp then Inr True else Inl conflict, q)
        | None \<Rightarrow>
          (case waiting q k of
             Some j \<Rightarrow> if job_identity j \<noteq> input_identity inp then (Inl conflict, q)
               else (Inr True, q\<lparr>waiting := (waiting q)(k \<mapsto> redeliver (the (in_body inp)) now j)\<rparr>)
           | None \<Rightarrow> (Inr False, q\<lparr>waiting := (waiting q)(k \<mapsto> job_input inp now)\<rparr>))))"

definition claimable :: "int \<Rightarrow> job \<Rightarrow> bool" where
  "claimable now j = (job_status j \<noteq> Running \<and> job_due j \<le> now)"

definition started :: "job \<Rightarrow> job" where
  "started j = j\<lparr>job_status := Running, job_attempts := job_attempts j + 1\<rparr>"

definition claim_of :: "job \<Rightarrow> claimed" where
  "claim_of j = \<lparr>c_id = fst (job_identity j), c_deploymentId = fst (snd (job_identity j)),
     c_body = job_body j, c_attempts = job_attempts j + 1\<rparr>"

text \<open>A claim starts some claimable job, or finds that there is none.\<close>

definition spec_claim ::
    "int \<Rightarrow> 'k queue \<Rightarrow> claimed option \<Rightarrow> 'k queue \<Rightarrow> bool" where
  "spec_claim now q answer q' =
     (case answer of
        None \<Rightarrow> q' = q \<and> (\<forall>k j. waiting q k = Some j \<longrightarrow> \<not> claimable now j)
      | Some c \<Rightarrow> \<exists>k j. waiting q k = Some j \<and> claimable now j \<and> c = claim_of j \<and>
          q' = q\<lparr>waiting := (waiting q)(k \<mapsto> started j)\<rparr>)"

definition rescheduled :: "int \<Rightarrow> int \<Rightarrow> job \<Rightarrow> job" where
  "rescheduled delay now j = j\<lparr>
     job_body := (case job_redelivery j of None \<Rightarrow> job_body j | Some b \<Rightarrow> b),
     job_redelivery := None, job_status := Retrying,
     job_due := now + retryDelay delay (job_attempts j)\<rparr>"

definition spec_finish ::
    "(jsstr \<Rightarrow> 'k) \<Rightarrow> int \<Rightarrow> jsstr \<Rightarrow> bool \<Rightarrow> int \<Rightarrow> 'k queue \<Rightarrow> 'k queue option" where
  "spec_finish key delay jid terminal now q =
     (let k = key jid in
      case waiting q k of None \<Rightarrow> None
      | Some j \<Rightarrow>
        if fst (job_identity j) \<noteq> Str jid \<or> job_status j \<noteq> Running then None
        else Some (if terminal
          then q\<lparr>finished := (finished q)(k \<mapsto> j\<lparr>job_status := Terminal\<rparr>), waiting := (waiting q)(k := None)\<rparr>
          else q\<lparr>waiting := (waiting q)(k \<mapsto> rescheduled delay now j)\<rparr>))"

definition is_terminal :: "jsval \<Rightarrow> bool" where
  "is_terminal outcome = (get outcome ''kind'' = Str (js ''terminal''))"

text \<open>The clock stays where the sums with a delay are exact.\<close>

definition clock_ok :: "int \<Rightarrow> bool" where
  "clock_ok now = (0 \<le> now \<and> now + 300000 \<le> max_safe_integer)"

text \<open>No job is waiting and finished.\<close>

definition separate :: "'k queue \<Rightarrow> bool" where
  "separate q = (\<forall>k. waiting q k \<noteq> None \<longrightarrow> finished q k = None)"

lemma spec_enqueue_separate: "separate q \<Longrightarrow> separate (snd (spec_enqueue key inp now q))"
  by (auto simp: spec_enqueue_def separate_def Let_def split: sum.splits option.splits)

lemma spec_claim_separate: "spec_claim now q answer q' \<Longrightarrow> separate q \<Longrightarrow> separate q'"
  by (auto simp: spec_claim_def separate_def split: option.splits if_splits)

lemma spec_finish_separate:
  "spec_finish key delay jid t now q = Some q' \<Longrightarrow> separate q \<Longrightarrow> separate q'"
  by (auto simp: spec_finish_def separate_def Let_def split: option.splits if_splits)

section \<open>The interface\<close>

text \<open>
  The invariant carries a bound on the attempts of every job; each claim raises it by one.
\<close>

locale job_queue =
  fixes key :: "jsstr \<Rightarrow> 'k"
    and delay :: int
    and view :: "'s \<Rightarrow> 'k queue"
    and inv :: "nat \<Rightarrow> 's \<Rightarrow> bool"
    and enqueue :: "int \<Rightarrow> enqueue_input \<Rightarrow> 's \<Rightarrow> bool result \<times> 's"
    and claim :: "int \<Rightarrow> 's \<Rightarrow> claimed option result \<times> 's"
    and finish :: "int \<Rightarrow> jsstr \<Rightarrow> jsval \<Rightarrow> 's \<Rightarrow> unit result \<times> 's"
  assumes inv_separate: "inv n s \<Longrightarrow> separate (view s)"
    and inv_finished: "inv n s \<Longrightarrow> finished (view s) k = Some j \<Longrightarrow> job_status j = Terminal"
    and enqueue_inv: "inv n s \<Longrightarrow> clock_ok now \<Longrightarrow> inv n (snd (enqueue now inp s))"
    and enqueue_refines: "inv n s \<Longrightarrow> clock_ok now \<Longrightarrow>
        (fst (enqueue now inp s), view (snd (enqueue now inp s))) = spec_enqueue key inp now (view s)"
    and claim_inv: "inv n s \<Longrightarrow> clock_ok now \<Longrightarrow> int n < max_safe_integer \<Longrightarrow>
        inv (Suc n) (snd (claim now s))"
    and claim_refines: "inv n s \<Longrightarrow> clock_ok now \<Longrightarrow> int n < max_safe_integer \<Longrightarrow>
        \<exists>answer. fst (claim now s) = Inr answer \<and>
          spec_claim now (view s) answer (view (snd (claim now s)))"
    and finish_inv: "inv n s \<Longrightarrow> clock_ok now \<Longrightarrow> jid \<noteq> [] \<Longrightarrow> valid_outcome outcome \<Longrightarrow>
        inv n (snd (finish now jid outcome s))"
    and finish_refines: "inv n s \<Longrightarrow> clock_ok now \<Longrightarrow> jid \<noteq> [] \<Longrightarrow> valid_outcome outcome \<Longrightarrow>
        (case spec_finish key delay jid (is_terminal outcome) now (view s) of
           None \<Rightarrow> (\<exists>e. fst (finish now jid outcome s) = Inl e) \<and>
             view (snd (finish now jid outcome s)) = view s
         | Some q \<Rightarrow> fst (finish now jid outcome s) = Inr () \<and>
             view (snd (finish now jid outcome s)) = q)"

section \<open>Sequences of operations\<close>

datatype queue_op =
    Enqueue int enqueue_input
  | Claim int
  | Finish int jsstr jsval

fun op_ok :: "queue_op \<Rightarrow> bool" where
  "op_ok (Enqueue now inp) = clock_ok now"
| "op_ok (Claim now) = clock_ok now"
| "op_ok (Finish now jid outcome) = (clock_ok now \<and> jid \<noteq> [] \<and> valid_outcome outcome)"

text \<open>The identity under a key, and that a step forgets no job, changes no identity and
  reopens no finished job.\<close>

definition identity_of :: "'k queue \<Rightarrow> 'k \<Rightarrow> (jsval \<times> jsval \<times> jsval) option" where
  "identity_of q k = map_option job_identity (case finished q k of None \<Rightarrow> waiting q k | Some j \<Rightarrow> Some j)"

definition preserves :: "'k queue \<Rightarrow> 'k queue \<Rightarrow> bool" where
  "preserves q q' = ((\<forall>k. identity_of q k \<noteq> None \<longrightarrow> identity_of q' k = identity_of q k) \<and>
     dom (finished q) \<subseteq> dom (finished q'))"

lemma preserves_refl [simp]: "preserves q q"
  by (simp add: preserves_def)

lemma preserves_trans: "preserves q q' \<Longrightarrow> preserves q' q'' \<Longrightarrow> preserves q q''"
  unfolding preserves_def by (metis order_trans)

lemma preservesI:
  assumes "\<And>x. identity_of q x \<noteq> None \<Longrightarrow> identity_of q' x = identity_of q x"
    and "\<And>x. finished q x \<noteq> None \<Longrightarrow> finished q' x \<noteq> None"
  shows "preserves q q'"
  using assms by (simp add: preserves_def subset_iff domIff)

lemma preserves_waiting:
  assumes "\<And>j. waiting q k = Some j \<Longrightarrow> job_identity j = job_identity j'"
  shows "preserves q (q\<lparr>waiting := (waiting q)(k \<mapsto> j')\<rparr>)"
proof (rule preservesI)
  fix x assume "identity_of q x \<noteq> None"
  then obtain j where j: "finished q x = None \<Longrightarrow> waiting q x = Some j"
    by (cases "waiting q x") (auto simp: identity_of_def split: option.splits)
  show "identity_of (q\<lparr>waiting := (waiting q)(k \<mapsto> j')\<rparr>) x = identity_of q x"
  proof (cases "x = k \<and> finished q x = None")
    case True
    with j assms [of j] show ?thesis by (auto simp: identity_of_def)
  qed (auto simp: identity_of_def split: option.splits)
qed simp

lemma preserves_finished:
  assumes "\<And>j. waiting q k = Some j \<Longrightarrow> job_identity j = job_identity j'"
    and "\<And>j. finished q k = Some j \<Longrightarrow> job_identity j = job_identity j'"
  shows "preserves q (q\<lparr>finished := (finished q)(k \<mapsto> j')\<rparr>)"
proof (rule preservesI)
  fix x assume "identity_of q x \<noteq> None"
  then obtain j where j: "(case finished q x of None \<Rightarrow> waiting q x | Some j \<Rightarrow> Some j) = Some j"
    by (auto simp: identity_of_def)
  show "identity_of (q\<lparr>finished := (finished q)(k \<mapsto> j')\<rparr>) x = identity_of q x"
  proof (cases "x = k")
    case True
    with j have "job_identity j = job_identity j'"
      using assms(1) [of j] assms(2) [of j] by (auto split: option.splits)
    with True j show ?thesis by (auto simp: identity_of_def)
  qed (simp add: identity_of_def split: option.splits)
qed simp

lemma preserves_remove:
  assumes "finished q k \<noteq> None"
  shows "preserves q (q\<lparr>waiting := (waiting q)(k := None)\<rparr>)"
proof (rule preservesI)
  fix x assume "identity_of q x \<noteq> None"
  then show "identity_of (q\<lparr>waiting := (waiting q)(k := None)\<rparr>) x = identity_of q x"
    using assms by (cases "finished q x"; cases "x = k") (simp_all add: identity_of_def)
qed simp

lemma redeliver_identity [simp]: "job_identity (redeliver body now j) = job_identity j"
  by (simp add: redeliver_def)

lemma started_identity [simp]: "job_identity (started j) = job_identity j"
  by (simp add: started_def)

lemma rescheduled_identity [simp]: "job_identity (rescheduled delay now j) = job_identity j"
  by (simp add: rescheduled_def)

lemma spec_enqueue_preserves: "preserves q (snd (spec_enqueue key inp now q))"
  by (auto simp: spec_enqueue_def Let_def intro!: preserves_waiting split: sum.splits option.splits)

lemma spec_claim_preserves: "spec_claim now q answer q' \<Longrightarrow> preserves q q'"
  by (auto simp: spec_claim_def intro!: preserves_waiting split: option.splits)

lemma spec_finish_preserves:
  assumes "spec_finish key delay jid t now q = Some q'" and "separate q"
  shows "preserves q q'"
proof -
  let ?k = "key jid"
  obtain j where j: "waiting q ?k = Some j" using assms(1)
    by (auto simp: spec_finish_def Let_def split: option.splits)
  let ?a = "q\<lparr>finished := (finished q)(?k \<mapsto> j\<lparr>job_status := Terminal\<rparr>)\<rparr>"
  have "preserves q ?a"
    by (rule preserves_finished) (use j assms(2) in \<open>auto simp: separate_def\<close>)
  moreover have "preserves ?a (?a\<lparr>waiting := (waiting ?a)(?k := None)\<rparr>)"
    by (intro preserves_remove) simp
  ultimately have "preserves q (?a\<lparr>waiting := (waiting ?a)(?k := None)\<rparr>)" by (rule preserves_trans)
  moreover have "preserves q (q\<lparr>waiting := (waiting q)(?k \<mapsto> rescheduled delay now j)\<rparr>)"
    using j by (intro preserves_waiting) simp
  ultimately show ?thesis
    using assms(1) j by (auto simp: spec_finish_def Let_def split: if_splits)
qed

context job_queue
begin

fun exec :: "queue_op \<Rightarrow> 's \<Rightarrow> claimed option \<times> 's" where
  "exec (Enqueue now inp) s = (None, snd (enqueue now inp s))"
| "exec (Claim now) s = (case fst (claim now s) of Inr (Some c) \<Rightarrow> Some c | _ \<Rightarrow> None, snd (claim now s))"
| "exec (Finish now jid outcome) s = (None, snd (finish now jid outcome s))"

fun run :: "queue_op list \<Rightarrow> 's \<Rightarrow> 's" where
  "run [] s = s"
| "run (x # xs) s = run xs (snd (exec x s))"

lemma exec_inv:
  assumes "inv n s" and "op_ok x" and "int n < max_safe_integer"
  shows "\<exists>m \<le> Suc n. inv m (snd (exec x s))"
proof (cases x)
  case (Claim now)
  with assms show ?thesis using claim_inv by (intro exI [of _ "Suc n"]) auto
qed (use assms enqueue_inv finish_inv in \<open>auto intro!: exI [of _ n]\<close>)

lemma exec_preserves:
  assumes "inv n s" and "op_ok x" and "int n < max_safe_integer"
  shows "preserves (view s) (view (snd (exec x s)))"
proof (cases x)
  case (Enqueue now inp)
  with assms have "view (snd (enqueue now inp s)) = snd (spec_enqueue key inp now (view s))"
    using enqueue_refines [of n s now inp] by (metis op_ok.simps(1) snd_conv)
  with Enqueue spec_enqueue_preserves [of "view s" key inp now] show ?thesis by simp
next
  case (Claim now)
  with assms claim_refines [of n s now] spec_claim_preserves show ?thesis by fastforce
next
  case (Finish now jid outcome)
  let ?spec = "spec_finish key delay jid (is_terminal outcome) now (view s)"
  show ?thesis
  proof (cases ?spec)
    case None
    with Finish assms finish_refines [of n s now jid outcome] show ?thesis by simp
  next
    case (Some q)
    then have "preserves (view s) q"
      by (rule spec_finish_preserves) (rule inv_separate [OF assms(1)])
    with Some Finish assms finish_refines [of n s now jid outcome] show ?thesis by simp
  qed
qed

lemma run_inv:
  assumes "inv n s" and "list_all op_ok xs" and "int (n + length xs) \<le> max_safe_integer"
  shows "\<exists>m \<le> n + length xs. inv m (run xs s)"
  using assms
proof (induction xs arbitrary: n s)
  case (Cons x xs)
  then obtain m where "m \<le> Suc n" "inv m (snd (exec x s))" using exec_inv [of n s x] by auto
  with Cons.IH [of m "snd (exec x s)"] Cons.prems obtain m' where
    "m' \<le> m + length xs" "inv m' (run xs (snd (exec x s)))" by auto
  with \<open>m \<le> Suc n\<close> show ?case by (intro exI [of _ m']) simp
qed auto

lemma run_preserves:
  assumes "inv n s" and "list_all op_ok xs" and "int (n + length xs) \<le> max_safe_integer"
  shows "preserves (view s) (view (run xs s))"
  using assms
proof (induction xs arbitrary: n s)
  case (Cons x xs)
  then obtain m where m: "m \<le> Suc n" "inv m (snd (exec x s))" using exec_inv [of n s x] by auto
  have "preserves (view s) (view (snd (exec x s)))"
    using Cons.prems by (intro exec_preserves) auto
  moreover have "preserves (view (snd (exec x s))) (view (run xs (snd (exec x s))))"
    using m Cons.prems by (intro Cons.IH [of m]) auto
  ultimately show ?case unfolding run.simps by (rule preserves_trans)
qed simp

text \<open>What a claim hands out was waiting, was not running, and is not finished.\<close>

lemma claim_fresh:
  assumes "inv n s" and "clock_ok now" and "int n < max_safe_integer"
    and "fst (claim now s) = Inr (Some c)"
  shows "\<exists>k j. waiting (view s) k = Some j \<and> finished (view s) k = None \<and> job_status j \<noteq> Running \<and>
    c = claim_of j \<and> waiting (view (snd (claim now s))) k = Some (started j)"
proof -
  from claim_refines [OF assms(1-3)] assms(4) obtain k j where
    kj: "waiting (view s) k = Some j" "claimable now j" "c = claim_of j"
      "view (snd (claim now s)) = view s\<lparr>waiting := (waiting (view s))(k \<mapsto> started j)\<rparr>"
    by (auto simp: spec_claim_def)
  moreover have "finished (view s) k = None"
    using inv_separate [OF assms(1)] kj(1) by (auto simp: separate_def)
  ultimately show ?thesis
    by (intro exI [of _ k] exI [of _ j]) (auto simp: claimable_def)
qed

text \<open>A finished job is never handed out again, whatever happens in between.\<close>

lemma finished_never_claimed:
  assumes "inv n s" and "list_all op_ok xs" and "int (n + length xs) < max_safe_integer"
    and "finished (view s) k \<noteq> None" and "clock_ok now"
    and "fst (claim now (run xs s)) = Inr (Some c)"
  shows "\<exists>k' j. k' \<noteq> k \<and> waiting (view (run xs s)) k' = Some j \<and> c = claim_of j"
proof -
  obtain m where m: "m \<le> n + length xs" "inv m (run xs s)"
    using run_inv [OF assms(1,2)] assms(3) by auto
  have "preserves (view s) (view (run xs s))"
    using run_preserves [OF assms(1,2)] assms(3) by simp
  with assms(4) have "finished (view (run xs s)) k \<noteq> None" by (auto simp: preserves_def)
  moreover from claim_fresh [OF m(2) assms(5) _ assms(6)] m(1) assms(3) obtain k' j where
    "waiting (view (run xs s)) k' = Some j" "finished (view (run xs s)) k' = None" "c = claim_of j"
    by auto
  ultimately show ?thesis by metis
qed

end

end
