(* ===== verification/Queue_Documents.thy ===== *)
theory Queue_Documents
  imports Queue_Spec
begin

text \<open>
  The JSON documents of the filesystem queue: which ones \<open>readRecord\<close> accepts, the
  abstract job a document stands for, and the job of every document an operation writes.
\<close>

section \<open>Reading fields\<close>

lemma map_of_foldl_update:
  "map_of (foldl (\<lambda>m (k, v). AList.update (js k) v m) ps us) (js k) =
    (case map_of (rev us) k of Some x \<Rightarrow> Some x | None \<Rightarrow> map_of ps (js k))"
  by (induction us rule: rev_induct) (auto split: option.splits)

lemma get_spread [simp]:
  "get (spread v us) k = (case map_of (rev us) k of Some x \<Rightarrow> x | None \<Rightarrow> get v k)"
  by (cases v) (auto simp: map_of_foldl_update split: option.splits)

lemma map_of_filter_key:
  "map_of (filter (\<lambda>(k, _). Q k) ps) k = (if Q k then map_of ps k else None)"
  by (induction ps) auto

lemma get_stored [simp]: "get (stored v) k = get v k"
proof (cases v)
  case (Obj ps)
  have "(\<lambda>(k, _). map_of ps k \<noteq> Some Undefined) = (\<lambda>(k, _). (\<lambda>k. map_of ps k \<noteq> Some Undefined) k)"
    by simp
  then show ?thesis
    using Obj map_of_filter_key [of "\<lambda>k. map_of ps k \<noteq> Some Undefined" ps "js k"]
    by (auto split: option.splits)
qed auto

lemma truthy_stored [simp]: "truthy (stored v) = truthy v"
  by (cases v) auto

lemma truthy_spread [simp]: "truthy (spread v us)"
  by (cases v) auto

lemma is_str_Str: "is_str v \<longleftrightarrow> (\<exists>s. v = Str s)"
  by (cases v) auto

section \<open>Valid documents\<close>

definition valid_doc :: "platform \<Rightarrow> jsval \<Rightarrow> bool" where
  "valid_doc P v = (record_fields_ok v \<and> (\<exists>b. decodeBody P v = Inr b) \<and> check_redelivery P v = Inr ())"

lemma readRecord_iff:
  "readRecord P dir name = Inr v \<longleftrightarrow> map_of dir name = Some (Document v) \<and> valid_doc P v"
  by (auto simp: readRecord_def valid_doc_def result_simps split: option.splits json_file.splits)

lemma readRecord_absent: "readRecord P dir name = Inl (IoError ''ENOENT'') \<longleftrightarrow> map_of dir name = None"
  by (auto simp: readRecord_def decodeBody_def check_redelivery_def result_simps Let_def
      split: option.splits json_file.splits if_splits)

lemma readRecordIfPresent_Some:
  "map_of dir name = Some (Document v) \<Longrightarrow> valid_doc P v \<Longrightarrow>
    readRecordIfPresent P dir name = Inr (Some v)"
  using readRecord_iff [of P dir name v] by (simp add: readRecordIfPresent_def)

lemma readRecordIfPresent_None:
  "map_of dir name = None \<Longrightarrow> readRecordIfPresent P dir name = Inr None"
  using readRecord_absent [of P dir name] by (simp add: readRecordIfPresent_def)

text \<open>The conditions of validity, in terms of the fields.\<close>

lemma valid_doc_fields:
  "valid_doc P v \<longleftrightarrow> truthy v \<and> get v ''schemaVersion'' = JInt 1 \<and> is_str (get v ''id'') \<and>
     is_str (get v ''deploymentId'') \<and> is_str (get v ''jobFingerprint'') \<and> is_str (get v ''body'') \<and>
     get v ''bodySha256'' = Str (sha256 P (base64_decode P (the_str (get v ''body'')))) \<and>
     get v ''state'' \<in> set record_states \<and> isSafeInteger (get v ''attempts'') \<and>
     isSafeInteger (get v ''nextAttemptAt'') \<and>
     (get v ''redeliveryBody'' = Undefined \<and> get v ''redeliveryBodySha256'' = Undefined \<or>
      is_str (get v ''redeliveryBody'') \<and> get v ''redeliveryBodySha256'' =
        Str (sha256 P (base64_decode P (the_str (get v ''redeliveryBody'')))))"
  by (auto simp: valid_doc_def record_fields_ok_def decodeBody_def check_redelivery_def Let_def
      split: if_splits) (metis is_str.simps(1))+

definition doc_status :: "jsval \<Rightarrow> job_status" where
  "doc_status v = (if get v ''state'' = Str (js ''pending'') then Pending
     else if get v ''state'' = Str (js ''running'') then Running
     else if get v ''state'' = Str (js ''retry'') then Retrying else Terminal)"

definition doc_job :: "platform \<Rightarrow> jsval \<Rightarrow> job" where
  "doc_job P v = \<lparr>job_identity = doc_identity v,
     job_body = base64_decode P (the_str (get v ''body'')),
     job_redelivery = (if get v ''redeliveryBody'' = Undefined then None
        else Some (base64_decode P (the_str (get v ''redeliveryBody'')))),
     job_status = doc_status v, job_attempts = the_int (get v ''attempts''),
     job_due = the_int (get v ''nextAttemptAt'')\<rparr>"

lemma doc_running: "doc_status v = Running \<longleftrightarrow> get v ''state'' = Str (js ''running'')"
  by (auto simp: doc_status_def)

lemma doc_terminal: "valid_doc P v \<Longrightarrow> doc_status v = Terminal \<longleftrightarrow> get v ''state'' = Str (js ''terminal'')"
  by (auto simp: valid_doc_fields record_states_def doc_status_def)

lemma doc_due: "due v now = claimable now (doc_job P v)"
  by (simp add: due_def claimable_def doc_job_def doc_running)

section \<open>Written documents\<close>

lemma safe_clock: "clock_ok now \<Longrightarrow> isSafeInteger (JInt now)"
  by (simp add: clock_ok_def)

lemma retryDelay_bounds: "0 \<le> base \<Longrightarrow> 0 \<le> retryDelay base n \<and> retryDelay base n \<le> 300000"
  by (simp add: retryDelay_def)

text \<open>A document is read through the fields that \<open>readRecord\<close> and the view look at.\<close>

definition fields :: "jsval \<Rightarrow> jsval list" where
  "fields v = map (get v) [''schemaVersion'', ''id'', ''deploymentId'', ''jobFingerprint'', ''body'',
     ''bodySha256'', ''state'', ''attempts'', ''nextAttemptAt'', ''redeliveryBody'',
     ''redeliveryBodySha256'']"

lemma fields_get:
  assumes "fields w = [a, b, c, d, e, f, g, h, i, j, k]"
  shows "get w ''schemaVersion'' = a" "get w ''id'' = b" "get w ''deploymentId'' = c"
    "get w ''jobFingerprint'' = d" "get w ''body'' = e" "get w ''bodySha256'' = f"
    "get w ''state'' = g" "get w ''attempts'' = h" "get w ''nextAttemptAt'' = i"
    "get w ''redeliveryBody'' = j" "get w ''redeliveryBodySha256'' = k"
  using assms by (simp_all add: fields_def)

lemma fields_stored [simp]: "fields (stored v) = fields v"
  by (simp add: fields_def)

lemma new_record_fields:
  "fields (new_record P inp now) = [JInt 1, in_id inp, in_deploymentId inp, in_jobFingerprint inp,
     encoded_body P (the (in_body inp)), body_digest P (the (in_body inp)), Str (js ''pending''),
     JInt 0, JInt now, Undefined, Undefined]"
  unfolding fields_def new_record_def by simp

lemma redelivery_running_fields:
  "fields (redelivery_running P body now v) = [get v ''schemaVersion'', get v ''id'',
     get v ''deploymentId'', get v ''jobFingerprint'', get v ''body'', get v ''bodySha256'',
     get v ''state'', get v ''attempts'', get v ''nextAttemptAt'', encoded_body P body,
     body_digest P body]"
  unfolding fields_def redelivery_running_def by simp

lemma redelivery_waiting_fields:
  "fields (redelivery_waiting P body now now' v) = [get v ''schemaVersion'', get v ''id'',
     get v ''deploymentId'', get v ''jobFingerprint'', encoded_body P body, body_digest P body,
     Str (js ''pending''), get v ''attempts'', JInt now, get v ''redeliveryBody'',
     get v ''redeliveryBodySha256'']"
  unfolding fields_def redelivery_waiting_def by simp

lemma running_record_fields:
  "fields (running_record v now) = [get v ''schemaVersion'', get v ''id'',
     get v ''deploymentId'', get v ''jobFingerprint'', get v ''body'', get v ''bodySha256'',
     Str (js ''running''), JInt (the_int (get v ''attempts'') + 1), get v ''nextAttemptAt'',
     get v ''redeliveryBody'', get v ''redeliveryBodySha256'']"
  unfolding fields_def running_record_def by simp

lemma retry_record_fields:
  "fields (retry_record v delay outcome clock) = [get v ''schemaVersion'', get v ''id'',
     get v ''deploymentId'', get v ''jobFingerprint'',
     coalesce (get v ''redeliveryBody'') (get v ''body''),
     coalesce (get v ''redeliveryBodySha256'') (get v ''bodySha256''), Str (js ''retry''),
     get v ''attempts'', JInt (clock 0 + retryDelay delay (the_int (get v ''attempts''))),
     Undefined, Undefined]"
  unfolding fields_def retry_record_def by simp

lemma terminal_record_fields:
  "fields (terminal_record v r u) = [get v ''schemaVersion'', get v ''id'',
     get v ''deploymentId'', get v ''jobFingerprint'', get v ''body'', get v ''bodySha256'',
     Str (js ''terminal''), get v ''attempts'', get v ''nextAttemptAt'', get v ''redeliveryBody'',
     get v ''redeliveryBodySha256'']"
  unfolding fields_def terminal_record_def by simp

lemma recovered_record_fields:
  "fields (recovered_record v u) = [get v ''schemaVersion'', get v ''id'',
     get v ''deploymentId'', get v ''jobFingerprint'', get v ''body'', get v ''bodySha256'',
     Str (js ''pending''), get v ''attempts'', get v ''nextAttemptAt'', get v ''redeliveryBody'',
     get v ''redeliveryBodySha256'']"
  unfolding fields_def recovered_record_def by simp

lemma written_truthy [simp]:
  "truthy (redelivery_running P body now v)" "truthy (redelivery_waiting P body now now' v)"
  "truthy (running_record v now)" "truthy (retry_record v delay outcome clock)"
  "truthy (terminal_record v r u)" "truthy (recovered_record v u)"
  by (simp_all add: redelivery_running_def redelivery_waiting_def running_record_def
      retry_record_def terminal_record_def recovered_record_def)


lemma new_record_doc:
  assumes "validateEnqueue inp = Inr ()" and "clock_ok now" and "base64_ok P"
  shows "valid_doc P (stored (new_record P inp now))"
    and "doc_job P (stored (new_record P inp now)) = job_input inp now"
proof -
  have str: "is_str (in_id inp)" "is_str (in_deploymentId inp)" "is_str (in_jobFingerprint inp)"
    using assms(1) by (simp_all add: validateEnqueue_def result_simps)
  have w: "truthy (stored (new_record P inp now))" by (simp add: new_record_def)
  note f = fields_get [OF trans [OF fields_stored new_record_fields], of P inp now]
  show "valid_doc P (stored (new_record P inp now))"
    unfolding valid_doc_fields f
    using str w assms(3) safe_clock [OF assms(2)]
    by (simp add: encoded_body_def body_digest_def record_states_def base64_ok_def max_safe_integer_def)
  show "doc_job P (stored (new_record P inp now)) = job_input inp now"
    unfolding doc_job_def doc_identity_def doc_status_def f
    using assms(3) by (simp add: job_input_def input_identity_def encoded_body_def base64_ok_def)
qed

lemma redelivery_running_doc:
  assumes "valid_doc P v" and "doc_status v = Running" and "base64_ok P"
  shows "valid_doc P (stored (redelivery_running P body now v))"
    and "doc_job P (stored (redelivery_running P body now v)) = redeliver body now' (doc_job P v)"
proof -
  note f = fields_get [OF trans [OF fields_stored redelivery_running_fields], of P body now v]
  show "valid_doc P (stored (redelivery_running P body now v))"
    using assms(1,3) unfolding valid_doc_fields f
    by (simp add: encoded_body_def body_digest_def base64_ok_def)
  show "doc_job P (stored (redelivery_running P body now v)) = redeliver body now' (doc_job P v)"
    using assms(2,3) unfolding doc_job_def doc_identity_def doc_status_def f
    by (simp add: redeliver_def encoded_body_def base64_ok_def split: if_splits)
qed

lemma redelivery_waiting_doc:
  assumes "valid_doc P v" and "doc_status v \<noteq> Running" and "base64_ok P" and "clock_ok now"
  shows "valid_doc P (stored (redelivery_waiting P body now now' v))"
    and "doc_job P (stored (redelivery_waiting P body now now' v)) = redeliver body now (doc_job P v)"
proof -
  note f = fields_get [OF trans [OF fields_stored redelivery_waiting_fields], of P body now now' v]
  show "valid_doc P (stored (redelivery_waiting P body now now' v))"
    using assms(1,3) safe_clock [OF assms(4)] unfolding valid_doc_fields f
    by (simp add: encoded_body_def body_digest_def base64_ok_def record_states_def)
  show "doc_job P (stored (redelivery_waiting P body now now' v)) = redeliver body now (doc_job P v)"
    using assms(2,3) unfolding doc_job_def doc_identity_def doc_status_def f
    by (simp add: redeliver_def encoded_body_def base64_ok_def)
qed

lemma running_record_doc:
  assumes "valid_doc P v" and "0 \<le> the_int (get v ''attempts'')"
    and "the_int (get v ''attempts'') < max_safe_integer"
  shows "valid_doc P (stored (running_record v now))"
    and "doc_job P (stored (running_record v now)) = started (doc_job P v)"
proof -
  note f = fields_get [OF trans [OF fields_stored running_record_fields], of v now]
  have "isSafeInteger (JInt (the_int (get v ''attempts'') + 1))" using assms(2,3) by simp
  then show "valid_doc P (stored (running_record v now))"
    using assms(1) unfolding valid_doc_fields f
    by (simp add: record_states_def del: isSafeInteger.simps isSafeInteger_Int)
  show "doc_job P (stored (running_record v now)) = started (doc_job P v)"
    unfolding doc_job_def doc_identity_def doc_status_def f by (simp add: started_def)
qed

lemma retry_record_doc:
  assumes "valid_doc P v" and "clock_ok (clock 0)" and "0 \<le> delay"
  shows "valid_doc P (stored (retry_record v delay outcome clock))"
    and "doc_job P (stored (retry_record v delay outcome clock)) = rescheduled delay (clock 0) (doc_job P v)"
proof -
  note f = fields_get [OF trans [OF fields_stored retry_record_fields], of v delay outcome clock]
  have safe: "isSafeInteger (JInt (clock 0 + retryDelay delay (the_int (get v ''attempts''))))"
    using assms(2) retryDelay_bounds [OF assms(3), of "the_int (get v ''attempts'')"]
    by (simp add: clock_ok_def)
  have r: "get v ''redeliveryBody'' = Undefined \<and> get v ''redeliveryBodySha256'' = Undefined \<or>
      (\<exists>s. get v ''redeliveryBody'' = Str s \<and>
        get v ''redeliveryBodySha256'' = Str (sha256 P (base64_decode P s)))"
    using assms(1) by (auto simp: valid_doc_fields is_str_Str)
  then show "valid_doc P (stored (retry_record v delay outcome clock))"
    using assms(1) safe unfolding valid_doc_fields f
    by (auto simp: record_states_def coalesce_def nullish_def simp del: isSafeInteger.simps isSafeInteger_Int)
  show "doc_job P (stored (retry_record v delay outcome clock)) = rescheduled delay (clock 0) (doc_job P v)"
    using r unfolding doc_job_def doc_identity_def doc_status_def f
    by (auto simp: rescheduled_def coalesce_def nullish_def)
qed

lemma terminal_record_doc:
  assumes "valid_doc P v"
  shows "valid_doc P (stored (terminal_record v r u))"
    and "doc_job P (stored (terminal_record v r u)) = (doc_job P v)\<lparr>job_status := Terminal\<rparr>"
proof -
  note f = fields_get [OF trans [OF fields_stored terminal_record_fields], of v r u]
  show "valid_doc P (stored (terminal_record v r u))"
    using assms unfolding valid_doc_fields f by (simp add: record_states_def)
  show "doc_job P (stored (terminal_record v r u)) = (doc_job P v)\<lparr>job_status := Terminal\<rparr>"
    unfolding doc_job_def doc_identity_def doc_status_def f by simp
qed

lemma recovered_record_doc:
  assumes "valid_doc P v"
  shows "valid_doc P (stored (recovered_record v u))"
    and "doc_job P (stored (recovered_record v u)) = (doc_job P v)\<lparr>job_status := Pending\<rparr>"
proof -
  note f = fields_get [OF trans [OF fields_stored recovered_record_fields], of v u]
  show "valid_doc P (stored (recovered_record v u))"
    using assms unfolding valid_doc_fields f by (simp add: record_states_def)
  show "doc_job P (stored (recovered_record v u)) = (doc_job P v)\<lparr>job_status := Pending\<rparr>"
    unfolding doc_job_def doc_identity_def doc_status_def f by simp
qed

end
