(* ===== verification/Queue_Filesystem.thy ===== *)
theory Queue_Filesystem
  imports Queue_Documents
begin

text \<open>
  The filesystem queue implements the abstract queue under the file name of a job: its
  operations, run to the end, refine those of the specification.
\<close>

section \<open>The view and the invariant\<close>

fun file_job :: "platform \<Rightarrow> json_file option \<Rightarrow> job option" where
  "file_job P (Some (Document v)) = Some (doc_job P v)"
| "file_job P _ = None"

definition fs_view :: "platform \<Rightarrow> disk \<Rightarrow> jsstr queue" where
  "fs_view P d = \<lparr>waiting = (\<lambda>k. file_job P (map_of (pending_dir d) k)),
     finished = (\<lambda>k. file_job P (map_of (archive_dir d) k))\<rparr>"

definition doc_name :: "platform \<Rightarrow> jsval \<Rightarrow> jsstr" where
  "doc_name P v = file_name P (the_str (get v ''id''))"

text \<open>
  A pending document is valid, stored under its own name, not terminal, and running if the
  job is archived as well; an archived one is valid, stored under its own name and terminal.
\<close>

definition pending_ok :: "platform \<Rightarrow> nat \<Rightarrow> jsstr \<Rightarrow> json_file \<Rightarrow> json_file option \<Rightarrow> bool" where
  "pending_ok P n k f a = (\<exists>v. f = Document v \<and> valid_doc P v \<and> k = doc_name P v \<and>
     0 \<le> the_int (get v ''attempts'') \<and> the_int (get v ''attempts'') \<le> int n \<and> doc_status v \<noteq> Terminal \<and>
     (\<forall>w. a = Some (Document w) \<longrightarrow> doc_status v = Running \<and> doc_identity v = doc_identity w))"

definition archived_ok :: "platform \<Rightarrow> jsstr \<Rightarrow> json_file \<Rightarrow> bool" where
  "archived_ok P k f =
     (\<exists>v. f = Document v \<and> valid_doc P v \<and> k = doc_name P v \<and> doc_status v = Terminal)"

definition docs_ok ::
    "platform \<Rightarrow> nat \<Rightarrow> (jsstr \<rightharpoonup> json_file) \<Rightarrow> (jsstr \<rightharpoonup> json_file) \<Rightarrow> bool" where
  "docs_ok P n p a = ((\<forall>k f. p k = Some f \<longrightarrow> pending_ok P n k f (a k)) \<and>
     (\<forall>k f. a k = Some f \<longrightarrow> archived_ok P k f))"

definition fs_inv :: "platform \<Rightarrow> nat \<Rightarrow> disk \<Rightarrow> bool" where
  "fs_inv P n d = (base64_ok P \<and> sha256_hex P \<and> distinct (map fst (pending_dir d)) \<and>
     distinct (map fst (archive_dir d)) \<and> docs_ok P n (map_of (pending_dir d)) (map_of (archive_dir d)))"

lemma fs_invD:
  assumes "fs_inv P n d"
  shows "base64_ok P" "sha256_hex P"
    and "docs_ok P n (map_of (pending_dir d)) (map_of (archive_dir d))"
    and "distinct (map fst (pending_dir d))" "distinct (map fst (archive_dir d))"
  using assms by (simp_all add: fs_inv_def)

lemma docs_ok_pending:
  assumes "docs_ok P n p a" and "p k = Some f"
  obtains v where "f = Document v" "valid_doc P v" "k = doc_name P v"
    "0 \<le> the_int (get v ''attempts'')" "the_int (get v ''attempts'') \<le> int n" "doc_status v \<noteq> Terminal"
    "\<forall>w. a k = Some (Document w) \<longrightarrow> doc_status v = Running \<and> doc_identity v = doc_identity w"
proof -
  from assms have "pending_ok P n k f (a k)" by (simp add: docs_ok_def)
  then show thesis unfolding pending_ok_def using that by blast
qed

lemma docs_ok_archived:
  assumes "docs_ok P n p a" and "a k = Some f"
  obtains v where "f = Document v" "valid_doc P v" "k = doc_name P v" "doc_status v = Terminal"
proof -
  from assms have "archived_ok P k f" by (simp add: docs_ok_def)
  then show thesis unfolding archived_ok_def using that by blast
qed

lemma docs_ok_mono: "docs_ok P n p a \<Longrightarrow> n \<le> m \<Longrightarrow> docs_ok P m p a"
  unfolding docs_ok_def pending_ok_def by (meson of_nat_mono order_trans)

text \<open>The three effects keep the invariant.\<close>

lemma docs_ok_write_pending:
  assumes "docs_ok P n p a" and "pending_ok P n k f (a k)"
  shows "docs_ok P n (p(k \<mapsto> f)) a"
  using assms by (auto simp: docs_ok_def)

lemma docs_ok_write_archive:
  assumes "docs_ok P n p a" and "archived_ok P k f"
    and "\<And>g. p k = Some g \<Longrightarrow> pending_ok P n k g (Some f)"
  shows "docs_ok P n p (a(k \<mapsto> f))"
  using assms by (auto simp: docs_ok_def)

lemma docs_ok_remove: "docs_ok P n p a \<Longrightarrow> docs_ok P n (p(k := None)) a"
  by (auto simp: docs_ok_def)

section \<open>Views after an effect\<close>

lemma view_simps [simp]:
  "waiting (fs_view P d) k = file_job P (map_of (pending_dir d) k)"
  "finished (fs_view P d) k = file_job P (map_of (archive_dir d) k)"
  by (simp_all add: fs_view_def)

lemma view_write_pending:
  "fs_view P (apply_effect (Write_pending k v) d) =
    (fs_view P d)\<lparr>waiting := (waiting (fs_view P d))(k \<mapsto> doc_job P (stored v))\<rparr>"
  by (auto simp: fs_view_def fun_eq_iff)

lemma view_write_archive:
  "fs_view P (apply_effect (Write_archive k v) d) =
    (fs_view P d)\<lparr>finished := (finished (fs_view P d))(k \<mapsto> doc_job P (stored v))\<rparr>"
  by (auto simp: fs_view_def fun_eq_iff)

lemma view_remove:
  "fs_view P (apply_effect (Remove_pending k) d) =
    (fs_view P d)\<lparr>waiting := (waiting (fs_view P d))(k := None)\<rparr>"
  by (auto simp: fs_view_def fun_eq_iff)

lemma doc_name_eq: "get w ''id'' = get v ''id'' \<Longrightarrow> doc_name P w = doc_name P v"
  by (simp add: doc_name_def)

lemma job_docs:
  assumes "doc_job P w = j"
  shows "doc_identity w = job_identity j" "doc_status w = job_status j"
    "the_int (get w ''attempts'') = job_attempts j" "get w ''id'' = fst (job_identity j)"
  using assms by (auto simp: doc_job_def doc_identity_def)

lemma doc_job_simps [simp]:
  "job_identity (doc_job P v) = doc_identity v" "job_status (doc_job P v) = doc_status v"
  "job_attempts (doc_job P v) = the_int (get v ''attempts'')" "fst (doc_identity v) = get v ''id''"
  by (simp_all add: doc_job_def doc_identity_def)

text \<open>A written pending document is as good as its job.\<close>

lemma pending_okI:
  assumes "valid_doc P w" and "doc_job P w = j" and "fst (job_identity j) = Str jid"
    and "k = file_name P jid" and "0 \<le> job_attempts j" and "job_attempts j \<le> int n"
    and "job_status j \<noteq> Terminal"
    and "\<And>u. a = Some (Document u) \<Longrightarrow> job_status j = Running \<and> job_identity j = doc_identity u"
  shows "pending_ok P n k (Document w) a"
  using assms job_docs [OF assms(2)] by (auto simp: pending_ok_def doc_name_def)

lemma archived_okI:
  assumes "valid_doc P w" and "doc_job P w = j" and "fst (job_identity j) = Str jid"
    and "k = file_name P jid" and "job_status j = Terminal"
  shows "archived_ok P k (Document w)"
  using assms job_docs [OF assms(2)] by (auto simp: archived_ok_def doc_name_def)

section \<open>Durable effects\<close>

text \<open>Every effect keeps the invariant and forgets nothing, so every prefix does.\<close>

definition effect_ok :: "platform \<Rightarrow> nat \<Rightarrow> disk_effect \<Rightarrow> disk \<Rightarrow> bool" where
  "effect_ok P n e d = (fs_inv P n (apply_effect e d) \<and>
     preserves (fs_view P d) (fs_view P (apply_effect e d)))"

fun effects_ok :: "platform \<Rightarrow> nat \<Rightarrow> disk_effect list \<Rightarrow> disk \<Rightarrow> bool" where
  "effects_ok P n [] d = True"
| "effects_ok P n (e # es) d = (effect_ok P n e d \<and> effects_ok P n es (apply_effect e d))"

lemma effects_ok_prefix:
  assumes "fs_inv P n d" and "effects_ok P n es d"
  shows "fs_inv P n (apply_effects (take i es) d) \<and>
    preserves (fs_view P d) (fs_view P (apply_effects (take i es) d))"
  using assms
proof (induction es arbitrary: d i)
  case (Cons e es)
  show ?case
  proof (cases i)
    case 0
    with Cons show ?thesis by simp
  next
    case (Suc i')
    with Cons.prems have "effect_ok P n e d" "effects_ok P n es (apply_effect e d)" by simp_all
    with Cons.IH [of "apply_effect e d" i'] Suc show ?thesis
      by (auto simp: effect_ok_def intro: preserves_trans)
  qed
qed simp

lemma effects_ok_all:
  assumes "fs_inv P n d" and "effects_ok P n es d"
  shows "fs_inv P n (apply_effects es d)" "preserves (fs_view P d) (fs_view P (apply_effects es d))"
  using effects_ok_prefix [OF assms, of "length es"] by simp_all

lemma write_pending_effect:
  assumes "fs_inv P n d" and "pending_ok P n k (Document (stored v)) (map_of (archive_dir d) k)"
    and "\<And>u. map_of (pending_dir d) k = Some (Document u) \<Longrightarrow> doc_identity u = doc_identity (stored v)"
  shows "effect_ok P n (Write_pending k v) d"
proof -
  have "fs_inv P n (apply_effect (Write_pending k v) d)"
    using fs_invD [OF assms(1)] docs_ok_write_pending [OF fs_invD(3) [OF assms(1)] assms(2)]
    by (simp add: fs_inv_def distinct_update)
  moreover have "job_identity j = job_identity (doc_job P (stored v))"
    if w: "waiting (fs_view P d) k = Some j" for j
  proof -
    from w obtain u where "map_of (pending_dir d) k = Some (Document u)" "j = doc_job P u"
      by (auto elim: file_job.elims)
    with assms(3) show ?thesis by simp
  qed
  then have "preserves (fs_view P d) (fs_view P (apply_effect (Write_pending k v) d))"
    unfolding view_write_pending by (rule preserves_waiting)
  ultimately show ?thesis by (simp add: effect_ok_def)
qed

lemma write_archive_effect:
  assumes "fs_inv P n d" and "archived_ok P k (Document (stored v))"
    and p: "map_of (pending_dir d) k = Some (Document u)" "doc_status u = Running"
      "doc_identity u = doc_identity (stored v)"
  shows "effect_ok P n (Write_archive k v) d"
proof -
  note docs = fs_invD(3) [OF assms(1)]
  obtain u' where u': "Document u = Document u'" "valid_doc P u'" "k = doc_name P u'"
    "0 \<le> the_int (get u' ''attempts'')" "the_int (get u' ''attempts'') \<le> int n"
    "doc_status u' \<noteq> Terminal" and agree: "\<forall>w. map_of (archive_dir d) k = Some (Document w) \<longrightarrow>
      doc_status u' = Running \<and> doc_identity u' = doc_identity w"
    by (rule docs_ok_pending [OF docs p(1)])
  have "docs_ok P n (map_of (pending_dir d)) ((map_of (archive_dir d))(k \<mapsto> Document (stored v)))"
    using u' p by (intro docs_ok_write_archive [OF docs assms(2)]) (auto simp: pending_ok_def)
  then have "fs_inv P n (apply_effect (Write_archive k v) d)"
    using fs_invD [OF assms(1)] by (simp add: fs_inv_def distinct_update)
  moreover have "preserves (fs_view P d) (fs_view P (apply_effect (Write_archive k v) d))"
    unfolding view_write_archive
  proof (rule preserves_finished)
    show "job_identity j = job_identity (doc_job P (stored v))" if "waiting (fs_view P d) k = Some j" for j
      using that p by auto
    show "job_identity j = job_identity (doc_job P (stored v))" if f: "finished (fs_view P d) k = Some j" for j
    proof -
      from f obtain w where "map_of (archive_dir d) k = Some (Document w)" "j = doc_job P w"
        by (auto elim: file_job.elims)
      with agree u'(1) p(3) show ?thesis by simp
    qed
  qed
  ultimately show ?thesis by (simp add: effect_ok_def)
qed

lemma remove_pending_effect:
  assumes "fs_inv P n d" and "map_of (archive_dir d) k = Some (Document w)"
  shows "effect_ok P n (Remove_pending k) d"
proof -
  have "fs_inv P n (apply_effect (Remove_pending k) d)"
    using fs_invD [OF assms(1)] by (simp add: fs_inv_def docs_ok_remove distinct_delete)
  moreover have "preserves (fs_view P d) (fs_view P (apply_effect (Remove_pending k) d))"
    unfolding view_remove by (rule preserves_remove) (simp add: assms(2))
  ultimately show ?thesis by (simp add: effect_ok_def)
qed

section \<open>enqueue\<close>

lemma archived_lookup:
  assumes "fs_inv P n d"
  shows "readRecordIfPresent P (archive_dir d) k =
    Inr (case map_of (archive_dir d) k of Some (Document v) \<Rightarrow> Some v | _ \<Rightarrow> None)"
proof (cases "map_of (archive_dir d) k")
  case None
  then show ?thesis by (simp add: readRecordIfPresent_None)
next
  case (Some f)
  obtain v where "f = Document v" "valid_doc P v"
    by (rule docs_ok_archived [OF fs_invD(3) [OF assms] Some])
  with Some show ?thesis by (simp add: readRecordIfPresent_Some)
qed

lemma pending_lookup:
  assumes "fs_inv P n d"
  shows "readRecordIfPresent P (pending_dir d) k =
    Inr (case map_of (pending_dir d) k of Some (Document v) \<Rightarrow> Some v | _ \<Rightarrow> None)"
proof (cases "map_of (pending_dir d) k")
  case None
  then show ?thesis by (simp add: readRecordIfPresent_None)
next
  case (Some f)
  obtain v where "f = Document v" "valid_doc P v"
    by (rule docs_ok_pending [OF fs_invD(3) [OF assms] Some])
  with Some show ?thesis by (simp add: readRecordIfPresent_Some)
qed

lemma pending_cases:
  assumes "fs_inv P n d"
  obtains (absent) "map_of (pending_dir d) k = None"
  | (present) v jid where "map_of (pending_dir d) k = Some (Document v)" "valid_doc P v"
      "k = file_name P jid" "get v ''id'' = Str jid"
      "0 \<le> the_int (get v ''attempts'')" "the_int (get v ''attempts'') \<le> int n"
      "doc_status v \<noteq> Terminal"
      "\<forall>w. map_of (archive_dir d) k = Some (Document w) \<longrightarrow>
        doc_status v = Running \<and> doc_identity v = doc_identity w"
proof (cases "map_of (pending_dir d) k")
  case None
  then show thesis by (rule absent)
next
  case (Some f)
  obtain v where "f = Document v" "valid_doc P v" "k = doc_name P v" "0 \<le> the_int (get v ''attempts'')"
    "the_int (get v ''attempts'') \<le> int n" "doc_status v \<noteq> Terminal"
    "\<forall>w. map_of (archive_dir d) k = Some (Document w) \<longrightarrow>
        doc_status v = Running \<and> doc_identity v = doc_identity w"
    by (rule docs_ok_pending [OF fs_invD(3) [OF assms] Some])
  moreover obtain jid where "get v ''id'' = Str jid"
    using \<open>valid_doc P v\<close> by (auto simp: valid_doc_fields is_str_Str)
  ultimately show thesis using Some by (intro present [of v jid]) (simp_all add: doc_name_def)
qed

lemma archive_cases:
  assumes "fs_inv P n d"
  obtains (absent) "map_of (archive_dir d) k = None"
  | (present) v where "map_of (archive_dir d) k = Some (Document v)" "valid_doc P v"
      "doc_status v = Terminal"
proof (cases "map_of (archive_dir d) k")
  case None
  then show thesis by (rule absent)
next
  case (Some f)
  show thesis by (rule docs_ok_archived [OF fs_invD(3) [OF assms] Some]) (use present Some in auto)
qed

end
