(* ===== verification/Queue_Operations.thy ===== *)
theory Queue_Operations
  imports Queue_Filesystem
begin

text \<open>
  The operations of the filesystem queue, run to the end, refine those of the abstract
  queue, and each of their durable effects keeps the invariant.
\<close>

declare apply_effect.simps [simp del]

section \<open>enqueue\<close>

lemma fs_enqueue_refines:
  assumes inv: "fs_inv P n d" and clk: "clock_ok (clock 0)"
  shows "effects_ok P n (fst (fs_enqueue P clock inp d)) d \<and>
    (snd (fs_enqueue P clock inp d), fs_view P (apply_effects (fst (fs_enqueue P clock inp d)) d)) =
      spec_enqueue (file_name P) inp (clock 0) (fs_view P d)"
proof (cases "validateEnqueue inp")
  case (Inl e)
  then show ?thesis by (simp add: fs_enqueue_def spec_enqueue_def)
next
  case (Inr u)
  then have ok: "validateEnqueue inp = Inr ()" by simp
  define jid where "jid = the_str (in_id inp)"
  define k where "k = file_name P jid"
  have iid: "in_id inp = Str jid"
    using ok is_str_the_str by (auto simp: validateEnqueue_def result_simps jid_def)
  have key: "file_name P (the_str (in_id inp)) = k" by (simp add: k_def jid_def)
  note b64 = fs_invD(1) [OF inv]
  show ?thesis
  proof (rule archive_cases [OF inv, of k])
    fix a assume a: "map_of (archive_dir d) k = Some (Document a)"
    then show ?thesis
      by (simp add: fs_enqueue_def spec_enqueue_def ok key Let_def archived_lookup [OF inv]
          assertSameIdentity_def require_def)
  next
    assume a: "map_of (archive_dir d) k = None"
    show ?thesis
    proof (rule pending_cases [OF inv, of k])
      assume p: "map_of (pending_dir d) k = None"
      note doc = new_record_doc [OF ok clk b64]
      have "effect_ok P n (Write_pending k (new_record P inp (clock 0))) d"
        using p a iid
        by (intro write_pending_effect [OF inv] pending_okI [OF doc])
          (auto simp: job_input_def input_identity_def k_def)
      then show ?thesis
        using a p doc(2)
        by (simp add: fs_enqueue_def spec_enqueue_def ok key Let_def archived_lookup [OF inv]
            pending_lookup [OF inv] view_write_pending)
    next
      fix v vid
      assume p: "map_of (pending_dir d) k = Some (Document v)" "valid_doc P v" "k = file_name P vid"
        "get v ''id'' = Str vid" "0 \<le> the_int (get v ''attempts'')"
        "the_int (get v ''attempts'') \<le> int n" "doc_status v \<noteq> Terminal"
      have id1: "fst (doc_identity v) = Str vid" using p(4) by simp
      show ?thesis
      proof (cases "doc_identity v = input_identity inp")
        case False
        then show ?thesis
          using a p(1)
          by (simp add: fs_enqueue_def spec_enqueue_def ok key Let_def archived_lookup [OF inv]
              pending_lookup [OF inv] assertSameIdentity_def)
      next
        case same: True
        define w where "w = (if get v ''state'' = Str (js ''running'')
          then redelivery_running P (the (in_body inp)) (clock 0) v
          else redelivery_waiting P (the (in_body inp)) (clock 0) (clock 1) v)"
        have doc: "valid_doc P (stored w)"
          "doc_job P (stored w) = redeliver (the (in_body inp)) (clock 0) (doc_job P v)"
          using redelivery_running_doc [OF p(2) _ b64] redelivery_waiting_doc [OF p(2) _ b64 clk]
          by (auto simp: w_def doc_running)
        have st: "job_status (redeliver b t (doc_job P v)) \<noteq> Terminal" for b t
          using p(7) by (simp add: redeliver_def)
        have "effect_ok P n (Write_pending k w) d"
          by (rule write_pending_effect [OF inv pending_okI [OF doc, where jid = vid]])
            (use p a st id1 job_docs [OF doc(2)] in \<open>auto simp: redeliver_def\<close>)
        moreover have "fs_enqueue P clock inp d = ([Write_pending k w], Inr True)"
          using a p(1) same
          by (simp add: fs_enqueue_def ok key Let_def archived_lookup [OF inv] pending_lookup [OF inv]
              assertSameIdentity_def w_def)
        ultimately show ?thesis
          using a p(1) same doc(2) by (simp add: spec_enqueue_def ok key Let_def view_write_pending)
      qed
    qed
  qed
qed

section \<open>claim\<close>

lemma file_name_json: "sha256_hex P \<Longrightarrow> json_file_name (file_name P jid)"
  by (simp add: json_file_name_def file_name_def queueKey_def sha256_hex_def)

lemma jsonFiles_set:
  assumes "fs_inv P n d"
  shows "set (jsonFiles (pending_dir d)) = {k. map_of (pending_dir d) k \<noteq> None}"
proof -
  have "json_file_name k" if "map_of (pending_dir d) k \<noteq> None" for k
    by (rule pending_cases [OF assms, of k])
      (use that file_name_json [OF fs_invD(2) [OF assms]] in auto)
  then show ?thesis by (auto simp: jsonFiles_def map_of_eq_None_iff)
qed

definition doc_at :: "directory \<Rightarrow> jsstr \<Rightarrow> jsval" where
  "doc_at dir k = (case map_of dir k of Some (Document v) \<Rightarrow> v | _ \<Rightarrow> Undefined)"

lemma claim_loop_find:
  assumes "\<forall>k \<in> set ks. \<exists>v. map_of (pending_dir d) k = Some (Document v) \<and> valid_doc P v"
  shows "claim_loop P now ks d =
    (case find (\<lambda>k. due (doc_at (pending_dir d) k) now) ks of
       None \<Rightarrow> ([], Inr None)
     | Some k \<Rightarrow> (let v = doc_at (pending_dir d) k in
         ([Write_pending k (running_record v now)], Inr (Some (claim_of (doc_job P v))))))"
  using assms
proof (induction ks)
  case (Cons k ks)
  then obtain v where v: "map_of (pending_dir d) k = Some (Document v)" "valid_doc P v" by auto
  then have rd: "readRecord P (pending_dir d) k = Inr v" by (simp add: readRecord_iff)
  have at: "doc_at (pending_dir d) k = v" using v(1) by (simp add: doc_at_def)
  note f = fields_get [OF running_record_fields, of v now]
  obtain b where b: "decodeBody P v = Inr b" using v(2) by (auto simp: valid_doc_def)
  then have "decodeBody P (running_record v now) = Inr b" "b = job_body (doc_job P v)"
    by (auto simp: decodeBody_def f doc_job_def Let_def split: if_splits)
  then have "bindR (decodeBody P (running_record v now)) (\<lambda>body. Inr (Some
      \<lparr>c_id = get (running_record v now) ''id'', c_deploymentId = get (running_record v now) ''deploymentId'',
       c_body = body, c_attempts = the_int (get (running_record v now) ''attempts'')\<rparr>)) =
      Inr (Some (claim_of (doc_job P v)))"
    by (simp add: f claim_of_def doc_identity_def)
  with rd at Cons show ?case by (simp add: Let_def)
qed simp

lemma fs_claim_refines:
  assumes inv: "fs_inv P n d" and lim: "int n < max_safe_integer"
  shows "effects_ok P (Suc n) (fst (fs_claim P clock d)) d \<and>
    (\<exists>answer. snd (fs_claim P clock d) = Inr answer \<and>
      spec_claim (clock 0) (fs_view P d) answer (fs_view P (apply_effects (fst (fs_claim P clock d)) d)))"
proof -
  let ?ks = "jsonFiles (pending_dir d)"
  have docs: "\<exists>v. map_of (pending_dir d) k = Some (Document v) \<and> valid_doc P v" if "k \<in> set ?ks" for k
    by (rule pending_cases [OF inv, of k]) (use that jsonFiles_set [OF inv] in auto)
  note loop = claim_loop_find [where ks = ?ks and P = P and d = d and now = "clock 0"]
  have inv': "fs_inv P (Suc n) d"
    using inv docs_ok_mono [of P n _ _ "Suc n"] by (auto simp: fs_inv_def)
  show ?thesis
  proof (cases "find (\<lambda>k. due (doc_at (pending_dir d) k) (clock 0)) ?ks")
    case None
    have "\<not> claimable (clock 0) j" if w: "waiting (fs_view P d) k = Some j" for k j
    proof -
      from w obtain v where v: "map_of (pending_dir d) k = Some (Document v)" "j = doc_job P v"
        by (auto elim: file_job.elims)
      then have "k \<in> set ?ks" by (simp add: jsonFiles_set [OF inv])
      with None have "\<not> due (doc_at (pending_dir d) k) (clock 0)" by (simp add: find_None_iff)
      with v show ?thesis by (simp add: doc_at_def doc_due [of _ _ P])
    qed
    with None loop docs show ?thesis by (simp add: fs_claim_def spec_claim_def)
  next
    case (Some k)
    then have k: "k \<in> set ?ks" "due (doc_at (pending_dir d) k) (clock 0)"
      by (auto simp: find_Some_iff)
    show ?thesis
    proof (rule pending_cases [OF inv, of k])
      assume "map_of (pending_dir d) k = None"
      with k show ?thesis by (simp add: jsonFiles_set [OF inv])
    next
      fix v jid
      assume p: "map_of (pending_dir d) k = Some (Document v)" "valid_doc P v" "k = file_name P jid"
        "get v ''id'' = Str jid" "0 \<le> the_int (get v ''attempts'')"
        "the_int (get v ''attempts'') \<le> int n"
        "\<forall>w. map_of (archive_dir d) k = Some (Document w) \<longrightarrow>
          doc_status v = Running \<and> doc_identity v = doc_identity w"
      have at: "doc_at (pending_dir d) k = v" using p(1) by (simp add: doc_at_def)
      have lt: "the_int (get v ''attempts'') < max_safe_integer" using p(6) lim by simp
      note doc = running_record_doc [OF p(2,5) lt, of "clock 0"]
      have "effect_ok P (Suc n) (Write_pending k (running_record v (clock 0))) d"
        by (rule write_pending_effect [OF inv' pending_okI [OF doc, where jid = jid]])
          (use p job_docs [OF doc(2)] in \<open>auto simp: started_def\<close>)
      moreover have "spec_claim (clock 0) (fs_view P d) (Some (claim_of (doc_job P v)))
          (fs_view P (apply_effect (Write_pending k (running_record v (clock 0))) d))"
        unfolding spec_claim_def option.case
        by (rule exI [of _ k], rule exI [of _ "doc_job P v"])
          (use p(1) k(2) at doc(2) in \<open>simp add: view_write_pending doc_due [of _ _ P]\<close>)
      ultimately show ?thesis
        using Some loop docs at by (simp add: fs_claim_def Let_def)
    qed
  qed
qed

section \<open>finish\<close>

lemma fs_finish_refines:
  assumes inv: "fs_inv P n d" and clk: "clock_ok (clock 0)" and delay: "0 \<le> delay"
    and ok: "jid \<noteq> []" "valid_outcome outcome" and sep: "separate (fs_view P d)"
  shows "effects_ok P n (fst (fs_finish P delay clock (Str jid) outcome d)) d \<and>
    (case spec_finish (file_name P) delay jid (is_terminal outcome) (clock 0) (fs_view P d) of
       None \<Rightarrow> (\<exists>e. fs_finish P delay clock (Str jid) outcome d = ([], Inl e))
     | Some q \<Rightarrow> snd (fs_finish P delay clock (Str jid) outcome d) = Inr () \<and>
         fs_view P (apply_effects (fst (fs_finish P delay clock (Str jid) outcome d)) d) = q)"
proof -
  define k where "k = file_name P jid"
  have guard: "\<not> (\<not> is_str (Str jid) \<or> the_str (Str jid) = [] \<or> \<not> valid_outcome outcome)"
    using ok by simp
  show ?thesis
  proof (rule pending_cases [OF inv, of k])
    assume p: "map_of (pending_dir d) k = None"
    then have "readRecord P (pending_dir d) k = Inl (IoError ''ENOENT'')" by (simp add: readRecord_absent)
    with p guard show ?thesis by (simp add: fs_finish_def spec_finish_def Let_def k_def [symmetric])
  next
    fix v vid
    assume p: "map_of (pending_dir d) k = Some (Document v)" "valid_doc P v" "k = file_name P vid"
      "get v ''id'' = Str vid" "0 \<le> the_int (get v ''attempts'')"
      "the_int (get v ''attempts'') \<le> int n" "doc_status v \<noteq> Terminal"
      "\<forall>w. map_of (archive_dir d) k = Some (Document w) \<longrightarrow>
          doc_status v = Running \<and> doc_identity v = doc_identity w"
    have rd: "readRecord P (pending_dir d) k = Inr v" using p(1,2) by (simp add: readRecord_iff)
    show ?thesis
    proof (cases "get v ''id'' = Str jid \<and> doc_status v = Running")
      case False
      then show ?thesis
        using guard rd p(1)
        by (auto simp: fs_finish_def spec_finish_def Let_def k_def [symmetric] doc_running)
    next
      case run: True
      then have st: "get v ''state'' = Str (js ''running'')" by (simp add: doc_running)
      show ?thesis
      proof (cases "is_terminal outcome")
        case True
        define w where "w = terminal_record v (get outcome ''result'') (JInt (clock 0))"
        note doc = terminal_record_doc [OF p(2), of "get outcome ''result''" "JInt (clock 0)", folded w_def]
        have a: "effect_ok P n (Write_archive k w) d"
          by (rule write_archive_effect [OF inv archived_okI [OF doc, where jid = vid] p(1)])
            (use p run job_docs [OF doc(2)] in auto)
        then have inv': "fs_inv P n (apply_effect (Write_archive k w) d)" by (simp add: effect_ok_def)
        have r: "effect_ok P n (Remove_pending k) (apply_effect (Write_archive k w) d)"
          by (rule remove_pending_effect [OF inv', where w = "stored w"]) (simp add: apply_effect.simps)
        have "fs_finish P delay clock (Str jid) outcome d = ([Write_archive k w, Remove_pending k], Inr ())"
          using guard rd run st True
          by (simp add: fs_finish_def Let_def k_def [symmetric] w_def is_terminal_def)
        then show ?thesis
          using a r p(1) run True doc(2)
          by (simp add: spec_finish_def Let_def k_def [symmetric] view_write_archive view_remove)
      next
        case False
        define w where "w = retry_record v delay outcome clock"
        note doc = retry_record_doc [where clock = clock, OF p(2) clk delay, of outcome, folded w_def]
        have "finished (fs_view P d) k = None" using sep p(1) by (auto simp: separate_def)
        then have "map_of (archive_dir d) k \<noteq> Some (Document u)" for u by auto
        then have "effect_ok P n (Write_pending k w) d"
          by (intro write_pending_effect [OF inv pending_okI [OF doc, where jid = vid]])
            (use p run job_docs [OF doc(2)] in \<open>auto simp: rescheduled_def\<close>)
        moreover have "fs_finish P delay clock (Str jid) outcome d = ([Write_pending k w], Inr ())"
          using guard rd run st False
          by (simp add: fs_finish_def Let_def k_def [symmetric] w_def is_terminal_def)
        ultimately show ?thesis
          using p(1) run False doc(2)
          by (simp add: spec_finish_def Let_def k_def [symmetric] view_write_pending)
      qed
    qed
  qed
qed

section \<open>The interface\<close>

text \<open>An operation that is not interrupted applies all its effects.\<close>

definition completed :: "'a effectful \<Rightarrow> disk \<Rightarrow> 'a result \<times> disk" where
  "completed op d = (snd op, apply_effects (fst op) d)"

definition fs_up :: "platform \<Rightarrow> nat \<Rightarrow> disk \<Rightarrow> bool" where
  "fs_up P n d = (fs_inv P n d \<and> separate (fs_view P d))"

lemma fs_finished_terminal:
  "fs_inv P n d \<Longrightarrow> finished (fs_view P d) k = Some j \<Longrightarrow> job_status j = Terminal"
  by (rule archive_cases [of P n d k]) auto

text \<open>The delay of a queue is a configured one.\<close>

definition fs_delay :: "nat \<Rightarrow> int" where
  "fs_delay ms = int ms"

interpretation fs_queue: job_queue "file_name P" "fs_delay ms" "fs_view P" "fs_up P"
  "\<lambda>now inp d. completed (fs_enqueue P (\<lambda>_. now) inp d) d"
  "\<lambda>now d. completed (fs_claim P (\<lambda>_. now) d) d"
  "\<lambda>now jid outcome d. completed (fs_finish P (fs_delay ms) (\<lambda>_. now) (Str jid) outcome d) d"
  for P ms
proof
  fix n :: nat and d :: disk and k :: jsstr and j :: job and now :: int and inp and jid :: jsstr and outcome
  assume up: "fs_up P n d"
  then have inv: "fs_inv P n d" and sep: "separate (fs_view P d)" by (simp_all add: fs_up_def)
  show "separate (fs_view P d)" by (rule sep)
  show "finished (fs_view P d) k = Some j \<Longrightarrow> job_status j = Terminal"
    by (rule fs_finished_terminal [OF inv])
  assume clk: "clock_ok now"
  note enq = fs_enqueue_refines [where clock = "\<lambda>_. now", OF inv clk, of inp]
  show enq_spec: "(fst (completed (fs_enqueue P (\<lambda>_. now) inp d) d),
      fs_view P (snd (completed (fs_enqueue P (\<lambda>_. now) inp d) d))) =
      spec_enqueue (file_name P) inp now (fs_view P d)"
    using enq by (simp add: completed_def)
  show "fs_up P n (snd (completed (fs_enqueue P (\<lambda>_. now) inp d) d))"
    using effects_ok_all(1) [OF inv] enq spec_enqueue_separate [OF sep, of "file_name P" inp now]
    by (simp add: fs_up_def completed_def flip: enq_spec [THEN arg_cong, of snd, simplified, unfolded completed_def])
  {
    assume lim: "int n < max_safe_integer"
    have inv': "fs_inv P (Suc n) d"
      using inv docs_ok_mono [of P n _ _ "Suc n"] by (auto simp: fs_inv_def)
    note cl = fs_claim_refines [where clock = "\<lambda>_. now", OF inv lim]
    then show "\<exists>answer. fst (completed (fs_claim P (\<lambda>_. now) d) d) = Inr answer \<and>
        spec_claim now (fs_view P d) answer (fs_view P (snd (completed (fs_claim P (\<lambda>_. now) d) d)))"
      by (auto simp: completed_def)
    from cl show "fs_up P (Suc n) (snd (completed (fs_claim P (\<lambda>_. now) d) d))"
      using effects_ok_all(1) [OF inv'] spec_claim_separate [OF _ sep]
      by (auto simp: fs_up_def completed_def)
  }
  assume ok: "jid \<noteq> []" "valid_outcome outcome"
  have delay: "0 \<le> fs_delay ms" by (simp add: fs_delay_def)
  note fin = fs_finish_refines [where clock = "\<lambda>_. now", OF inv clk delay ok sep]
  show spec: "case spec_finish (file_name P) (fs_delay ms) jid (is_terminal outcome) now (fs_view P d) of
      None \<Rightarrow> (\<exists>e. fst (completed (fs_finish P (fs_delay ms) (\<lambda>_. now) (Str jid) outcome d) d) = Inl e) \<and>
        fs_view P (snd (completed (fs_finish P (fs_delay ms) (\<lambda>_. now) (Str jid) outcome d) d)) = fs_view P d
    | Some q \<Rightarrow> fst (completed (fs_finish P (fs_delay ms) (\<lambda>_. now) (Str jid) outcome d) d) = Inr () \<and>
        fs_view P (snd (completed (fs_finish P (fs_delay ms) (\<lambda>_. now) (Str jid) outcome d) d)) = q"
    using fin by (auto simp: completed_def split: option.splits)
  then have "separate (fs_view P (snd (completed (fs_finish P (fs_delay ms) (\<lambda>_. now) (Str jid) outcome d) d)))"
    using sep spec_finish_separate [OF _ sep] by (auto split: option.splits)
  then show "fs_up P n (snd (completed (fs_finish P (fs_delay ms) (\<lambda>_. now) (Str jid) outcome d) d))"
    using effects_ok_all(1) [OF inv] fin by (auto simp: fs_up_def completed_def)
qed

end
