(* ===== verification/Queue_Refinement.thy ===== *)
theory Queue_Refinement
  imports Queue_Spec
begin

text \<open>
  Both queues of \<open>job-queue.mjs\<close> implement the abstract queue: the in-memory one under
  the job identifier, the filesystem one under the file name.
\<close>

section \<open>The in-memory queue\<close>

definition status_of :: "string \<Rightarrow> job_status" where
  "status_of s = (if s = ''pending'' then Pending else if s = ''running'' then Running
     else if s = ''retry'' then Retrying else Terminal)"

definition mem_job :: "memory_record \<Rightarrow> job" where
  "mem_job r = \<lparr>job_identity = mem_identity r, job_body = m_body r,
     job_redelivery = m_redeliveryBody r, job_status = status_of (m_state r),
     job_attempts = m_attempts r, job_due = m_nextAttemptAt r\<rparr>"

definition mem_view :: "memory_queue \<Rightarrow> jsstr queue" where
  "mem_view q = \<lparr>waiting = map_option mem_job \<circ> map_of (mq_pending q),
     finished = map_option mem_job \<circ> map_of (mq_archive q)\<rparr>"

definition mem_ok :: "nat \<Rightarrow> (jsstr \<rightharpoonup> memory_record) \<Rightarrow> (jsstr \<rightharpoonup> memory_record) \<Rightarrow> bool" where
  "mem_ok n p a = ((\<forall>k r. p k = Some r \<longrightarrow> m_id r = Str k \<and> m_attempts r \<le> int n \<and>
       m_state r \<in> {''pending'', ''running'', ''retry''} \<and> a k = None) \<and>
     (\<forall>k r. a k = Some r \<longrightarrow> m_state r = ''terminal''))"

definition mem_inv :: "nat \<Rightarrow> memory_queue \<Rightarrow> bool" where
  "mem_inv n q = (distinct (map fst (mq_pending q)) \<and> distinct (map fst (mq_archive q)) \<and>
     mem_ok n (map_of (mq_pending q)) (map_of (mq_archive q)))"

lemma mem_claim_loop_find:
  "mem_claim_loop (\<lambda>_. now) i rs =
    find (\<lambda>(k, r). m_state r \<noteq> ''running'' \<and> m_nextAttemptAt r \<le> now) rs"
proof (induction rs arbitrary: i)
  case (Cons e rs)
  then show ?case by (cases e) simp
qed simp

lemma status_of_simps [simp]:
  "status_of ''pending'' = Pending" "status_of ''running'' = Running"
  "status_of ''retry'' = Retrying" "status_of ''terminal'' = Terminal"
  by (simp_all add: status_of_def)

lemma status_running: "status_of s = Running \<longleftrightarrow> s = ''running''"
  by (simp add: status_of_def)

lemma queue_eqI: "waiting q = waiting q' \<Longrightarrow> finished q = finished q' \<Longrightarrow> q = (q' :: 'k queue)"
  by (cases q; cases q') simp

lemma valid_enqueue_id: "validateEnqueue inp = Inr () \<Longrightarrow> in_id inp = Str (the_str (in_id inp))"
  using is_str_the_str by (auto simp: validateEnqueue_def result_simps)

lemma mem_enqueue_refines:
  assumes "mem_inv n q"
  shows "(fst (mem_enqueue (\<lambda>_. now) inp q), mem_view (snd (mem_enqueue (\<lambda>_. now) inp q))) =
      spec_enqueue id inp now (mem_view q)"
    and "mem_inv n (snd (mem_enqueue (\<lambda>_. now) inp q))"
proof -
  show "(fst (mem_enqueue (\<lambda>_. now) inp q), mem_view (snd (mem_enqueue (\<lambda>_. now) inp q))) =
      spec_enqueue id inp now (mem_view q)"
    by (auto simp: mem_enqueue_def spec_enqueue_def mem_view_def Let_def assertSameIdentity_def
        mem_job_def redeliver_def job_input_def mem_identity_def input_identity_def status_running
        require_def fun_eq_iff split: sum.splits option.splits)
  let ?q = "snd (mem_enqueue (\<lambda>_. now) inp q)"
  have "distinct (map fst (mq_pending ?q)) \<and> distinct (map fst (mq_archive ?q))"
    using assms by (simp add: mem_enqueue_def mem_inv_def Let_def assertSameIdentity_def require_def
        distinct_update split: sum.splits option.splits)
  moreover have "mem_ok n (map_of (mq_pending q)) (map_of (mq_archive q))"
    using assms by (simp add: mem_inv_def)
  then have "mem_ok n (map_of (mq_pending ?q)) (map_of (mq_archive ?q))"
    using valid_enqueue_id [of inp]
    by (auto simp: mem_enqueue_def mem_ok_def Let_def assertSameIdentity_def require_def
        split: sum.splits option.splits)
  ultimately show "mem_inv n ?q" by (simp add: mem_inv_def)
qed

lemma mem_claim_refines:
  assumes "mem_inv n q"
  shows "spec_claim now (mem_view q) (fst (mem_claim (\<lambda>_. now) q)) (mem_view (snd (mem_claim (\<lambda>_. now) q)))"
    and "mem_inv (Suc n) (snd (mem_claim (\<lambda>_. now) q))"
proof -
  let ?Q = "\<lambda>(k, r). m_state r \<noteq> ''running'' \<and> m_nextAttemptAt r \<le> now"
  have d: "distinct (map fst (mq_pending q))" using assms by (simp add: mem_inv_def)
  have "spec_claim now (mem_view q) (fst (mem_claim (\<lambda>_. now) q)) (mem_view (snd (mem_claim (\<lambda>_. now) q))) \<and>
      mem_inv (Suc n) (snd (mem_claim (\<lambda>_. now) q))"
  proof (cases "find ?Q (mq_pending q)")
    case None
    then have no: "\<And>k r. map_of (mq_pending q) k = Some r \<Longrightarrow> \<not> (m_state r \<noteq> ''running'' \<and> m_nextAttemptAt r \<le> now)"
      by (fastforce simp: find_None_iff dest: map_of_SomeD)
    have "mem_inv (Suc n) q" using assms by (fastforce simp: mem_inv_def mem_ok_def)
    with no show ?thesis
      using None by (auto simp: mem_claim_def mem_claim_loop_find spec_claim_def mem_view_def
          mem_job_def claimable_def status_running dest: no)
  next
    case (Some e)
    obtain k r where e: "e = (k, r)" by (cases e)
    from Some e have kr: "map_of (mq_pending q) k = Some r" "?Q (k, r)"
      using d by (auto simp: find_Some_iff in_set_conv_nth)
    let ?r = "r\<lparr>m_state := ''running'', m_attempts := m_attempts r + 1\<rparr>"
    have "mem_inv (Suc n) (q\<lparr>mq_pending := AList.update k ?r (mq_pending q)\<rparr>)"
      using assms kr(1) by (fastforce simp: mem_inv_def mem_ok_def distinct_update simp del: map_of_eq_Some_iff)
    moreover have "spec_claim now (mem_view q) (Some (claim_of (mem_job r)))
        (mem_view (q\<lparr>mq_pending := AList.update k ?r (mq_pending q)\<rparr>))"
      unfolding spec_claim_def option.case
      by (rule exI [of _ k], rule exI [of _ "mem_job r"])
        (use kr in \<open>auto simp: mem_view_def claimable_def mem_job_def status_running started_def
           mem_identity_def fun_eq_iff\<close>)
    ultimately show ?thesis
      using Some e by (simp add: mem_claim_def mem_claim_loop_find claim_of_def mem_job_def mem_identity_def)
  qed
  then show "spec_claim now (mem_view q) (fst (mem_claim (\<lambda>_. now) q)) (mem_view (snd (mem_claim (\<lambda>_. now) q)))"
    "mem_inv (Suc n) (snd (mem_claim (\<lambda>_. now) q))" by blast+
qed

lemma mem_finish_refines:
  assumes "mem_inv n q" and "valid_outcome outcome"
  shows "case spec_finish id delay jid (is_terminal outcome) now (mem_view q) of
        None \<Rightarrow> (\<exists>e. fst (mem_finish delay (\<lambda>_. now) jid outcome q) = Inl e) \<and>
          mem_view (snd (mem_finish delay (\<lambda>_. now) jid outcome q)) = mem_view q
      | Some q' \<Rightarrow> fst (mem_finish delay (\<lambda>_. now) jid outcome q) = Inr () \<and>
          mem_view (snd (mem_finish delay (\<lambda>_. now) jid outcome q)) = q'"
    and "mem_inv n (snd (mem_finish delay (\<lambda>_. now) jid outcome q))"
proof -
  have id: "m_id r = Str k" if "map_of (mq_pending q) k = Some r" for k r
    using assms(1) that by (simp add: mem_inv_def mem_ok_def)
  show "case spec_finish id delay jid (is_terminal outcome) now (mem_view q) of
        None \<Rightarrow> (\<exists>e. fst (mem_finish delay (\<lambda>_. now) jid outcome q) = Inl e) \<and>
          mem_view (snd (mem_finish delay (\<lambda>_. now) jid outcome q)) = mem_view q
      | Some q' \<Rightarrow> fst (mem_finish delay (\<lambda>_. now) jid outcome q) = Inr () \<and>
          mem_view (snd (mem_finish delay (\<lambda>_. now) jid outcome q)) = q'"
    using id
    by (auto simp: spec_finish_def mem_finish_def mem_view_def mem_job_def mem_identity_def
        is_terminal_def rescheduled_def status_running fun_eq_iff Let_def split: option.splits)
  let ?q = "snd (mem_finish delay (\<lambda>_. now) jid outcome q)"
  have "distinct (map fst (mq_pending ?q)) \<and> distinct (map fst (mq_archive ?q))"
    using assms by (simp add: mem_finish_def mem_inv_def distinct_update distinct_delete
        split: option.splits)
  moreover have "mem_ok n (map_of (mq_pending q)) (map_of (mq_archive q))"
    using assms by (simp add: mem_inv_def)
  then have "mem_ok n (map_of (mq_pending ?q)) (map_of (mq_archive ?q))"
    by (auto simp: mem_finish_def mem_ok_def split: option.splits)
  ultimately show "mem_inv n ?q" by (simp add: mem_inv_def)
qed

interpretation memory_queue: job_queue id delay mem_view mem_inv
  "\<lambda>now. mem_enqueue (\<lambda>_. now)" "\<lambda>now q. apfst Inr (mem_claim (\<lambda>_. now) q)"
  "\<lambda>now. mem_finish delay (\<lambda>_. now)" for delay
proof
  fix n :: nat and q :: memory_queue and k :: jsstr and j :: job and now :: int and inp jid outcome
  assume inv: "mem_inv n q"
  show "separate (mem_view q)"
    using inv by (auto simp: mem_inv_def mem_ok_def mem_view_def separate_def simp del: map_of_eq_Some_iff)
  show "finished (mem_view q) k = Some j \<Longrightarrow> job_status j = Terminal"
    using inv by (auto simp: mem_inv_def mem_ok_def mem_view_def mem_job_def simp del: map_of_eq_Some_iff)
  show "mem_inv n (snd (mem_enqueue (\<lambda>_. now) inp q))" by (rule mem_enqueue_refines [OF inv])
  show "(fst (mem_enqueue (\<lambda>_. now) inp q), mem_view (snd (mem_enqueue (\<lambda>_. now) inp q))) =
      spec_enqueue id inp now (mem_view q)" by (rule mem_enqueue_refines [OF inv])
  show "mem_inv (Suc n) (snd (apfst Inr (mem_claim (\<lambda>_. now) q)))"
    using mem_claim_refines(2) [OF inv] by simp
  show "\<exists>answer. fst (apfst Inr (mem_claim (\<lambda>_. now) q)) = Inr answer \<and>
      spec_claim now (mem_view q) answer (mem_view (snd (apfst Inr (mem_claim (\<lambda>_. now) q))))"
    using mem_claim_refines(1) [OF inv] by simp
  assume "valid_outcome outcome"
  note fin = mem_finish_refines [OF inv this]
  show "mem_inv n (snd (mem_finish delay (\<lambda>_. now) jid outcome q))" by (rule fin)
  show "case spec_finish id delay jid (is_terminal outcome) now (mem_view q) of
        None \<Rightarrow> (\<exists>e. fst (mem_finish delay (\<lambda>_. now) jid outcome q) = Inl e) \<and>
          mem_view (snd (mem_finish delay (\<lambda>_. now) jid outcome q)) = mem_view q
      | Some q' \<Rightarrow> fst (mem_finish delay (\<lambda>_. now) jid outcome q) = Inr () \<and>
          mem_view (snd (mem_finish delay (\<lambda>_. now) jid outcome q)) = q'" by (rule fin)
qed

end
