(* ===== verification/Queue_Crash.thy ===== *)
theory Queue_Crash
  imports Queue_Operations Queue_Refinement
begin

text \<open>
  The filesystem queue under crashes: an operation may stop after any prefix of its durable
  effects, and the next process runs \<open>initialize\<close>, which may itself be interrupted.
\<close>

section \<open>Recovery\<close>

definition settled :: "platform \<Rightarrow> jsstr \<Rightarrow> disk \<Rightarrow> bool" where
  "settled P k d = (\<forall>j. waiting (fs_view P d) k = Some j \<longrightarrow>
     finished (fs_view P d) k = None \<and> job_status j \<noteq> Running)"

definition same_elsewhere :: "jsstr set \<Rightarrow> disk \<Rightarrow> disk \<Rightarrow> bool" where
  "same_elsewhere K d d' = (archive_dir d' = archive_dir d \<and>
     (\<forall>k. k \<notin> K \<longrightarrow> map_of (pending_dir d') k = map_of (pending_dir d) k))"

lemma recover_entry_ok:
  assumes inv: "fs_inv P n d" and k: "map_of (pending_dir d) k \<noteq> None"
  shows "\<exists>es. recover_entry P d now k = Inr es \<and> effects_ok P n es d \<and>
    settled P k (apply_effects es d) \<and> same_elsewhere {k} d (apply_effects es d)"
proof (rule pending_cases [OF inv, of k])
  assume "map_of (pending_dir d) k = None"
  with k show ?thesis by simp
next
  fix v jid
  assume p: "map_of (pending_dir d) k = Some (Document v)" "valid_doc P v" "k = file_name P jid"
    "get v ''id'' = Str jid" "0 \<le> the_int (get v ''attempts'')"
    "the_int (get v ''attempts'') \<le> int n" "doc_status v \<noteq> Terminal"
    "\<forall>w. map_of (archive_dir d) k = Some (Document w) \<longrightarrow>
        doc_status v = Running \<and> doc_identity v = doc_identity w"
  have rd: "readRecord P (pending_dir d) k = Inr v" using p(1,2) by (simp add: readRecord_iff)
  show ?thesis
  proof (rule archive_cases [OF inv, of k])
    fix a assume a: "map_of (archive_dir d) k = Some (Document a)" "valid_doc P a" "doc_status a = Terminal"
    have "recover_entry P d now k = Inr [Remove_pending k]"
      using rd a p(8) doc_terminal [OF a(2)]
      by (simp add: recover_entry_def archived_lookup [OF inv] assertSameIdentity_def)
    moreover have "settled P k (apply_effect (Remove_pending k) d)"
      by (simp add: settled_def apply_effect.simps)
    ultimately show ?thesis
      using remove_pending_effect [OF inv a(1)] by (auto simp: same_elsewhere_def apply_effect.simps)
  next
    assume a: "map_of (archive_dir d) k = None"
    show ?thesis
    proof (cases "doc_status v = Running")
      case False
      then have "recover_entry P d now k = Inr []"
        using rd a by (simp add: recover_entry_def archived_lookup [OF inv] doc_running)
      moreover have "settled P k d" using p(1) a False by (simp add: settled_def)
      ultimately show ?thesis by (simp add: same_elsewhere_def)
    next
      case True
      let ?w = "recovered_record v (JInt now)"
      note doc = recovered_record_doc [OF p(2), of "JInt now"]
      have "recover_entry P d now k = Inr [Write_pending k ?w]"
        using rd a True by (simp add: recover_entry_def archived_lookup [OF inv] doc_running)
      moreover have "effect_ok P n (Write_pending k ?w) d"
        by (rule write_pending_effect [OF inv pending_okI [OF doc, where jid = jid]])
          (use p a job_docs [OF doc(2)] in auto)
      moreover have "settled P k (apply_effect (Write_pending k ?w) d)"
        using doc(2) a by (simp add: settled_def apply_effect.simps)
      ultimately show ?thesis by (auto simp: same_elsewhere_def apply_effect.simps)
    qed
  qed
qed

lemma effects_ok_append:
  "effects_ok P n (es @ fs) d \<longleftrightarrow> effects_ok P n es d \<and> effects_ok P n fs (apply_effects es d)"
  by (induction es arbitrary: d) auto

lemma apply_effects_append: "apply_effects (es @ fs) d = apply_effects fs (apply_effects es d)"
  by (induction es arbitrary: d) auto

lemma recover_loop_ok:
  assumes "fs_inv P n d" and "\<forall>k \<in> set ks. map_of (pending_dir d) k \<noteq> None" and "distinct ks"
  shows "snd (recover_loop P clock i ks d) = Inr () \<and>
    effects_ok P n (fst (recover_loop P clock i ks d)) d \<and>
    (\<forall>k \<in> set ks. settled P k (apply_effects (fst (recover_loop P clock i ks d)) d)) \<and>
    same_elsewhere (set ks) d (apply_effects (fst (recover_loop P clock i ks d)) d)"
  using assms
proof (induction ks arbitrary: d i)
  case (Cons k ks)
  obtain es where es: "recover_entry P d (clock i) k = Inr es" "effects_ok P n es d"
    "settled P k (apply_effects es d)" "same_elsewhere {k} d (apply_effects es d)"
    using recover_entry_ok [OF Cons.prems(1), of k "clock i"] Cons.prems(2) by auto
  let ?d = "apply_effects es d"
  have inv: "fs_inv P n ?d" using effects_ok_all(1) [OF Cons.prems(1) es(2)] .
  have "\<forall>k' \<in> set ks. map_of (pending_dir ?d) k' \<noteq> None"
    using es(4) Cons.prems(2,3) by (auto simp: same_elsewhere_def)
  from Cons.IH [OF inv this, of "Suc i"] Cons.prems(3)
  obtain fs where fs: "recover_loop P clock (Suc i) ks ?d = (fs, Inr ())"
    "effects_ok P n fs ?d" "\<forall>k \<in> set ks. settled P k (apply_effects fs ?d)"
    "same_elsewhere (set ks) ?d (apply_effects fs ?d)"
    by (cases "recover_loop P clock (Suc i) ks ?d") auto
  have "settled P k (apply_effects fs ?d)"
    using es(3) fs(4) Cons.prems(3) by (simp add: settled_def same_elsewhere_def)
  moreover have "same_elsewhere (set (k # ks)) d (apply_effects fs ?d)"
    using es(4) fs(4) by (simp add: same_elsewhere_def)
  ultimately show ?case
    using es(1,2) fs(1-3) by (simp add: effects_ok_append apply_effects_append)
qed (simp add: same_elsewhere_def)

text \<open>
  Recovery of any consistent disk succeeds; afterwards no job is waiting and finished, and
  none is running.
\<close>

lemma initialize_recovers:
  fixes clock :: clock
  assumes "fs_inv P n d"
  defines "r \<equiv> fs_initialize P clock d"
  shows "snd r = Inr ()" and "effects_ok P n (fst r) d"
    and "separate (fs_view P (apply_effects (fst r) d))"
    and "waiting (fs_view P (apply_effects (fst r) d)) k = Some j \<Longrightarrow> job_status j \<noteq> Running"
proof -
  let ?ks = "jsonFiles (pending_dir d)"
  have ks: "\<forall>k \<in> set ?ks. map_of (pending_dir d) k \<noteq> None" "distinct ?ks"
    using jsonFiles_set [OF assms(1)] fs_invD(4) [OF assms(1)] by (auto simp: jsonFiles_def)
  note l = recover_loop_ok [OF assms(1) ks, of clock 0]
  show "snd r = Inr ()" "effects_ok P n (fst r) d"
    using l by (simp_all add: r_def fs_initialize_def)
  have st: "settled P k (apply_effects (fst r) d)" for k
  proof (cases "k \<in> set ?ks")
    case True
    with l show ?thesis by (simp add: r_def fs_initialize_def)
  next
    case False
    then have "map_of (pending_dir d) k = None" using jsonFiles_set [OF assms(1)] by auto
    with l False show ?thesis by (simp add: r_def fs_initialize_def settled_def same_elsewhere_def)
  qed
  show "separate (fs_view P (apply_effects (fst r) d))"
    using st by (auto simp: separate_def settled_def)
  show "waiting (fs_view P (apply_effects (fst r) d)) k = Some j \<Longrightarrow> job_status j \<noteq> Running"
    using st [of k] by (simp add: settled_def)
qed

section \<open>Steps\<close>

datatype fs_op =
    Fs_enqueue clock enqueue_input
  | Fs_claim clock
  | Fs_finish clock jsstr jsval

fun fs_op_ok :: "fs_op \<Rightarrow> bool" where
  "fs_op_ok (Fs_enqueue clock inp) = clock_ok (clock 0)"
| "fs_op_ok (Fs_claim clock) = True"
| "fs_op_ok (Fs_finish clock jid outcome) = (clock_ok (clock 0) \<and> jid \<noteq> [] \<and> valid_outcome outcome)"

fun fs_effects :: "platform \<Rightarrow> int \<Rightarrow> fs_op \<Rightarrow> disk \<Rightarrow> disk_effect list" where
  "fs_effects P delay (Fs_enqueue clock inp) d = fst (fs_enqueue P clock inp d)"
| "fs_effects P delay (Fs_claim clock) d = fst (fs_claim P clock d)"
| "fs_effects P delay (Fs_finish clock jid outcome) d = fst (fs_finish P delay clock (Str jid) outcome d)"

text \<open>
  A state is the disk, whether a process serves the queue, and the number of operations
  started so far.
\<close>

record fs_state =
  st_disk :: disk
  st_up :: bool
  st_count :: nat

inductive fs_step :: "platform \<Rightarrow> int \<Rightarrow> fs_state \<Rightarrow> fs_state \<Rightarrow> bool" for P delay where
  complete: "st_up s \<Longrightarrow> fs_op_ok x \<Longrightarrow>
    fs_step P delay s (s\<lparr>st_disk := apply_effects (fs_effects P delay x (st_disk s)) (st_disk s),
      st_count := Suc (st_count s)\<rparr>)"
| crash: "st_up s \<Longrightarrow> fs_op_ok x \<Longrightarrow>
    fs_step P delay s (s\<lparr>st_disk := apply_effects (take i (fs_effects P delay x (st_disk s))) (st_disk s),
      st_up := False, st_count := Suc (st_count s)\<rparr>)"
| restart: "\<not> st_up s \<Longrightarrow> snd (fs_initialize P clock (st_disk s)) = Inr () \<Longrightarrow>
    fs_step P delay s (s\<lparr>st_disk := apply_effects (fst (fs_initialize P clock (st_disk s))) (st_disk s),
      st_up := True\<rparr>)"
| restart_crash: "\<not> st_up s \<Longrightarrow>
    fs_step P delay s (s\<lparr>st_disk := apply_effects (take i (fst (fs_initialize P clock (st_disk s)))) (st_disk s)\<rparr>)"

definition state_ok :: "platform \<Rightarrow> fs_state \<Rightarrow> bool" where
  "state_ok P s = (fs_inv P (st_count s) (st_disk s) \<and>
     (st_up s \<longrightarrow> separate (fs_view P (st_disk s))))"

lemma fs_inv_mono: "fs_inv P n d \<Longrightarrow> n \<le> m \<Longrightarrow> fs_inv P m d"
  using docs_ok_mono [of P n _ _ m] by (auto simp: fs_inv_def)

lemma effects_ok_mono:
  "effects_ok P n es d \<Longrightarrow> n \<le> m \<Longrightarrow> effects_ok P m es d"
  by (induction es arbitrary: d) (auto simp: effect_ok_def intro: fs_inv_mono)

lemma fs_effects_ok:
  assumes inv: "fs_inv P n d" and sep: "separate (fs_view P d)" and ok: "fs_op_ok x"
    and lim: "int n < max_safe_integer" and delay: "0 \<le> delay"
  shows "effects_ok P (Suc n) (fs_effects P delay x d) d \<and>
    separate (fs_view P (apply_effects (fs_effects P delay x d) d))"
proof (cases x)
  case (Fs_enqueue clock inp)
  with ok fs_enqueue_refines [where clock = clock, OF inv, of inp]
  have e: "effects_ok P n (fst (fs_enqueue P clock inp d)) d"
    "(snd (fs_enqueue P clock inp d), fs_view P (apply_effects (fst (fs_enqueue P clock inp d)) d)) =
      spec_enqueue (file_name P) inp (clock 0) (fs_view P d)" by simp_all
  from arg_cong [OF e(2), of snd] spec_enqueue_separate [OF sep, of "file_name P" inp "clock 0"] e(1)
  show ?thesis using Fs_enqueue effects_ok_mono [of P n _ d "Suc n"] by simp
next
  case (Fs_claim clock)
  with fs_claim_refines [OF inv lim, of clock] spec_claim_separate [OF _ sep]
  show ?thesis by auto
next
  case (Fs_finish clock jid outcome)
  with ok have c: "clock_ok (clock 0)" "jid \<noteq> []" "valid_outcome outcome" by simp_all
  note f = fs_finish_refines [where clock = clock, OF inv c(1) delay c(2,3) sep]
  then have "separate (fs_view P (apply_effects (fst (fs_finish P delay clock (Str jid) outcome d)) d))"
    using sep spec_finish_separate [OF _ sep] by (auto split: option.splits)
  with f Fs_finish show ?thesis using effects_ok_mono [of P n _ d "Suc n"] by simp
qed

lemma fs_step_ok:
  assumes "fs_step P delay s s'" and "state_ok P s" and "int (st_count s) < max_safe_integer"
    and "0 \<le> delay"
  shows "state_ok P s' \<and> preserves (fs_view P (st_disk s)) (fs_view P (st_disk s')) \<and>
    st_count s' \<le> Suc (st_count s)"
  using assms(1)
proof cases
  case (complete x)
  have "effects_ok P (Suc (st_count s)) (fs_effects P delay x (st_disk s)) (st_disk s) \<and>
      separate (fs_view P (apply_effects (fs_effects P delay x (st_disk s)) (st_disk s)))"
    using assms(2-4) complete by (intro fs_effects_ok) (simp_all add: state_ok_def)
  with assms(2) complete show ?thesis
    using effects_ok_all [OF fs_inv_mono, of P "st_count s" "st_disk s" "Suc (st_count s)"]
    by (simp add: state_ok_def)
next
  case (crash x i)
  have "effects_ok P (Suc (st_count s)) (fs_effects P delay x (st_disk s)) (st_disk s)"
    using assms(2-4) crash fs_effects_ok by (simp add: state_ok_def)
  with assms(2) crash show ?thesis
    using effects_ok_prefix [OF fs_inv_mono, of P "st_count s" "st_disk s" "Suc (st_count s)"]
    by (simp add: state_ok_def)
next
  case (restart clock)
  have inv: "fs_inv P (st_count s) (st_disk s)" using assms(2) by (simp add: state_ok_def)
  from restart initialize_recovers [OF inv, of clock] effects_ok_all [OF inv]
  show ?thesis by (simp add: state_ok_def)
next
  case (restart_crash i clock)
  have inv: "fs_inv P (st_count s) (st_disk s)" using assms(2) by (simp add: state_ok_def)
  from restart_crash initialize_recovers(2) [OF inv, of clock] effects_ok_prefix [OF inv]
  show ?thesis using assms(2) by (simp add: state_ok_def)
qed

lemma fs_step_count: "fs_step P delay s s' \<Longrightarrow> st_count s \<le> st_count s'"
  by (auto elim: fs_step.cases)

lemma fs_steps_ok:
  assumes "(fs_step P delay)\<^sup>*\<^sup>* s s'" and "state_ok P s" and "int (st_count s') < max_safe_integer"
    and "0 \<le> delay"
  shows "state_ok P s' \<and> preserves (fs_view P (st_disk s)) (fs_view P (st_disk s'))"
  using assms
proof (induction rule: rtranclp_induct)
  case (step s1 s2)
  have lt: "int (st_count s1) < max_safe_integer"
    using fs_step_count [OF step.hyps(2)] step.prems(2) by simp
  have one: "state_ok P s1" "preserves (fs_view P (st_disk s)) (fs_view P (st_disk s1))"
    using step.IH [OF step.prems(1) lt step.prems(3)] by simp_all
  from fs_step_ok [OF step.hyps(2) one(1) lt step.prems(3)]
  have "state_ok P s2" "preserves (fs_view P (st_disk s1)) (fs_view P (st_disk s2))" by simp_all
  with one(2) preserves_trans show ?case by blast
qed simp

definition initial_state :: fs_state where
  "initial_state = \<lparr>st_disk = \<lparr>pending_dir = [], archive_dir = []\<rparr>, st_up = False, st_count = 0\<rparr>"

lemma initial_state_ok: "base64_ok P \<Longrightarrow> sha256_hex P \<Longrightarrow> state_ok P initial_state"
  by (simp add: state_ok_def initial_state_def fs_inv_def docs_ok_def)

lemma reachable_ok:
  assumes "base64_ok P" "sha256_hex P" "0 \<le> delay" "(fs_step P delay)\<^sup>*\<^sup>* initial_state s"
    and "int (st_count s) < max_safe_integer"
  shows "state_ok P s"
  using fs_steps_ok [OF assms(4) initial_state_ok [OF assms(1,2)] assms(5,3)] by simp

lemma fs_steps_count: "(fs_step P delay)\<^sup>*\<^sup>* s s' \<Longrightarrow> st_count s \<le> st_count s'"
  by (induction rule: rtranclp_induct) (auto dest: fs_step_count)

text \<open>Operations that complete one after the other.\<close>

fun fs_exec :: "platform \<Rightarrow> int \<Rightarrow> fs_op list \<Rightarrow> fs_state \<Rightarrow> fs_state" where
  "fs_exec P delay [] s = s"
| "fs_exec P delay (x # xs) s = fs_exec P delay xs
     (s\<lparr>st_disk := apply_effects (fs_effects P delay x (st_disk s)) (st_disk s),
       st_count := Suc (st_count s)\<rparr>)"

lemma fs_exec_frame [simp]:
  "st_up (fs_exec P delay xs s) = st_up s" "st_count (fs_exec P delay xs s) = st_count s + length xs"
  by (induction xs arbitrary: s) simp_all

lemma fs_exec_steps:
  assumes "st_up s" and "list_all fs_op_ok xs"
  shows "(fs_step P delay)\<^sup>*\<^sup>* s (fs_exec P delay xs s)"
  using assms
proof (induction xs arbitrary: s)
  case (Cons x xs)
  then have "fs_step P delay s (s\<lparr>st_disk := apply_effects (fs_effects P delay x (st_disk s)) (st_disk s),
      st_count := Suc (st_count s)\<rparr>)" by (intro fs_step.complete) simp_all
  with Cons show ?case by (simp add: converse_rtranclp_into_rtranclp)
qed simp

lemma first_restart: "fs_step P delay initial_state (initial_state\<lparr>st_up := True\<rparr>)"
proof -
  have "fs_initialize P (\<lambda>_. 0) (st_disk initial_state) = ([], Inr ())"
    by (simp add: fs_initialize_def initial_state_def jsonFiles_def)
  with fs_step.restart [of initial_state P "\<lambda>_. 0" delay] show ?thesis
    by (simp add: initial_state_def)
qed

lemma exec_reachable:
  "list_all fs_op_ok xs \<Longrightarrow>
    (fs_step P delay)\<^sup>*\<^sup>* initial_state (fs_exec P delay xs (initial_state\<lparr>st_up := True\<rparr>))"
  by (rule converse_rtranclp_into_rtranclp [OF first_restart fs_exec_steps]) simp_all

end
