(* ===== verification/Queue_Properties.thy ===== *)
theory Queue_Properties
  imports Queue_Crash Sample_Platform
begin

text \<open>
  The properties of the compiler job queues: what survives a crash, what recovery gives, that
  a finished job is never run again, and that both queues implement the abstract one.
\<close>

section \<open>Jobs of reachable states\<close>

definition queue_platform :: "platform \<Rightarrow> bool" where
  "queue_platform P = (base64_ok P \<and> sha256_hex P)"

text \<open>
  Reachable from the empty directories by operations, crashes, restarts and crashes of a
  restart, within the number of operations for which attempt counters are safe integers.
\<close>

definition reachable :: "platform \<Rightarrow> int \<Rightarrow> fs_state \<Rightarrow> bool" where
  "reachable P delay s = (queue_platform P \<and> 0 \<le> delay \<and> (fs_step P delay)\<^sup>*\<^sup>* initial_state s \<and>
     int (st_count s) < max_safe_integer)"

lemma reachable_state_ok: "reachable P delay s \<Longrightarrow> state_ok P s"
  by (auto simp: reachable_def queue_platform_def intro: reachable_ok)

lemma reachable_up: "reachable P delay s \<Longrightarrow> st_up s \<Longrightarrow> fs_up P (st_count s) (st_disk s)"
  by (drule reachable_state_ok) (simp add: state_ok_def fs_up_def)

lemma reachable_steps:
  assumes "reachable P delay s" and "(fs_step P delay)\<^sup>*\<^sup>* s s'" and "int (st_count s') < max_safe_integer"
  shows "reachable P delay s'" and "preserves (fs_view P (st_disk s)) (fs_view P (st_disk s'))"
  using assms fs_steps_ok [OF assms(2) reachable_state_ok [OF assms(1)] assms(3)]
  by (auto simp: reachable_def)

lemma waiting_key:
  assumes "fs_inv P n d" and "waiting (fs_view P d) k = Some j"
  shows "\<exists>jid. fst (job_identity j) = Str jid \<and> k = file_name P jid"
  by (rule pending_cases [OF assms(1), of k]) (use assms(2) in \<open>auto simp: doc_identity_def\<close>)

section \<open>A sample run\<close>

definition sample_job :: enqueue_input where
  "sample_job = \<lparr>in_id = Str (js ''job-1''), in_deploymentId = Str (js ''d-1''),
     in_jobFingerprint = Str (replicate 64 97), in_body = Some [1, 2, 3]\<rparr>"

lemma sample_job_valid: "validateEnqueue sample_job = Inr ()"
  by (simp add: validateEnqueue_def sample_job_def require_def list_all_iff is_hex_lower_def is_digit_def in_range_def)

definition sample_outcome :: jsval where
  "sample_outcome = Obj [(js ''kind'', Str (js ''terminal''))]"

lemma sample_outcome: "valid_outcome sample_outcome" "is_terminal sample_outcome"
  by (simp_all add: valid_outcome_def is_terminal_def sample_outcome_def)

definition sample_key :: jsstr where
  "sample_key = file_name sample_platform (js ''job-1'')"

definition sample_ops :: "fs_op list" where
  "sample_ops = [Fs_enqueue (\<lambda>_. 5000) sample_job, Fs_claim (\<lambda>_. 6000),
     Fs_finish (\<lambda>_. 7000) (js ''job-1'') sample_outcome]"

definition sample_state :: "nat \<Rightarrow> fs_state" where
  "sample_state i = fs_exec sample_platform 1000 (take i sample_ops) (initial_state\<lparr>st_up := True\<rparr>)"

lemma sample_ops_ok: "list_all fs_op_ok (take i sample_ops)"
proof -
  have "list_all fs_op_ok sample_ops"
    by (simp add: sample_ops_def clock_ok_def max_safe_integer_def sample_outcome)
  then show ?thesis by (meson list_all_iff in_set_takeD)
qed

lemma sample_reachable: "reachable sample_platform 1000 (sample_state i)" "st_up (sample_state i)"
proof -
  have "length (take i sample_ops) \<le> 3" by (simp add: sample_ops_def)
  then show "reachable sample_platform 1000 (sample_state i)" "st_up (sample_state i)"
    using exec_reachable [OF sample_ops_ok, of sample_platform 1000 i]
    by (simp_all add: reachable_def queue_platform_def sample_sha256_hex sample_base64 sample_state_def
        initial_state_def max_safe_integer_def)
qed

lemma sample_state_Suc:
  "i < 3 \<Longrightarrow> st_disk (sample_state (Suc i)) =
    apply_effects (fs_effects sample_platform 1000 (sample_ops ! i) (st_disk (sample_state i)))
      (st_disk (sample_state i))"
proof -
  have exec: "fs_exec P delay (xs @ ys) s = fs_exec P delay ys (fs_exec P delay xs s)" for P delay xs ys s
    by (induction xs arbitrary: s) simp_all
  assume "i < 3"
  then have "take (Suc i) sample_ops = take i sample_ops @ [sample_ops ! i]"
    by (intro take_Suc_conv_app_nth) (simp add: sample_ops_def)
  then show ?thesis by (simp add: sample_state_def exec)
qed

abbreviation sample_view :: "nat \<Rightarrow> jsstr queue" where
  "sample_view i \<equiv> fs_view sample_platform (st_disk (sample_state i))"

lemma sample_inv: "fs_inv sample_platform (st_count (sample_state i)) (st_disk (sample_state i))"
  "separate (sample_view i)"
  using reachable_up [OF sample_reachable, of i] by (simp_all add: fs_up_def)

lemma sample_view_1: "sample_view 1 = \<lparr>waiting = [sample_key \<mapsto> job_input sample_job 5000], finished = Map.empty\<rparr>"
proof -
  have z: "sample_view 0 = \<lparr>waiting = Map.empty, finished = Map.empty\<rparr>"
    by (simp add: fs_view_def sample_state_def initial_state_def)
  have "sample_view 1 = snd (spec_enqueue (file_name sample_platform) sample_job 5000 (sample_view 0))"
    using fs_enqueue_refines [where clock = "\<lambda>_. 5000", OF sample_inv(1) [of 0], of sample_job]
      sample_state_Suc [of 0]
    by (simp add: sample_ops_def clock_ok_def max_safe_integer_def prod_eq_iff)
  then show ?thesis
    unfolding z spec_enqueue_def sample_job_valid by (simp add: Let_def sample_key_def sample_job_def)
qed

lemma sample_view_2: "sample_view 2 =
  \<lparr>waiting = [sample_key \<mapsto> started (job_input sample_job 5000)], finished = Map.empty\<rparr>"
  and sample_claims: "snd (fs_claim sample_platform (\<lambda>_. 6000) (st_disk (sample_state 1))) =
    Inr (Some (claim_of (job_input sample_job 5000)))"
proof -
  obtain answer where a: "snd (fs_claim sample_platform (\<lambda>_. 6000) (st_disk (sample_state 1))) = Inr answer"
    "spec_claim 6000 (sample_view 1) answer (sample_view 2)"
    using fs_claim_refines [where clock = "\<lambda>_. 6000", OF sample_inv(1) [of 1]] sample_reachable(1) [of 1]
      sample_state_Suc [of 1]
    by (auto simp: sample_ops_def reachable_def numeral_2_eq_2)
  from a(2) have "answer = Some (claim_of (job_input sample_job 5000)) \<and> sample_view 2 =
      \<lparr>waiting = [sample_key \<mapsto> started (job_input sample_job 5000)], finished = Map.empty\<rparr>"
    unfolding sample_view_1
    by (auto simp: spec_claim_def claimable_def job_input_def split: option.splits if_splits)
  with a(1) show "sample_view 2 =
      \<lparr>waiting = [sample_key \<mapsto> started (job_input sample_job 5000)], finished = Map.empty\<rparr>"
    "snd (fs_claim sample_platform (\<lambda>_. 6000) (st_disk (sample_state 1))) =
      Inr (Some (claim_of (job_input sample_job 5000)))" by simp_all
qed

lemma sample_view_3: "finished (sample_view 3) sample_key \<noteq> None"
proof -
  have "spec_finish (file_name sample_platform) 1000 (js ''job-1'') True 7000 (sample_view 2) \<noteq> None \<and>
      finished (the (spec_finish (file_name sample_platform) 1000 (js ''job-1'') True 7000 (sample_view 2)))
        sample_key \<noteq> None"
    unfolding sample_view_2
    by (simp add: spec_finish_def Let_def sample_key_def [symmetric] started_def job_input_def
        input_identity_def sample_job_def)
  then show ?thesis
    using fs_finish_refines [where clock = "\<lambda>_. 7000", OF sample_inv(1) [of 2] _ _ _ sample_outcome(1)
        sample_inv(2) [of 2], of 1000 "js ''job-1''"] sample_outcome(2) sample_state_Suc [of 2]
    by (auto simp: sample_ops_def clock_ok_def max_safe_integer_def numeral_3_eq_3 numeral_2_eq_2)
qed

section \<open>Crashes and restarts\<close>

text \<open>
  C14. Whatever operations, crashes in the middle of an operation, restarts and crashes of a
  restart follow a reachable state of the filesystem queue, every job keeps its id, deployment
  and fingerprint, and an archived job stays archived.
\<close>

theorem queue_survives_crashes:
  assumes "reachable P delay s" and "(fs_step P delay)\<^sup>*\<^sup>* s s'" and "int (st_count s') < max_safe_integer"
  shows "(\<forall>k. identity_of (fs_view P (st_disk s)) k \<noteq> None \<longrightarrow>
      identity_of (fs_view P (st_disk s')) k = identity_of (fs_view P (st_disk s)) k) \<and>
    dom (finished (fs_view P (st_disk s))) \<subseteq> dom (finished (fs_view P (st_disk s')))"
  using reachable_steps(2) [OF assms] by (simp add: preserves_def)

definition sample_crashed :: fs_state where
  "sample_crashed = (sample_state 2)\<lparr>st_disk := apply_effects (take 1 (fs_effects sample_platform 1000
     (sample_ops ! 2) (st_disk (sample_state 2)))) (st_disk (sample_state 2)),
     st_up := False, st_count := Suc (st_count (sample_state 2))\<rparr>"

lemma sample_crash: "fs_step sample_platform 1000 (sample_state 2) sample_crashed"
  unfolding sample_crashed_def
  by (rule fs_step.crash) (use sample_reachable(2) sample_ops_ok [of 3] in \<open>simp_all add: sample_ops_def\<close>)

lemma sample_crash_steps: "(fs_step sample_platform 1000)\<^sup>*\<^sup>* (sample_state 2) sample_crashed"
  using sample_crash by blast

lemma sample_count: "st_count (sample_state i) \<le> 3"
  by (simp add: sample_state_def initial_state_def sample_ops_def)

theorem queue_survives_crashes_witness:
  "identity_of (fs_view sample_platform (st_disk sample_crashed)) sample_key =
    Some (Str (js ''job-1''), Str (js ''d-1''), Str (replicate 64 97))"
proof -
  have "identity_of (sample_view 2) sample_key =
      Some (Str (js ''job-1''), Str (js ''d-1''), Str (replicate 64 97))"
    unfolding sample_view_2
    by (simp add: identity_of_def job_input_def input_identity_def sample_job_def)
  then show ?thesis
    using queue_survives_crashes [OF sample_reachable(1) [of 2] sample_crash_steps]
      sample_count [of 2]
    by (simp add: sample_crashed_def max_safe_integer_def)
qed

text \<open>
  C16. From any reachable state, in particular after a crash at any point, initialize succeeds;
  afterwards no job is running, none is both waiting and archived, and every job has kept its
  identity.
\<close>

theorem queue_recovers:
  fixes clock :: clock
  assumes "reachable P delay s"
  defines "d' \<equiv> apply_effects (fst (fs_initialize P clock (st_disk s))) (st_disk s)"
  shows "snd (fs_initialize P clock (st_disk s)) = Inr () \<and> separate (fs_view P d') \<and>
    Running \<notin> job_status ` ran (waiting (fs_view P d')) \<and>
    preserves (fs_view P (st_disk s)) (fs_view P d')"
proof -
  have inv: "fs_inv P (st_count s) (st_disk s)"
    using reachable_state_ok [OF assms(1)] by (simp add: state_ok_def)
  note r = initialize_recovers [OF inv, of clock]
  have "Running \<notin> job_status ` ran (waiting (fs_view P d'))"
  proof
    assume "Running \<in> job_status ` ran (waiting (fs_view P d'))"
    then obtain k j where "waiting (fs_view P d') k = Some j" "job_status j = Running"
      by (auto simp: ran_def)
    with r(4) show False unfolding d'_def by blast
  qed
  then show ?thesis
    using r(1,3) effects_ok_all [OF inv r(2)] by (simp add: d'_def)
qed

lemma sample_crashed_reachable: "reachable sample_platform 1000 sample_crashed"
  using reachable_steps(1) [OF sample_reachable(1) [of 2] sample_crash_steps] sample_count [of 2]
  by (simp add: sample_crashed_def max_safe_integer_def)

theorem queue_recovers_witness:
  "snd (fs_initialize sample_platform (\<lambda>_. 9000) (st_disk sample_crashed)) = Inr ()"
  using queue_recovers [OF sample_crashed_reachable, of "\<lambda>_. 9000"] by simp



section \<open>Refinement of the abstract queue\<close>

text \<open>
  C17. In every reachable state of a running process, enqueue, claim and finish of the
  filesystem queue return what the abstract queue returns and leave the directories in a state
  that represents the abstract result: enqueue exactly, claim one of the jobs that are due (and
  none only if none is due), finish exactly, with an error and no effect when the job is not
  running under this id.
\<close>

theorem fs_queue_refines_spec:
  assumes "reachable P delay s" and "st_up s" and "clock_ok (clock 0)" and "jid \<noteq> []" and "valid_outcome outcome"
  defines "d \<equiv> st_disk s"
  shows "(snd (fs_enqueue P clock inp d), fs_view P (apply_effects (fst (fs_enqueue P clock inp d)) d)) =
      spec_enqueue (file_name P) inp (clock 0) (fs_view P d) \<and>
    (\<exists>answer. snd (fs_claim P clock d) = Inr answer \<and>
      spec_claim (clock 0) (fs_view P d) answer (fs_view P (apply_effects (fst (fs_claim P clock d)) d))) \<and>
    (case spec_finish (file_name P) delay jid (is_terminal outcome) (clock 0) (fs_view P d) of
       None \<Rightarrow> (\<exists>e. fs_finish P delay clock (Str jid) outcome d = ([], Inl e))
     | Some q \<Rightarrow> snd (fs_finish P delay clock (Str jid) outcome d) = Inr () \<and>
         fs_view P (apply_effects (fst (fs_finish P delay clock (Str jid) outcome d)) d) = q)"
proof -
  have up: "fs_inv P (st_count s) d" "separate (fs_view P d)"
    using reachable_up [OF assms(1,2)] by (simp_all add: fs_up_def d_def)
  have b: "int (st_count s) < max_safe_integer" "0 \<le> delay" using assms(1) by (simp_all add: reachable_def)
  from fs_enqueue_refines [where clock = clock, OF up(1) assms(3), of inp]
    fs_claim_refines [where clock = clock, OF up(1) b(1)]
    fs_finish_refines [where clock = clock, OF up(1) assms(3) b(2) assms(4,5) up(2)]
  show ?thesis by blast
qed

theorem fs_queue_refines_spec_witness:
  "snd (fs_enqueue sample_platform (\<lambda>_. 7000) sample_job (st_disk (sample_state 2))) = Inr True"
proof -
  have "spec_enqueue (file_name sample_platform) sample_job 7000 (sample_view 2) = (Inr True, q)"
    if "q = snd (spec_enqueue (file_name sample_platform) sample_job 7000 (sample_view 2))" for q
    using that unfolding sample_view_2 spec_enqueue_def sample_job_valid
    by (simp add: Let_def sample_key_def [symmetric] job_input_def input_identity_def sample_job_def)
  then show ?thesis
    using fs_queue_refines_spec [where clock = "\<lambda>_. 7000" and jid = "js ''job-1''" and
        inp = sample_job, OF sample_reachable [of 2] _ _ sample_outcome(1)]
    by (simp add: clock_ok_def max_safe_integer_def prod_eq_iff)
qed

text \<open>
  C18. Run after run of operations on the memory queue that starts empty, each operation answers
  as the abstract queue and the maps represent its state.
\<close>

theorem memory_queue_refines_spec:
  fixes delay :: int
  assumes "list_all op_ok xs" and "int (length xs) < max_safe_integer" and "clock_ok now"
    and "jid \<noteq> []" and "valid_outcome outcome"
  defines "q \<equiv> memory_queue.run delay xs \<lparr>mq_pending = [], mq_archive = []\<rparr>"
  shows "(fst (mem_enqueue (\<lambda>_. now) inp q), mem_view (snd (mem_enqueue (\<lambda>_. now) inp q))) =
      spec_enqueue id inp now (mem_view q) \<and>
    spec_claim now (mem_view q) (fst (mem_claim (\<lambda>_. now) q)) (mem_view (snd (mem_claim (\<lambda>_. now) q))) \<and>
    (case spec_finish id delay jid (is_terminal outcome) now (mem_view q) of
       None \<Rightarrow> (\<exists>e. fst (mem_finish delay (\<lambda>_. now) jid outcome q) = Inl e) \<and>
         mem_view (snd (mem_finish delay (\<lambda>_. now) jid outcome q)) = mem_view q
     | Some q' \<Rightarrow> fst (mem_finish delay (\<lambda>_. now) jid outcome q) = Inr () \<and>
         mem_view (snd (mem_finish delay (\<lambda>_. now) jid outcome q)) = q')"
proof -
  have "mem_inv 0 \<lparr>mq_pending = [], mq_archive = []\<rparr>" by (simp add: mem_inv_def mem_ok_def)
  with memory_queue.run_inv [OF _ assms(1), of 0] assms(2)
  obtain m where m: "m \<le> length xs" "mem_inv m q" by (auto simp: q_def)
  with assms(2) have lim: "int m < max_safe_integer" by simp
  from memory_queue.enqueue_refines [OF m(2) assms(3), of inp]
    memory_queue.claim_refines [OF m(2) assms(3) lim] memory_queue.finish_refines [OF m(2) assms(3-5), of delay]
  show ?thesis by auto
qed

theorem memory_queue_refines_spec_witness:
  "fst (mem_enqueue (\<lambda>_. 6000) sample_job
      (memory_queue.run 1000 [Enqueue 5000 sample_job] \<lparr>mq_pending = [], mq_archive = []\<rparr>)) = Inr True"
proof -
  have v: "mem_view (snd (mem_enqueue (\<lambda>_. 5000) sample_job \<lparr>mq_pending = [], mq_archive = []\<rparr>)) =
      snd (spec_enqueue id sample_job 5000 (mem_view \<lparr>mq_pending = [], mq_archive = []\<rparr>))"
    using memory_queue_refines_spec [of "[]" 5000 "js ''job-1''" sample_outcome sample_job 1000]
      sample_outcome(1) by (simp add: clock_ok_def max_safe_integer_def prod_eq_iff)
  have e: "mem_view \<lparr>mq_pending = [], mq_archive = []\<rparr> = \<lparr>waiting = Map.empty, finished = Map.empty\<rparr>"
    by (simp add: mem_view_def fun_eq_iff)
  have "fst (spec_enqueue id sample_job 6000 (snd (spec_enqueue id sample_job 5000
      \<lparr>waiting = Map.empty, finished = Map.empty\<rparr>))) = Inr True"
    unfolding spec_enqueue_def sample_job_valid
    by (simp add: Let_def job_input_def)
  then show ?thesis
    using memory_queue_refines_spec [of "[Enqueue 5000 sample_job]" 6000 "js ''job-1''" sample_outcome sample_job 1000]
      sample_outcome(1) by (simp add: v e clock_ok_def max_safe_integer_def prod_eq_iff)
qed

section \<open>Retries\<close>


definition sample_retry :: jsval where
  "sample_retry = Obj [(js ''kind'', Str (js ''retry''))]"

lemma sample_retry: "valid_outcome sample_retry" "\<not> is_terminal sample_retry"
  by (simp_all add: valid_outcome_def is_terminal_def sample_retry_def)


text \<open>
  When the archive of a job is written and the removal of its pending file fails, a finish with
  a retry outcome succeeds and makes the archived job claimable again.
\<close>

lemma failed_removal_reopens_job:
  assumes inv: "fs_inv P n d" and w: "waiting (fs_view P d) (file_name P jid) = Some j"
    and "job_status j = Running" "fst (job_identity j) = Str jid" "finished (fs_view P d) (file_name P jid) = Some t"
    and clk: "clock_ok (clock 0)" and delay: "0 \<le> delay" and "jid \<noteq> []" "valid_outcome outcome"
    and "\<not> is_terminal outcome"
  defines "d' \<equiv> apply_effects (fst (fs_finish P delay clock (Str jid) outcome d)) d"
  shows "snd (fs_finish P delay clock (Str jid) outcome d) = Inr () \<and>
    waiting (fs_view P d') (file_name P jid) = Some (rescheduled delay (clock 0) j) \<and>
    finished (fs_view P d') (file_name P jid) = Some t"
proof (rule pending_cases [OF inv, of "file_name P jid"])
  fix v vid
  assume p: "map_of (pending_dir d) (file_name P jid) = Some (Document v)" "valid_doc P v"
  then have rd: "readRecord P (pending_dir d) (file_name P jid) = Inr v" by (simp add: readRecord_iff)
  have j: "j = doc_job P v" using w p(1) by simp
  have run: "get v ''id'' = Str jid" "get v ''state'' = Str (js ''running'')"
    using assms(3,4) p(2) by (simp_all add: j doc_running doc_identity_def)
  note doc = retry_record_doc [where clock = clock, OF p(2) clk delay, of outcome]
  have "fs_finish P delay clock (Str jid) outcome d =
      ([Write_pending (file_name P jid) (retry_record v delay outcome clock)], Inr ())"
    using assms(8-10) rd run by (simp add: fs_finish_def Let_def is_terminal_def)
  with doc assms(5) j show ?thesis by (simp add: d'_def)
qed (use w in simp)

end
