(* ===== verification/Production_Limits.thy ===== *)
theory Production_Limits
  imports JS_Values
begin

text \<open>
  \<open>src/compiler/src/production-limits.mjs\<close>: the fixed output bounds of production and
  the early-exit size accumulator every output check goes through. The accumulator is shown
  equal to the plain specification: every size is a bounded safe integer and the sum of all
  sizes is within the maximum.
\<close>

record output_limits =
  maxFiles :: nat
  maxFileBytes :: nat
  maxSandboxBytes :: nat
  maxPackageInputBytes :: nat
  maxBundleArchiveBytes :: nat
  maxPackageTarBytes :: nat
  maxPackageArchiveBytes :: nat

definition PRODUCTION_OUTPUT_LIMITS :: output_limits where
  "PRODUCTION_OUTPUT_LIMITS = \<lparr>
     maxFiles = 16384,
     maxFileBytes = 256 * 1024 * 1024,
     maxSandboxBytes = 320 * 1024 * 1024,
     maxPackageInputBytes = 384 * 1024 * 1024,
     maxBundleArchiveBytes = 400 * 1024 * 1024,
     maxPackageTarBytes = 400 * 1024 * 1024,
     maxPackageArchiveBytes = 401 * 1024 * 1024 \<rparr>"

lemmas limit_defs = PRODUCTION_OUTPUT_LIMITS_def

fun output_size_loop :: "int \<Rightarrow> int \<Rightarrow> jsval list \<Rightarrow> bool" where
  "output_size_loop maximum tot [] = True"
| "output_size_loop maximum tot (sz # sizes) =
     (if \<not> isSafeInteger sz \<or> the_int sz < 0 \<or>
         int (maxFileBytes PRODUCTION_OUTPUT_LIMITS) < the_int sz then False
      else (let tot' = tot + the_int sz in
        if max_safe_integer < tot' \<or> maximum < tot' then False
        else output_size_loop maximum tot' sizes))"

definition outputSizeWithinLimit :: "jsval list \<Rightarrow> jsval \<Rightarrow> bool" where
  "outputSizeWithinLimit sizes maximum =
     (if \<not> isSafeInteger maximum \<or> the_int maximum < 1 then False
      else output_size_loop (the_int maximum) 0 sizes)"

definition bounded_size :: "jsval \<Rightarrow> bool" where
  "bounded_size v = (isSafeInteger v \<and> 0 \<le> the_int v \<and>
     the_int v \<le> int (maxFileBytes PRODUCTION_OUTPUT_LIMITS))"

lemma output_size_loop_spec:
  assumes "maximum \<le> max_safe_integer" and "0 \<le> tot" and "tot \<le> maximum"
  shows "output_size_loop maximum tot sizes \<longleftrightarrow>
    list_all bounded_size sizes \<and> tot + sum_list (map the_int sizes) \<le> maximum"
  using assms
proof (induction sizes arbitrary: tot)
  case (Cons v vs)
  show ?case
  proof (cases "bounded_size v \<and> tot + the_int v \<le> maximum")
    case True
    with Cons.prems have "0 \<le> tot + the_int v" by (simp add: bounded_size_def)
    with Cons True show ?thesis by (simp add: bounded_size_def Let_def add.assoc)
  next
    case False
    have "0 \<le> sum_list (map the_int vs)" if "list_all bounded_size vs"
      using that by (intro sum_list_nonneg) (auto simp: list_all_iff bounded_size_def)
    with False Cons.prems show ?thesis by (auto simp: bounded_size_def [of v] Let_def)
  qed
qed simp

lemma outputSizeWithinLimit_spec:
  "outputSizeWithinLimit sizes maximum \<longleftrightarrow>
     (isSafeInteger maximum \<and> 1 \<le> the_int maximum \<and> list_all bounded_size sizes \<and>
      sum_list (map the_int sizes) \<le> the_int maximum)"
proof (cases "isSafeInteger maximum \<and> 1 \<le> the_int maximum")
  case True
  then have "the_int maximum \<le> max_safe_integer" by (cases maximum) auto
  with True show ?thesis
    by (simp add: outputSizeWithinLimit_def output_size_loop_spec)
qed (auto simp: outputSizeWithinLimit_def)

text \<open>
  The size accumulator of the output checks accepts a list of sizes exactly when the
  maximum is a positive safe integer, each size is a safe integer between 0 and the file
  limit, and the sum of all of them does not exceed the maximum; the early exits change
  nothing.
\<close>

theorem outputSizeWithinLimit_iff:
  "outputSizeWithinLimit sizes maximum \<longleftrightarrow>
     (isSafeInteger maximum \<and> 1 \<le> the_int maximum \<and> list_all bounded_size sizes \<and>
      sum_list (map the_int sizes) \<le> the_int maximum)"
  by (rule outputSizeWithinLimit_spec)

end
