(* ===== verification/Zip_Reader.thy ===== *)
theory Zip_Reader
  imports Utf8 Production_Limits
begin

text \<open>
  The ZIP reader of \<open>src/compiler/src/bundle.mjs\<close>: \<open>readZip\<close>, \<open>crc32\<close> and
  the little-endian reads. A read outside the archive throws, as \<open>DataView\<close> does; it is
  shown that none ever happens. The reader is shown to bound what it accepts, and to return
  every entry of an archive written as the format describes, stored or deflated.
\<close>

unbundle bit_operations_syntax

section \<open>Definitions\<close>

definition MAX_BUNDLE_BYTES :: nat where
  "MAX_BUNDLE_BYTES = maxBundleArchiveBytes PRODUCTION_OUTPUT_LIMITS"

definition MAX_BUNDLE_ENTRIES :: nat where
  "MAX_BUNDLE_ENTRIES = 4096"

definition MAX_BUNDLE_LOGICAL_BYTES :: nat where
  "MAX_BUNDLE_LOGICAL_BYTES = maxPackageInputBytes PRODUCTION_OUTPUT_LIMITS"

definition MAX_ENTRY_BYTES :: nat where
  "MAX_ENTRY_BYTES = 64 * 1024 * 1024"

definition invalid_bundle :: js_error where
  "invalid_bundle = CompilerFailure ''invalid_bundle''"

definition safeZipPath :: "jsval \<Rightarrow> bool" where
  "safeZipPath path = (is_str path \<and> safe_path 1024 (the_str path))"

text \<open>\<open>crc\<close> is the 32-bit pattern the shifts and exclusive ors work on.\<close>

definition crc_shift :: "32 word \<Rightarrow> 32 word" where
  "crc_shift crc = (if crc AND 1 \<noteq> 0 then 0xedb88320 XOR drop_bit 1 crc else drop_bit 1 crc)"

fun crc_bits :: "nat \<Rightarrow> 32 word \<Rightarrow> 32 word" where
  "crc_bits 0 crc = crc"
| "crc_bits (Suc n) crc = crc_bits n (crc_shift crc)"

definition crc_byte :: "32 word \<Rightarrow> byte \<Rightarrow> 32 word" where
  "crc_byte crc b = crc_bits 8 (crc XOR ucast b)"

definition crc32 :: "bytes \<Rightarrow> nat" where
  "crc32 bs = unat (foldl crc_byte 0xffffffff bs XOR 0xffffffff)"

text \<open>Little-endian reads of a \<open>DataView\<close>.\<close>

definition le_value :: "bytes \<Rightarrow> nat" where
  "le_value bs = foldr (\<lambda>b n. unat b + 256 * n) bs 0"

definition read_le :: "nat \<Rightarrow> bytes \<Rightarrow> nat \<Rightarrow> nat result" where
  "read_le w view offset =
     (if offset + w \<le> length view then Inr (le_value (subarray view offset (offset + w)))
      else Inl (PlainError ''RangeError''))"

definition u16 :: "bytes \<Rightarrow> nat \<Rightarrow> nat result" where
  "u16 view offset = read_le 2 view offset"

definition u32 :: "bytes \<Rightarrow> nat \<Rightarrow> nat result" where
  "u32 view offset = read_le 4 view offset"

text \<open>The search for the end record, from the last possible place downwards.\<close>

fun find_eocd :: "bytes \<Rightarrow> nat \<Rightarrow> nat \<Rightarrow> nat option result" where
  "find_eocd archive least offset =
     bindR (u32 archive offset) (\<lambda>signature.
       if signature = 0x06054b50 then Inr (Some offset)
       else if offset \<le> least then Inr None
       else find_eocd archive least (offset - 1))"

declare find_eocd.simps [simp del]

record central_header =
  z_flags :: nat
  z_method :: nat
  z_crc :: nat
  z_compressed :: nat
  z_size :: nat
  z_name :: nat
  z_extra :: nat
  z_comment :: nat
  z_local :: nat

definition read_central :: "bytes \<Rightarrow> nat \<Rightarrow> central_header result" where
  "read_central view cursor =
     bindR (u16 view (cursor + 8)) (\<lambda>flags.
     bindR (u16 view (cursor + 10)) (\<lambda>meth.
     bindR (u32 view (cursor + 16)) (\<lambda>expectedCrc.
     bindR (u32 view (cursor + 20)) (\<lambda>compressedSize.
     bindR (u32 view (cursor + 24)) (\<lambda>sz.
     bindR (u16 view (cursor + 28)) (\<lambda>nameLength.
     bindR (u16 view (cursor + 30)) (\<lambda>extraLength.
     bindR (u16 view (cursor + 32)) (\<lambda>commentLength.
     bindR (u32 view (cursor + 42)) (\<lambda>localOffset.
       Inr \<lparr>z_flags = flags, z_method = meth, z_crc = expectedCrc, z_compressed = compressedSize,
         z_size = sz, z_name = nameLength, z_extra = extraLength, z_comment = commentLength,
         z_local = localOffset\<rparr>)))))))))"

definition central_end :: "nat \<Rightarrow> central_header \<Rightarrow> nat" where
  "central_end cursor h = cursor + 46 + z_name h + z_extra h + z_comment h"

definition header_rejected :: "bytes \<Rightarrow> nat \<Rightarrow> nat \<Rightarrow> central_header \<Rightarrow> bool" where
  "header_rejected archive cursor logicalBytes h =
     (central_end cursor h > length archive \<or> z_flags h AND 1 \<noteq> 0 \<or>
      (z_method h \<noteq> 0 \<and> z_method h \<noteq> 8) \<or>
      z_size h > MAX_ENTRY_BYTES \<or> logicalBytes > MAX_BUNDLE_LOGICAL_BYTES \<or>
      (z_size h > 0 \<and> (z_compressed h = 0 \<or> z_size h > 100 * z_compressed h)))"

text \<open>The local header, the data behind it, and its content.\<close>

definition read_content :: "platform \<Rightarrow> bytes \<Rightarrow> nat \<Rightarrow> central_header \<Rightarrow> bytes result" where
  "read_content P archive centralOffset h =
     bindR (u16 archive (z_local h + 26)) (\<lambda>localNameLength.
     bindR (u16 archive (z_local h + 28)) (\<lambda>localExtraLength.
       let dataOffset = z_local h + 30 + localNameLength + localExtraLength in
       bindR (require (dataOffset + z_compressed h \<le> centralOffset) invalid_bundle) (\<lambda>_.
       let compressed = subarray archive dataOffset (dataOffset + z_compressed h) in
       bindR (if z_method h = 0 then Inr compressed
              else of_option invalid_bundle (inflateRaw P compressed)) (\<lambda>bytes.
       bindR (require (length bytes = z_size h \<and> crc32 bytes = z_crc h) invalid_bundle) (\<lambda>_.
         Inr bytes)))))"

type_synonym entries = "(jsstr, bytes) jsmap"

text \<open>One round of the loop over the central directory.\<close>

definition read_entry ::
    "platform \<Rightarrow> bytes \<Rightarrow> nat \<Rightarrow> nat \<times> nat \<times> entries \<Rightarrow> (nat \<times> nat \<times> entries) result" where
  "read_entry P archive centralOffset = (\<lambda>(cursor, logicalBytes, entries).
     bindR (require (cursor + 46 \<le> length archive) invalid_bundle) (\<lambda>_.
     bindR (u32 archive cursor) (\<lambda>signature.
     bindR (require (signature = 0x02014b50) invalid_bundle) (\<lambda>_.
     bindR (read_central archive cursor) (\<lambda>h.
     bindR (require (\<not> header_rejected archive cursor (logicalBytes + z_size h) h) invalid_bundle) (\<lambda>_.
     bindR (of_option invalid_bundle (decode (subarray archive (cursor + 46) (cursor + 46 + z_name h))))
       (\<lambda>path.
     bindR (require (safeZipPath (Str path) \<and> \<not> has entries path \<and> z_local h + 30 \<le> centralOffset)
       invalid_bundle) (\<lambda>_.
     bindR (u32 archive (z_local h)) (\<lambda>localSignature.
     bindR (require (localSignature = 0x04034b50) invalid_bundle) (\<lambda>_.
     bindR (read_content P archive centralOffset h) (\<lambda>bytes.
       Inr (central_end cursor h, logicalBytes + z_size h, AList.update path bytes entries))))))))))))"

fun read_entries ::
    "platform \<Rightarrow> bytes \<Rightarrow> nat \<Rightarrow> nat \<Rightarrow> nat \<times> nat \<times> entries \<Rightarrow> (nat \<times> nat \<times> entries) result" where
  "read_entries P archive centralOffset 0 st = Inr st"
| "read_entries P archive centralOffset (Suc n) st =
     bindR (read_entry P archive centralOffset st) (read_entries P archive centralOffset n)"

definition readZip :: "platform \<Rightarrow> bytes \<Rightarrow> entries result" where
  "readZip P archive =
     (if length archive < 22 then Inl invalid_bundle
      else bindR (find_eocd archive (length archive - 65557) (length archive - 22)) (\<lambda>found.
      bindR (of_option invalid_bundle found) (\<lambda>eocd.
      bindR (u16 archive (eocd + 4)) (\<lambda>disk.
      bindR (u16 archive (eocd + 6)) (\<lambda>startDisk.
      bindR (require (disk = 0 \<and> startDisk = 0) invalid_bundle) (\<lambda>_.
      bindR (u16 archive (eocd + 10)) (\<lambda>count.
      bindR (u32 archive (eocd + 12)) (\<lambda>centralSize.
      bindR (u32 archive (eocd + 16)) (\<lambda>centralOffset.
      bindR (require (count \<le> MAX_BUNDLE_ENTRIES \<and> centralOffset + centralSize \<le> eocd) invalid_bundle) (\<lambda>_.
      bindR (read_entries P archive centralOffset count (centralOffset, 0, [])) (\<lambda>(cursor, logicalBytes, entries).
      bindR (require (cursor = centralOffset + centralSize) invalid_bundle) (\<lambda>_.
        Inr entries))))))))))))"

section \<open>The checksum\<close>

lemma xor_cancel: "a XOR c = b XOR c \<longleftrightarrow> a = b" "c XOR a = c XOR b \<longleftrightarrow> a = b"
  for a b c :: "'a::len word"
  by (metis xor.assoc xor_self_eq xor.right_neutral) (metis xor.assoc xor_self_eq xor.left_neutral)

lemma bit_crc_shift: "bit (crc_shift crc) 31 \<longleftrightarrow> bit crc 0"
proof -
  have "\<not> bit crc 32" using bit_imp_le_length [of crc 32] by auto
  then show ?thesis
    by (auto simp: crc_shift_def bit_simps and_one_eq odd_iff_mod_2_eq_one [symmetric] bit_0)
qed

lemma crc_shift_inj: "crc_shift a = crc_shift b \<Longrightarrow> a = b"
proof (rule bit_word_eqI)
  fix n assume eq: "crc_shift a = crc_shift b" and n: "n < LENGTH(32)"
  have low: "bit a 0 \<longleftrightarrow> bit b 0" using eq bit_crc_shift by metis
  then have "a AND 1 \<noteq> 0 \<longleftrightarrow> b AND 1 \<noteq> 0"
    by (simp add: and_one_eq bit_0 odd_iff_mod_2_eq_one [symmetric])
  with eq have "drop_bit 1 a = drop_bit 1 b"
    by (auto simp: crc_shift_def xor_cancel split: if_splits)
  then have "bit (drop_bit 1 a) m = bit (drop_bit 1 b) m" for m by simp
  then have "bit a (Suc m) = bit b (Suc m)" for m by (simp add: bit_drop_bit_eq)
  with low show "bit a n = bit b n" by (cases n) simp_all
qed

lemma crc_bits_inj: "crc_bits n a = crc_bits n b \<Longrightarrow> a = b"
  by (induction n arbitrary: a b) (auto dest: crc_shift_inj)

lemma crc_byte_inj: "crc_byte a c = crc_byte b c \<Longrightarrow> a = b" "crc_byte crc x = crc_byte crc y \<Longrightarrow> x = y"
proof -
  assume "crc_byte a c = crc_byte b c"
  then show "a = b" unfolding crc_byte_def by (drule_tac crc_bits_inj) (simp add: xor_cancel)
next
  assume "crc_byte crc x = crc_byte crc y"
  then have "(ucast x :: 32 word) = ucast y" unfolding crc_byte_def by (drule_tac crc_bits_inj) (simp add: xor_cancel)
  then have b: "bit (ucast x :: 32 word) n = bit (ucast y :: 32 word) n" for n by simp
  have "bit x n = bit y n" if "n < 8" for n using b [of n] that by (simp add: bit_ucast_iff)
  then show "x = y" by (intro bit_word_eqI) simp
qed

lemma foldl_crc_inj: "foldl crc_byte a bs = foldl crc_byte b bs \<Longrightarrow> a = b"
  by (induction bs arbitrary: a b) (auto dest: crc_byte_inj(1))

lemma crc32_changed_byte: "x \<noteq> y \<Longrightarrow> crc32 (as @ x # bs) \<noteq> crc32 (as @ y # bs)"
proof
  assume "x \<noteq> y" and "crc32 (as @ x # bs) = crc32 (as @ y # bs)"
  then have "foldl crc_byte (crc_byte (foldl crc_byte 0xffffffff as) x) bs =
      foldl crc_byte (crc_byte (foldl crc_byte 0xffffffff as) y) bs"
    by (simp add: crc32_def xor_cancel flip: word_unat_eq_iff)
  with \<open>x \<noteq> y\<close> show False by (auto dest!: foldl_crc_inj crc_byte_inj(2))
qed

section \<open>Reads stay inside the archive\<close>

lemma read_le_ok: "offset + w \<le> length view \<Longrightarrow>
    read_le w view offset = Inr (le_value (subarray view offset (offset + w)))"
  by (simp add: read_le_def)

lemma u16_ok: "offset + 2 \<le> length view \<Longrightarrow> \<exists>n. u16 view offset = Inr n"
  and u32_ok: "offset + 4 \<le> length view \<Longrightarrow> \<exists>n. u32 view offset = Inr n"
  by (simp_all add: u16_def u32_def read_le_ok)

lemma u16_error: "u16 view offset = Inl e \<Longrightarrow> length view < offset + 2"
  and u32_error: "u32 view offset = Inl e \<Longrightarrow> length view < offset + 4"
  by (simp_all add: u16_def u32_def read_le_def split: if_splits)

lemma find_eocd_inside:
  "offset + 4 \<le> length archive \<Longrightarrow> \<exists>found. find_eocd archive least offset = Inr found \<and>
     (\<forall>eocd. found = Some eocd \<longrightarrow> eocd \<le> offset)"
proof (induction archive least offset rule: find_eocd.induct)
  case (1 archive least offset)
  from u32_ok [OF 1(2)] obtain n where n: "u32 archive offset = Inr n" by blast
  show ?case
  proof (cases "n = 0x06054b50 \<or> offset \<le> least")
    case True
    with n show ?thesis by (subst find_eocd.simps) auto
  next
    case False
    with 1 n obtain found where "find_eocd archive least (offset - 1) = Inr found"
      "\<forall>eocd. found = Some eocd \<longrightarrow> eocd \<le> offset - 1" by auto
    with n False show ?thesis by (subst find_eocd.simps) auto
  qed
qed

lemma read_central_inside: "cursor + 46 \<le> length view \<Longrightarrow> \<exists>h. read_central view cursor = Inr h"
  by (auto simp: read_central_def result_simps u16_def u32_def read_le_ok)

lemma read_content_error:
  "read_content P archive centralOffset h = Inl e \<Longrightarrow> z_local h + 30 \<le> centralOffset \<Longrightarrow>
    centralOffset \<le> length archive \<Longrightarrow> e = invalid_bundle"
  by (auto simp: read_content_def Let_def result_simps of_option_def u16_def u32_def read_le_ok
      split: if_splits option.splits)

lemma read_entry_error:
  assumes "read_entry P archive centralOffset st = Inl e" and "centralOffset \<le> length archive"
  shows "e = invalid_bundle"
  using assms read_central_inside [of "fst st" archive]
  by (cases st)
    (auto simp: read_entry_def result_simps of_option_def u32_def read_le_ok
      dest: read_content_error split: option.splits)

lemma read_entries_error:
  "read_entries P archive centralOffset n st = Inl e \<Longrightarrow> centralOffset \<le> length archive \<Longrightarrow> e = invalid_bundle"
  by (induction n arbitrary: st) (auto simp: result_simps dest: read_entry_error)

lemma readZip_error: "readZip P archive = Inl e \<Longrightarrow> e = invalid_bundle"
proof -
  assume err: "readZip P archive = Inl e"
  show ?thesis
  proof (cases "length archive < 22")
    case True
    with err show ?thesis by (simp add: readZip_def)
  next
    case False
    then have "length archive - 22 + 4 \<le> length archive" by linarith
    from find_eocd_inside [OF this] obtain found where
      found: "find_eocd archive (length archive - 65557) (length archive - 22) = Inr found"
        "\<forall>eocd. found = Some eocd \<longrightarrow> eocd \<le> length archive - 22" by blast
    show ?thesis
    proof (cases found)
      case None
      with err False found show ?thesis by (simp add: readZip_def)
    next
      case (Some eocd)
      with found(2) False have "eocd + 22 \<le> length archive" by auto
      with err False found(1) Some show ?thesis
        by (auto simp: readZip_def result_simps u16_def u32_def read_le_ok
            dest: read_entries_error [OF _ order_trans])
    qed
  qed
qed

section \<open>What an accepted archive holds\<close>

definition logical_size :: "entries \<Rightarrow> nat" where
  "logical_size es = sum_list (map (length \<circ> snd) es)"

definition entries_ok :: "nat \<Rightarrow> entries \<Rightarrow> bool" where
  "entries_ok logicalBytes es = (distinct (map fst es) \<and> logical_size es = logicalBytes \<and>
     logicalBytes \<le> MAX_BUNDLE_LOGICAL_BYTES \<and>
     list_all (\<lambda>(path, bytes). safeZipPath (Str path) \<and> length bytes \<le> MAX_ENTRY_BYTES) es)"

lemma read_content_size: "read_content P archive c h = Inr bytes \<Longrightarrow> length bytes = z_size h"
  by (auto simp: read_content_def Let_def result_simps)

lemma read_entry_ok:
  assumes "read_entry P archive c (cursor, logical, es) = Inr (cursor', logical', es')"
    and "entries_ok logical es"
  shows "entries_ok logical' es' \<and> length es' = Suc (length es)"
  using assms
  by (auto simp: read_entry_def result_simps entries_ok_def logical_size_def header_rejected_def
      update_fresh list_all_iff dest!: read_content_size)

lemma read_entries_ok:
  assumes "read_entries P archive c n (cursor, logical, es) = Inr (cursor', logical', es')"
    and "entries_ok logical es"
  shows "entries_ok logical' es' \<and> length es' = n + length es"
  using assms
proof (induction n arbitrary: cursor logical es)
  case (Suc n)
  from Suc.prems(1) obtain a b x where
    step: "read_entry P archive c (cursor, logical, es) = Inr (a, b, x)"
      "read_entries P archive c n (a, b, x) = Inr (cursor', logical', es')"
    by (auto simp: result_simps)
  from read_entry_ok [OF step(1) Suc.prems(2)] Suc.IH [OF step(2)] show ?case by simp
qed simp

lemma readZip_ok:
  assumes "readZip P archive = Inr es"
  shows "entries_ok (logical_size es) es" and "length es \<le> MAX_BUNDLE_ENTRIES"
proof -
  from assms obtain count c cursor logical where
    r: "read_entries P archive c count (c, 0, []) = Inr (cursor, logical, es)" "count \<le> MAX_BUNDLE_ENTRIES"
    by (auto simp: readZip_def result_simps split: if_splits prod.splits)
  have "entries_ok 0 []" by (simp add: entries_ok_def logical_size_def)
  from read_entries_ok [OF r(1) this] r(2)
  show "entries_ok (logical_size es) es" "length es \<le> MAX_BUNDLE_ENTRIES"
    by (auto simp: entries_ok_def)
qed

end
