(* ===== verification/Bundle.thy ===== *)
theory Bundle
  imports Zip_Reader
begin

text \<open>
  Validation of an uploaded server bundle, \<open>validateBundle\<close> of
  \<open>src/compiler/src/bundle.mjs\<close>: the manifest, its agreement with the frozen manifest of
  the control plane, the resolved metadata, and the declared mods. JSON documents come from
  the archive, so every property read may meet any JSON value.
\<close>

section \<open>Paths\<close>

definition startup_script :: "jsstr \<Rightarrow> bool" where
  "startup_script path = (last (split_on 47 (ascii_lower path)) \<in> set (map js
     [''server.sh'', ''server.bat'', ''server.cmd'', ''start.sh'', ''start.bat'', ''start.cmd'']))"

definition allowed_files :: "jsstr list" where
  "allowed_files = map js [''resolved/version.json'', ''resolved/loader.json'', ''resolved/artifacts.json'',
     ''resolved/mods.json'', ''instance/server.properties'', ''instance/pack.toml'', ''instance/pack.mcmeta'',
     ''instance/server-icon.png'']"

definition allowed_prefixes :: "jsstr list" where
  "allowed_prefixes = map js [''instance/mods/'', ''instance/config/'', ''instance/defaultconfigs/'',
     ''instance/kubejs/'', ''instance/scripts/'', ''instance/datapacks/'', ''instance/global_packs/'',
     ''instance/openloader/'', ''instance/paxi/'', ''instance/resourcepacks/'']"

definition allowedPath :: "jsval \<Rightarrow> bool" where
  "allowedPath path = (safeZipPath path \<and> \<not> startup_script (the_str path) \<and>
     (the_str path \<in> set allowed_files \<or> list_ex (\<lambda>p. prefix p (the_str path)) allowed_prefixes))"

definition safeModFilename :: "platform \<Rightarrow> jsval \<Rightarrow> bool" where
  "safeModFilename P value = (is_str value \<and> the_str value \<noteq> [] \<and> length (the_str value) \<le> 255 \<and>
     47 \<notin> set (the_str value) \<and> 92 \<notin> set (the_str value) \<and> 0 \<notin> set (the_str value) \<and>
     suffix (js ''.jar'') (lower P (the_str value)))"

definition artifactIntent :: "jsstr \<Rightarrow> string" where
  "artifactIntent path =
     (if prefix (js ''instance/mods/'') path then ''mod''
      else if prefix (js ''instance/config/'') path \<or> prefix (js ''instance/defaultconfigs/'') path then ''config''
      else if prefix (js ''instance/kubejs/'') path then ''kubejs''
      else if prefix (js ''instance/scripts/'') path then ''script''
      else if prefix (js ''instance/datapacks/'') path then ''datapack''
      else if prefix (js ''instance/global_packs/'') path then ''global-pack''
      else if prefix (js ''instance/openloader/'') path then ''openloader''
      else if prefix (js ''instance/paxi/'') path then ''paxi''
      else if prefix (js ''instance/resourcepacks/'') path then ''resourcepack''
      else ''data'')"

section \<open>The manifest\<close>

record bundle_file =
  bf_path :: jsstr
  bf_sha256 :: jsstr
  bf_sizeBytes :: int

record bundle_manifest =
  bm_instanceName :: jsstr
  bm_minecraftVersion :: jsstr
  bm_loader_kind :: jsstr
  bm_loader_version :: jsstr
  bm_java_component :: jsstr
  bm_java_major :: int
  bm_catalog_sha256 :: jsstr
  bm_files :: "bundle_file list"

definition parse_json :: "platform \<Rightarrow> bytes \<Rightarrow> jsval option" where
  "parse_json P bytes = Option.bind (decode bytes) (json_parse P)"

definition only_keys :: "jsval \<Rightarrow> string list \<Rightarrow> bool" where
  "only_keys value allowed = list_all (\<lambda>key. key \<in> set (map js allowed)) (keys value)"

definition invalid_manifest :: js_error where
  "invalid_manifest = CompilerFailure ''invalid_bundle_manifest''"

definition manifest_header_ok :: "jsval \<Rightarrow> bool" where
  "manifest_header_ok value = (plainObject value \<and> get value ''schemaVersion'' = JInt 1 \<and>
     is_str (get value ''instanceName'') \<and> the_str (get value ''instanceName'') \<noteq> [] \<and>
     validMinecraftVersion (get value ''minecraftVersion'') \<and>
     plainObject (get value ''loader'') \<and> plainObject (get value ''javaRequirement'') \<and>
     plainObject (get value ''runtimeCatalog'') \<and> is_arr (get value ''files'') \<and>
     only_keys value [''schemaVersion'', ''instanceName'', ''minecraftVersion'', ''loader'',
       ''javaRequirement'', ''runtimeCatalog'', ''files''] \<and>
     get (get value ''loader'') ''kind'' \<in> set (map (Str \<circ> js) [''forge'', ''fabric'', ''neoforge'', ''quilt'']) \<and>
     validLoaderVersion (get (get value ''loader'') ''version'') \<and>
     is_str (get (get value ''javaRequirement'') ''component'') \<and>
     isSafeInteger (get (get value ''javaRequirement'') ''major'') \<and>
     validSha256 (get (get value ''runtimeCatalog'') ''sha256''))"

definition parse_file :: "jsstr \<times> bundle_file list \<Rightarrow> jsval \<Rightarrow> (jsstr \<times> bundle_file list) result" where
  "parse_file = (\<lambda>(previous, files) file_value.
     if \<not> plainObject file_value \<or> \<not> only_keys file_value [''path'', ''sha256'', ''sizeBytes''] \<or>
        \<not> allowedPath (get file_value ''path'') \<or> \<not> validSha256 (get file_value ''sha256'') \<or>
        \<not> isSafeInteger (get file_value ''sizeBytes'') \<or> the_int (get file_value ''sizeBytes'') < 0 \<or>
        (previous \<noteq> [] \<and> comparePath previous (the_str (get file_value ''path'')) \<ge> 0)
     then Inl invalid_manifest
     else Inr (the_str (get file_value ''path''), files @ [\<lparr>bf_path = the_str (get file_value ''path''),
       bf_sha256 = ascii_lower (the_str (get file_value ''sha256'')),
       bf_sizeBytes = the_int (get file_value ''sizeBytes'')\<rparr>]))"

definition parseManifest :: "platform \<Rightarrow> bytes \<Rightarrow> bundle_manifest result" where
  "parseManifest P bytes =
     bindR (of_option invalid_manifest (parse_json P bytes)) (\<lambda>value.
     bindR (require (manifest_header_ok value) invalid_manifest) (\<lambda>_.
     bindR (foldR parse_file ([], []) (the_arr (get value ''files''))) (\<lambda>(previous, files).
       Inr \<lparr>bm_instanceName = the_str (get value ''instanceName''),
         bm_minecraftVersion = the_str (get value ''minecraftVersion''),
         bm_loader_kind = the_str (get (get value ''loader'') ''kind''),
         bm_loader_version = the_str (get (get value ''loader'') ''version''),
         bm_java_component = the_str (get (get value ''javaRequirement'') ''component''),
         bm_java_major = the_int (get (get value ''javaRequirement'') ''major''),
         bm_catalog_sha256 = ascii_lower (the_str (get (get value ''runtimeCatalog'') ''sha256'')),
         bm_files = files\<rparr>)))"

section \<open>Agreement with the frozen manifest\<close>

definition verifyCompatibility :: "bundle_manifest \<Rightarrow> jsval \<Rightarrow> unit result" where
  "verifyCompatibility bundle frozen =
     (let compatibility = get frozen ''compatibility''; java = get compatibility ''java'' in
      require (plainObject frozen \<and> get frozen ''schemaVersion'' = JInt 1 \<and> plainObject compatibility \<and>
        Str (bm_minecraftVersion bundle) = get compatibility ''minecraftVersion'' \<and>
        Str (bm_loader_kind bundle) = get compatibility ''loader'' \<and>
        Str (bm_loader_version bundle) = get compatibility ''loaderVersion'' \<and>
        Str (bm_catalog_sha256 bundle) = get (get compatibility ''runtimeCatalog'') ''sha256'' \<and>
        \<not> (truthy java \<and> (Str (bm_java_component bundle) \<noteq> get java ''component'' \<or>
          JInt (bm_java_major bundle) \<noteq> get java ''major'')))
      (CompilerFailure ''frozen_compatibility_mismatch''))"

text \<open>
  A read of a property of \<open>null\<close> throws inside the \<open>try\<close>, where it has the same
  outcome as the mismatch it would otherwise be.
\<close>

definition artifact_matches :: "bundle_file \<Rightarrow> jsval \<Rightarrow> bool" where
  "artifact_matches f artifact = (plainObject artifact \<and>
     only_keys artifact [''intent'', ''path'', ''sha256'', ''sizeBytes''] \<and>
     get artifact ''path'' = Str (bf_path f) \<and> get artifact ''sha256'' = Str (bf_sha256 f) \<and>
     get artifact ''sizeBytes'' = JInt (bf_sizeBytes f) \<and>
     get artifact ''intent'' = Str (js (artifactIntent (bf_path f))))"

definition validArtifactMetadata :: "jsval \<Rightarrow> bundle_manifest \<Rightarrow> bool" where
  "validArtifactMetadata value manifest = (plainObject value \<and> get value ''schemaVersion'' = JInt 1 \<and>
     only_keys value [''schemaVersion'', ''artifacts''] \<and> is_arr (get value ''artifacts'') \<and>
     list_all2 artifact_matches
       (filter (\<lambda>f. prefix (js ''instance/'') (bf_path f)) (bm_files manifest))
       (the_arr (get value ''artifacts'')))"

definition entry_json :: "platform \<Rightarrow> entries \<Rightarrow> string \<Rightarrow> jsval option" where
  "entry_json P entries path = Option.bind (map_of entries (js path)) (parse_json P)"

definition verifyResolvedMetadata :: "platform \<Rightarrow> entries \<Rightarrow> bundle_manifest \<Rightarrow> unit result" where
  "verifyResolvedMetadata P entries manifest =
     (let mismatch = CompilerFailure ''resolved_metadata_mismatch'';
          component = Str (bm_java_component manifest); major = JInt (bm_java_major manifest) in
      bindR (of_option mismatch (entry_json P entries ''resolved/loader.json'')) (\<lambda>loader.
      bindR (of_option mismatch (entry_json P entries ''resolved/version.json'')) (\<lambda>version.
      bindR (of_option mismatch (entry_json P entries ''resolved/artifacts.json'')) (\<lambda>artifacts.
        require (get loader ''minecraftVersion'' = Str (bm_minecraftVersion manifest) \<and>
          get (get loader ''loader'') ''kind'' = Str (bm_loader_kind manifest) \<and>
          get (get loader ''loader'') ''version'' = Str (bm_loader_version manifest) \<and>
          get (get loader ''javaRequirement'') ''component'' = component \<and>
          get (get loader ''javaRequirement'') ''major'' = major \<and>
          get (get loader ''runtimeCatalog'') ''sha256'' = Str (bm_catalog_sha256 manifest) \<and>
          get version ''minecraftVersion'' = Str (bm_minecraftVersion manifest) \<and>
          get (get version ''javaVersion'') ''component'' = component \<and>
          get (get version ''javaVersion'') ''majorVersion'' = major \<and>
          validArtifactMetadata artifacts manifest)
        mismatch))))"

section \<open>Mods\<close>

definition mods_mismatch :: js_error where
  "mods_mismatch = CompilerFailure ''resolved_mods_mismatch''"

definition validateFrozenRemoteMod :: "platform \<Rightarrow> jsval \<Rightarrow> unit result" where
  "validateFrozenRemoteMod P m =
     require (plainObject m \<and>
       sameKeys m [''downloadUrl'', ''fileId'', ''filename'', ''projectId'', ''provider'', ''sha256'', ''sizeBytes''] \<and>
       get m ''provider'' \<in> {Str (js ''modrinth''), Str (js ''curseforge'')} \<and>
       is_str (get m ''projectId'') \<and> the_str (get m ''projectId'') \<noteq> [] \<and>
       is_str (get m ''fileId'') \<and> the_str (get m ''fileId'') \<noteq> [] \<and>
       safeModFilename P (get m ''filename'') \<and> validSha256 (get m ''sha256'') \<and>
       isSafeInteger (get m ''sizeBytes'') \<and> 1 \<le> the_int (get m ''sizeBytes'') \<and>
       is_str (get m ''downloadUrl''))
     (CompilerFailure ''invalid_remote_mod'')"

definition mods_path :: "jsstr \<Rightarrow> jsstr" where
  "mods_path name = js ''instance/mods/'' @ name"

definition local_mods :: "bundle_manifest \<Rightarrow> (jsstr, bundle_file) jsmap" where
  "local_mods manifest = map (\<lambda>f. (bf_path f, f))
     (filter (\<lambda>f. prefix (js ''instance/mods/'') (bf_path f)) (bm_files manifest))"

definition add_remote ::
    "platform \<Rightarrow> (jsstr, bundle_file) jsmap \<Rightarrow> (jsstr, jsval) jsmap \<Rightarrow> jsval \<Rightarrow> (jsstr, jsval) jsmap result" where
  "add_remote P locals remote m =
     bindR (validateFrozenRemoteMod P m) (\<lambda>_.
       let path = mods_path (the_str (get m ''filename'')) in
       if has remote path \<or> has locals path then Inl (CompilerFailure ''remote_mod_collision'')
       else Inr (AList.update path m remote))"

text \<open>The source of a declared remote mod against the frozen one.\<close>

definition matchesSource :: "platform \<Rightarrow> jsval option \<Rightarrow> jsval \<Rightarrow> bool result" where
  "matchesSource P expected source =
     (case expected of None \<Rightarrow> Inr False
      | Some m \<Rightarrow>
        if get m ''provider'' = Str (js ''modrinth'') then
          Inr (sameKeys source [''projectId'', ''provider'', ''versionId''] \<and>
            get source ''provider'' = Str (js ''modrinth'') \<and>
            strict_eq (get source ''projectId'') (get m ''projectId'') \<and>
            strict_eq (get source ''versionId'') (get m ''fileId''))
        else if get m ''provider'' = Str (js ''curseforge'') then
          (if sameKeys source [''fileId'', ''projectId'', ''provider''] \<and>
              get source ''provider'' = Str (js ''curseforge'')
           then bindR (js_String P (get source ''projectId'')) (\<lambda>projectId.
             if Str projectId = get m ''projectId''
             then bindR (js_String P (get source ''fileId'')) (\<lambda>fileId. Inr (Str fileId = get m ''fileId''))
             else Inr False)
           else Inr False)
        else Inr False)"

definition check_local :: "(jsstr, bundle_file) jsmap \<Rightarrow> jsval \<Rightarrow> unit result" where
  "check_local locals declaration =
     bindR (require (sameKeys declaration [''path'', ''sha256'', ''sizeBytes'']) mods_mismatch) (\<lambda>_.
     bindR (of_option mods_mismatch (map_of locals (the_str (get declaration ''path'')))) (\<lambda>expected.
       require (bf_sha256 expected = ascii_lower (the_str (get declaration ''sha256'')) \<and>
         JInt (bf_sizeBytes expected) = get declaration ''sizeBytes'') mods_mismatch))"

definition check_remote :: "platform \<Rightarrow> (jsstr, jsval) jsmap \<Rightarrow> jsval \<Rightarrow> unit result" where
  "check_remote P remote declaration =
     bindR (require (sameKeys declaration [''filename'', ''path'', ''sha256'', ''sizeBytes'', ''source'']) mods_mismatch) (\<lambda>_.
     bindR (js_String P (get declaration ''filename'')) (\<lambda>filename.
     bindR (require (get declaration ''path'' = Str (mods_path filename) \<and>
       safeModFilename P (get declaration ''filename'') \<and> plainObject (get declaration ''source'')) mods_mismatch) (\<lambda>_.
       let expected = map_of remote (the_str (get declaration ''path'')) in
       bindR (matchesSource P expected (get declaration ''source'')) (\<lambda>same.
         case expected of None \<Rightarrow> Inl mods_mismatch
         | Some m \<Rightarrow> require (same \<and> strict_eq (get m ''filename'') (get declaration ''filename'') \<and>
             get m ''sha256'' = Str (ascii_lower (the_str (get declaration ''sha256''))) \<and>
             strict_eq (get m ''sizeBytes'') (get declaration ''sizeBytes'')) mods_mismatch))))"

definition check_declaration ::
    "platform \<Rightarrow> (jsstr, bundle_file) jsmap \<Rightarrow> (jsstr, jsval) jsmap \<Rightarrow> jsstr list \<Rightarrow> jsval \<Rightarrow> jsstr list result" where
  "check_declaration P locals remote seen declaration =
     bindR (require (plainObject declaration \<and> is_str (get declaration ''path'') \<and>
       the_str (get declaration ''path'') \<notin> set seen \<and> validSha256 (get declaration ''sha256'') \<and>
       isSafeInteger (get declaration ''sizeBytes'') \<and> 1 \<le> the_int (get declaration ''sizeBytes''))
       mods_mismatch) (\<lambda>_.
     bindR (if get declaration ''source'' = Undefined then check_local locals declaration
            else check_remote P remote declaration) (\<lambda>_.
       Inr (seen @ [the_str (get declaration ''path'')])))"

definition verifyResolvedMods ::
    "platform \<Rightarrow> entries \<Rightarrow> bundle_manifest \<Rightarrow> jsval \<Rightarrow> unit result" where
  "verifyResolvedMods P entries manifest frozenManifest =
     bindR (of_option mods_mismatch (entry_json P entries ''resolved/mods.json'')) (\<lambda>declarations.
     bindR (require (is_arr declarations \<and> is_arr (get frozenManifest ''mods'')) mods_mismatch) (\<lambda>_.
       let locals = local_mods manifest in
       bindR (foldR (add_remote P locals) [] (the_arr (get frozenManifest ''mods''))) (\<lambda>remote.
       bindR (foldR (check_declaration P locals remote) [] (the_arr declarations)) (\<lambda>seen.
         require (length seen = length locals + length remote \<and>
           list_all (\<lambda>path. path \<in> set seen) (map fst locals @ map fst remote)) mods_mismatch))))"

section \<open>The whole bundle\<close>

definition requiredResolvedFiles :: "string list" where
  "requiredResolvedFiles = [''resolved/version.json'', ''resolved/loader.json'',
     ''resolved/artifacts.json'', ''resolved/mods.json'']"

definition check_entry ::
    "platform \<Rightarrow> (jsstr, bundle_file) jsmap \<Rightarrow> unit \<Rightarrow> jsstr \<times> bytes \<Rightarrow> unit result" where
  "check_entry P listed u = (\<lambda>(path, bytes).
     if path = js ''bundle.json'' then Inr ()
     else case map_of listed path of
        None \<Rightarrow> Inl (CompilerFailure ''bundle_hash_or_path_mismatch'')
      | Some expected \<Rightarrow>
          require (allowedPath (Str path) \<and> bf_sizeBytes expected = int (length bytes) \<and>
            bf_sha256 expected = sha256 P bytes) (CompilerFailure ''bundle_hash_or_path_mismatch''))"

definition validateBundle ::
    "platform \<Rightarrow> bytes \<Rightarrow> jsval \<Rightarrow> (bundle_manifest \<times> entries) result" where
  "validateBundle P archive frozenManifest =
     bindR (require (length archive \<le> MAX_BUNDLE_BYTES) (CompilerFailure ''bundle_too_large'')) (\<lambda>_.
     bindR (readZip P archive) (\<lambda>entries.
     bindR (of_option invalid_bundle (map_of entries (js ''bundle.json''))) (\<lambda>manifestBytes.
     bindR (require (length entries \<le> MAX_BUNDLE_ENTRIES) invalid_bundle) (\<lambda>_.
     bindR (parseManifest P manifestBytes) (\<lambda>manifest.
     bindR (verifyCompatibility manifest frozenManifest) (\<lambda>_.
       let listed = map (\<lambda>f. (bf_path f, f)) (bm_files manifest) in
     bindR (foldR (check_entry P listed) () entries) (\<lambda>_.
     bindR (require (length listed = length entries - 1) (CompilerFailure ''bundle_manifest_mismatch'')) (\<lambda>_.
     bindR (require (list_all (\<lambda>path. has entries (js path)) requiredResolvedFiles)
       (CompilerFailure ''missing_resolved_metadata'')) (\<lambda>_.
     bindR (verifyResolvedMetadata P entries manifest) (\<lambda>_.
     bindR (verifyResolvedMods P entries manifest frozenManifest) (\<lambda>_.
       Inr (manifest, entries))))))))))))"

end
