(* ===== verification/Zip_Roundtrip.thy ===== *)
theory Zip_Roundtrip
  imports Zip_Reader Sample_Platform
begin

text \<open>
  A reference writer for ZIP archives, after the format description the reader follows: local
  headers with their data, the central directory, the end record. The reader returns exactly
  the entries that were written.
\<close>

section \<open>The reference writer\<close>

definition le_bytes :: "nat \<Rightarrow> nat \<Rightarrow> bytes" where
  "le_bytes w n = map (\<lambda>i. of_nat (n div 256 ^ i)) [0..<w]"

record zip_item =
  zi_path :: jsstr
  zi_deflated :: bool
  zi_data :: bytes
  zi_content :: bytes

definition item_method :: "zip_item \<Rightarrow> nat" where
  "item_method it = (if zi_deflated it then 8 else 0)"

definition item_fields :: "zip_item \<Rightarrow> bytes" where
  "item_fields it = le_bytes 2 0 @ le_bytes 2 (item_method it) @ le_bytes 4 0 @
     le_bytes 4 (crc32 (zi_content it)) @ le_bytes 4 (length (zi_data it)) @
     le_bytes 4 (length (zi_content it)) @ le_bytes 2 (length (encode (zi_path it))) @ le_bytes 2 0"

definition local_part :: "zip_item \<Rightarrow> bytes" where
  "local_part it = le_bytes 4 0x04034b50 @ le_bytes 2 20 @ item_fields it @ encode (zi_path it) @ zi_data it"

definition central_part :: "nat \<Rightarrow> zip_item \<Rightarrow> bytes" where
  "central_part off it = le_bytes 4 0x02014b50 @ le_bytes 2 20 @ le_bytes 2 20 @ item_fields it @
     le_bytes 2 0 @ le_bytes 2 0 @ le_bytes 2 0 @ le_bytes 4 0 @ le_bytes 4 off @ encode (zi_path it)"

fun central_directory :: "nat \<Rightarrow> zip_item list \<Rightarrow> bytes" where
  "central_directory off [] = []"
| "central_directory off (it # its) =
     central_part off it @ central_directory (off + length (local_part it)) its"

definition end_record :: "nat \<Rightarrow> nat \<Rightarrow> nat \<Rightarrow> bytes" where
  "end_record count centralSize centralOffset = le_bytes 4 0x06054b50 @ le_bytes 2 0 @ le_bytes 2 0 @
     le_bytes 2 count @ le_bytes 2 count @ le_bytes 4 centralSize @ le_bytes 4 centralOffset @ le_bytes 2 0"

definition zip_archive :: "zip_item list \<Rightarrow> bytes" where
  "zip_archive its = (let locals = concat (map local_part its); central = central_directory 0 its in
     locals @ central @ end_record (length its) (length central) (length locals))"

definition item_entry :: "zip_item \<Rightarrow> jsstr \<times> bytes" where
  "item_entry it = (zi_path it, zi_content it)"

definition item_ok :: "platform \<Rightarrow> zip_item \<Rightarrow> bool" where
  "item_ok P it = (safeZipPath (Str (zi_path it)) \<and> well_formed (zi_path it) \<and> no_bom (zi_path it) \<and>
     length (zi_content it) \<le> MAX_ENTRY_BYTES \<and> length (zi_content it) \<le> 100 * length (zi_data it) \<and>
     (if zi_deflated it then inflateRaw P (zi_data it) = Some (zi_content it)
      else zi_data it = zi_content it))"

definition items_ok :: "platform \<Rightarrow> zip_item list \<Rightarrow> bool" where
  "items_ok P its = (list_all (item_ok P) its \<and> distinct (map zi_path its) \<and>
     logical_size (map item_entry its) \<le> MAX_BUNDLE_LOGICAL_BYTES \<and>
     length its \<le> MAX_BUNDLE_ENTRIES \<and> length (zip_archive its) < 2 ^ 32)"

section \<open>Segments\<close>

definition seg :: "bytes \<Rightarrow> nat \<Rightarrow> bytes \<Rightarrow> bool" where
  "seg archive k bs = (k + length bs \<le> length archive \<and> subarray archive k (k + length bs) = bs)"

lemma seg_append: "seg archive k (xs @ ys) \<longleftrightarrow> seg archive k xs \<and> seg archive (k + length xs) ys"
proof -
  have split: "take (m + n) zs = take m zs @ take n (drop m zs)" for m n and zs :: bytes
    by (rule take_add)
  show ?thesis
    by (auto simp: seg_def subarray_def split add.assoc drop_drop ac_simps append_eq_append_conv)
qed

lemma length_le_bytes [simp]: "length (le_bytes w n) = w"
  by (simp add: le_bytes_def)

lemma le_value_le_bytes: "n < 256 ^ w \<Longrightarrow> le_value (le_bytes w n) = n"
proof (induction w arbitrary: n)
  case (Suc w)
  have up: "[0..<Suc w] = 0 # map Suc [0..<w]" by (simp add: upt_conv_Cons map_Suc_upt del: upt_Suc)
  have "le_bytes (Suc w) n = of_nat n # le_bytes w (n div 256)"
    unfolding le_bytes_def up by (simp add: o_def div_mult2_eq)
  moreover have "n div 256 < 256 ^ w" using Suc.prems by (simp add: less_mult_imp_div_less mult.commute)
  moreover have "unat (of_nat n :: byte) = n mod 256" by (simp add: unat_of_nat)
  ultimately show ?case using Suc.IH [of "n div 256"] by (simp add: le_value_def)
qed (simp add: le_value_def le_bytes_def)

lemma seg_read: "seg archive k (le_bytes w n) \<Longrightarrow> n < 256 ^ w \<Longrightarrow> read_le w archive k = Inr n"
  by (simp add: seg_def read_le_def le_value_le_bytes)

lemma seg_u16: "seg archive k (le_bytes 2 n) \<Longrightarrow> n < 65536 \<Longrightarrow> u16 archive k = Inr n"
  and seg_u32: "seg archive k (le_bytes 4 n) \<Longrightarrow> n < 2 ^ 32 \<Longrightarrow> u32 archive k = Inr n"
  by (simp_all add: u16_def u32_def seg_read)

lemma seg_in_bounds: "seg archive k bs \<Longrightarrow> k + length bs \<le> length archive"
  by (simp add: seg_def)

lemma seg_numeral: "seg archive (numeral n + k) bs = seg archive (k + numeral n) bs"
  by (simp add: add.commute)

lemma length_encode: "length (encode s) \<le> 3 * length s"
proof -
  have scalar: "length (utf8_scalar c) \<le> (if c < 0x10000 then 3 else 4)" for c
    by (simp add: utf8_scalar_def)
  show ?thesis
  proof (induction s rule: scalars.induct)
    case (2 u)
    have "unat u < 0x10000" by simp
    with scalar [of "unat u"] scalar [of "0xFFFD"] show ?case by (simp add: encode_def)
  next
    case (3 u v r)
    have "unat u < 0x10000" by simp
    with scalar [of "unat u"] scalar [of "0xFFFD"]
    have one: "length (utf8_scalar (if is_high u \<or> is_low u then 0xFFFD else unat u)) \<le> 3" by simp
    have "length (utf8_scalar c) \<le> 6" for c using scalar [of c] by (simp split: if_splits)
    with 3 one show ?case
      by (cases "is_high u \<and> is_low v") (auto simp: encode_def intro: add_mono order_trans)
  qed (simp add: encode_def)
qed

section \<open>One entry\<close>

lemma crc32_bound: "crc32 bs < 2 ^ 32"
  unfolding crc32_def by (rule order.strict_trans2 [OF unsigned_less]) simp

lemma item_name_bound: "item_ok P it \<Longrightarrow> length (encode (zi_path it)) < 65536"
  using length_encode [of "zi_path it"] by (simp add: item_ok_def safeZipPath_def safe_path_def)

lemma length_item_fields [simp]: "length (item_fields it) = 24"
  by (simp add: item_fields_def)

lemma length_central_part: "length (central_part off it) = 46 + length (encode (zi_path it))"
  and length_local_part: "length (local_part it) = 30 + length (encode (zi_path it)) + length (zi_data it)"
  by (simp_all add: central_part_def local_part_def)

definition item_header :: "nat \<Rightarrow> zip_item \<Rightarrow> central_header" where
  "item_header off it = \<lparr>z_flags = 0, z_method = item_method it, z_crc = crc32 (zi_content it),
     z_compressed = length (zi_data it), z_size = length (zi_content it),
     z_name = length (encode (zi_path it)), z_extra = 0, z_comment = 0, z_local = off\<rparr>"

lemma read_central_item:
  assumes "item_ok P it" and "seg archive cursor (central_part off it)"
    and "length (zi_data it) < 2 ^ 32" and "off < 2 ^ 32"
  shows "u32 archive cursor = Inr 0x02014b50" and "read_central archive cursor = Inr (item_header off it)"
    and "subarray archive (cursor + 46) (cursor + 46 + length (encode (zi_path it))) = encode (zi_path it)"
proof -
  have "length (zi_content it) < 2 ^ 32"
    using assms(1) by (simp add: item_ok_def MAX_ENTRY_BYTES_def)
  moreover have "item_method it < 65536" by (simp add: item_method_def)
  moreover note item_name_bound [OF assms(1)] crc32_bound [of "zi_content it"] assms(3,4)
  moreover have "seg archive (cursor + 8) (le_bytes 2 0)" "seg archive (cursor + 10) (le_bytes 2 (item_method it))"
    "seg archive (cursor + 16) (le_bytes 4 (crc32 (zi_content it)))"
    "seg archive (cursor + 20) (le_bytes 4 (length (zi_data it)))"
    "seg archive (cursor + 24) (le_bytes 4 (length (zi_content it)))"
    "seg archive (cursor + 28) (le_bytes 2 (length (encode (zi_path it))))"
    "seg archive (cursor + 30) (le_bytes 2 0)" "seg archive (cursor + 32) (le_bytes 2 0)"
    "seg archive (cursor + 42) (le_bytes 4 off)"
    using assms(2) by (simp_all add: central_part_def item_fields_def seg_append seg_numeral)
  ultimately show "read_central archive cursor = Inr (item_header off it)"
    by (simp add: read_central_def item_header_def seg_u16 [where n = 0] seg_u16 [where n = "item_method it"]
        seg_u32 [where n = "crc32 (zi_content it)"] seg_u32 [where n = "length (zi_data it)"]
        seg_u32 [where n = "length (zi_content it)"] seg_u16 [where n = "length (encode (zi_path it))"]
        seg_u32 [where n = off])
  show "u32 archive cursor = Inr 0x02014b50"
    using assms(2) by (intro seg_u32) (simp_all add: central_part_def seg_append)
  show "subarray archive (cursor + 46) (cursor + 46 + length (encode (zi_path it))) = encode (zi_path it)"
    using assms(2) by (simp add: central_part_def seg_append seg_numeral) (simp add: seg_def)
qed

lemma read_content_item:
  assumes "item_ok P it" and "seg archive off (local_part it)" and "off + length (local_part it) \<le> c"
  shows "u32 archive off = Inr 0x04034b50" and "read_content P archive c (item_header off it) = Inr (zi_content it)"
proof -
  show "u32 archive off = Inr 0x04034b50"
    using assms(2) by (intro seg_u32) (simp_all add: local_part_def seg_append)
  have "seg archive (off + 26) (le_bytes 2 (length (encode (zi_path it))))" "seg archive (off + 28) (le_bytes 2 0)"
    "seg archive (off + 30 + length (encode (zi_path it))) (zi_data it)"
    using assms(2) by (simp_all add: local_part_def item_fields_def seg_append seg_numeral add.commute add.left_commute)
  then have "u16 archive (off + 26) = Inr (length (encode (zi_path it)))" "u16 archive (off + 28) = Inr 0"
    "subarray archive (off + 30 + length (encode (zi_path it)))
      (off + 30 + length (encode (zi_path it)) + length (zi_data it)) = zi_data it"
    using item_name_bound [OF assms(1)] by (simp_all add: seg_u16) (simp add: seg_def)
  then show "read_content P archive c (item_header off it) = Inr (zi_content it)"
    using assms(1,3)
    by (simp add: read_content_def item_header_def length_local_part item_ok_def item_method_def add.assoc
        split: if_splits)
qed

lemma read_entry_item:
  assumes it: "item_ok P it" and central: "seg archive cursor (central_part off it)"
    and local: "seg archive off (local_part it)" "off + length (local_part it) \<le> c"
    and fresh: "\<not> has es (zi_path it)" and lim: "length archive < 2 ^ 32"
      "logical + length (zi_content it) \<le> MAX_BUNDLE_LOGICAL_BYTES"
  shows "read_entry P archive c (cursor, logical, es) =
    Inr (cursor + length (central_part off it), logical + length (zi_content it), es @ [item_entry it])"
proof -
  have b: "length (zi_data it) < 2 ^ 32" "off < 2 ^ 32"
    using seg_in_bounds [OF local(1)] lim(1) by (simp_all add: length_local_part)
  have e: "cursor + 46 + length (encode (zi_path it)) \<le> length archive"
    using seg_in_bounds [OF central] by (simp add: length_central_part)
  note h = read_central_item [OF it central b]
  have "\<not> header_rejected archive cursor (logical + length (zi_content it)) (item_header off it)"
    using it e lim(2)
    by (auto simp: header_rejected_def central_end_def item_header_def item_method_def item_ok_def)
  moreover have "decode (encode (zi_path it)) = Some (zi_path it)" "safeZipPath (Str (zi_path it))"
    using it by (simp_all add: item_ok_def decode_encode)
  moreover have "off + 30 \<le> c" using local(2) by (simp add: length_local_part)
  ultimately show ?thesis
    using h read_content_item [OF it local] e fresh
    by (simp add: read_entry_def item_header_def update_fresh central_end_def item_entry_def length_central_part)
qed

section \<open>The whole archive\<close>

lemma read_entries_items:
  assumes "list_all (item_ok P) its" and "distinct (map fst es @ map zi_path its)"
    and "seg archive cursor (central_directory off its)" and "seg archive off (concat (map local_part its))"
    and "off + length (concat (map local_part its)) \<le> c" and "length archive < 2 ^ 32"
    and "logical + logical_size (map item_entry its) \<le> MAX_BUNDLE_LOGICAL_BYTES"
  shows "read_entries P archive c (length its) (cursor, logical, es) =
    Inr (cursor + length (central_directory off its), logical + logical_size (map item_entry its),
      es @ map item_entry its)"
  using assms
proof (induction its arbitrary: cursor off logical es)
  case (Cons it its)
  have "read_entry P archive c (cursor, logical, es) =
      Inr (cursor + length (central_part off it), logical + length (zi_content it), es @ [item_entry it])"
    by (rule read_entry_item) (use Cons.prems in \<open>auto simp: seg_append logical_size_def item_entry_def\<close>)
  moreover have "read_entries P archive c (length its)
      (cursor + length (central_part off it), logical + length (zi_content it), es @ [item_entry it]) =
    Inr (cursor + length (central_part off it) + length (central_directory (off + length (local_part it)) its),
      logical + length (zi_content it) + logical_size (map item_entry its), (es @ [item_entry it]) @ map item_entry its)"
    by (rule Cons.IH) (use Cons.prems in \<open>auto simp: seg_append logical_size_def item_entry_def\<close>)
  ultimately show ?case by (simp add: logical_size_def item_entry_def o_def)
qed (simp add: logical_size_def)

lemma seg_self: "seg (xs @ bs @ ys) (length xs) bs"
  by (simp add: seg_def subarray_def)

lemma length_end_record [simp]: "length (end_record n a b) = 22"
  by (simp add: end_record_def)

lemma find_eocd_at: "seg archive offset (le_bytes 4 0x06054b50) \<Longrightarrow> find_eocd archive least offset = Inr (Some offset)"
  by (subst find_eocd.simps) (simp add: seg_u32)

lemma readZip_zip_archive:
  assumes "items_ok P its"
  shows "readZip P (zip_archive its) = Inr (map item_entry its)"
proof -
  let ?a = "zip_archive its"
  define l where "l = concat (map local_part its)"
  define c where "c = central_directory 0 its"
  have a: "?a = l @ c @ end_record (length its) (length c) (length l)"
    by (simp add: zip_archive_def Let_def l_def c_def)
  have n: "length its < 65536" "length its \<le> MAX_BUNDLE_ENTRIES" "length ?a < 2 ^ 32"
    using assms by (simp_all add: items_ok_def MAX_BUNDLE_ENTRIES_def)
  let ?e = "length l + length c"
  have len: "length ?a = ?e + 22" by (simp add: a)
  have segs: "seg ?a 0 l" "seg ?a (length l) c" "seg ?a ?e (end_record (length its) (length c) (length l))"
    using seg_self [of "[]" l] seg_self [of l c] seg_self [of "l @ c" _ "[]"] by (simp_all add: a)
  have small: "length c < 2 ^ 32" "length l < 2 ^ 32" using n(3) len by simp_all
  have "seg ?a (?e + 4) (le_bytes 2 0)" "seg ?a (?e + 6) (le_bytes 2 0)"
    "seg ?a (?e + 10) (le_bytes 2 (length its))"
    "seg ?a (?e + 12) (le_bytes 4 (length c))" "seg ?a (?e + 16) (le_bytes 4 (length l))"
    "seg ?a ?e (le_bytes 4 0x06054b50)"
    using segs(3) by (simp_all add: end_record_def seg_append seg_numeral add.assoc)
  then have reads: "u16 ?a (?e + 4) = Inr 0" "u16 ?a (?e + 6) = Inr 0" "u16 ?a (?e + 10) = Inr (length its)"
    "u32 ?a (?e + 12) = Inr (length c)" "u32 ?a (?e + 16) = Inr (length l)"
    "find_eocd ?a (length ?a - 65557) ?e = Inr (Some ?e)"
    using n(1) small by (simp_all add: seg_u16 seg_u32 find_eocd_at)
  have "read_entries P ?a (length l) (length its) (length l, 0, []) =
      Inr (length l + length (central_directory 0 its), 0 + logical_size (map item_entry its), [] @ map item_entry its)"
    by (rule read_entries_items) (use assms n(3) segs in \<open>simp_all add: items_ok_def l_def c_def\<close>)
  with reads n len show ?thesis by (simp add: readZip_def c_def)
qed

text \<open>
  C27. The reader returns exactly the paths and contents, in order, of every archive written as
  the format describes from distinct safe paths, stored or deflated, within the limits.
\<close>

theorem zip_roundtrip:
  assumes "items_ok P its"
  shows "readZip P (zip_archive its) = Inr (map item_entry its)"
  by (rule readZip_zip_archive [OF assms])

definition sample_item :: "string \<times> bytes \<Rightarrow> zip_item" where
  "sample_item e = \<lparr>zi_path = js (fst e), zi_deflated = False, zi_data = snd e, zi_content = snd e\<rparr>"

definition small_entry :: "string \<times> bytes \<Rightarrow> bool" where
  "small_entry e = (ascii (js (fst e)) \<and> safe_path 1024 (js (fst e)) \<and> length (snd e) \<le> 1000)"

lemma length_parts_small:
  assumes "list_all small_entry xs"
  shows "length (concat (map (local_part \<circ> sample_item) xs)) \<le> 4200 * length xs"
    and "length (central_directory off (map sample_item xs)) \<le> 4200 * length xs"
    and "logical_size (map (item_entry \<circ> sample_item) xs) \<le> 1000 * length xs"
  using assms
proof (induction xs arbitrary: off)
  case (Cons x xs)
  { case 1
    with Cons length_encode [of "js (fst x)"] show ?case
      by (simp add: small_entry_def sample_item_def length_local_part safe_path_def) }
  { case 2
    with Cons(2) [of "off + length (local_part (sample_item x))"] length_encode [of "js (fst x)"] show ?case
      by (simp add: small_entry_def sample_item_def length_central_part safe_path_def) }
  { case 3
    with Cons show ?case by (simp add: logical_size_def small_entry_def sample_item_def item_entry_def) }
qed (simp_all add: logical_size_def)

lemma small_zip_size:
  "list_all small_entry xs \<Longrightarrow> length (zip_archive (map sample_item xs)) \<le> 8400 * length xs + 22"
  using length_parts_small(1) [of xs] length_parts_small(2) [of xs 0] by (simp add: zip_archive_def Let_def)

lemma small_items_ok:
  assumes "list_all small_entry xs" and "distinct (map fst xs)" and "length xs \<le> 20"
  shows "items_ok P (map sample_item xs)"
proof -
  note l = length_parts_small [OF assms(1)]
  have "list_all (item_ok P) (map sample_item xs)"
    using assms(1)
    by (auto simp: list_all_iff small_entry_def sample_item_def item_ok_def safeZipPath_def MAX_ENTRY_BYTES_def
        ascii_well_formed ascii_no_bom)
  moreover have "distinct (map zi_path (map sample_item xs))"
    using assms(2) by (induction xs) (force simp: sample_item_def)+
  moreover have "length (zip_archive (map sample_item xs)) < 2 ^ 32"
    using small_zip_size [OF assms(1)] assms(3) by simp
  ultimately show ?thesis
    using l(3) assms(3) by (simp add: items_ok_def MAX_BUNDLE_LOGICAL_BYTES_def MAX_BUNDLE_ENTRIES_def limit_defs)
qed

lemma sample_zip_entries: "list_all small_entry [(''bundle.json'', [123, 125]), (''instance/mods/a.jar'', [1])]"
  by (simp add: small_entry_def ascii_def js_simps safe_path_def safe_segments_def drive_prefix_def char_class_defs)

lemma sample_zip:
  "readZip sample_platform (zip_archive (map sample_item [(''bundle.json'', [123, 125]), (''instance/mods/a.jar'', [1])])) =
    Inr [(js ''bundle.json'', [123, 125]), (js ''instance/mods/a.jar'', [1])]"
  using readZip_zip_archive [OF small_items_ok [OF sample_zip_entries]] by (simp add: item_entry_def sample_item_def)

theorem zip_roundtrip_witness:
  "readZip sample_platform (zip_archive (map sample_item [(''bundle.json'', [123, 125]), (''instance/mods/a.jar'', [1])])) =
    Inr [(js ''bundle.json'', [123, 125]), (js ''instance/mods/a.jar'', [1])]"
  using zip_roundtrip [OF small_items_ok [OF sample_zip_entries]] by (simp add: item_entry_def sample_item_def)

text \<open>
  C29. Reading never leaves the archive: whatever the bytes are, the only error the reader
  throws is the failure invalid_bundle.
\<close>

theorem zip_reads_in_bounds:
  "readZip P archive \<in> {Inl (CompilerFailure ''invalid_bundle'')} \<union> range Inr"
  using readZip_error [of P archive] by (cases "readZip P archive") (auto simp: invalid_bundle_def)

text \<open>
  C28. An accepted archive holds at most 4096 entries with distinct safe relative paths, each of
  at most 64 MiB and together of at most 384 MiB.
\<close>

theorem zip_accepted_bounds:
  assumes "readZip P archive = Inr es"
  shows "length es \<le> 4096 \<and> distinct (map fst es) \<and> sum_list (map (length \<circ> snd) es) \<le> 384 * 1024 * 1024 \<and>
    list_all (\<lambda>(path, bytes). safe_path 1024 path \<and> length bytes \<le> 64 * 1024 * 1024) es"
  using readZip_ok [OF assms]
  by (auto simp: entries_ok_def logical_size_def safeZipPath_def MAX_BUNDLE_ENTRIES_def MAX_ENTRY_BYTES_def
      MAX_BUNDLE_LOGICAL_BYTES_def limit_defs list_all_iff)

theorem zip_accepted_bounds_witness:
  "safe_path 1024 (js ''bundle.json'') \<and> safe_path 1024 (js ''instance/mods/a.jar'') \<and>
    readZip sample_platform (zip_archive (map sample_item [(''bundle.json'', [123, 125]), (''instance/mods/a.jar'', [1])])) =
      Inr [(js ''bundle.json'', [123, 125]), (js ''instance/mods/a.jar'', [1])]"
  using zip_accepted_bounds [OF sample_zip] sample_zip by simp

text \<open>
  The checksum distinguishes any two contents of the same length that differ in one byte.
\<close>

theorem crc32_detects_changed_byte:
  assumes "i < length bs" and "bs ! i \<noteq> b"
  shows "crc32 (bs[i := b]) \<noteq> crc32 bs"
proof -
  have "bs = take i bs @ bs ! i # drop (Suc i) bs" using assms(1) by (rule id_take_nth_drop)
  moreover have "bs[i := b] = take i bs @ b # drop (Suc i) bs" using assms(1) by (rule upd_conv_take_nth_drop)
  ultimately show ?thesis using crc32_changed_byte [OF assms(2), of "take i bs" "drop (Suc i) bs"] by metis
qed

theorem crc32_detects_changed_byte_witness: "crc32 ([1, 2, 3][1 := 7]) \<noteq> crc32 [1, 2, 3]"
  by (rule crc32_detects_changed_byte) simp_all

end
