(* ===== verification/Bundle_Properties.thy ===== *)
theory Bundle_Properties
  imports Bundle Zip_Roundtrip
begin

text \<open>
  What an accepted bundle guarantees to the builder: a well-formed manifest, contents that are
  exactly the listed files, and mods that are exactly the declared ones.
\<close>

section \<open>Manifests\<close>

definition file_ok :: "bundle_file \<Rightarrow> bool" where
  "file_ok f = (allowedPath (Str (bf_path f)) \<and> length (bf_sha256 f) = 64 \<and>
     list_all is_hex_lower (bf_sha256 f) \<and> 0 \<le> bf_sizeBytes f \<and> bf_sizeBytes f \<le> max_safe_integer)"

definition manifest_ok :: "bundle_manifest \<Rightarrow> bool" where
  "manifest_ok m = (bm_instanceName m \<noteq> [] \<and> validMinecraftVersion (Str (bm_minecraftVersion m)) \<and>
     bm_loader_kind m \<in> set (map js [''forge'', ''fabric'', ''neoforge'', ''quilt'']) \<and>
     validLoaderVersion (Str (bm_loader_version m)) \<and> length (bm_catalog_sha256 m) = 64 \<and>
     list_all is_hex_lower (bm_catalog_sha256 m) \<and> list_all file_ok (bm_files m) \<and>
     sorted_wrt (<) (map bf_path (bm_files m)))"

lemma ascii_lower_hex: "list_all is_hex s \<Longrightarrow> list_all is_hex_lower (ascii_lower s)"
proof -
  have "is_hex u \<Longrightarrow> is_hex_lower (ascii_lower_unit u)" for u
  proof -
    assume u: "is_hex u"
    show ?thesis
    proof (cases "is_hex_lower u")
      case True
      then have "\<not> is_upper u" by (auto simp: char_class_defs word_le_nat_alt)
      with True show ?thesis by (simp add: ascii_lower_unit_def)
    next
      case False
      with u have b: "65 \<le> unat u" "unat u \<le> 70" by (auto simp: char_class_defs word_le_nat_alt)
      then have "unat (u + 32) = unat u + 32" by (simp add: unat_word_ariths)
      with b False show ?thesis
        by (auto simp: ascii_lower_unit_def char_class_defs word_le_nat_alt)
    qed
  qed
  then show "list_all is_hex s \<Longrightarrow> list_all is_hex_lower (ascii_lower s)"
    by (auto simp: list_all_iff ascii_lower_def)
qed

lemma validSha256_lower:
  "validSha256 v \<Longrightarrow> length (ascii_lower (the_str v)) = 64 \<and> list_all is_hex_lower (ascii_lower (the_str v))"
  by (simp add: validSha256_def ascii_lower_hex)

lemma safe_integer_bounds: "isSafeInteger v \<Longrightarrow> the_int v \<le> max_safe_integer"
  by (cases v) auto

lemma allowedPath_nonempty: "allowedPath v \<Longrightarrow> is_str v \<and> the_str v \<noteq> []"
  by (simp add: allowedPath_def safeZipPath_def safe_path_def)

definition files_inv :: "jsstr \<times> bundle_file list \<Rightarrow> bool" where
  "files_inv st = (list_all file_ok (snd st) \<and> sorted_wrt (<) (map bf_path (snd st)) \<and>
     fst st = (if snd st = [] then [] else bf_path (last (snd st))))"

lemma parse_file_inv:
  assumes "parse_file st v = Inr st'" and "files_inv st"
  shows "files_inv st'"
proof -
  obtain previous files where st: "st = (previous, files)" by (cases st)
  let ?f = "\<lparr>bf_path = the_str (get v ''path''), bf_sha256 = ascii_lower (the_str (get v ''sha256'')),
    bf_sizeBytes = the_int (get v ''sizeBytes'')\<rparr>"
  from assms(1) st have v: "allowedPath (get v ''path'')" "validSha256 (get v ''sha256'')"
    "isSafeInteger (get v ''sizeBytes'')" "0 \<le> the_int (get v ''sizeBytes'')"
    "previous = [] \<or> comparePath previous (the_str (get v ''path'')) < 0"
    and st': "st' = (the_str (get v ''path''), files @ [?f])"
    by (auto simp: parse_file_def split: if_splits)
  obtain p where p: "get v ''path'' = Str p" using allowedPath_nonempty [OF v(1)] by (cases "get v ''path''") auto
  have f: "file_ok ?f"
    using v p validSha256_lower [OF v(2)] safe_integer_bounds [OF v(3)] by (simp add: file_ok_def)
  have "bf_path g < p" if "g \<in> set files" for g
  proof -
    from that obtain pre l where l: "files = pre @ [l]" by (cases files rule: rev_cases) auto
    with assms(2) st have "list_all file_ok files" "previous = bf_path l" "sorted_wrt (<) (map bf_path files)"
      by (auto simp: files_inv_def)
    moreover from this l have "previous \<noteq> []"
      using allowedPath_nonempty [of "Str (bf_path l)"] by (simp add: file_ok_def)
    ultimately have "bf_path l < p" "g = l \<or> bf_path g < bf_path l"
      using v(5) p that l by (auto simp: comparePath_def sorted_wrt_append split: if_splits)
    then show ?thesis by auto
  qed
  with f p assms(2) st st' show ?thesis by (auto simp: files_inv_def sorted_wrt_append)
qed

lemma parseManifest_ok:
  assumes "parseManifest P bytes = Inr m"
  shows "manifest_ok m"
proof -
  from assms obtain doc previous files where
    h: "manifest_header_ok doc" and
    fold: "foldR parse_file ([], []) (the_arr (get doc ''files'')) = Inr (previous, files)" and
    m: "m = \<lparr>bm_instanceName = the_str (get doc ''instanceName''),
         bm_minecraftVersion = the_str (get doc ''minecraftVersion''),
         bm_loader_kind = the_str (get (get doc ''loader'') ''kind''),
         bm_loader_version = the_str (get (get doc ''loader'') ''version''),
         bm_java_component = the_str (get (get doc ''javaRequirement'') ''component''),
         bm_java_major = the_int (get (get doc ''javaRequirement'') ''major''),
         bm_catalog_sha256 = ascii_lower (the_str (get (get doc ''runtimeCatalog'') ''sha256'')),
         bm_files = files\<rparr>"
    by (auto simp: parseManifest_def result_simps)
  have "files_inv (previous, files)"
    by (rule foldR_invariant [OF fold]) (simp add: files_inv_def, rule parse_file_inv)
  moreover have "is_str (get doc ''minecraftVersion'')" "is_str (get (get doc ''loader'') ''version'')"
    using h by (simp_all add: manifest_header_ok_def validMinecraftVersion_def validLoaderVersion_def)
  then have "Str (the_str (get doc ''minecraftVersion'')) = get doc ''minecraftVersion''"
    "Str (the_str (get (get doc ''loader'') ''version'')) = get (get doc ''loader'') ''version''"
    using is_str_the_str by metis+
  moreover have "the_str (get (get doc ''loader'') ''kind'') \<in> set (map js [''forge'', ''fabric'', ''neoforge'', ''quilt''])"
    using h by (auto simp: manifest_header_ok_def)
  ultimately show ?thesis
    using h validSha256_lower [of "get (get doc ''runtimeCatalog'') ''sha256''"]
    by (simp add: manifest_ok_def m files_inv_def manifest_header_ok_def)
qed

section \<open>Contents\<close>

definition listed_as :: "platform \<Rightarrow> bundle_manifest \<Rightarrow> jsstr \<Rightarrow> bytes \<Rightarrow> bool" where
  "listed_as P m path bytes = (\<exists>f \<in> set (bm_files m). bf_path f = path \<and>
     bf_sizeBytes f = int (length bytes) \<and> bf_sha256 f = sha256 P bytes)"

lemma bundle_json_not_allowed: "\<not> allowedPath (Str (js ''bundle.json''))"
  by (simp add: allowedPath_def allowed_files_def allowed_prefixes_def js_simps)

text \<open>The steps of an accepted bundle.\<close>

lemma validateBundle_steps:
  assumes "validateBundle P archive frozen = Inr (m, es)"
  shows "readZip P archive = Inr es" "manifest_ok m" "verifyCompatibility m frozen = Inr ()"
    "\<forall>e \<in> set es. check_entry P (map (\<lambda>f. (bf_path f, f)) (bm_files m)) () e = Inr ()"
    "length (bm_files m) = length es - 1" "has es (js ''bundle.json'')"
    "\<forall>path \<in> set requiredResolvedFiles. has es (js path)"
    "verifyResolvedMetadata P es m = Inr ()" "verifyResolvedMods P es m frozen = Inr ()"
    "length archive \<le> MAX_BUNDLE_BYTES"
    "\<exists>bytes. map_of es (js ''bundle.json'') = Some bytes \<and> parseManifest P bytes = Inr m"
proof -
  from assms obtain bytes where b: "map_of es (js ''bundle.json'') = Some bytes" "parseManifest P bytes = Inr m"
    and r: "readZip P archive = Inr es" "verifyCompatibility m frozen = Inr ()"
      "foldR (check_entry P (map (\<lambda>f. (bf_path f, f)) (bm_files m))) () es = Inr ()"
      "length (bm_files m) = length es - 1" "list_all (\<lambda>path. has es (js path)) requiredResolvedFiles"
      "verifyResolvedMetadata P es m = Inr ()" "verifyResolvedMods P es m frozen = Inr ()"
      "length archive \<le> MAX_BUNDLE_BYTES"
    by (auto simp: validateBundle_def result_simps Let_def)
  have "has es (js ''bundle.json'')" using b(1) has_map_of by fastforce
  with b r parseManifest_ok [OF b(2)] show "readZip P archive = Inr es" "manifest_ok m"
    "verifyCompatibility m frozen = Inr ()"
    "\<forall>e \<in> set es. check_entry P (map (\<lambda>f. (bf_path f, f)) (bm_files m)) () e = Inr ()"
    "length (bm_files m) = length es - 1" "has es (js ''bundle.json'')"
    "\<forall>path \<in> set requiredResolvedFiles. has es (js path)"
    "verifyResolvedMetadata P es m = Inr ()" "verifyResolvedMods P es m frozen = Inr ()"
    "length archive \<le> MAX_BUNDLE_BYTES"
    "\<exists>bytes. map_of es (js ''bundle.json'') = Some bytes \<and> parseManifest P bytes = Inr m"
    by (simp_all add: foldR_unit list_all_iff)
qed

lemma entry_listed:
  assumes "check_entry P (map (\<lambda>f. (bf_path f, f)) fs) () (path, bytes) = Inr ()" and "path \<noteq> js ''bundle.json''"
  shows "allowedPath (Str path) \<and> (\<exists>f \<in> set fs. bf_path f = path \<and> bf_sizeBytes f = int (length bytes) \<and>
    bf_sha256 f = sha256 P bytes)"
  using assms
  by (auto simp: check_entry_def require_def split: option.splits if_splits dest!: map_of_SomeD)

text \<open>As many files are listed as are stored, so the listed and the stored paths agree.\<close>

lemma listed_paths:
  assumes "validateBundle P archive frozen = Inr (m, es)"
  shows "set (map fst es) = insert (js ''bundle.json'') (bf_path ` set (bm_files m))" and "distinct (map fst es)"
proof -
  note st = validateBundle_steps [OF assms]
  have d: "distinct (map fst es)" using readZip_ok(1) [OF st(1)] by (simp add: entries_ok_def)
  let ?b = "js ''bundle.json''" and ?L = "bf_path ` set (bm_files m)"
  have ok: "list_all file_ok (bm_files m)" "sorted_wrt (<) (map bf_path (bm_files m))"
    using st(2) by (simp_all add: manifest_ok_def)
  have sub: "set (map fst es) - {?b} \<subseteq> ?L"
  proof
    fix path assume "path \<in> set (map fst es) - {?b}"
    then obtain bytes where e: "(path, bytes) \<in> set es" "path \<noteq> ?b" by auto
    from entry_listed [OF bspec [OF st(4) e(1)] e(2)] show "path \<in> ?L" by auto
  qed
  have "distinct (map bf_path (bm_files m))" using ok(2) by (simp add: strict_sorted_iff)
  from distinct_card [OF this] have "card ?L = length (bm_files m)" by simp
  moreover have "card (set (map fst es) - {?b}) = length es - 1"
    using st(6) distinct_card [OF d] by simp
  ultimately have "set (map fst es) - {?b} = ?L"
    using sub st(5) by (intro card_subset_eq) simp_all
  then show "set (map fst es) = insert ?b ?L" using st(6) by blast
  show "distinct (map fst es)" by (rule d)
qed

section \<open>Mods\<close>

definition remote_path :: "jsval \<Rightarrow> jsstr" where
  "remote_path m = mods_path (the_str (get m ''filename''))"

definition remote_inv :: "platform \<Rightarrow> (jsstr, bundle_file) jsmap \<Rightarrow> (jsstr, jsval) jsmap \<Rightarrow> bool" where
  "remote_inv P locals remote = (distinct (map fst remote) \<and>
     list_all (\<lambda>(path, m). path = remote_path m \<and> validateFrozenRemoteMod P m = Inr () \<and> \<not> has locals path) remote)"

lemma remote_fold:
  assumes "foldR (add_remote P locals) remote mods = Inr remote'" and "remote_inv P locals remote"
  shows "remote_inv P locals remote' \<and> remote' = remote @ map (\<lambda>m. (remote_path m, m)) mods"
  using assms
proof (induction mods arbitrary: remote)
  case (Cons m mods)
  from Cons.prems(1) obtain r where r: "add_remote P locals remote m = Inr r"
    "foldR (add_remote P locals) r mods = Inr remote'" by (auto simp: result_simps)
  then have fresh: "validateFrozenRemoteMod P m = Inr ()" "\<not> has remote (remote_path m)" "\<not> has locals (remote_path m)"
    "r = remote @ [(remote_path m, m)]"
    by (auto simp: add_remote_def result_simps Let_def remote_path_def update_fresh split: if_splits)
  with Cons.prems(2) have "remote_inv P locals r" by (auto simp: remote_inv_def)
  from Cons.IH [OF r(2) this] fresh(4) show ?case by auto
qed simp

definition declared_path :: "jsval \<Rightarrow> jsstr" where
  "declared_path d = the_str (get d ''path'')"

text \<open>A declaration agrees with a file of the bundle or with a frozen remote mod.\<close>

definition declares :: "bundle_manifest \<Rightarrow> jsval list \<Rightarrow> jsval \<Rightarrow> bool" where
  "declares m mods d =
     ((\<exists>f \<in> set (bm_files m). bf_path f = declared_path d \<and>
         bf_sha256 f = ascii_lower (the_str (get d ''sha256'')) \<and> JInt (bf_sizeBytes f) = get d ''sizeBytes'') \<or>
      (\<exists>r \<in> set mods. remote_path r = declared_path d \<and>
         get r ''sha256'' = Str (ascii_lower (the_str (get d ''sha256''))) \<and> get r ''sizeBytes'' = get d ''sizeBytes''))"

lemma strict_eq_equal: "strict_eq v w \<Longrightarrow> v = w"
  by (cases v; cases w) auto

lemma local_mods_files: "map_of (local_mods m) path = Some f \<Longrightarrow>
    f \<in> set (bm_files m) \<and> bf_path f = path \<and> prefix (js ''instance/mods/'') path"
  by (auto simp: local_mods_def dest!: map_of_SomeD)

lemma check_declaration_declares:
  assumes "check_declaration P (local_mods m) (map (\<lambda>r. (remote_path r, r)) mods) seen d = Inr seen'"
  shows "declares m mods d \<and> declared_path d \<notin> set seen \<and> seen' = seen @ [declared_path d]"
proof -
  from assms have d: "declared_path d \<notin> set seen" "seen' = seen @ [declared_path d]"
    by (auto simp: check_declaration_def result_simps declared_path_def)
  have "declares m mods d"
  proof (cases "get d ''source'' = Undefined")
    case True
    with assms obtain f where "map_of (local_mods m) (declared_path d) = Some f"
      "bf_sha256 f = ascii_lower (the_str (get d ''sha256''))" "JInt (bf_sizeBytes f) = get d ''sizeBytes''"
      by (auto simp: check_declaration_def check_local_def result_simps declared_path_def)
    with local_mods_files show ?thesis unfolding declares_def by blast
  next
    case False
    with assms obtain r where "map_of (map (\<lambda>r. (remote_path r, r)) mods) (declared_path d) = Some r"
      "get r ''sha256'' = Str (ascii_lower (the_str (get d ''sha256'')))"
      "strict_eq (get r ''sizeBytes'') (get d ''sizeBytes'')"
      by (auto simp: check_declaration_def check_remote_def result_simps declared_path_def Let_def split: option.splits)
    then show ?thesis
      using strict_eq_equal unfolding declares_def by (fastforce dest!: map_of_SomeD)
  qed
  with d show ?thesis by simp
qed

lemma declarations_fold:
  assumes "foldR (check_declaration P (local_mods m) (map (\<lambda>r. (remote_path r, r)) mods)) seen ds = Inr seen'"
    and "distinct seen"
  shows "seen' = seen @ map declared_path ds \<and> distinct (seen @ map declared_path ds) \<and> list_all (declares m mods) ds"
  using assms
proof (induction ds arbitrary: seen)
  case (Cons d ds)
  from Cons.prems(1) obtain t where
    t: "check_declaration P (local_mods m) (map (\<lambda>r. (remote_path r, r)) mods) seen d = Inr t"
      "foldR (check_declaration P (local_mods m) (map (\<lambda>r. (remote_path r, r)) mods)) t ds = Inr seen'"
    by (auto simp: result_simps)
  note one = check_declaration_declares [OF t(1)]
  with Cons.prems(2) have "distinct t" by simp
  from Cons.IH [OF t(2) this] one show ?case by simp
qed simp

lemma resolved_mods:
  assumes "verifyResolvedMods P es m frozen = Inr ()"
  defines "mods \<equiv> the_arr (get frozen ''mods'')"
  shows "distinct (map remote_path mods)"
    and "\<forall>r \<in> set mods. validateFrozenRemoteMod P r = Inr () \<and> remote_path r \<notin> bf_path ` set (bm_files m)"
    and "\<exists>ds. entry_json P es ''resolved/mods.json'' = Some (Arr ds) \<and> list_all (declares m mods) ds \<and>
      distinct (map declared_path ds) \<and>
      {path \<in> bf_path ` set (bm_files m). prefix (js ''instance/mods/'') path} \<union> remote_path ` set mods \<subseteq>
        declared_path ` set ds"
proof -
  let ?l = "local_mods m"
  from assms(1) obtain v remote seen where v: "entry_json P es ''resolved/mods.json'' = Some v" "is_arr v"
    and remote: "foldR (add_remote P ?l) [] mods = Inr remote"
    and seen: "foldR (check_declaration P ?l remote) [] (the_arr v) = Inr seen"
    and all: "list_all (\<lambda>path. path \<in> set seen) (map fst ?l @ map fst remote)"
    by (auto simp: verifyResolvedMods_def result_simps Let_def mods_def)
  have "remote_inv P ?l []" by (simp add: remote_inv_def)
  from remote_fold [OF remote this]
  have r: "remote = map (\<lambda>r. (remote_path r, r)) mods" "remote_inv P ?l remote" by auto
  from r show "distinct (map remote_path mods)" by (simp add: remote_inv_def o_def)
  have "remote_path r \<notin> bf_path ` set (bm_files m)" if "r \<in> set mods" for r
  proof -
    have "\<not> has ?l (remote_path r)" using r that by (auto simp: remote_inv_def list_all_iff)
    moreover have "prefix (js ''instance/mods/'') (remote_path r)" by (simp add: remote_path_def mods_path_def)
    ultimately show ?thesis by (auto simp: local_mods_def)
  qed
  with r show "\<forall>r \<in> set mods. validateFrozenRemoteMod P r = Inr () \<and> remote_path r \<notin> bf_path ` set (bm_files m)"
    by (auto simp: remote_inv_def list_all_iff)
  from declarations_fold [OF seen [unfolded r(1)]]
  have ds: "seen = map declared_path (the_arr v)" "distinct seen" "list_all (declares m mods) (the_arr v)" by auto
  have "{path \<in> bf_path ` set (bm_files m). prefix (js ''instance/mods/'') path} \<union> remote_path ` set mods \<subseteq> set seen"
    using all by (auto simp: list_all_iff local_mods_def r(1))
  with ds v show "\<exists>ds. entry_json P es ''resolved/mods.json'' = Some (Arr ds) \<and> list_all (declares m mods) ds \<and>
      distinct (map declared_path ds) \<and>
      {path \<in> bf_path ` set (bm_files m). prefix (js ''instance/mods/'') path} \<union> remote_path ` set mods \<subseteq>
        declared_path ` set ds"
    by (intro exI [of _ "the_arr v"]) (auto simp: is_arr_the_arr [symmetric])
qed

section \<open>A sample bundle\<close>

definition sample_digest :: "byte \<Rightarrow> jsval" where
  "sample_digest b = Str (sample_sha256 [b])"

definition sample_file :: "string \<Rightarrow> byte \<Rightarrow> jsval" where
  "sample_file path b = Obj [(js ''path'', Str (js path)), (js ''sha256'', sample_digest b), (js ''sizeBytes'', JInt 1)]"

definition sample_loader :: jsval where
  "sample_loader = Obj [(js ''kind'', Str (js ''fabric'')), (js ''version'', Str (js ''0.16.9''))]"

definition sample_java :: "string \<Rightarrow> jsval" where
  "sample_java major = Obj [(js ''component'', Str (js ''java-runtime-delta'')), (js major, JInt 21)]"

definition sample_catalog :: jsval where
  "sample_catalog = Obj [(js ''sha256'', Str (replicate 64 97))]"

definition sample_manifest :: jsval where
  "sample_manifest = Obj [(js ''schemaVersion'', JInt 1), (js ''instanceName'', Str (js ''demo'')),
     (js ''minecraftVersion'', Str (js ''1.21.1'')), (js ''loader'', sample_loader),
     (js ''javaRequirement'', sample_java ''major''), (js ''runtimeCatalog'', sample_catalog),
     (js ''files'', Arr [sample_file ''instance/mods/a.jar'' 1, sample_file ''resolved/artifacts.json'' 65,
        sample_file ''resolved/loader.json'' 76, sample_file ''resolved/mods.json'' 77,
        sample_file ''resolved/version.json'' 86])]"

definition sample_remote :: jsval where
  "sample_remote = Obj [(js ''downloadUrl'', Str (js ''https://files.example/b.jar'')), (js ''fileId'', Str (js ''f1'')),
     (js ''filename'', Str (js ''b.jar'')), (js ''projectId'', Str (js ''p1'')), (js ''provider'', Str (js ''modrinth'')),
     (js ''sha256'', sample_digest 2), (js ''sizeBytes'', JInt 1)]"

definition sample_mods :: jsval where
  "sample_mods = Arr [sample_file ''instance/mods/a.jar'' 1,
     Obj [(js ''filename'', Str (js ''b.jar'')), (js ''path'', Str (js ''instance/mods/b.jar'')),
       (js ''sha256'', sample_digest 2), (js ''sizeBytes'', JInt 1),
       (js ''source'', Obj [(js ''projectId'', Str (js ''p1'')), (js ''provider'', Str (js ''modrinth'')),
         (js ''versionId'', Str (js ''f1''))])]]"

definition sample_documents :: "(jsstr \<times> jsval) list" where
  "sample_documents = [(js ''B'', sample_manifest),
     (js ''L'', Obj [(js ''minecraftVersion'', Str (js ''1.21.1'')), (js ''loader'', sample_loader),
       (js ''javaRequirement'', sample_java ''major''), (js ''runtimeCatalog'', sample_catalog)]),
     (js ''V'', Obj [(js ''minecraftVersion'', Str (js ''1.21.1'')), (js ''javaVersion'', sample_java ''majorVersion'')]),
     (js ''A'', Obj [(js ''schemaVersion'', JInt 1), (js ''artifacts'', Arr [Obj [(js ''intent'', Str (js ''mod'')),
       (js ''path'', Str (js ''instance/mods/a.jar'')), (js ''sha256'', sample_digest 1), (js ''sizeBytes'', JInt 1)]])]),
     (js ''M'', sample_mods), (js ''R'', sample_runtime)]"

definition bundle_platform :: platform where
  "bundle_platform = sample_platform\<lparr>json_parse := map_of sample_documents\<rparr>"

definition sample_contents :: "(string \<times> bytes) list" where
  "sample_contents = [(''bundle.json'', [66]), (''instance/mods/a.jar'', [1]), (''resolved/artifacts.json'', [65]),
     (''resolved/loader.json'', [76]), (''resolved/mods.json'', [77]), (''resolved/version.json'', [86])]"

definition sample_archive :: bytes where
  "sample_archive = zip_archive (map sample_item sample_contents)"

definition sample_frozen :: jsval where
  "sample_frozen = Obj [(js ''schemaVersion'', JInt 1), (js ''sourceFormat'', Str (js ''xmcl_server_bundle'')),
     (js ''importId'', Str (js ''i'')),
     (js ''archive'', Obj [(js ''sha256'', Str (sample_sha256 sample_archive)),
       (js ''sizeBytes'', JInt (int (length sample_archive))),
       (js ''key'', Str (js ''shared-hosting/a/s/compiler-inputs/i.xmcl-server-bundle''))]),
     (js ''compatibility'', Obj [
       (js ''minecraftVersion'', Str (js ''1.21.1'')), (js ''loader'', Str (js ''fabric'')),
       (js ''loaderVersion'', Str (js ''0.16.9'')), (js ''runtimeCatalog'', sample_catalog),
       (js ''java'', sample_java ''major'')]),
     (js ''mods'', Arr [sample_remote])]"

definition sample_entries :: entries where
  "sample_entries = map (\<lambda>(p, b). (js p, b)) sample_contents"

lemma sample_small: "list_all small_entry sample_contents" "length sample_contents = 6"
  by (simp_all add: sample_contents_def small_entry_def ascii_def js_simps safe_path_def safe_segments_def
      drive_prefix_def char_class_defs)

lemma sample_readZip: "readZip bundle_platform sample_archive = Inr sample_entries"
proof -
  have "distinct (map fst sample_contents)" by (simp add: sample_contents_def)
  then have "items_ok bundle_platform (map sample_item sample_contents)"
    using sample_small by (intro small_items_ok) simp_all
  from readZip_zip_archive [OF this] show ?thesis
    by (simp add: sample_archive_def item_entry_def sample_item_def sample_contents_def sample_entries_def)
qed

lemma sample_archive_size: "length sample_archive \<le> MAX_BUNDLE_BYTES"
  using small_zip_size [OF sample_small(1)] sample_small(2)
  by (simp add: sample_archive_def MAX_BUNDLE_BYTES_def limit_defs)

lemma sample_parse: "parse_json bundle_platform [b] = map_of sample_documents [ucast b]" if "unat b < 128" for b :: byte
proof -
  have "decode_scalars [b] = Some [unat b]"
    using that by (subst decode_scalars.simps) (simp add: utf8_next_def decode_scalars.simps)
  moreover have "units (unat b) = [ucast b]" "unat b \<noteq> 0xFEFF"
    using that by (simp_all add: units_def unsigned_of_nat)
  ultimately show ?thesis
    by (simp add: parse_json_def decode_def strip_bom_def bundle_platform_def)
qed

lemma sample_digest: "validSha256 (sample_digest b)" "ascii_lower (the_str (sample_digest b)) = the_str (sample_digest b)"
  "the_str (sample_digest b) = sha256 bundle_platform [b]" "is_str (sample_digest b)"
  "sample_digest b = Str (sha256 bundle_platform [b])"
  using sha256_validSha256 [OF sample_sha256_hex, of "[b]"] sha256_lower [OF sample_sha256_hex, of "[b]"]
  by (simp_all add: sample_digest_def bundle_platform_def sample_platform_def)

lemma sample_parse_json:
  "parse_json bundle_platform [66] = Some sample_manifest"
  "parse_json bundle_platform [77] = Some sample_mods"
  "parse_json bundle_platform [76] = map_of sample_documents (js ''L'')"
  "parse_json bundle_platform [86] = map_of sample_documents (js ''V'')"
  "parse_json bundle_platform [65] = map_of sample_documents (js ''A'')"
  "parse_json bundle_platform [82] = Some sample_runtime"
  by (simp_all add: sample_parse) (simp_all add: sample_documents_def js_simps)

definition sample_parsed_file :: "string \<Rightarrow> byte \<Rightarrow> bundle_file" where
  "sample_parsed_file path b = \<lparr>bf_path = js path, bf_sha256 = sha256 bundle_platform [b], bf_sizeBytes = 1\<rparr>"

definition sample_parsed :: bundle_manifest where
  "sample_parsed = \<lparr>bm_instanceName = js ''demo'', bm_minecraftVersion = js ''1.21.1'',
     bm_loader_kind = js ''fabric'', bm_loader_version = js ''0.16.9'',
     bm_java_component = js ''java-runtime-delta'', bm_java_major = 21, bm_catalog_sha256 = replicate 64 97,
     bm_files = [sample_parsed_file ''instance/mods/a.jar'' 1, sample_parsed_file ''resolved/artifacts.json'' 65,
        sample_parsed_file ''resolved/loader.json'' 76, sample_parsed_file ''resolved/mods.json'' 77,
        sample_parsed_file ''resolved/version.json'' 86]\<rparr>"

lemma sample_allowed: "allowedPath (Str (js path))" if "path \<in> set [''instance/mods/a.jar'', ''resolved/artifacts.json'',
    ''resolved/loader.json'', ''resolved/mods.json'', ''resolved/version.json'']"
proof -
  have "safe_path 1024 (js path)" using that sample_small(1) by (auto simp: sample_contents_def small_entry_def)
  moreover have "\<not> startup_script (js path)"
    using that by (auto simp: startup_script_def ascii_lower_def ascii_lower_unit_def js_simps char_class_defs)
  moreover have "prefix (js ''instance/mods/'') (js ''instance/mods/a.jar'')" by (simp add: js_simps)
  ultimately show ?thesis
    using that by (auto simp: allowedPath_def safeZipPath_def allowed_files_def allowed_prefixes_def)
qed

lemma sample_parse_file:
  assumes "allowedPath (Str (js path))" and "previous = [] \<or> previous < js path"
  shows "parse_file (previous, fs) (sample_file path b) = Inr (js path, fs @ [sample_parsed_file path b])"
  using assms sample_digest [of b] allowedPath_nonempty [OF assms(1)]
  by (auto simp: parse_file_def sample_file_def only_keys_def sample_parsed_file_def comparePath_def max_safe_integer_def)

lemma sample_paths_sorted: "js ''instance/mods/a.jar'' < js ''resolved/artifacts.json''"
  "js ''resolved/artifacts.json'' < js ''resolved/loader.json''" "js ''resolved/loader.json'' < js ''resolved/mods.json''"
  "js ''resolved/mods.json'' < js ''resolved/version.json''"
  by (simp_all add: js_simps)

lemma sample_header: "manifest_header_ok sample_manifest"
proof -
  have "validMinecraftVersion (Str (js ''1.21.1''))" "validLoaderVersion (Str (js ''0.16.9''))"
    by (simp_all add: validMinecraftVersion_def validLoaderVersion_def version_major_def version_part_def js_simps
        char_class_defs)
  moreover have "validSha256 (Str (replicate 64 97))"
    by (simp add: validSha256_def list_all_iff char_class_defs)
  ultimately show ?thesis
    by (simp add: manifest_header_ok_def sample_manifest_def sample_loader_def sample_java_def sample_catalog_def
        only_keys_def max_safe_integer_def)
qed

lemma sample_parseManifest: "parseManifest bundle_platform [66] = Inr sample_parsed"
proof -
  have "ascii_lower (replicate 64 97) = replicate 64 97"
    by (rule ascii_lower_hex_lower) (simp add: list_all_iff char_class_defs)
  then show ?thesis
    using sample_header sample_allowed sample_paths_sorted
    by (simp add: parseManifest_def sample_parse_json sample_parse_file)
      (simp add: sample_manifest_def sample_loader_def sample_java_def sample_catalog_def sample_parsed_def
        sample_parse_file)
qed

lemma sample_entry_json: "entry_json bundle_platform sample_entries ''resolved/loader.json'' = map_of sample_documents (js ''L'')"
  "entry_json bundle_platform sample_entries ''resolved/version.json'' = map_of sample_documents (js ''V'')"
  "entry_json bundle_platform sample_entries ''resolved/artifacts.json'' = map_of sample_documents (js ''A'')"
  "entry_json bundle_platform sample_entries ''resolved/mods.json'' = Some sample_mods"
  by (simp_all add: entry_json_def sample_entries_def sample_contents_def sample_parse_json)

lemma sample_compatibility: "verifyCompatibility sample_parsed sample_frozen = Inr ()"
  by (simp add: verifyCompatibility_def sample_parsed_def sample_frozen_def sample_catalog_def sample_java_def)

lemma sample_checked: "foldR (check_entry bundle_platform (map (\<lambda>f. (bf_path f, f)) (bm_files sample_parsed))) () sample_entries = Inr ()"
  using sample_allowed
  by (simp add: check_entry_def sample_entries_def sample_contents_def sample_parsed_def sample_parsed_file_def)

lemma sample_metadata: "verifyResolvedMetadata bundle_platform sample_entries sample_parsed = Inr ()"
proof -
  have "prefix (js ''instance/'') (js ''instance/mods/a.jar'')" "prefix (js ''instance/mods/'') (js ''instance/mods/a.jar'')"
    "\<not> prefix (js ''instance/'') (js ''resolved/artifacts.json'')" "\<not> prefix (js ''instance/'') (js ''resolved/loader.json'')"
    "\<not> prefix (js ''instance/'') (js ''resolved/mods.json'')" "\<not> prefix (js ''instance/'') (js ''resolved/version.json'')"
    by (simp_all add: js_simps)
  moreover have "Str (sha256 bundle_platform [1]) = sample_digest 1"
    using sample_digest(3) [of 1] by (simp add: sample_digest_def)
  ultimately show ?thesis
    by (simp add: verifyResolvedMetadata_def sample_entry_json sample_documents_def sample_parsed_def sample_loader_def
        sample_java_def sample_catalog_def validArtifactMetadata_def artifact_matches_def sample_parsed_file_def
        only_keys_def artifactIntent_def)
qed

lemma sample_remote_valid: "validateFrozenRemoteMod bundle_platform sample_remote = Inr ()"
proof -
  have "sameKeys sample_remote [''downloadUrl'', ''fileId'', ''filename'', ''projectId'', ''provider'', ''sha256'', ''sizeBytes'']"
    by (rule sameKeysI) (simp add: sample_remote_def)
  moreover have "safeModFilename bundle_platform (Str (js ''b.jar''))"
    by (simp add: safeModFilename_def bundle_platform_def sample_platform_def ascii_lower_def ascii_lower_unit_def
        js_simps char_class_defs suffix_def)
  ultimately show ?thesis
    using sample_digest(1) [of 2]
    by (simp add: validateFrozenRemoteMod_def sample_remote_def max_safe_integer_def)
qed

lemma sample_resolved_mods: "verifyResolvedMods bundle_platform sample_entries sample_parsed sample_frozen = Inr ()"
proof -
  have pre: "prefix (js ''instance/mods/'') (js ''instance/mods/a.jar'')"
    "\<not> prefix (js ''instance/mods/'') (js ''resolved/artifacts.json'')" "\<not> prefix (js ''instance/mods/'') (js ''resolved/loader.json'')"
    "\<not> prefix (js ''instance/mods/'') (js ''resolved/mods.json'')" "\<not> prefix (js ''instance/mods/'') (js ''resolved/version.json'')"
    by (simp_all add: js_simps)
  have l: "local_mods sample_parsed = [(js ''instance/mods/a.jar'', sample_parsed_file ''instance/mods/a.jar'' 1)]"
    using pre by (simp add: local_mods_def sample_parsed_def sample_parsed_file_def)
  have p: "mods_path (js ''b.jar'') = js ''instance/mods/b.jar''" by (simp add: mods_path_def flip: js_append)
  have r: "foldR (add_remote bundle_platform (local_mods sample_parsed)) [] [sample_remote] =
      Inr [(js ''instance/mods/b.jar'', sample_remote)]"
    using sample_remote_valid p by (simp add: add_remote_def l sample_remote_def)
  have "check_declaration bundle_platform (local_mods sample_parsed) [(js ''instance/mods/b.jar'', sample_remote)] []
      (sample_file ''instance/mods/a.jar'' 1) = Inr [js ''instance/mods/a.jar'']"
    using sample_digest [of 1]
    by (simp add: check_declaration_def sample_file_def check_local_def l sample_parsed_file_def sameKeysI max_safe_integer_def)
  moreover have "check_declaration bundle_platform (local_mods sample_parsed) [(js ''instance/mods/b.jar'', sample_remote)]
      [js ''instance/mods/a.jar''] (the_arr sample_mods ! 1) = Inr [js ''instance/mods/a.jar'', js ''instance/mods/b.jar'']"
    using sample_digest [of 2] p sample_remote_valid
    by (simp add: check_declaration_def sample_mods_def check_remote_def matchesSource_def sample_remote_def sameKeysI
        max_safe_integer_def validateFrozenRemoteMod_def result_simps)
  ultimately have "foldR (check_declaration bundle_platform (local_mods sample_parsed) [(js ''instance/mods/b.jar'', sample_remote)])
      [] (the_arr sample_mods) = Inr [js ''instance/mods/a.jar'', js ''instance/mods/b.jar'']"
    by (simp add: sample_mods_def)
  with r show ?thesis
    by (simp add: verifyResolvedMods_def sample_entry_json sample_frozen_def l) (simp add: sample_mods_def)
qed

lemma sample_bundle: "validateBundle bundle_platform sample_archive sample_frozen = Inr (sample_parsed, sample_entries)"
proof -
  have "list_all (\<lambda>path. has sample_entries (js path)) requiredResolvedFiles" "length sample_entries = 6"
    "map_of sample_entries (js ''bundle.json'') = Some [66]" "length (bm_files sample_parsed) = 5"
    by (simp_all add: requiredResolvedFiles_def sample_entries_def sample_contents_def sample_parsed_def)
  then show ?thesis
    using sample_archive_size sample_readZip sample_parseManifest sample_compatibility sample_checked sample_metadata
      sample_resolved_mods
    by (simp add: validateBundle_def MAX_BUNDLE_ENTRIES_def Let_def)
qed

section \<open>Failures\<close>

definition bundle_codes :: "string list" where
  "bundle_codes = [''bundle_too_large'', ''invalid_bundle'', ''invalid_bundle_manifest'', ''frozen_compatibility_mismatch'',
     ''bundle_hash_or_path_mismatch'', ''bundle_manifest_mismatch'', ''missing_resolved_metadata'',
     ''resolved_metadata_mismatch'', ''resolved_mods_mismatch'', ''remote_mod_collision'', ''invalid_remote_mod'']"

definition conversion_error :: js_error where
  "conversion_error = TypeError ''cannot convert object to primitive value''"

definition bundle_error :: "js_error \<Rightarrow> bool" where
  "bundle_error e = (e \<in> CompilerFailure ` set bundle_codes \<or> e = conversion_error)"

lemma bundle_error_codes [simp]: "bundle_error invalid_bundle" "bundle_error invalid_manifest" "bundle_error mods_mismatch"
  "bundle_error (CompilerFailure ''bundle_too_large'')" "bundle_error (CompilerFailure ''frozen_compatibility_mismatch'')"
  "bundle_error (CompilerFailure ''bundle_hash_or_path_mismatch'')" "bundle_error (CompilerFailure ''bundle_manifest_mismatch'')"
  "bundle_error (CompilerFailure ''missing_resolved_metadata'')" "bundle_error (CompilerFailure ''resolved_metadata_mismatch'')"
  "bundle_error (CompilerFailure ''remote_mod_collision'')" "bundle_error (CompilerFailure ''invalid_remote_mod'')"
  "bundle_error conversion_error"
  by (simp_all add: bundle_error_def bundle_codes_def invalid_bundle_def invalid_manifest_def mods_mismatch_def)

lemma of_option_eq_Inl [result_simps]: "of_option e v = Inl e' \<longleftrightarrow> v = None \<and> e' = e"
  by (cases v) auto

lemma mapR_error: "mapR f xs = Inl e \<Longrightarrow> \<exists>x \<in> set xs. f x = Inl e"
  by (induction xs) (auto simp: result_simps)

lemma foldR_error:
  "foldR f st xs = Inl e \<Longrightarrow> (\<And>st x. x \<in> set xs \<Longrightarrow> f st x = Inl e \<Longrightarrow> Q) \<Longrightarrow> Q"
  by (induction xs arbitrary: st) (auto simp: result_simps)

lemma js_String_error: "js_String P v = Inl e \<Longrightarrow> e = conversion_error"
  by (induction P v rule: js_String.induct)
    (auto simp: result_simps conversion_error_def dest!: mapR_error split: if_splits)

lemma matchesSource_error: "matchesSource P expected source = Inl e \<Longrightarrow> e = conversion_error"
  by (auto simp: matchesSource_def result_simps dest: js_String_error split: option.splits if_splits)

lemma check_declaration_error: "check_declaration P locals remote seen d = Inl e \<Longrightarrow> bundle_error e"
  by (auto simp: check_declaration_def check_local_def check_remote_def result_simps Let_def
      dest!: js_String_error matchesSource_error split: if_splits option.splits)

lemma add_remote_error: "add_remote P locals remote m = Inl e \<Longrightarrow> bundle_error e"
  by (auto simp: add_remote_def validateFrozenRemoteMod_def result_simps Let_def split: if_splits)

lemma verifyResolvedMods_error: "verifyResolvedMods P es m frozen = Inl e \<Longrightarrow> bundle_error e"
  by (auto simp: verifyResolvedMods_def result_simps Let_def
      elim!: foldR_error dest: add_remote_error check_declaration_error)

lemma parseManifest_error: "parseManifest P bytes = Inl e \<Longrightarrow> bundle_error e"
  by (auto simp: parseManifest_def result_simps parse_file_def elim!: foldR_error split: if_splits prod.splits)

lemma check_entry_error: "check_entry P listed u x = Inl e \<Longrightarrow> bundle_error e"
  by (auto simp: check_entry_def result_simps split: prod.splits if_splits option.splits)

lemma validateBundle_error: "validateBundle P archive frozen = Inl e \<Longrightarrow> bundle_error e"
  by (auto simp: validateBundle_def result_simps Let_def verifyCompatibility_def verifyResolvedMetadata_def
      elim!: foldR_error dest: readZip_error parseManifest_error check_entry_error verifyResolvedMods_error)

section \<open>Properties\<close>

text \<open>
  C24. An accepted bundle contains the manifest and exactly the files it lists, once each, with
  the listed sizes and digests and at allowed paths, the required resolved documents among
  them; its Minecraft version, loader and runtime catalog are those of the frozen manifest.
\<close>

theorem validated_bundle_sound:
  assumes "validateBundle P archive frozen = Inr (m, es)"
  shows "distinct (map fst es) \<and>
    set (map fst es) = insert (js ''bundle.json'') (bf_path ` set (bm_files m)) \<and>
    (\<forall>(path, bytes) \<in> set es. path \<noteq> js ''bundle.json'' \<longrightarrow>
       allowedPath (Str path) \<and> (\<exists>f \<in> set (bm_files m). bf_path f = path \<and>
         bf_sizeBytes f = int (length bytes) \<and> bf_sha256 f = sha256 P bytes)) \<and>
    (\<forall>path \<in> set requiredResolvedFiles. js path \<in> set (map fst es)) \<and>
    (let compatibility = get frozen ''compatibility'' in
       get compatibility ''minecraftVersion'' = Str (bm_minecraftVersion m) \<and>
       get compatibility ''loader'' = Str (bm_loader_kind m) \<and>
       get compatibility ''loaderVersion'' = Str (bm_loader_version m) \<and>
       get (get compatibility ''runtimeCatalog'') ''sha256'' = Str (bm_catalog_sha256 m))"
proof -
  note st = validateBundle_steps [OF assms]
  have "\<forall>(path, bytes) \<in> set es. path \<noteq> js ''bundle.json'' \<longrightarrow>
      allowedPath (Str path) \<and> (\<exists>f \<in> set (bm_files m). bf_path f = path \<and>
        bf_sizeBytes f = int (length bytes) \<and> bf_sha256 f = sha256 P bytes)"
    using st(4) entry_listed by blast
  moreover have "let compatibility = get frozen ''compatibility'' in
       get compatibility ''minecraftVersion'' = Str (bm_minecraftVersion m) \<and>
       get compatibility ''loader'' = Str (bm_loader_kind m) \<and>
       get compatibility ''loaderVersion'' = Str (bm_loader_version m) \<and>
       get (get compatibility ''runtimeCatalog'') ''sha256'' = Str (bm_catalog_sha256 m)"
    using st(3) by (auto simp: verifyCompatibility_def Let_def result_simps)
  ultimately show ?thesis using listed_paths [OF assms] st(7) by blast
qed

theorem validated_bundle_sound_witness:
  "set (map fst sample_entries) = insert (js ''bundle.json'') (bf_path ` set (bm_files sample_parsed)) \<and>
    js ''resolved/mods.json'' \<in> set (map fst sample_entries)"
proof -
  note s = validated_bundle_sound [OF sample_bundle, THEN conjunct2]
  have "''resolved/mods.json'' \<in> set requiredResolvedFiles" by (simp add: requiredResolvedFiles_def)
  from conjI [OF conjunct1 [OF s] bspec [OF conjunct1 [OF conjunct2 [OF conjunct2 [OF s]]] this]]
  show ?thesis .
qed



text \<open>
  C26. A manifest that parses is well typed: a supported loader, valid versions, a lower-case
  catalog digest, and files at allowed paths in strictly increasing order with lower-case
  digests and non-negative safe sizes.
\<close>

theorem parsed_manifest_typed:
  assumes "parseManifest P bytes = Inr m"
  shows "bm_loader_kind m \<in> {js ''forge'', js ''fabric'', js ''neoforge'', js ''quilt''} \<and>
    validMinecraftVersion (Str (bm_minecraftVersion m)) \<and> validLoaderVersion (Str (bm_loader_version m)) \<and>
    validSha256 (Str (bm_catalog_sha256 m)) \<and> sorted_wrt (<) (map bf_path (bm_files m)) \<and>
    list_all (\<lambda>f. allowedPath (Str (bf_path f)) \<and> length (bf_sha256 f) = 64 \<and> list_all is_hex_lower (bf_sha256 f) \<and>
      0 \<le> bf_sizeBytes f \<and> bf_sizeBytes f \<le> max_safe_integer) (bm_files m)"
  using parseManifest_ok [OF assms]
  by (auto simp: manifest_ok_def file_ok_def validSha256_def list_all_iff is_hex_def)

theorem parsed_manifest_typed_witness:
  "sorted_wrt (<) (map bf_path (bm_files sample_parsed)) \<and> validSha256 (Str (bm_catalog_sha256 sample_parsed))"
  using parsed_manifest_typed [OF sample_parseManifest] by blast

text \<open>
  Whatever the bytes of the archive and the frozen manifest are, validation either accepts or
  fails with one of its own failure codes, with one exception: a JSON object that cannot be
  converted to a string, as a declared file name or identifier, is a type error.
\<close>

theorem bundle_failures:
  "validateBundle P archive frozen \<in> range Inr \<union> Inl ` CompilerFailure ` set [''bundle_too_large'', ''invalid_bundle'',
     ''invalid_bundle_manifest'', ''frozen_compatibility_mismatch'', ''bundle_hash_or_path_mismatch'',
     ''bundle_manifest_mismatch'', ''missing_resolved_metadata'', ''resolved_metadata_mismatch'',
     ''resolved_mods_mismatch'', ''remote_mod_collision'', ''invalid_remote_mod''] \<union>
     {Inl (TypeError ''cannot convert object to primitive value'')}"
proof (cases "validateBundle P archive frozen")
  case (Inl e)
  with validateBundle_error [OF Inl] show ?thesis
    by (auto simp: bundle_error_def bundle_codes_def conversion_error_def)
qed simp

end
