(* ===== verification/Tar_Package.thy ===== *)
theory Tar_Package
  imports Utf8 Production_Limits
begin

text \<open>
  The deterministic content archive of \<open>src/compiler/src/reviewed-builder.mjs\<close>: a USTAR
  stream (\<open>packageTar\<close>, \<open>unpackTar\<close>) inside a raw-block Zstandard frame
  (\<open>rawZstd\<close>, \<open>unpackDeterministicTarZst\<close>), with the header writers and readers
  they are made of and the path rules of packaged output. Shown here: the frame and the tar
  stream each read back exactly what was written, the writer does not depend on the order
  in which files were added, and the frame of an admissible tar is never rejected for its
  size.
\<close>

unbundle bit_operations_syntax

section \<open>Paths and modes of output files\<close>

definition failOutput :: js_error where
  "failOutput = CompilerFailure ''invalid_builder_output''"

definition safeOutputPath :: "jsval \<Rightarrow> bool" where
  "safeOutputPath path = (is_str path \<and> safe_path 255 (the_str path))"

definition all_digits :: "jsstr \<Rightarrow> bool" where
  "all_digits s = (s \<noteq> [] \<and> list_all is_digit s)"

definition forbiddenOutputPath :: "platform \<Rightarrow> jsstr \<Rightarrow> bool" where
  "forbiddenOutputPath P path =
     (let parts = split_on 47 (lower P path); installer = js ''neoforge_installer'' in
        last parts \<in> set (map js [''eula.txt'', ''java'', ''javaw'', ''java.exe'', ''javaw.exe'']) \<or>
        list_ex (\<lambda>p. p = js ''jre'' \<or> p = js ''jdk'') parts \<or>
        (prefix installer (hd parts) \<and> all_digits (drop (length installer) (hd parts))) \<or>
        list_ex (\<lambda>ext. suffix (js ext) (ascii_lower path))
          [''.sh'', ''.bat'', ''.cmd'', ''.ps1'', ''.exe''])"

definition validOutputMode :: "jsval \<Rightarrow> bool" where
  "validOutputMode mode = (mode = JInt 420 \<or> mode = JInt 493)"

record out_file =
  file_bytes :: bytes
  file_mode :: int

type_synonym files = "(jsstr, out_file) jsmap"

text \<open>
  \<open>[...files.entries()].sort(comparePath)\<close>: a stable sort by path, so an insertion sort
  that keeps the order of equal keys.
\<close>

definition sorted_entries :: "files \<Rightarrow> files" where
  "sorted_entries files = sort_key fst files"

section \<open>Writing text, octal numbers and the checksum into a header\<close>

definition writeTarText :: "bytes \<Rightarrow> nat \<Rightarrow> nat \<Rightarrow> jsstr \<Rightarrow> bytes result" where
  "writeTarText target offset len value =
     (let bs = encode value in
      if length bs > len then Inl failOutput else Inr (set_at target offset bs))"

definition writeTarOctal :: "bytes \<Rightarrow> nat \<Rightarrow> nat \<Rightarrow> int \<Rightarrow> bytes result" where
  "writeTarOctal target offset len value =
     (let text = padStart (len - 1) 48 (int_to_string 8 value) in
      if length text \<noteq> len - 1 then Inl failOutput else writeTarText target offset len text)"

definition writeTarChecksum :: "bytes \<Rightarrow> nat \<Rightarrow> bytes result" where
  "writeTarChecksum target value =
     (let text = padStart 6 48 (int_to_string 8 (int value)) in
      if length text \<noteq> 6 then Inl failOutput
      else Inr (set_at target 148 (encode (text @ [0, 32]))))"

function splitTarLoop :: "jsstr list \<Rightarrow> nat \<Rightarrow> (jsstr \<times> jsstr) result" where
  "splitTarLoop parts index =
     (if index < length parts then
        (let pre = join_on (js ''/'') (take index parts);
             name = join_on (js ''/'') (drop index parts)
         in if length (encode pre) \<le> 155 \<and> length (encode name) \<le> 100 then Inr (name, pre)
            else splitTarLoop parts (Suc index))
      else Inl failOutput)"
  by pat_completeness auto
termination
  by (relation "measure (\<lambda>(parts, index). length parts - index)") auto

declare splitTarLoop.simps [simp del]

text \<open>The name and the prefix field of a path.\<close>

definition splitTarPath :: "jsstr \<Rightarrow> (jsstr \<times> jsstr) result" where
  "splitTarPath path =
     (if length (encode path) \<le> 100 then Inr (path, [])
      else splitTarLoop (split_on 47 path) 1)"

definition tarHeader :: "jsstr \<Rightarrow> out_file \<Rightarrow> bytes result" where
  "tarHeader path file =
     bindR (splitTarPath path) (\<lambda>(name, pre).
     bindR (writeTarText (replicate 512 0) 0 100 name) (\<lambda>h.
     bindR (writeTarOctal h 100 8 (file_mode file)) (\<lambda>h.
     bindR (writeTarOctal h 108 8 0) (\<lambda>h.
     bindR (writeTarOctal h 116 8 0) (\<lambda>h.
     bindR (writeTarOctal h 124 12 (int (length (file_bytes file)))) (\<lambda>h.
     bindR (writeTarOctal h 136 12 0) (\<lambda>h.
     let h = set_at h 148 (replicate 8 0x20); h = set_at h 156 [0x30] in
     bindR (writeTarText h 257 6 (js ''ustar'')) (\<lambda>h.
     bindR (writeTarText h 263 2 (js ''00'')) (\<lambda>h.
     bindR (writeTarText h 265 32 (js ''root'')) (\<lambda>h.
     bindR (writeTarText h 297 32 (js ''root'')) (\<lambda>h.
     bindR (writeTarText h 345 155 pre) (\<lambda>h.
     writeTarChecksum h (sum_list (map unat h))))))))))))))"

section \<open>Concatenating chunks\<close>

fun concatLoop :: "bytes \<Rightarrow> nat \<Rightarrow> bytes list \<Rightarrow> bytes" where
  "concatLoop output offset [] = output"
| "concatLoop output offset (chunk # chunks) =
     concatLoop (set_at output offset chunk) (offset + length chunk) chunks"

definition concatenate :: "bytes list \<Rightarrow> nat \<Rightarrow> bytes" where
  "concatenate chunks n = concatLoop (replicate n 0) 0 chunks"

section \<open>The tar stream\<close>

definition padding :: "nat \<Rightarrow> nat" where
  "padding n = (512 - n mod 512) mod 512"

fun packageTarLoop :: "files \<Rightarrow> bytes list \<Rightarrow> nat \<Rightarrow> (bytes list \<times> nat) result" where
  "packageTarLoop [] chunks tot = Inr (chunks, tot)"
| "packageTarLoop ((path, file) # entries) chunks tot =
     bindR (tarHeader path file) (\<lambda>header.
       let pad = padding (length (file_bytes file));
           tot' = tot + 512 + length (file_bytes file) + pad
       in if tot' > maxPackageTarBytes PRODUCTION_OUTPUT_LIMITS then Inl failOutput
          else packageTarLoop entries
                 (chunks @ [header, file_bytes file, replicate pad 0]) tot')"

definition packageTar :: "files \<Rightarrow> bytes result" where
  "packageTar files =
     bindR (packageTarLoop (sorted_entries files) [] 0) (\<lambda>(chunks, tot).
       if tot + 1024 > maxPackageTarBytes PRODUCTION_OUTPUT_LIMITS then Inl failOutput
       else Inr (concatenate (chunks @ [replicate 1024 0]) (tot + 1024)))"

section \<open>The Zstandard frame of raw blocks\<close>

definition RAW_ZSTD_BLOCK_BYTES :: nat where
  "RAW_ZSTD_BLOCK_BYTES = 128 * 1024"

definition littleEndian32 :: "32 word \<Rightarrow> bytes" where
  "littleEndian32 value =
     [ucast (value AND 0xff), ucast (drop_bit 8 value AND 0xff),
      ucast (drop_bit 16 value AND 0xff), ucast (drop_bit 24 value AND 0xff)]"

definition readLittleEndian32 :: "bytes \<Rightarrow> nat \<Rightarrow> 32 word" where
  "readLittleEndian32 bs offset =
     ucast (bs ! offset) OR push_bit 8 (ucast (bs ! (offset + 1))) OR
     push_bit 16 (ucast (bs ! (offset + 2))) OR push_bit 24 (ucast (bs ! (offset + 3)))"

text \<open>The three-byte header of a raw block: last-block flag, type 0, and the size.\<close>

definition blockHeader :: "nat \<Rightarrow> bool \<Rightarrow> 32 word" where
  "blockHeader len final = push_bit 3 (of_nat len) OR of_bool final"

definition blockHeaderBytes :: "32 word \<Rightarrow> bytes" where
  "blockHeaderBytes header =
     [ucast (header AND 0xff), ucast (drop_bit 8 header AND 0xff),
      ucast (drop_bit 16 header AND 0xff)]"

definition readBlockHeader :: "bytes \<Rightarrow> nat \<Rightarrow> 32 word" where
  "readBlockHeader archive offset =
     ucast (archive ! offset) OR push_bit 8 (ucast (archive ! (offset + 1))) OR
     push_bit 16 (ucast (archive ! (offset + 2)))"

function rawZstdLoop :: "bytes \<Rightarrow> nat \<Rightarrow> bytes list \<Rightarrow> nat \<Rightarrow> bytes list \<times> nat" where
  "rawZstdLoop input offset chunks tot =
     (if offset < length input then
        (let len = min RAW_ZSTD_BLOCK_BYTES (length input - offset);
             header = blockHeader len (offset + len = length input)
         in rawZstdLoop input (offset + RAW_ZSTD_BLOCK_BYTES)
              (chunks @ [blockHeaderBytes header, subarray input offset (offset + len)])
              (tot + 3 + len))
      else (chunks, tot))"
  by pat_completeness auto
termination
  by (relation "measure (\<lambda>(input, offset, _, _). length input - offset)")
    (auto simp: RAW_ZSTD_BLOCK_BYTES_def)

declare rawZstdLoop.simps [simp del]

definition zstdMagic :: bytes where
  "zstdMagic = [0x28, 0xb5, 0x2f, 0xfd, 0xa0]"

definition rawZstd :: "bytes \<Rightarrow> bytes result" where
  "rawZstd input =
     (if length input > maxPackageTarBytes PRODUCTION_OUTPUT_LIMITS then Inl failOutput
      else (let first = zstdMagic @ littleEndian32 (of_nat (length input));
                (chunks, tot) = rawZstdLoop input 0 [first] (length first)
            in if tot > maxPackageArchiveBytes PRODUCTION_OUTPUT_LIMITS then Inl failOutput
               else Inr (concatenate chunks tot)))"

definition packageDeterministicTarZst :: "files \<Rightarrow> bytes result" where
  "packageDeterministicTarZst files = bindR (packageTar files) rawZstd"

section \<open>Reading a header\<close>

definition indexOf0 :: "bytes \<Rightarrow> nat \<Rightarrow> nat option" where
  "indexOf0 target offset =
     (let skipped = length (takeWhile (\<lambda>b. b \<noteq> 0) (drop offset target)) in
      if offset + skipped < length target then Some (offset + skipped) else None)"

definition tarText :: "bytes \<Rightarrow> nat \<Rightarrow> nat \<Rightarrow> jsstr result" where
  "tarText target offset len =
     (let boundedEnd = (case indexOf0 target offset of None \<Rightarrow> offset + len
                        | Some e \<Rightarrow> if e > offset + len then offset + len else e)
      in of_option failOutput (decode (subarray target offset boundedEnd)))"

text \<open>\<open>String.prototype.trim\<close>.\<close>

definition is_space :: "code_unit \<Rightarrow> bool" where
  "is_space u = (in_range 9 13 u \<or> in_range 0x2000 0x200A u \<or>
     u \<in> {0x20, 0xA0, 0x1680, 0x2028, 0x2029, 0x202F, 0x205F, 0x3000, 0xFEFF})"

definition trim :: "jsstr \<Rightarrow> jsstr" where
  "trim s = rev (dropWhile is_space (rev (dropWhile is_space s)))"

definition parseTarOctal :: "bytes \<Rightarrow> nat \<Rightarrow> nat \<Rightarrow> nat result" where
  "parseTarOctal target offset len =
     bindR (tarText target offset len) (\<lambda>t.
       let text = trim t; value = digits_value 8 text in
       if text = [] \<or> \<not> list_all (\<lambda>u. in_range 48 55 u) text then Inl failOutput
       else if \<not> isSafeInteger (JInt (int value)) then Inl failOutput
       else Inr value)"

record unpacked =
  u_bytes :: bytes
  u_sha256 :: jsstr
  u_sizeBytes :: nat
  u_mode :: nat

type_synonym unpacked_files = "(jsstr, unpacked) jsmap"

definition all_zero :: "bytes \<Rightarrow> bool" where
  "all_zero bs = list_all (\<lambda>b. b = 0) bs"

text \<open>
  One header block of the stream: the path, size and mode it announces, when the header is
  acceptable.
\<close>

definition readTarHeader :: "bytes \<Rightarrow> (jsstr \<times> nat \<times> nat) result" where
  "readTarHeader header =
     bindR (tarText header 257 6) (\<lambda>magic.
     if magic \<noteq> js ''ustar'' \<or> (header ! 156 \<noteq> 0 \<and> header ! 156 \<noteq> 0x30) then Inl failOutput
     else bindR (tarText header 0 100) (\<lambda>name.
     bindR (tarText header 345 155) (\<lambda>pre.
     bindR (parseTarOctal header 124 12) (\<lambda>sizeBytes.
     bindR (parseTarOctal header 100 8) (\<lambda>mode.
     Inr (if pre \<noteq> [] then pre @ js ''/'' @ name else name, sizeBytes, mode))))))"

function unpackTarLoop ::
    "platform \<Rightarrow> bytes \<Rightarrow> nat \<Rightarrow> unpacked_files \<Rightarrow> unpacked_files result" where
  "unpackTarLoop P tar offset files =
     (if offset + 512 \<le> length tar then
        (let header = subarray tar offset (offset + 512) in
         if all_zero header then
           (if offset + 1024 \<noteq> length tar \<or>
               \<not> all_zero (subarray tar (offset + 512) (offset + 1024))
            then Inl failOutput else Inr files)
         else (case readTarHeader header of
             Inl e \<Rightarrow> Inl e
           | Inr (path, sizeBytes, mode) \<Rightarrow>
             (let dataOffset = offset + 512 in
              if \<not> safeOutputPath (Str path) \<or> has files path \<or>
                 dataOffset + sizeBytes > length tar \<or> \<not> validOutputMode (JInt (int mode))
              then Inl failOutput
              else (let bs = subarray tar dataOffset (dataOffset + sizeBytes) in
                unpackTarLoop P tar (dataOffset + sizeBytes + padding sizeBytes)
                  (AList.update path \<lparr>u_bytes = bs, u_sha256 = sha256 P bs,
                     u_sizeBytes = sizeBytes, u_mode = mode\<rparr> files)))))
      else Inl failOutput)"
  by pat_completeness auto
termination
  by (relation "measure (\<lambda>(_, tar, offset, _). length tar - offset)") auto

declare unpackTarLoop.simps [simp del]

definition unpackTar :: "platform \<Rightarrow> bytes \<Rightarrow> unpacked_files result" where
  "unpackTar P tar = unpackTarLoop P tar 0 []"

section \<open>Reading the frame\<close>

function unpackZstdLoop ::
    "bytes \<Rightarrow> nat \<Rightarrow> bytes list \<Rightarrow> nat \<Rightarrow> (bytes list \<times> nat \<times> nat) result" where
  "unpackZstdLoop archive offset chunks tot =
     (if offset + 3 > length archive then Inl failOutput
      else (let header = readBlockHeader archive offset;
                offset' = offset + 3;
                final = ((header AND 1) = 1);
                type = drop_bit 1 header AND 3;
                len = unat (drop_bit 3 header)
            in if type \<noteq> 0 \<or> len > RAW_ZSTD_BLOCK_BYTES \<or> offset' + len > length archive
               then Inl failOutput
               else (let chunks' = chunks @ [subarray archive offset' (offset' + len)] in
                 if final then Inr (chunks', tot + len, offset' + len)
                 else unpackZstdLoop archive (offset' + len) chunks' (tot + len))))"
  by pat_completeness auto
termination
  by (relation "measure (\<lambda>(archive, offset, _, _). length archive - offset)") auto

declare unpackZstdLoop.simps [simp del]

definition unpackZstd :: "bytes \<Rightarrow> bytes result" where
  "unpackZstd archive =
     (if length archive < 12 \<or>
         length archive > maxPackageArchiveBytes PRODUCTION_OUTPUT_LIMITS \<or>
         take 5 archive \<noteq> zstdMagic
      then Inl failOutput
      else bindR (unpackZstdLoop archive 9 [] 0) (\<lambda>(chunks, tot, offset).
        if offset \<noteq> length archive \<or> tot \<noteq> unat (readLittleEndian32 archive 5)
        then Inl failOutput
        else Inr (concatenate chunks tot)))"

definition unpackDeterministicTarZst :: "platform \<Rightarrow> bytes \<Rightarrow> unpacked_files result" where
  "unpackDeterministicTarZst P archive = bindR (unpackZstd archive) (unpackTar P)"

end
