(* ===== verification/Immutable_Content.thy ===== *)
theory Immutable_Content
  imports Tar_Package Bundle
begin

text \<open>
  The description of built content in \<open>src/compiler/src/reviewed-builder.mjs\<close> and its
  verification before anything is uploaded: \<open>createAssemblyPlan\<close>, the generated
  launcher, the entry metadata, and \<open>validateImmutableContent\<close>.
\<close>

section \<open>Toolchains and assembly plans\<close>

text \<open>
  The loader kind is the JSON value itself: it is used as a property key, which converts it to a
  string, and compared with strings, which does not.
\<close>

record jre_ref =
  jre_id :: jsstr
  jre_sha256 :: jsstr
  jre_component :: jsstr
  jre_major :: int
  jre_runtimeCatalogRevision :: jsstr

record artifact =
  a_role :: jsstr
  a_coordinate :: jsstr
  a_url :: jsstr
  a_sha256 :: jsstr
  a_sizeBytes :: int

record toolchain =
  t_minecraftVersion :: jsstr
  t_loader_kind :: jsval
  t_loader_version :: jsstr
  t_java_component :: jsstr
  t_java_major :: int
  t_jre :: jre_ref
  t_artifacts :: "artifact list"

definition loaderTemplates :: "(jsstr \<times> jsstr) list" where
  "loaderTemplates = [(js ''forge'', js ''forge-unix-args-v1''), (js ''fabric'', js ''fabric-server-jar-v1''),
     (js ''neoforge'', js ''neoforge-unix-args-v1''), (js ''quilt'', js ''quilt-server-jar-v1'')]"

record plan =
  p_toolchain :: toolchain
  p_template :: jsstr
  p_arguments :: "jsstr list"

definition launch_arguments :: "toolchain \<Rightarrow> jsstr list" where
  "launch_arguments t =
     (if t_loader_kind t = Str (js ''forge'') then
        [js ''@libraries/net/minecraftforge/forge/'' @ t_minecraftVersion t @ js ''-'' @ t_loader_version t @
         js ''/unix_args.txt'', js ''nogui'']
      else if t_loader_kind t = Str (js ''neoforge'') then
        [js ''@libraries/net/neoforged/neoforge/'' @ t_loader_version t @ js ''/unix_args.txt'', js ''nogui'']
      else [js ''-jar'', js ''server.jar'', js ''nogui''])"

definition createAssemblyPlan :: "platform \<Rightarrow> toolchain \<Rightarrow> plan result" where
  "createAssemblyPlan P t = bindR (js_String P (t_loader_kind t)) (\<lambda>kind.
     case map_of loaderTemplates kind of
        None \<Rightarrow> Inl (CompilerFailure ''unsupported_compatibility'')
      | Some template \<Rightarrow> Inr \<lparr>p_toolchain = t, p_template = template, p_arguments = launch_arguments t\<rparr>)"

definition argument_char :: "code_unit \<Rightarrow> bool" where
  "argument_char u = (is_alnum u \<or> one_of ''_@./:+-'' u)"

definition launcher_text :: "jsstr list \<Rightarrow> jsstr" where
  "launcher_text arguments = js ''#!/bin/sh'' @ [10] @ js ''set -eu'' @ [10] @
     js '': '' @ [34] @ js ''${XMCL_JAVA:?XMCL_JAVA is required}'' @ [34, 10] @
     js ''exec '' @ [34] @ js ''$XMCL_JAVA'' @ [34] @ js '' '' @ join_on (js '' '') arguments @ [10]"

definition generatedLauncher :: "jsstr list \<Rightarrow> bytes result" where
  "generatedLauncher arguments =
     (if list_all (\<lambda>a. a \<noteq> [] \<and> list_all argument_char a) arguments
      then Inr (encode (launcher_text arguments)) else Inl failOutput)"

section \<open>Validators\<close>

definition validContentKey :: "jsval \<Rightarrow> bool" where
  "validContentKey v = (is_str v \<and> the_str v \<noteq> [] \<and> length (the_str v) \<le> 1024 \<and>
     \<not> list_ex is_control (the_str v))"

definition validLoader :: "platform \<Rightarrow> jsval \<Rightarrow> bool result" where
  "validLoader P v =
     (if plainObject v \<and> sameKeys v [''kind'', ''version'']
      then bindR (js_String P (get v ''kind'')) (\<lambda>kind.
        Inr (has loaderTemplates kind \<and> validLoaderVersion (get v ''version'')))
      else Inr False)"

definition validGeneratedDescriptor :: "jsval \<Rightarrow> bool" where
  "validGeneratedDescriptor v = (plainObject v \<and> get v ''schemaVersion'' = JInt 1 \<and>
     plainObject (get v ''runtime'') \<and> get (get v ''runtime'') ''path'' = Str (js ''.xmcl/runtime.json'') \<and>
     validSha256 (get (get v ''runtime'') ''sha256'') \<and> plainObject (get v ''launch'') \<and>
     get (get v ''launch'') ''path'' = Str (js ''.xmcl/launch.sh'') \<and>
     get (get v ''launch'') ''kind'' = Str (js ''generated-server-launcher'') \<and>
     get (get v ''launch'') ''arguments'' = Arr [])"

definition generated_path :: "jsstr \<Rightarrow> bool" where
  "generated_path p = (p = js ''.xmcl/runtime.json'' \<or> p = js ''.xmcl/launch.sh'')"

record entry_meta =
  em_path :: jsstr
  em_sha256 :: jsstr
  em_sizeBytes :: int
  em_mode :: int

definition normalize_entry ::
    "platform \<Rightarrow> jsstr \<times> entry_meta list \<Rightarrow> jsval \<Rightarrow> (jsstr \<times> entry_meta list) result" where
  "normalize_entry P = (\<lambda>(previous, done) v.
     bindR (require (plainObject v \<and> sameKeys v [''path'', ''sha256'', ''sizeBytes'', ''mode''] \<and>
       safeOutputPath (get v ''path'') \<and>
       (generated_path (the_str (get v ''path'')) \<or> \<not> forbiddenOutputPath P (the_str (get v ''path''))) \<and>
       validSha256 (get v ''sha256'') \<and> isSafeInteger (get v ''sizeBytes'') \<and> 0 \<le> the_int (get v ''sizeBytes'') \<and>
       validOutputMode (get v ''mode'') \<and>
       \<not> (previous \<noteq> [] \<and> comparePath previous (the_str (get v ''path'')) \<ge> 0)) failOutput) (\<lambda>_.
     Inr (the_str (get v ''path''), done @ [\<lparr>em_path = the_str (get v ''path''),
       em_sha256 = ascii_lower (the_str (get v ''sha256'')), em_sizeBytes = the_int (get v ''sizeBytes''),
       em_mode = the_int (get v ''mode'')\<rparr>])))"

definition validateEntryMetadata :: "platform \<Rightarrow> jsval list \<Rightarrow> entry_meta list result" where
  "validateEntryMetadata P entries =
     (if length entries < 2 \<or> length entries > maxFiles PRODUCTION_OUTPUT_LIMITS then Inl failOutput
      else bindR (foldR (normalize_entry P) ([], []) entries) (\<lambda>(previous, normalized).
        if \<not> outputSizeWithinLimit (map (JInt \<circ> em_sizeBytes) normalized)
             (JInt (int (maxPackageInputBytes PRODUCTION_OUTPUT_LIMITS)))
        then Inl failOutput else Inr normalized))"

definition runtime_ok :: "platform \<Rightarrow> jsval \<Rightarrow> bool result" where
  "runtime_ok P v =
     (if plainObject v \<and>
     sameKeys v [''schemaVersion'', ''runtimeCatalogRevision'', ''minecraftVersion'', ''loader'', ''java'', ''launch''] \<and>
     get v ''schemaVersion'' = JInt 1 \<and> validSha256 (get v ''runtimeCatalogRevision'') \<and>
     validMinecraftVersion (get v ''minecraftVersion'')
      then bindR (validLoader P (get v ''loader'')) (\<lambda>loader_ok. Inr (loader_ok \<and>
     plainObject (get v ''java'') \<and> sameKeys (get v ''java'') [''component'', ''major'', ''jreId''] \<and>
     validIdentifier (get (get v ''java'') ''component'') \<and> isSafeInteger (get (get v ''java'') ''major'') \<and>
     validIdentifier (get (get v ''java'') ''jreId'') \<and> plainObject (get v ''launch'') \<and>
     sameKeys (get v ''launch'') [''path'', ''kind'', ''arguments''] \<and>
     get (get v ''launch'') ''path'' = Str (js ''.xmcl/launch.sh'') \<and>
     get (get v ''launch'') ''kind'' = Str (js ''generated-server-launcher'') \<and>
     is_arr (get (get v ''launch'') ''arguments'')))
      else Inr False)"

definition runtime_toolchain :: "jsval \<Rightarrow> toolchain" where
  "runtime_toolchain v =
     (let component = the_str (get (get v ''java'') ''component''); major = the_int (get (get v ''java'') ''major'') in
      \<lparr>t_minecraftVersion = the_str (get v ''minecraftVersion''),
       t_loader_kind = get (get v ''loader'') ''kind'',
       t_loader_version = the_str (get (get v ''loader'') ''version''),
       t_java_component = component, t_java_major = major,
       t_jre = \<lparr>jre_id = the_str (get (get v ''java'') ''jreId''), jre_sha256 = replicate 64 48,
         jre_component = component, jre_major = major,
         jre_runtimeCatalogRevision = the_str (get v ''runtimeCatalogRevision'')\<rparr>,
       t_artifacts = []\<rparr>)"

definition decoding_error :: js_error where
  "decoding_error = TypeError ''The encoded data was not valid''"

definition validateGeneratedRuntimeAndLauncher ::
    "platform \<Rightarrow> unpacked \<Rightarrow> unpacked \<Rightarrow> unit result" where
  "validateGeneratedRuntimeAndLauncher P runtime launcher =
     bindR (of_option failOutput (parse_json P (u_bytes runtime))) (\<lambda>v.
     bindR (runtime_ok P v) (\<lambda>ok.
     bindR (require ok failOutput) (\<lambda>_.
     bindR (createAssemblyPlan P (runtime_toolchain v)) (\<lambda>plan.
     let expected = p_arguments plan in
     if json_stringify P (get (get v ''launch'') ''arguments'') \<noteq> json_stringify P (Arr (map Str expected))
     then Inl failOutput
     else bindR (of_option decoding_error (decode (u_bytes launcher))) (\<lambda>text.
       bindR (generatedLauncher expected) (\<lambda>generated.
       bindR (of_option decoding_error (decode generated)) (\<lambda>expectedText.
         require (text = expectedText) failOutput)))))))"

record built =
  b_archive :: bytes
  b_content :: jsval
  b_descriptor :: jsval

definition check_unpacked :: "unpacked_files \<Rightarrow> unit \<Rightarrow> entry_meta \<Rightarrow> unit result" where
  "check_unpacked files u m =
     (case map_of files (em_path m) of None \<Rightarrow> Inl failOutput
      | Some actual \<Rightarrow> require (int (u_sizeBytes actual) = em_sizeBytes m \<and> u_sha256 actual = em_sha256 m \<and>
          int (u_mode actual) = em_mode m) failOutput)"

definition validateImmutableContent :: "platform \<Rightarrow> built \<Rightarrow> unit result" where
  "validateImmutableContent P b =
     (let archive = b_archive b; content = b_content b; descriptor = b_descriptor b in
      bindR (require (plainObject content \<and> get content ''format'' = Str (js ''tar.zst'') \<and>
        validContentKey (get content ''key'') \<and> validSha256 (get content ''sha256'') \<and>
        get content ''sha256'' = Str (sha256 P archive) \<and> isSafeInteger (get content ''sizeBytes'') \<and>
        get content ''sizeBytes'' = JInt (int (length archive)) \<and> is_arr (get content ''entries'') \<and>
        validGeneratedDescriptor descriptor) failOutput) (\<lambda>_.
      bindR (validateEntryMetadata P (the_arr (get content ''entries''))) (\<lambda>expected.
      bindR (unpackDeterministicTarZst P archive) (\<lambda>files.
      bindR (require (length files = length expected) failOutput) (\<lambda>_.
      bindR (foldR (check_unpacked files) () expected) (\<lambda>_.
      bindR (of_option failOutput (map_of files (js ''.xmcl/runtime.json''))) (\<lambda>runtime.
      bindR (of_option failOutput (map_of files (js ''.xmcl/launch.sh''))) (\<lambda>launcher.
      bindR (require (get (get descriptor ''runtime'') ''sha256'' = Str (u_sha256 runtime)) failOutput) (\<lambda>_.
        validateGeneratedRuntimeAndLauncher P runtime launcher)))))))))"

end
