(* ===== verification/Exact_Transfer.thy ===== *)
theory Exact_Transfer
  imports Zip_Reader
begin

text \<open>
  The exact transfers of \<open>src/compiler/src/compiler.mjs\<close> and
  \<open>src/compiler/src/world-seed.mjs\<close>: a bounded request, the reading loops over a response
  body, and the download, upload and reconciliation checks built on them. The fetch function
  is the environment's: a transfer takes the response it returned. Shown: a completed download
  has the expected size and digest, and a completed reconciliation means that the stored object
  has them.
\<close>

section \<open>Responses\<close>

text \<open>
  What the reads of a body return: chunks, values that are not byte arrays, or an error; the
  end of the list is the end of the stream. Without a reader the body is one buffer.
\<close>

datatype chunk = Chunk bytes | Not_bytes | Read_error

datatype body = Stream "chunk list" | Buffer "bytes option"

record response =
  rs_ok :: bool
  rs_status :: nat
  rs_redirected :: bool
  rs_url :: jsstr
  rs_headers :: "string \<Rightarrow> jsstr option"
  rs_body :: body

definition network_error :: js_error where
  "network_error = TypeError ''fetch failed''"

section \<open>Requests\<close>

text \<open>
  The race of the request against the timer: \<open>timed_out\<close> tells that the timer fired first.
\<close>

definition exactRequest ::
    "response result \<Rightarrow> bool \<Rightarrow> int \<Rightarrow> string \<Rightarrow> (response \<Rightarrow> 'a result) \<Rightarrow> 'a result" where
  "exactRequest fetched timed_out timeoutMs failureCode validateResponse =
     (if timeoutMs < 1000 \<or> timeoutMs > 900000 then Inl (CompilerFailure failureCode)
      else if timed_out then Inl (CompilerFailure failureCode)
      else case bindR fetched validateResponse of
          Inr x \<Rightarrow> Inr x
        | Inl (CompilerFailure c) \<Rightarrow> Inl (CompilerFailure c)
        | Inl _ \<Rightarrow> Inl (CompilerFailure failureCode))"

text \<open>\<open>new URL(value).href\<close>; the constructor converts its argument to a string.\<close>

definition url_href :: "platform \<Rightarrow> jsval \<Rightarrow> jsstr result" where
  "url_href P v = bindR (js_String P v) (\<lambda>text.
     case parse_url P text of None \<Rightarrow> Inl (TypeError ''Invalid URL'') | Some u \<Rightarrow> Inr (href u))"

text \<open>\<open>!response.ok || response.redirected || (response.url && ...)\<close>\<close>

definition check_response :: "platform \<Rightarrow> jsval \<Rightarrow> string \<Rightarrow> response \<Rightarrow> unit result" where
  "check_response P url code r =
     (if \<not> rs_ok r \<or> rs_redirected r then Inl (CompilerFailure code)
      else if rs_url r = [] then Inr ()
      else bindR (url_href P (Str (rs_url r))) (\<lambda>a. bindR (url_href P url) (\<lambda>b.
        require (a = b) (CompilerFailure code))))"

definition content_length :: "platform \<Rightarrow> response \<Rightarrow> jsval" where
  "content_length P r = (case rs_headers r ''content-length'' of None \<Rightarrow> JInt 0 | Some t \<Rightarrow> string_to_number P t)"

section \<open>Bodies\<close>

fun read_chunks :: "int \<Rightarrow> nat \<Rightarrow> bytes list \<Rightarrow> chunk list \<Rightarrow> bytes list result" where
  "read_chunks expectedSize tot chunks [] =
     (if int tot \<noteq> expectedSize then Inl (CompilerFailure ''input_size_mismatch'') else Inr chunks)"
| "read_chunks expectedSize tot chunks (Not_bytes # _) = Inl (CompilerFailure ''input_download_failed'')"
| "read_chunks expectedSize tot chunks (Read_error # _) = Inl network_error"
| "read_chunks expectedSize tot chunks (Chunk bs # rest) =
     (let tot' = tot + length bs in
      if int tot' > expectedSize \<or> tot' > MAX_BUNDLE_BYTES then Inl (CompilerFailure ''input_size_mismatch'')
      else read_chunks expectedSize tot' (chunks @ [bs]) rest)"

fun place_chunks :: "bytes \<Rightarrow> nat \<Rightarrow> bytes list \<Rightarrow> bytes" where
  "place_chunks target offset [] = target"
| "place_chunks target offset (c # cs) = place_chunks (set_at target offset c) (offset + length c) cs"

definition readExactBody :: "response \<Rightarrow> int \<Rightarrow> bytes result" where
  "readExactBody r expectedSize =
     (case rs_body r of
        Buffer None \<Rightarrow> Inl network_error
      | Buffer (Some bytes) \<Rightarrow>
          bindR (require (int (length bytes) = expectedSize) (CompilerFailure ''input_size_mismatch'')) (\<lambda>_. Inr bytes)
      | Stream reads \<Rightarrow>
          bindR (read_chunks expectedSize 0 [] reads) (\<lambda>chunks.
            Inr (place_chunks (replicate (nat expectedSize) 0) 0 chunks)))"

fun hash_chunks :: "int \<Rightarrow> nat \<Rightarrow> bytes \<Rightarrow> chunk list \<Rightarrow> bytes result" where
  "hash_chunks expectedSize tot hashed [] =
     (if int tot \<noteq> expectedSize then Inl (CompilerFailure ''content_reconciliation_failed'') else Inr hashed)"
| "hash_chunks expectedSize tot hashed (Not_bytes # _) = Inl (CompilerFailure ''content_reconciliation_failed'')"
| "hash_chunks expectedSize tot hashed (Read_error # _) = Inl network_error"
| "hash_chunks expectedSize tot hashed (Chunk bs # rest) =
     (let tot' = tot + length bs in
      if int tot' > expectedSize then Inl (CompilerFailure ''content_reconciliation_failed'')
      else hash_chunks expectedSize tot' (hashed @ bs) rest)"

definition hashExactBody :: "platform \<Rightarrow> response \<Rightarrow> int \<Rightarrow> jsstr result" where
  "hashExactBody P r expectedSize =
     (case rs_body r of
        Buffer None \<Rightarrow> Inl network_error
      | Buffer (Some bytes) \<Rightarrow>
          bindR (require (int (length bytes) = expectedSize) (CompilerFailure ''content_reconciliation_failed''))
            (\<lambda>_. Inr (sha256 P bytes))
      | Stream reads \<Rightarrow>
          bindR (hash_chunks expectedSize 0 [] reads) (\<lambda>hashed. Inr (sha256 P hashed)))"

section \<open>Transfers\<close>

definition validate_download :: "platform \<Rightarrow> jsval \<Rightarrow> jsval \<Rightarrow> response \<Rightarrow> bytes result" where
  "validate_download P grant expected r =
     bindR (check_response P (get grant ''url'') ''input_download_failed'' r) (\<lambda>_.
     let len = content_length P r in
     bindR (require (isSafeInteger len \<and> 1 \<le> the_int len \<and> the_int len \<le> int MAX_BUNDLE_BYTES \<and>
       strict_eq len (get expected ''sizeBytes'')) (CompilerFailure ''input_size_mismatch'')) (\<lambda>_.
     bindR (readExactBody r (the_int (get expected ''sizeBytes''))) (\<lambda>bytes.
     bindR (require (JInt (int (length bytes)) = get expected ''sizeBytes'' \<and>
       Str (sha256 P bytes) = get expected ''sha256'') (CompilerFailure ''input_hash_mismatch'')) (\<lambda>_.
       Inr bytes))))"

definition downloadExact ::
    "platform \<Rightarrow> response result \<Rightarrow> bool \<Rightarrow> jsval \<Rightarrow> jsval \<Rightarrow> int \<Rightarrow> bytes result" where
  "downloadExact P fetched timed_out grant expected timeoutMs =
     exactRequest fetched timed_out timeoutMs ''input_download_failed'' (validate_download P grant expected)"

definition uploadExact :: "platform \<Rightarrow> response result \<Rightarrow> bool \<Rightarrow> jsval \<Rightarrow> int \<Rightarrow> unit result" where
  "uploadExact P fetched timed_out grant timeoutMs =
     exactRequest fetched timed_out timeoutMs ''content_upload_failed''
       (check_response P (get grant ''url'') ''content_upload_failed'')"

definition validate_reconciliation :: "platform \<Rightarrow> jsval \<Rightarrow> jsval \<Rightarrow> response \<Rightarrow> unit result" where
  "validate_reconciliation P grant content r =
     (let failed = CompilerFailure ''content_reconciliation_failed'' in
      bindR (check_response P (get grant ''url'') ''content_reconciliation_failed'' r) (\<lambda>_.
      let len = content_length P r in
      bindR (require (isSafeInteger len \<and> strict_eq len (get content ''compressedSize'')) failed) (\<lambda>_.
      bindR (hashExactBody P r (the_int (get content ''compressedSize''))) (\<lambda>digest.
        require (Str digest = get content ''sha256'') failed))))"

section \<open>What the reading loops return\<close>

definition body_bytes :: "body \<Rightarrow> bytes option" where
  "body_bytes b = (case b of Buffer c \<Rightarrow> c
     | Stream reads \<Rightarrow> if list_all (\<lambda>c. \<exists>bs. c = Chunk bs) reads
         then Some (concat (map (\<lambda>c. case c of Chunk bs \<Rightarrow> bs | _ \<Rightarrow> []) reads)) else None)"

lemma body_bytes_Stream: "body_bytes (Stream reads) = Some bytes \<longleftrightarrow> (\<exists>bss. reads = map Chunk bss \<and> bytes = concat bss)"
proof
  assume "\<exists>bss. reads = map Chunk bss \<and> bytes = concat bss"
  then show "body_bytes (Stream reads) = Some bytes"
    by (auto simp: body_bytes_def list_all_iff o_def)
next
  have ex: "list_all (\<lambda>c. \<exists>bs. c = Chunk bs) reads \<Longrightarrow> \<exists>bss. reads = map Chunk bss"
    by (induction reads) (auto simp: Cons_eq_map_conv)
  assume b: "body_bytes (Stream reads) = Some bytes"
  then have "list_all (\<lambda>c. \<exists>bs. c = Chunk bs) reads" by (simp add: body_bytes_def split: if_splits)
  with ex obtain bss where "reads = map Chunk bss" by blast
  with b show "\<exists>bss. reads = map Chunk bss \<and> bytes = concat bss"
    by (auto simp: body_bytes_def o_def split: if_splits)
qed

lemma place_chunks_concat:
  "length target = offset + length (concat cs) \<Longrightarrow> place_chunks target offset cs = take offset target @ concat cs"
proof (induction cs arbitrary: target offset)
  case (Cons c cs)
  then have "place_chunks target offset (c # cs) = take (offset + length c) (set_at target offset c) @ concat cs"
    by (simp add: Cons.IH)
  with Cons.prems show ?case by (simp add: set_at_def)
qed simp

lemma read_chunks_iff:
  assumes "tot = length (concat chunks)" and "n \<le> int MAX_BUNDLE_BYTES"
  shows "read_chunks n tot chunks reads = Inr cs \<longleftrightarrow>
    (\<exists>bss. reads = map Chunk bss \<and> cs = chunks @ bss \<and> int (length (concat cs)) = n)"
  using assms(1)
proof (induction reads arbitrary: tot chunks)
  case (Cons c reads)
  show ?case
  proof (cases c)
    case (Chunk bs)
    let ?tot = "tot + length bs"
    have eq: "?tot = length (concat (chunks @ [bs]))" using Cons.prems by simp
    show ?thesis
    proof (cases "int ?tot > n")
      case True
      with Chunk Cons.prems show ?thesis by (auto simp: Cons_eq_map_conv Let_def)
    next
      case False
      then have "?tot \<le> MAX_BUNDLE_BYTES" using assms(2) by linarith
      with False Chunk Cons.IH [OF eq] show ?thesis by (auto simp: Cons_eq_map_conv Let_def)
    qed
  qed (auto simp: Cons_eq_map_conv)
qed auto

lemma readExactBody_iff:
  assumes "n \<le> int MAX_BUNDLE_BYTES"
  shows "readExactBody r n = Inr bytes \<longleftrightarrow> body_bytes (rs_body r) = Some bytes \<and> int (length bytes) = n"
proof (cases "rs_body r")
  case (Stream reads)
  have p: "place_chunks (replicate (nat n) 0) 0 bss = concat bss" if "int (length (concat bss)) = n" for bss :: "bytes list"
    using place_chunks_concat [of "replicate (nat n) 0" 0 bss] that by (metis add_0 append_Nil length_replicate nat_int take0)
  show ?thesis
    using Stream read_chunks_iff [of 0 "[]" n reads] assms p
    by (auto simp: readExactBody_def result_simps body_bytes_Stream)
next
  case (Buffer c)
  then show ?thesis by (cases c) (auto simp: readExactBody_def result_simps body_bytes_def)
qed

lemma hash_chunks_iff:
  assumes "tot = length hashed"
  shows "hash_chunks n tot hashed reads = Inr bytes \<longleftrightarrow>
    (\<exists>bss. reads = map Chunk bss \<and> bytes = hashed @ concat bss \<and> int (length bytes) = n)"
  using assms
proof (induction reads arbitrary: tot hashed)
  case (Cons c reads)
  show ?case
  proof (cases c)
    case (Chunk bs)
    with Cons.prems Cons.IH [of "tot + length bs" "hashed @ bs"] show ?thesis
      by (auto simp: Cons_eq_map_conv Let_def)
  qed (auto simp: Cons_eq_map_conv)
qed auto

lemma hashExactBody_iff:
  "hashExactBody P r n = Inr digest \<longleftrightarrow>
    (\<exists>bytes. body_bytes (rs_body r) = Some bytes \<and> int (length bytes) = n \<and> digest = sha256 P bytes)"
proof (cases "rs_body r")
  case (Stream reads)
  then show ?thesis
    using hash_chunks_iff [of 0 "[]" n reads]
    by (auto simp: hashExactBody_def result_simps body_bytes_Stream)
next
  case (Buffer c)
  then show ?thesis by (cases c) (auto simp: hashExactBody_def result_simps body_bytes_def)
qed

section \<open>What a completed transfer means\<close>

lemma exactRequest_Inr:
  "exactRequest fetched timed_out ms code validate = Inr x \<longleftrightarrow>
    1000 \<le> ms \<and> ms \<le> 900000 \<and> \<not> timed_out \<and> (\<exists>r. fetched = Inr r \<and> validate r = Inr x)"
  by (auto simp: exactRequest_def bindR_def split: sum.splits js_error.splits)

lemma exactRequest_Inl: "exactRequest fetched timed_out ms code validate = Inl e \<Longrightarrow> \<exists>c. e = CompilerFailure c"
  by (auto simp: exactRequest_def split: if_splits sum.splits js_error.splits)

lemma downloadExact_ok:
  assumes "downloadExact P fetched timed_out grant expected ms = Inr bytes"
  shows "get expected ''sizeBytes'' = JInt (int (length bytes)) \<and> get expected ''sha256'' = Str (sha256 P bytes) \<and>
    length bytes \<le> MAX_BUNDLE_BYTES \<and>
    (\<exists>r. fetched = Inr r \<and> rs_ok r \<and> \<not> rs_redirected r \<and> body_bytes (rs_body r) = Some bytes)"
proof -
  from assms obtain r where r: "fetched = Inr r" "validate_download P grant expected r = Inr bytes"
    by (auto simp: downloadExact_def exactRequest_Inr)
  let ?n = "the_int (get expected ''sizeBytes'')"
  from r(2) have c: "rs_ok r" "\<not> rs_redirected r" "readExactBody r ?n = Inr bytes"
      "JInt (int (length bytes)) = get expected ''sizeBytes''" "Str (sha256 P bytes) = get expected ''sha256''"
    and len: "the_int (content_length P r) \<le> int MAX_BUNDLE_BYTES"
      "strict_eq (content_length P r) (get expected ''sizeBytes'')"
    by (auto simp: validate_download_def result_simps Let_def check_response_def split: if_splits)
  have "content_length P r = get expected ''sizeBytes''"
    using len(2) by (cases "content_length P r"; cases "get expected ''sizeBytes''") auto
  with len(1) have n: "?n \<le> int MAX_BUNDLE_BYTES" by simp
  from c(4) have "?n = int (length bytes)" by (metis the_int_Int)
  with n c r(1) readExactBody_iff [OF n, of r bytes] show ?thesis by simp
qed

lemma reconciliation_ok:
  assumes "validate_reconciliation P grant content r = Inr ()"
  shows "rs_ok r \<and> \<not> rs_redirected r \<and> (\<exists>bytes. body_bytes (rs_body r) = Some bytes \<and>
    int (length bytes) = the_int (get content ''compressedSize'') \<and> get content ''sha256'' = Str (sha256 P bytes))"
  using assms
  by (auto simp: validate_reconciliation_def result_simps Let_def check_response_def hashExactBody_iff split: if_splits)

end
