(* ===== verification/Compiler_Worker.thy ===== *)
theory Compiler_Worker
  imports Immutable_Content Exact_Transfer
begin

text \<open>
  \<open>CompilerWorker.run\<close> of \<open>src/compiler/src/compiler.mjs\<close>: one compiler job from its
  grants to its publication. The control plane, the object store behind fetch and the builder
  answer as functions of the calls made so far, so every interleaving of successes, errors and
  timeouts is an environment of the model; the calls are the trace of the run.
\<close>

section \<open>Jobs and grants\<close>

definition hasExactKeys :: "jsval \<Rightarrow> string list \<Rightarrow> bool" where
  "hasExactKeys v expected = (plainObject v \<and> sameKeys v expected)"

definition hasExactHeaders :: "jsval \<Rightarrow> (string \<times> string) list \<Rightarrow> bool" where
  "hasExactHeaders v expected =
     (if v = Undefined then expected = []
      else plainObject v \<and> sameKeys v (map fst expected) \<and>
        list_all (\<lambda>(k, s). get v k = Str (js s)) expected)"

definition hasExactOutputHeaders :: "jsval \<Rightarrow> bool" where
  "hasExactOutputHeaders v = (hasExactHeaders v [(''if-none-match'', ''*'')] \<or>
     hasExactHeaders v [(''if-none-match'', ''*''), (''x-ms-blob-type'', ''BlockBlob'')])"

definition exactHttpsUrl :: "platform \<Rightarrow> jsval \<Rightarrow> bool" where
  "exactHttpsUrl P v =
     (case js_String P v of Inl _ \<Rightarrow> False
      | Inr text \<Rightarrow> (case parse_url P text of None \<Rightarrow> False
          | Some u \<Rightarrow> protocol u = js ''https:'' \<and> username u = [] \<and> password u = [] \<and> hash u = []))"

text \<open>\<open>None\<close> is \<open>NaN\<close>.\<close>

definition grantExpiresAt :: "platform \<Rightarrow> jsval \<Rightarrow> int option" where
  "grantExpiresAt P grant =
     (case date_parse P (get grant ''expiresAt'') of None \<Rightarrow> None
      | Some t \<Rightarrow> if \<bar>t\<bar> \<le> max_safe_integer then Some t else None)"

definition isExactSignedGrant :: "platform \<Rightarrow> jsval \<Rightarrow> string \<Rightarrow> bool" where
  "isExactSignedGrant P grant verb =
     (let ks = (if verb = ''PUT'' then [''key'', ''method'', ''url'', ''expiresAt'', ''headers'']
                else [''key'', ''method'', ''url'', ''expiresAt'']) in
      (hasExactKeys grant ks \<or> verb = ''GET'' \<and> hasExactKeys grant (ks @ [''headers''])) \<and>
      get grant ''method'' = Str (js verb) \<and> is_str (get grant ''key'') \<and>
      exactHttpsUrl P (get grant ''url'') \<and> grantExpiresAt P grant \<noteq> None)"

definition isExactReconciliationGrant :: "platform \<Rightarrow> jsval \<Rightarrow> jsval \<Rightarrow> bool" where
  "isExactReconciliationGrant P grant expectedKey =
     (truthy grant \<and> get grant ''method'' = Str (js ''GET'') \<and> strict_eq (get grant ''key'') expectedKey \<and>
      isExactSignedGrant P grant ''GET'' \<and> hasExactHeaders (get grant ''headers'') [])"

text \<open>\<open>find\<close> reads a property of every element up to the first match.\<close>

fun find_grant :: "string \<Rightarrow> jsval list \<Rightarrow> jsval option result" where
  "find_grant verb [] = Inr None"
| "find_grant verb (g # gs) = bindR (access g ''method'') (\<lambda>m.
     if m = Str (js verb) then Inr (Some g) else find_grant verb gs)"

definition invalid_grants :: js_error where
  "invalid_grants = CompilerFailure ''invalid_grants''"

definition grants_match :: "jsval \<Rightarrow> jsval \<Rightarrow> bool" where
  "grants_match grants job = (truthy grants \<and>
     hasExactKeys grants [''accountId'', ''serviceId'', ''deploymentId'', ''compilerRequestId'', ''manifestSha256'', ''grants''] \<and>
     list_all (\<lambda>k. strict_eq (get grants k) (get job k))
       [''accountId'', ''serviceId'', ''deploymentId'', ''compilerRequestId'', ''manifestSha256''] \<and>
     is_arr (get grants ''grants''))"

definition expired :: "platform \<Rightarrow> int \<Rightarrow> jsval \<Rightarrow> bool" where
  "expired P now grant = (case grantExpiresAt P grant of None \<Rightarrow> False | Some t \<Rightarrow> t \<le> now)"

definition verifyGrantSet :: "platform \<Rightarrow> int option \<Rightarrow> jsval \<Rightarrow> jsval \<Rightarrow> (jsval \<times> jsval) result" where
  "verifyGrantSet P unexpiredAt grants job =
     bindR (require (grants_match grants job) invalid_grants) (\<lambda>_.
     let gs = the_arr (get grants ''grants'') in
     bindR (find_grant ''GET'' gs) (\<lambda>inp.
     bindR (find_grant ''PUT'' gs) (\<lambda>out.
       case (inp, out) of
         (Some input, Some output) \<Rightarrow>
           bindR (require (length gs = 2 \<and>
             strict_eq (get input ''key'') (get (get (get job ''frozenManifest'') ''archive'') ''key'') \<and>
             strict_eq (get output ''key'') (get job ''expectedContentKey'') \<and>
             isExactSignedGrant P input ''GET'' \<and> isExactSignedGrant P output ''PUT'' \<and>
             hasExactHeaders (get input ''headers'') [] \<and> hasExactOutputHeaders (get output ''headers'') \<and>
             (case unexpiredAt of None \<Rightarrow> True
              | Some now \<Rightarrow> 0 < now \<and> \<not> expired P now input \<and> \<not> expired P now output)) invalid_grants) (\<lambda>_.
             Inr (input, output))
       | _ \<Rightarrow> Inl invalid_grants)))"

definition invalid_job :: js_error where
  "invalid_job = CompilerFailure ''invalid_job''"

definition input_key :: "jsstr \<Rightarrow> jsstr \<Rightarrow> jsstr \<Rightarrow> jsstr" where
  "input_key account service importId = js ''shared-hosting/'' @ account @ js ''/'' @ service @
     js ''/compiler-inputs/'' @ importId @ js ''.xmcl-server-bundle''"

definition content_key :: "jsstr \<Rightarrow> jsstr \<Rightarrow> jsstr \<Rightarrow> jsstr" where
  "content_key account service manifestSha256 = js ''shared-hosting/'' @ account @ js ''/'' @ service @
     js ''/compiler-content/'' @ manifestSha256 @ js ''.tar.zst''"

definition job_fields_ok :: "jsval \<Rightarrow> bool" where
  "job_fields_ok job = (hasExactKeys job [''accountId'', ''serviceId'', ''deploymentId'', ''compilerRequestId'',
       ''manifestSha256'', ''expectedContentKey'', ''frozenManifest''] \<and>
     validKeySegment (get job ''accountId'') \<and> validKeySegment (get job ''serviceId'') \<and>
     validKeySegment (get job ''deploymentId'') \<and> validSha256 (get job ''manifestSha256'') \<and>
     validKeySegment (get job ''compilerRequestId'') \<and> is_str (get job ''expectedContentKey'') \<and>
     get (get job ''frozenManifest'') ''sourceFormat'' = Str (js ''xmcl_server_bundle''))"

definition job_archive_ok :: "jsval \<Rightarrow> bool" where
  "job_archive_ok job =
     (let frozen = get job ''frozenManifest''; archive = get frozen ''archive'' in
      truthy archive \<and> validSha256 (get archive ''sha256'') \<and> isSafeInteger (get archive ''sizeBytes'') \<and>
      1 \<le> the_int (get archive ''sizeBytes'') \<and> the_int (get archive ''sizeBytes'') \<le> int MAX_BUNDLE_BYTES \<and>
      is_str (get archive ''key'') \<and> validKeySegment (get frozen ''importId''))"

definition job_keys_ok :: "jsval \<Rightarrow> bool" where
  "job_keys_ok job =
     (let account = the_str (get job ''accountId''); service = the_str (get job ''serviceId'');
          frozen = get job ''frozenManifest'' in
      get (get frozen ''archive'') ''key'' = Str (input_key account service (the_str (get frozen ''importId''))) \<and>
      get job ''expectedContentKey'' = Str (content_key account service (the_str (get job ''manifestSha256''))))"

definition validateCompilerJob :: "jsval \<Rightarrow> unit result" where
  "validateCompilerJob job =
     bindR (require (job_fields_ok job) invalid_job) (\<lambda>_.
     bindR (require (job_archive_ok job) invalid_job) (\<lambda>_.
       require (job_keys_ok job) invalid_job))"

section \<open>Built content and publications\<close>

definition verifyBuiltContent :: "platform \<Rightarrow> built option \<Rightarrow> jsval \<Rightarrow> built result" where
  "verifyBuiltContent P bo job =
     (case bo of None \<Rightarrow> Inl failOutput
      | Some b \<Rightarrow>
        let launch = get (b_descriptor b) ''launch'' in
        bindR (require (truthy (b_content b) \<and> strict_eq (get (b_content b) ''key'') (get job ''expectedContentKey'') \<and>
          get launch ''path'' = Str (js ''.xmcl/launch.sh'') \<and>
          get launch ''kind'' = Str (js ''generated-server-launcher'') \<and> get launch ''arguments'' = Arr []) failOutput) (\<lambda>_.
        bindR (validateImmutableContent P b) (\<lambda>_. Inr b)))"

definition publicationForControlPlane :: "jsval \<Rightarrow> built \<Rightarrow> jsval" where
  "publicationForControlPlane job b =
     (let content = b_content b; entries = the_arr (get content ''entries'');
          compatibility = get (get job ''frozenManifest'') ''compatibility'';
          launch = get (b_descriptor b) ''launch'' in
      Obj [(js ''deploymentId'', get job ''deploymentId''), (js ''manifestSha256'', get job ''manifestSha256''),
        (js ''content'', Obj [(js ''key'', get content ''key''), (js ''sha256'', get content ''sha256''),
          (js ''compressedSize'', get content ''sizeBytes''),
          (js ''logicalSize'', JInt (sum_list (map (\<lambda>e. the_int (get e ''sizeBytes'')) entries))),
          (js ''paths'', Arr (map (\<lambda>e. get e ''path'') entries))]),
        (js ''descriptor'', Obj [(js ''schemaVersion'', JInt 1),
          (js ''minecraftVersion'', get compatibility ''minecraftVersion''), (js ''java'', get compatibility ''java''),
          (js ''runtimeCatalog'', Obj [(js ''sha256'', get (get compatibility ''runtimeCatalog'') ''sha256'')]),
          (js ''loader'', Obj [(js ''kind'', get compatibility ''loader''), (js ''version'', get compatibility ''loaderVersion'')]),
          (js ''launch'', Obj [(js ''kind'', get launch ''kind''), (js ''path'', get launch ''path''),
            (js ''arguments'', get launch ''arguments'')]),
          (js ''contentSha256'', get content ''sha256'')])])"

definition verifyPreparedUpload :: "jsval \<Rightarrow> jsval \<Rightarrow> jsval result" where
  "verifyPreparedUpload v job =
     (let publication = get v ''publication''; content = get publication ''content'';
          descriptor = get publication ''descriptor'' in
      bindR (require (truthy v \<and> get v ''status'' \<in> {Str (js ''upload_prepared''), Str (js ''upload_existing'')} \<and>
        strict_eq (get publication ''deploymentId'') (get job ''deploymentId'') \<and>
        strict_eq (get publication ''manifestSha256'') (get job ''manifestSha256'') \<and>
        strict_eq (get content ''key'') (get job ''expectedContentKey'') \<and> validSha256 (get content ''sha256'') \<and>
        isSafeInteger (get content ''compressedSize'') \<and> 1 \<le> the_int (get content ''compressedSize'') \<and>
        isSafeInteger (get content ''logicalSize'') \<and> 1 \<le> the_int (get content ''logicalSize'') \<and>
        is_arr (get content ''paths'') \<and> (plainObject descriptor \<or> is_arr descriptor))
        (CompilerFailure ''invalid_upload_preparation'')) (\<lambda>_. Inr publication))"

definition failureCodes :: "string list" where
  "failureCodes = [''unsupported_compatibility'', ''compiler_unavailable'', ''compiler_failed'']"

fun error_code :: "js_error \<Rightarrow> string option" where
  "error_code (CompilerFailure c) = Some c"
| "error_code (WorldSeedFailure c) = Some c"
| "error_code (ServiceIdentityError c) = Some c"
| "error_code (ToolchainCatalogFailure c) = Some c"
| "error_code (HttpWorkerError status c) = Some c"
| "error_code (ErrorCode c) = Some c"
| "error_code (IoError c) = Some c"
| "error_code _ = None"

definition classifyFailure :: "js_error \<Rightarrow> string" where
  "classifyFailure e = (case error_code e of
     Some c \<Rightarrow> if c \<in> set failureCodes then c else ''compiler_failed'' | None \<Rightarrow> ''compiler_failed'')"

section \<open>The run\<close>

text \<open>The outward calls of a run, in order.\<close>

datatype event =
    Get_grants jsval
  | Download jsval
  | Build
  | Prepare jsval
  | Upload jsval bytes
  | Reconcile jsval
  | Publish jsval
  | Report_failed jsval

text \<open>
  The environment answers a call from the history up to and including it. A fetch yields its
  response or error, and whether the timer fired before the response was handled.
\<close>

record environment =
  getGrants :: "event list \<Rightarrow> jsval result"
  fetchImpl :: "event list \<Rightarrow> response result \<times> bool"
  build :: "event list \<Rightarrow> bundle_manifest \<times> entries \<Rightarrow> jsval \<Rightarrow> jsval \<Rightarrow> built option result"
  prepareUpload :: "event list \<Rightarrow> jsval result"
  publish :: "event list \<Rightarrow> unit result"

type_synonym 'a act = "event list \<Rightarrow> 'a result \<times> event list"

definition act_bind :: "'a act \<Rightarrow> ('a \<Rightarrow> 'b act) \<Rightarrow> 'b act" where
  "act_bind m f h = (case m h of (Inl e, h') \<Rightarrow> (Inl e, h') | (Inr x, h') \<Rightarrow> f x h')"

definition lift :: "'a result \<Rightarrow> 'a act" where
  "lift r h = (r, h)"

definition perform :: "event \<Rightarrow> (event list \<Rightarrow> 'a result) \<Rightarrow> 'a act" where
  "perform ev answer h = (answer (h @ [ev]), h @ [ev])"

text \<open>\<open>try { a } catch { b }\<close>\<close>

definition or_else :: "'a act \<Rightarrow> 'a act \<Rightarrow> 'a act" where
  "or_else a b h = (case a h of (Inl e, h') \<Rightarrow> b h' | (Inr x, h') \<Rightarrow> (Inr x, h'))"

definition valid_timeout :: "jsval \<Rightarrow> bool" where
  "valid_timeout v = (isSafeInteger v \<and> 1000 \<le> the_int v \<and> the_int v \<le> 900000)"

definition CompilerWorker :: "jsval \<Rightarrow> int result" where
  "CompilerWorker requestTimeoutMs =
     (let ms = default_to requestTimeoutMs (JInt 30000) in
      if valid_timeout ms then Inr (the_int ms) else Inl (TypeError ''invalid compiler request timeout''))"

definition upload :: "platform \<Rightarrow> environment \<Rightarrow> int \<Rightarrow> jsval \<Rightarrow> bytes \<Rightarrow> unit act" where
  "upload P env ms output archive = perform (Upload output archive)
     (\<lambda>h. uploadExact P (fst (fetchImpl env h)) (snd (fetchImpl env h)) output ms)"

definition reconcileExactUpload ::
    "platform \<Rightarrow> environment \<Rightarrow> int \<Rightarrow> jsval \<Rightarrow> jsval \<Rightarrow> unit act" where
  "reconcileExactUpload P env ms grant publication =
     (let content = get publication ''content'' in
      if \<not> isExactReconciliationGrant P grant (get content ''key'')
      then lift (Inl (CompilerFailure ''invalid_reconciliation_grant''))
      else perform (Reconcile grant) (\<lambda>h. exactRequest (fst (fetchImpl env h)) (snd (fetchImpl env h)) ms
        ''content_reconciliation_failed'' (validate_reconciliation P grant content)))"

text \<open>Up to the point where the binding of the upload is about to be prepared.\<close>

definition prepare_phase :: "platform \<Rightarrow> environment \<Rightarrow> int \<Rightarrow> jsval \<Rightarrow> (jsval \<times> built \<times> jsval) act" where
  "prepare_phase P env ms job =
     (let frozen = get job ''frozenManifest'' in
      act_bind (lift (validateCompilerJob job)) (\<lambda>_.
      act_bind (perform (Get_grants (get job ''deploymentId'')) (getGrants env)) (\<lambda>grants.
      act_bind (lift (verifyGrantSet P None grants job)) (\<lambda>(input, output).
      act_bind (perform (Download input) (\<lambda>h. downloadExact P (fst (fetchImpl env h)) (snd (fetchImpl env h))
        input (get frozen ''archive'') ms)) (\<lambda>archive.
      act_bind (lift (validateBundle P archive frozen)) (\<lambda>bundle.
      act_bind (perform Build (\<lambda>h. build env h bundle frozen (get job ''expectedContentKey''))) (\<lambda>bo.
      act_bind (lift (verifyBuiltContent P bo job)) (\<lambda>b.
        lift (Inr (output, b, publicationForControlPlane job b))))))))))"

text \<open>A prepared upload is stored, or found stored; an existing one is looked for first.\<close>

definition store ::
    "platform \<Rightarrow> environment \<Rightarrow> int \<Rightarrow> jsval \<Rightarrow> built \<Rightarrow> jsval \<Rightarrow> jsval \<Rightarrow> unit act" where
  "store P env ms output b prepared bound =
     (let reconcile = reconcileExactUpload P env ms (get prepared ''reconciliation'') bound;
          put = upload P env ms output (b_archive b) in
      if get prepared ''status'' = Str (js ''upload_prepared'') then or_else put reconcile
      else or_else reconcile (or_else put reconcile))"

definition upload_phase ::
    "platform \<Rightarrow> environment \<Rightarrow> int \<Rightarrow> jsval \<Rightarrow> jsval \<Rightarrow> built \<Rightarrow> jsval \<Rightarrow> jsval act" where
  "upload_phase P env ms job output b publication =
     act_bind (perform (Prepare publication) (prepareUpload env)) (\<lambda>prepared.
     act_bind (lift (verifyPreparedUpload prepared job)) (\<lambda>bound.
     act_bind (store P env ms output b prepared bound) (\<lambda>_. lift (Inr bound))))"

datatype outcome =
    Published jsval
  | Published_callback_uncertain jsval
  | Upload_reconciliation_uncertain jsval
  | Job_failed string

definition failure_report :: "jsval \<Rightarrow> string \<Rightarrow> jsval" where
  "failure_report job code = Obj [(js ''deploymentId'', get job ''deploymentId''),
     (js ''manifestSha256'', get job ''manifestSha256''), (js ''code'', Str (js code))]"

definition CompilerWorker_run :: "platform \<Rightarrow> environment \<Rightarrow> int \<Rightarrow> jsval \<Rightarrow> event list \<Rightarrow> outcome \<times> event list" where
  "CompilerWorker_run P env ms job h =
     (case prepare_phase P env ms job h of
        (Inl e, h1) \<Rightarrow> (Job_failed (classifyFailure e), h1 @ [Report_failed (failure_report job (classifyFailure e))])
      | (Inr (output, b, publication), h1) \<Rightarrow>
        (case upload_phase P env ms job output b publication h1 of
           (Inl e, h2) \<Rightarrow> (Upload_reconciliation_uncertain publication, h2)
         | (Inr bound, h2) \<Rightarrow>
           (case perform (Publish bound) (publish env) h2 of
              (Inl e, h3) \<Rightarrow> (Published_callback_uncertain bound, h3)
            | (Inr _, h3) \<Rightarrow> (Published (get job ''deploymentId''), h3))))"

end
