(* ===== verification/Worker_Properties.thy ===== *)
theory Worker_Properties
  imports Compiler_Worker Sample_Platform
begin

text \<open>
  What the control plane can rely on about a compiler run: content is verified before it is
  bound, stored before it is published, and a failure is reported only when nothing has been
  bound yet.
\<close>

section \<open>Traces of the phases\<close>

lemma act_bind_Inr: "act_bind m f h = (Inr y, h2) \<longleftrightarrow> (\<exists>x h1. m h = (Inr x, h1) \<and> f x h1 = (Inr y, h2))"
  by (auto simp: act_bind_def split: prod.splits sum.splits)

lemma act_bind_Inl: "act_bind m f h = (Inl e, h2) \<longleftrightarrow>
    m h = (Inl e, h2) \<or> (\<exists>x h1. m h = (Inr x, h1) \<and> f x h1 = (Inl e, h2))"
  by (auto simp: act_bind_def split: prod.splits sum.splits)

lemma lift_eq: "lift r h = (r', h') \<longleftrightarrow> r = r' \<and> h' = h"
  by (auto simp: lift_def)

lemma perform_eq: "perform ev f h = (r, h') \<longleftrightarrow> h' = h @ [ev] \<and> f (h @ [ev]) = r"
  by (auto simp: perform_def)

lemmas act_simps = act_bind_Inr act_bind_Inl lift_eq perform_eq

text \<open>An action that only makes calls of a set, and one whose success establishes a property.\<close>

definition only :: "event set \<Rightarrow> 'a act \<Rightarrow> bool" where
  "only E m = (\<forall>h r h'. m h = (r, h') \<longrightarrow> (\<exists>evs. h' = h @ evs \<and> set evs \<subseteq> E))"

definition gives :: "('a \<Rightarrow> event list \<Rightarrow> bool) \<Rightarrow> 'a act \<Rightarrow> bool" where
  "gives Q m = (\<forall>h x h'. m h = (Inr x, h') \<longrightarrow> Q x h')"

lemma onlyD: "only E m \<Longrightarrow> m h = (r, h') \<Longrightarrow> \<exists>evs. h' = h @ evs \<and> set evs \<subseteq> E"
  unfolding only_def by blast

lemma only_lift [intro]: "only E (lift r)"
  by (simp add: only_def lift_def)

lemma only_perform [intro]: "ev \<in> E \<Longrightarrow> only E (perform ev f)"
  by (simp add: only_def perform_def)

lemma only_bind [intro]:
  assumes "only E m" and "\<And>x. only E (f x)"
  shows "only E (act_bind m f)"
  unfolding only_def
proof (intro allI impI)
  fix h r h' assume b: "act_bind m f h = (r, h')"
  obtain x h1 where m: "m h = (x, h1)" by fastforce
  from onlyD [OF assms(1) m] obtain evs where e: "h1 = h @ evs" "set evs \<subseteq> E" by blast
  show "\<exists>evs. h' = h @ evs \<and> set evs \<subseteq> E"
  proof (cases x)
    case (Inl err)
    with b m e show ?thesis by (auto simp: act_bind_def)
  next
    case (Inr y)
    with b m have "f y h1 = (r, h')" by (simp add: act_bind_def)
    from onlyD [OF assms(2) this] obtain evs' where "h' = h1 @ evs'" "set evs' \<subseteq> E" by blast
    with e show ?thesis by auto
  qed
qed

lemma only_or_else [intro]:
  assumes "only E a" and "only E b"
  shows "only E (or_else a b)"
  unfolding only_def
proof (intro allI impI)
  fix h r h' assume o: "or_else a b h = (r, h')"
  obtain x h1 where m: "a h = (x, h1)" by fastforce
  from onlyD [OF assms(1) m] obtain evs where e: "h1 = h @ evs" "set evs \<subseteq> E" by blast
  show "\<exists>evs. h' = h @ evs \<and> set evs \<subseteq> E"
  proof (cases x)
    case (Inl err)
    with o m have "b h1 = (r, h')" by (simp add: or_else_def)
    from onlyD [OF assms(2) this] obtain evs' where "h' = h1 @ evs'" "set evs' \<subseteq> E" by blast
    with e show ?thesis by auto
  next
    case (Inr y)
    with o m e show ?thesis by (auto simp: or_else_def)
  qed
qed

lemma gives_or_else: "gives Q a \<Longrightarrow> gives Q b \<Longrightarrow> gives Q (or_else a b)"
  by (fastforce simp: gives_def or_else_def split: prod.splits sum.splits)

lemma prepare_phase_only: "only (insert Build (range Get_grants \<union> range Download)) (prepare_phase P env ms job)"
  unfolding prepare_phase_def Let_def by (auto split: prod.splits intro!: only_bind only_perform)

lemma prepare_phase_ok:
  assumes "prepare_phase P env ms job h = (Inr (og, b, publication), h1)"
  shows "validateCompilerJob job = Inr () \<and> publication = publicationForControlPlane job b \<and>
    validateImmutableContent P b = Inr () \<and> get (b_content b) ''key'' = get job ''expectedContentKey'' \<and>
    (\<exists>grants input. verifyGrantSet P None grants job = Inr (input, og)) \<and>
    (\<exists>archive m es. get (get (get job ''frozenManifest'') ''archive'') ''sha256'' = Str (sha256 P archive) \<and>
      validateBundle P archive (get job ''frozenManifest'') = Inr (m, es) \<and>
      build env h1 (m, es) (get job ''frozenManifest'') (get job ''expectedContentKey'') = Inr (Some b))"
proof -
  from assms obtain grants input f t archive m es bo where
    g: "validateCompilerJob job = Inr ()" "verifyGrantSet P None grants job = Inr (input, og)"
    and d: "downloadExact P f t input (get (get job ''frozenManifest'') ''archive'') ms = Inr archive"
    and v: "validateBundle P archive (get job ''frozenManifest'') = Inr (m, es)"
      "build env h1 (m, es) (get job ''frozenManifest'') (get job ''expectedContentKey'') = Inr bo"
      "publication = publicationForControlPlane job b" "verifyBuiltContent P bo job = Inr b"
    by (fastforce simp: prepare_phase_def Let_def act_simps split: prod.splits)
  from v(2,4) have b: "validateImmutableContent P b = Inr ()" "strict_eq (get (b_content b) ''key'') (get job ''expectedContentKey'')"
    "build env h1 (m, es) (get job ''frozenManifest'') (get job ''expectedContentKey'') = Inr (Some b)"
    by (auto simp: verifyBuiltContent_def result_simps Let_def split: option.splits)
  have "get (b_content b) ''key'' = get job ''expectedContentKey''"
    using b(2) by (cases "get (b_content b) ''key''"; cases "get job ''expectedContentKey''") auto
  with g v(1,3) b(1,3) downloadExact_ok [OF d] show ?thesis by blast
qed

text \<open>The last event of a history confirms that the object is stored.\<close>

definition confirmed :: "platform \<Rightarrow> environment \<Rightarrow> jsval \<Rightarrow> bytes \<Rightarrow> jsval \<Rightarrow> event list \<Rightarrow> bool" where
  "confirmed P env og archive bound h =
     ((last h = Upload og archive \<and> (\<exists>r. fst (fetchImpl env h) = Inr r \<and> rs_ok r \<and> \<not> rs_redirected r)) \<or>
      (\<exists>grant r bytes. last h = Reconcile grant \<and> get grant ''key'' = get (get bound ''content'') ''key'' \<and>
        fst (fetchImpl env h) = Inr r \<and> rs_ok r \<and> body_bytes (rs_body r) = Some bytes \<and>
        get (get bound ''content'') ''sha256'' = Str (sha256 P bytes) \<and>
        int (length bytes) = the_int (get (get bound ''content'') ''compressedSize'')))"

abbreviation store_events :: "jsval \<Rightarrow> bytes \<Rightarrow> event set" where
  "store_events og archive \<equiv> insert (Upload og archive) (range Reconcile)"

lemma upload_only: "only (store_events og archive) (upload P env ms og archive)"
  unfolding upload_def by (intro only_perform) simp

lemma upload_gives: "gives (\<lambda>_. confirmed P env og archive bound) (upload P env ms og archive)"
  by (auto simp: gives_def upload_def act_simps confirmed_def uploadExact_def exactRequest_Inr check_response_def
      split: if_splits)

lemma reconcile_only: "only (store_events og archive) (reconcileExactUpload P env ms grant bound)"
  unfolding reconcileExactUpload_def Let_def by (simp add: only_lift only_perform)

lemma reconcile_gives: "gives (\<lambda>_. confirmed P env og archive bound) (reconcileExactUpload P env ms grant bound)"
  unfolding gives_def
proof (intro allI impI)
  fix h u h1 assume r: "reconcileExactUpload P env ms grant bound h = (Inr u, h1)"
  from r have h1: "h1 = h @ [Reconcile grant]" and g: "isExactReconciliationGrant P grant (get (get bound ''content'') ''key'')"
    and e: "exactRequest (fst (fetchImpl env h1)) (snd (fetchImpl env h1)) ms ''content_reconciliation_failed''
      (validate_reconciliation P grant (get bound ''content'')) = Inr ()"
    by (auto simp: reconcileExactUpload_def Let_def act_simps split: if_splits)
  from g have "strict_eq (get grant ''key'') (get (get bound ''content'') ''key'')"
    by (simp add: isExactReconciliationGrant_def)
  then have "get grant ''key'' = get (get bound ''content'') ''key''"
    by (cases "get grant ''key''"; cases "get (get bound ''content'') ''key''") auto
  with h1 e show "confirmed P env og archive bound h1"
    by (auto simp: exactRequest_Inr confirmed_def dest!: reconciliation_ok)
qed

lemma store_only: "only (store_events og (b_archive b)) (store P env ms og b prepared bound)"
  unfolding store_def Let_def by (simp add: only_or_else upload_only reconcile_only)

lemma store_gives: "gives (\<lambda>_. confirmed P env og (b_archive b) bound) (store P env ms og b prepared bound)"
  unfolding store_def Let_def by (simp add: gives_or_else upload_gives reconcile_gives)

text \<open>The trace of the upload phase, and what its success means.\<close>

lemma upload_phase_trace:
  assumes "upload_phase P env ms job og b publication h = (r, h2)"
  shows "\<exists>evs. h2 = h @ Prepare publication # evs \<and> set evs \<subseteq> store_events og (b_archive b)"
proof -
  let ?rest = "\<lambda>prepared. act_bind (lift (verifyPreparedUpload prepared job)) (\<lambda>bound.
    act_bind (store P env ms og b prepared bound) (\<lambda>_. lift (Inr bound)))"
  have o: "only (store_events og (b_archive b)) (?rest prepared)" for prepared
    by (intro only_bind only_lift store_only)
  show ?thesis
  proof (cases "prepareUpload env (h @ [Prepare publication])")
    case (Inl e)
    with assms show ?thesis by (auto simp: upload_phase_def act_bind_def perform_def)
  next
    case (Inr prepared)
    with assms have "?rest prepared (h @ [Prepare publication]) = (r, h2)"
      by (simp add: upload_phase_def act_bind_def [of "perform _ _"] perform_def)
    from onlyD [OF o this] show ?thesis by auto
  qed
qed

lemma upload_phase_ok:
  assumes "upload_phase P env ms job og b publication h = (Inr bound, h2)"
  shows "confirmed P env og (b_archive b) bound h2 \<and>
    (\<exists>prepared. prepareUpload env (h @ [Prepare publication]) = Inr prepared \<and>
      verifyPreparedUpload prepared job = Inr bound)"
  using assms store_gives unfolding upload_phase_def gives_def
  by (auto simp: act_simps)

section \<open>Runs\<close>

lemma run_cases:
  assumes "CompilerWorker_run P env ms job [] = (out, h)"
  obtains (failed) e h1 where "prepare_phase P env ms job [] = (Inl e, h1)" "out = Job_failed (classifyFailure e)"
      "h = h1 @ [Report_failed (failure_report job (classifyFailure e))]"
  | (uncertain) og b h1 e where
      "prepare_phase P env ms job [] = (Inr (og, b, publicationForControlPlane job b), h1)"
      "upload_phase P env ms job og b (publicationForControlPlane job b) h1 = (Inl e, h)"
      "out = Upload_reconciliation_uncertain (publicationForControlPlane job b)"
  | (published) og b h1 bound h2 where
      "prepare_phase P env ms job [] = (Inr (og, b, publicationForControlPlane job b), h1)"
      "upload_phase P env ms job og b (publicationForControlPlane job b) h1 = (Inr bound, h2)"
      "h = h2 @ [Publish bound]" "out = (case publish env h of Inl e \<Rightarrow> Published_callback_uncertain bound
         | Inr _ \<Rightarrow> Published (get job ''deploymentId''))"
proof -
  obtain r h1 where r: "prepare_phase P env ms job [] = (r, h1)" by fastforce
  show ?thesis
  proof (cases r)
    case (Inl e)
    with r assms failed show ?thesis by (auto simp: CompilerWorker_run_def)
  next
    case (Inr x)
    obtain og b publication where x: "x = (og, b, publication)" by (cases x)
    with r Inr prepare_phase_ok have pub: "publication = publicationForControlPlane job b" by blast
    obtain s h2 where s: "upload_phase P env ms job og b publication h1 = (s, h2)" by fastforce
    show ?thesis
    proof (cases s)
      case (Inl e)
      with r \<open>r = Inr x\<close> x s assms uncertain pub show ?thesis by (auto simp: CompilerWorker_run_def)
    next
      case bound: (Inr bound)
      with r \<open>r = Inr x\<close> x s assms published pub show ?thesis
        by (auto simp: CompilerWorker_run_def perform_def split: sum.splits)
    qed
  qed
qed

lemma prepare_events:
  assumes "prepare_phase P env ms job [] = (r, h1)"
  shows "Prepare x \<notin> set h1" "Upload y z \<notin> set h1" "Publish x \<notin> set h1" "Report_failed x \<notin> set h1" "Reconcile x \<notin> set h1"
  using onlyD [OF prepare_phase_only assms] by auto

lemma upload_events:
  assumes "upload_phase P env ms job og b publication h1 = (r, h2)"
  shows "Publish x \<in> set h2 \<Longrightarrow> Publish x \<in> set h1" "Report_failed x \<in> set h2 \<Longrightarrow> Report_failed x \<in> set h1"
    "Upload y z \<in> set h2 \<Longrightarrow> Upload y z \<in> set h1 \<or> y = og \<and> z = b_archive b"
  using upload_phase_trace [OF assms] by auto

lemma run_publish:
  assumes "CompilerWorker_run P env ms job [] = (out, h)" and "Publish bound \<in> set h"
  obtains og b h1 h2 where "prepare_phase P env ms job [] = (Inr (og, b, publicationForControlPlane job b), h1)"
      "upload_phase P env ms job og b (publicationForControlPlane job b) h1 = (Inr bound, h2)" "h = h2 @ [Publish bound]"
  using assms(1)
proof (cases rule: run_cases)
  case (failed e h1)
  with prepare_events(3) [OF failed(1)] assms(2) show ?thesis by auto
next
  case (uncertain og b h1 e)
  with prepare_events(3) [OF uncertain(1)] upload_events(1) [OF uncertain(2)] assms(2) show ?thesis by auto
next
  case (published og b h1 bound' h2)
  with prepare_events(3) [OF published(1)] upload_events(1) [OF published(2)] assms(2) have "bound' = bound" by auto
  with published that show ?thesis by blast
qed

section \<open>Properties\<close>

text \<open>
  C20. Nothing is published before it is stored: the publication is the last call of a run, and
  the call before it was either a PUT of the built archive that the store accepted, or a GET of
  the bound key whose body has exactly the published size and digest. The published content
  carries the key the job expects.
\<close>

theorem publish_after_store:
  assumes "CompilerWorker_run P env ms job [] = (out, h)" and "Publish bound \<in> set h"
  shows "\<exists>pre. h = pre @ [Publish bound] \<and> get (get bound ''content'') ''key'' = get job ''expectedContentKey'' \<and>
    ((\<exists>og b r. last pre = Upload og (b_archive b) \<and> validateImmutableContent P b = Inr () \<and>
        fst (fetchImpl env pre) = Inr r \<and> rs_ok r \<and> \<not> rs_redirected r) \<or>
     (\<exists>grant r bytes. last pre = Reconcile grant \<and> get grant ''key'' = get job ''expectedContentKey'' \<and>
        fst (fetchImpl env pre) = Inr r \<and> rs_ok r \<and> body_bytes (rs_body r) = Some bytes \<and>
        get (get bound ''content'') ''sha256'' = Str (sha256 P bytes) \<and>
        int (length bytes) = the_int (get (get bound ''content'') ''compressedSize'')))"
proof -
  from run_publish [OF assms] obtain og b h1 h2 where
    r: "prepare_phase P env ms job [] = (Inr (og, b, publicationForControlPlane job b), h1)"
      "upload_phase P env ms job og b (publicationForControlPlane job b) h1 = (Inr bound, h2)" "h = h2 @ [Publish bound]"
    by blast
  from upload_phase_ok [OF r(2)] obtain prepared where
    u: "confirmed P env og (b_archive b) bound h2" "verifyPreparedUpload prepared job = Inr bound" by blast
  from u(2) have "strict_eq (get (get bound ''content'') ''key'') (get job ''expectedContentKey'')"
    by (auto simp: verifyPreparedUpload_def result_simps Let_def)
  then have k: "get (get bound ''content'') ''key'' = get job ''expectedContentKey''"
    by (cases "get (get bound ''content'') ''key''"; cases "get job ''expectedContentKey''") auto
  from prepare_phase_ok [OF r(1)] have v: "validateImmutableContent P b = Inr ()" by blast
  from u(1) k v r(3) show ?thesis unfolding confirmed_def by metis
qed

text \<open>
  C21. A failure is reported exactly when the run ends as failed, with one of the three codes the
  control plane knows, and never once the upload has been bound: a run that reports a failure
  has prepared, uploaded, reconciled and published nothing.
\<close>

theorem failure_before_binding:
  assumes "CompilerWorker_run P env ms job [] = (out, h)"
  shows "((\<exists>c. out = Job_failed c) \<longleftrightarrow> (\<exists>x. Report_failed x \<in> set h)) \<and>
    (\<forall>x. Report_failed x \<in> set h \<longrightarrow> (\<exists>c \<in> set failureCodes. out = Job_failed c \<and> x = failure_report job c) \<and>
      set h \<subseteq> insert (Report_failed x) (insert Build (range Get_grants \<union> range Download)))"
  using assms
proof (cases rule: run_cases)
  case (failed e h1)
  have "classifyFailure e \<in> set failureCodes"
    by (simp add: classifyFailure_def failureCodes_def split: option.splits)
  with failed prepare_events(4) [OF failed(1)] onlyD [OF prepare_phase_only failed(1)] show ?thesis by auto
next
  case (uncertain og b h1 e)
  with prepare_events(4) [OF uncertain(1)] upload_events(2) [OF uncertain(2)] show ?thesis by auto
next
  case (published og b h1 bound h2)
  with prepare_events(4) [OF published(1)] upload_events(2) [OF published(2)] show ?thesis
    by (auto split: sum.splits)
qed

text \<open>
  C22. Every uploaded archive is the verified content of the job: it comes from the builder, given
  a bundle that was downloaded with the digest of the job and accepted by the bundle validation,
  its description was checked against the archive, and it goes to the expected content key.
\<close>

theorem uploaded_content_verified:
  assumes "CompilerWorker_run P env ms job [] = (out, h)" and "Upload og bytes \<in> set h"
  shows "\<exists>b hist archive m es. b_archive b = bytes \<and> validateImmutableContent P b = Inr () \<and>
    get (b_content b) ''key'' = get job ''expectedContentKey'' \<and>
    get og ''method'' = Str (js ''PUT'') \<and> get og ''key'' = get job ''expectedContentKey'' \<and>
    get (get (get job ''frozenManifest'') ''archive'') ''sha256'' = Str (sha256 P archive) \<and>
    validateBundle P archive (get job ''frozenManifest'') = Inr (m, es) \<and>
    build env hist (m, es) (get job ''frozenManifest'') (get job ''expectedContentKey'') = Inr (Some b)"
proof -
  have "\<exists>b h1. prepare_phase P env ms job [] = (Inr (og, b, publicationForControlPlane job b), h1) \<and> bytes = b_archive b"
    using assms(1)
  proof (cases rule: run_cases)
    case (failed e h1)
    with prepare_events(2) [OF failed(1)] assms(2) show ?thesis by auto
  next
    case (uncertain og' b h1 e)
    with prepare_events(2) [OF uncertain(1)] upload_events(3) [OF uncertain(2)] assms(2) show ?thesis by auto
  next
    case (published og' b h1 bound h2)
    with prepare_events(2) [OF published(1)] upload_events(3) [OF published(2)] assms(2) show ?thesis by auto
  qed
  then obtain b h1 where p: "prepare_phase P env ms job [] = (Inr (og, b, publicationForControlPlane job b), h1)"
    "bytes = b_archive b" by blast
  from prepare_phase_ok [OF p(1)] obtain grants input where g: "verifyGrantSet P None grants job = Inr (input, og)" by blast
  then have g: "strict_eq (get og ''key'') (get job ''expectedContentKey'')" "isExactSignedGrant P og ''PUT''"
    by (auto simp: verifyGrantSet_def result_simps Let_def split: option.splits)
  have "get og ''method'' = Str (js ''PUT'')" using g(2) by (simp add: isExactSignedGrant_def Let_def)
  moreover have "get og ''key'' = get job ''expectedContentKey''"
    using g(1) by (cases "get og ''key''"; cases "get job ''expectedContentKey''") auto
  ultimately show ?thesis using prepare_phase_ok [OF p(1)] p(2) by blast
qed

text \<open>
  C23. If the control plane binds the digest it is given, the digest that is published is that of
  the object the store confirmed.
\<close>

theorem published_digest_stored:
  assumes "CompilerWorker_run P env ms job [] = (out, h)" and "Publish bound \<in> set h"
    and "\<And>hist publication prepared. prepareUpload env (hist @ [Prepare publication]) = Inr prepared \<Longrightarrow>
      get (get (get prepared ''publication'') ''content'') ''sha256'' = get (get publication ''content'') ''sha256''"
  shows "\<exists>pre bytes r. h = pre @ [Publish bound] \<and> get (get bound ''content'') ''sha256'' = Str (sha256 P bytes) \<and>
    fst (fetchImpl env pre) = Inr r \<and> rs_ok r \<and>
    ((\<exists>og. last pre = Upload og bytes) \<or> (\<exists>grant. last pre = Reconcile grant) \<and> body_bytes (rs_body r) = Some bytes)"
proof -
  from run_publish [OF assms(1,2)] obtain og b h1 h2 where
    r: "prepare_phase P env ms job [] = (Inr (og, b, publicationForControlPlane job b), h1)"
      "upload_phase P env ms job og b (publicationForControlPlane job b) h1 = (Inr bound, h2)" "h = h2 @ [Publish bound]"
    by blast
  from upload_phase_ok [OF r(2)] obtain prepared where
    u: "confirmed P env og (b_archive b) bound h2" "verifyPreparedUpload prepared job = Inr bound"
      "prepareUpload env (h1 @ [Prepare (publicationForControlPlane job b)]) = Inr prepared" by blast
  from u(2) have "bound = get prepared ''publication''"
    by (auto simp: verifyPreparedUpload_def result_simps Let_def)
  with assms(3) [OF u(3)] have "get (get bound ''content'') ''sha256'' = get (b_content b) ''sha256''"
    by (simp add: publicationForControlPlane_def Let_def)
  moreover have "get (b_content b) ''sha256'' = Str (sha256 P (b_archive b))"
    using prepare_phase_ok [OF r(1)] by (auto simp: validateImmutableContent_def Let_def result_simps)
  ultimately have d: "get (get bound ''content'') ''sha256'' = Str (sha256 P (b_archive b))" by simp
  show ?thesis
    using u(1) d r(3) unfolding confirmed_def by metis
qed

end
