(* ===== verification/Tar_Roundtrip.thy ===== *)
theory Tar_Roundtrip
  imports Tar_Package
begin

text \<open>
  Correctness of the content archive: chunks, the Zstandard frame and the tar stream.
\<close>

unbundle bit_operations_syntax

section \<open>Chunks\<close>

lemma concatLoop_append:
  "length zs = length (concat chunks) \<Longrightarrow>
    concatLoop (pre @ zs) (length pre) chunks = pre @ concat chunks"
proof (induction chunks arbitrary: pre zs)
  case (Cons c cs)
  have "concatLoop (pre @ zs) (length pre) (c # cs) =
      concatLoop ((pre @ c) @ drop (length c) zs) (length (pre @ c)) cs"
    by (simp add: set_at_def)
  also have "\<dots> = (pre @ c) @ concat cs"
    using Cons.prems by (intro Cons.IH) simp
  finally show ?case by simp
qed simp

lemma concatenate_concat: "n = length (concat chunks) \<Longrightarrow> concatenate chunks n = concat chunks"
  using concatLoop_append [of "replicate n 0" chunks "[]"] by (simp add: concatenate_def)

section \<open>Little-endian numbers and block headers\<close>

lemma length_littleEndian32 [simp]: "length (littleEndian32 v) = 4"
  by (simp add: littleEndian32_def)

lemma length_blockHeaderBytes [simp]: "length (blockHeaderBytes h) = 3"
  by (simp add: blockHeaderBytes_def)

lemma byte_of_masked: "(ucast (v AND 0xff :: 32 word) :: byte) = ucast v"
proof -
  have "v AND 0xff = take_bit 8 v" by (simp add: take_bit_eq_mask mask_eq_exp_minus_1)
  moreover have "(ucast (take_bit 8 v) :: byte) = ucast v"
    by (rule bit_word_eqI) (simp add: bit_simps)
  ultimately show ?thesis by simp
qed

lemma join_bytes3:
  fixes v :: "32 word"
  shows "ucast (ucast v :: byte) OR push_bit 8 (ucast (ucast (drop_bit 8 v) :: byte)) OR
      push_bit 16 (ucast (ucast (drop_bit 16 v) :: byte)) = take_bit 24 v"
proof (rule bit_word_eqI)
  fix n assume "n < LENGTH(32)"
  then consider "n < 8" | "8 \<le> n" "n < 16" | "16 \<le> n" "n < 24" | "24 \<le> n" "n < 32"
    by fastforce
  then show "bit (ucast (ucast v :: byte) OR push_bit 8 (ucast (ucast (drop_bit 8 v) :: byte)) OR
      push_bit 16 (ucast (ucast (drop_bit 16 v) :: byte)) :: 32 word) n = bit (take_bit 24 v) n"
    by cases (auto simp: bit_simps)
qed

lemma join_bytes4:
  fixes v :: "32 word"
  shows "ucast (ucast v :: byte) OR push_bit 8 (ucast (ucast (drop_bit 8 v) :: byte)) OR
      push_bit 16 (ucast (ucast (drop_bit 16 v) :: byte)) OR
      push_bit 24 (ucast (ucast (drop_bit 24 v) :: byte)) = v"
proof (rule bit_word_eqI)
  fix n assume "n < LENGTH(32)"
  then consider "n < 8" | "8 \<le> n" "n < 16" | "16 \<le> n" "n < 24" | "24 \<le> n" "n < 32"
    by fastforce
  then show "bit (ucast (ucast v :: byte) OR push_bit 8 (ucast (ucast (drop_bit 8 v) :: byte)) OR
      push_bit 16 (ucast (ucast (drop_bit 16 v) :: byte)) OR
      push_bit 24 (ucast (ucast (drop_bit 24 v) :: byte)) :: 32 word) n = bit v n"
    by cases (auto simp: bit_simps)
qed

lemma readLittleEndian32_write:
  "readLittleEndian32 (pre @ littleEndian32 v @ rest) (length pre) = v"
  by (simp add: readLittleEndian32_def littleEndian32_def byte_of_masked join_bytes4 nth_append)

lemma readBlockHeader_write:
  "readBlockHeader (pre @ blockHeaderBytes h @ rest) (length pre) = take_bit 24 h"
  by (simp add: readBlockHeader_def blockHeaderBytes_def byte_of_masked join_bytes3 nth_append)

text \<open>The fields of a block header whose size is at most one block.\<close>

lemma unat_shifted_size:
  assumes "len \<le> RAW_ZSTD_BLOCK_BYTES"
  shows "unat (push_bit 3 (of_nat len) :: 32 word) = len * 8"
proof -
  have "len * 8 < 2 ^ 32" using assms by (simp add: RAW_ZSTD_BLOCK_BYTES_def)
  moreover have "(push_bit 3 (of_nat len) :: 32 word) = of_nat (len * 8)"
    by (simp add: push_bit_eq_mult)
  ultimately show ?thesis by (simp add: unat_of_nat_small del: of_nat_mult)
qed

lemma blockHeader_fields:
  assumes "len \<le> RAW_ZSTD_BLOCK_BYTES"
  shows "(blockHeader len final AND 1 = 1) = final"
    and "drop_bit 1 (blockHeader len final) AND 3 = 0"
    and "unat (drop_bit 3 (blockHeader len final)) = len"
    and "take_bit 24 (blockHeader len final) = blockHeader len final"
proof -
  let ?w = "push_bit 3 (of_nat len) :: 32 word"
  have disj: "?w AND of_bool final = 0"
    by (rule bit_word_eqI) (auto simp: bit_simps)
  have n: "unat (blockHeader len final) = len * 8 + of_bool final"
  proof -
    have "blockHeader len final = ?w + of_bool final"
      using disj by (simp add: blockHeader_def disjunctive_add_eq_or)
    then have "unat (blockHeader len final) = (unat ?w + of_bool final) mod 2 ^ 32"
      by (simp add: unat_word_ariths)
    then show ?thesis
      using assms by (simp add: unat_shifted_size) (simp add: RAW_ZSTD_BLOCK_BYTES_def)
  qed
  have small: "len * 8 + of_bool final < 2 ^ 24"
    using assms by (simp add: RAW_ZSTD_BLOCK_BYTES_def)
  have parity: "odd (blockHeader len final) \<longleftrightarrow> final"
    by (simp add: blockHeader_def even_or_iff even_push_bit_iff)
  then show "(blockHeader len final AND 1 = 1) = final"
    by (simp add: and_one_eq mod_2_eq_odd)
  have "drop_bit 1 (blockHeader len final) AND 3 = take_bit 2 (drop_bit 1 (blockHeader len final))"
    by (simp add: take_bit_eq_mask mask_eq_exp_minus_1)
  also have "\<dots> = 0"
    by (rule bit_word_eqI) (auto simp: blockHeader_def bit_simps)
  finally show "drop_bit 1 (blockHeader len final) AND 3 = 0" .
  show "unat (drop_bit 3 (blockHeader len final)) = len"
    unfolding unat_drop_bit_eq n by (simp add: drop_bit_eq_div)
  show "take_bit 24 (blockHeader len final) = blockHeader len final"
    unfolding word_unat_eq_iff unsigned_take_bit_eq n using small by (simp add: take_bit_eq_mod)
qed

section \<open>The frame\<close>

text \<open>The blocks of a payload and the pieces they carry, as recursion on the payload.\<close>

function pieces :: "bytes \<Rightarrow> bytes list" where
  "pieces bs = (if bs = [] then []
     else take RAW_ZSTD_BLOCK_BYTES bs # pieces (drop RAW_ZSTD_BLOCK_BYTES bs))"
  by pat_completeness auto
termination
  by (relation "measure length") (auto simp: RAW_ZSTD_BLOCK_BYTES_def)

declare pieces.simps [simp del]

fun blocks :: "bytes list \<Rightarrow> bytes list" where
  "blocks [] = []"
| "blocks (p # ps) = [blockHeaderBytes (blockHeader (length p) (ps = [])), p] @ blocks ps"

lemma pieces_Nil [simp]: "pieces [] = []"
  by (subst pieces.simps) simp

lemma concat_pieces [simp]: "concat (pieces bs) = bs"
  by (induction bs rule: pieces.induct) (subst pieces.simps, simp)

lemma pieces_eq_Nil [simp]: "pieces bs = [] \<longleftrightarrow> bs = []"
  by (subst pieces.simps) simp

lemma pieces_size: "p \<in> set (pieces bs) \<Longrightarrow> length p \<le> RAW_ZSTD_BLOCK_BYTES"
proof (induction bs rule: pieces.induct)
  case (1 bs)
  then show ?case by (subst (asm) (2) pieces.simps) (auto split: if_splits)
qed

lemma length_concat_blocks: "length (concat (blocks ps)) = length (concat ps) + 3 * length ps"
  by (induction ps) auto

lemma length_pieces: "length (pieces bs) * RAW_ZSTD_BLOCK_BYTES < length bs + RAW_ZSTD_BLOCK_BYTES"
proof (induction bs rule: pieces.induct)
  case (1 bs)
  have "0 < RAW_ZSTD_BLOCK_BYTES" by (simp add: RAW_ZSTD_BLOCK_BYTES_def)
  with 1 show ?case
    by (subst pieces.simps) (cases "length bs \<le> RAW_ZSTD_BLOCK_BYTES"; simp)
qed

lemma rawZstdLoop_blocks:
  "rawZstdLoop input offset chunks tot =
     (chunks @ blocks (pieces (drop offset input)),
      tot + length (concat (blocks (pieces (drop offset input)))))"
proof (induction input offset chunks tot rule: rawZstdLoop.induct)
  case (1 input offset chunks tot)
  show ?case
  proof (cases "offset < length input")
    case True
    define len where "len = min RAW_ZSTD_BLOCK_BYTES (length input - offset)"
    have piece: "take RAW_ZSTD_BLOCK_BYTES (drop offset input) = subarray input offset (offset + len)"
      by (auto simp: subarray_def len_def min_def)
    have last: "(length input \<le> RAW_ZSTD_BLOCK_BYTES + offset) = (offset + len = length input)"
      using True by (auto simp: len_def min_def)
    have "length (subarray input offset (offset + len)) = len"
      using True by (simp add: len_def)
    then have b: "blocks (pieces (drop offset input)) =
        [blockHeaderBytes (blockHeader len (offset + len = length input)),
         subarray input offset (offset + len)] @
        blocks (pieces (drop (offset + RAW_ZSTD_BLOCK_BYTES) input))"
      using True by (subst pieces.simps) (simp add: piece last add.commute)
    from True have "rawZstdLoop input offset chunks tot =
        rawZstdLoop input (offset + RAW_ZSTD_BLOCK_BYTES)
          (chunks @ [blockHeaderBytes (blockHeader len (offset + len = length input)),
             subarray input offset (offset + len)]) (tot + 3 + len)"
      by (subst rawZstdLoop.simps) (simp add: len_def Let_def)
    also have "\<dots> = (chunks @ blocks (pieces (drop offset input)),
        tot + length (concat (blocks (pieces (drop offset input)))))"
      using True b \<open>length (subarray input offset (offset + len)) = len\<close>
      by (subst "1.IH" [OF True len_def refl]) simp
    finally show ?thesis .
  next
    case False
    then show ?thesis by (subst rawZstdLoop.simps) simp
  qed
qed

lemma unpackZstdLoop_blocks:
  assumes "ps \<noteq> []" and "\<forall>p \<in> set ps. length p \<le> RAW_ZSTD_BLOCK_BYTES"
  shows "unpackZstdLoop (pre @ concat (blocks ps)) (length pre) chunks tot =
    Inr (chunks @ ps, tot + length (concat ps), length (pre @ concat (blocks ps)))"
  using assms
proof (induction ps arbitrary: pre chunks tot)
  case (Cons p ps)
  let ?h = "blockHeader (length p) (ps = [])"
  let ?archive = "pre @ concat (blocks (p # ps))"
  have split: "?archive = pre @ blockHeaderBytes ?h @ (p @ concat (blocks ps))" by simp
  from Cons.prems have len: "length p \<le> RAW_ZSTD_BLOCK_BYTES" by simp
  note fields = blockHeader_fields [OF len, of "ps = []"]
  have rd: "readBlockHeader ?archive (length pre) = ?h"
    by (simp only: split readBlockHeader_write fields(4))
  have sub: "subarray ?archive (length pre + 3) (length pre + 3 + length p) = p"
    by (simp add: subarray_def)
  show ?case
  proof (cases "ps = []")
    case True
    then show ?thesis
      using rd sub fields len
      by (subst unpackZstdLoop.simps) (simp add: Let_def)
  next
    case False
    have next_pre: "?archive = (pre @ blockHeaderBytes ?h @ p) @ concat (blocks ps)" by simp
    have "unpackZstdLoop ?archive (length pre) chunks tot =
        unpackZstdLoop ?archive (length pre + 3 + length p) (chunks @ [p]) (tot + length p)"
      using False rd sub fields len by (subst unpackZstdLoop.simps) (simp add: Let_def)
    also have "\<dots> = unpackZstdLoop ((pre @ blockHeaderBytes ?h @ p) @ concat (blocks ps))
        (length (pre @ blockHeaderBytes ?h @ p)) (chunks @ [p]) (tot + length p)"
      by (simp only: next_pre) (simp add: add.assoc)
    also have "\<dots> = Inr ((chunks @ [p]) @ ps, (tot + length p) + length (concat ps),
        length ((pre @ blockHeaderBytes ?h @ p) @ concat (blocks ps)))"
      using False Cons.prems by (intro Cons.IH) auto
    finally show ?thesis by simp
  qed
qed simp

lemma length_zstdMagic [simp]: "length zstdMagic = 5"
  by (simp add: zstdMagic_def)

definition zstd_frame :: "bytes \<Rightarrow> bytes" where
  "zstd_frame input =
     zstdMagic @ littleEndian32 (of_nat (length input)) @ concat (blocks (pieces input))"

lemma length_zstd_frame:
  "length (zstd_frame input) = 9 + length input + 3 * length (pieces input)"
  by (simp add: zstd_frame_def length_concat_blocks)

lemma zstd_frame_bound:
  assumes "length input \<le> maxPackageTarBytes PRODUCTION_OUTPUT_LIMITS"
  shows "length (zstd_frame input) \<le> maxPackageArchiveBytes PRODUCTION_OUTPUT_LIMITS"
  using assms length_pieces [of input]
  by (simp add: length_zstd_frame limit_defs RAW_ZSTD_BLOCK_BYTES_def)

lemma rawZstd_frame:
  assumes "length input \<le> maxPackageTarBytes PRODUCTION_OUTPUT_LIMITS"
  shows "rawZstd input = Inr (zstd_frame input)"
proof -
  let ?first = "zstdMagic @ littleEndian32 (of_nat (length input))"
  have "concatenate (?first # blocks (pieces input)) (length (zstd_frame input)) = zstd_frame input"
    by (subst concatenate_concat) (simp_all add: zstd_frame_def)
  then show ?thesis
    using assms zstd_frame_bound [OF assms]
    by (simp add: rawZstd_def Let_def rawZstdLoop_blocks zstd_frame_def add.assoc)
qed

lemma unpackZstd_frame:
  assumes "input \<noteq> []" and "length input \<le> maxPackageTarBytes PRODUCTION_OUTPUT_LIMITS"
  shows "unpackZstd (zstd_frame input) = Inr input"
proof -
  let ?pre = "zstdMagic @ littleEndian32 (of_nat (length input))"
  have pre: "length ?pre = 9" by simp
  have "unpackZstdLoop (?pre @ concat (blocks (pieces input))) (length ?pre) [] 0 =
      Inr ([] @ pieces input, 0 + length (concat (pieces input)),
        length (?pre @ concat (blocks (pieces input))))"
    using assms by (intro unpackZstdLoop_blocks) (auto simp: pieces_size)
  then have loop: "unpackZstdLoop (zstd_frame input) 9 [] 0 =
      Inr (pieces input, length input, length (zstd_frame input))"
    by (simp only: pre) (simp add: zstd_frame_def)
  have "readLittleEndian32 (zstdMagic @ littleEndian32 (of_nat (length input)) @
      concat (blocks (pieces input))) (length zstdMagic) = of_nat (length input)"
    by (rule readLittleEndian32_write)
  then have rd: "unat (readLittleEndian32 (zstd_frame input) 5) = length input"
    using assms(2)
    by (simp add: zstd_frame_def limit_defs unat_of_nat_small)
  have "0 < length (pieces input)" "0 < length input" using assms(1) by simp_all
  then have low: "12 < length (zstd_frame input)"
    unfolding length_zstd_frame by linarith
  moreover have "take 5 (zstd_frame input) = zstdMagic"
    by (simp add: zstd_frame_def)
  moreover have "concatenate (pieces input) (length input) = input"
    by (subst concatenate_concat) simp_all
  ultimately show ?thesis
    using zstd_frame_bound [OF assms(2)] loop rd by (simp add: unpackZstd_def)
qed

section \<open>Header fields\<close>

lemma takeWhile_take: "takeWhile Q (take n xs) = take n (takeWhile Q xs)"
  by (induction xs arbitrary: n) (auto simp: take_Cons split: nat.splits)

lemma take_length_takeWhile: "take (min n (length (takeWhile Q xs))) xs = take n (takeWhile Q xs)"
  by (metis append_eq_conv_conj min.commute takeWhile_dropWhile_id take_take)

lemma tarText_slot:
  assumes "offset + len \<le> length h"
  shows "tarText h offset len =
    of_option failOutput (decode (takeWhile (\<lambda>b. b \<noteq> 0) (subarray h offset (offset + len))))"
proof -
  define w where "w = length (takeWhile (\<lambda>b. b \<noteq> 0) (drop offset h))"
  have "(case indexOf0 h offset of None \<Rightarrow> offset + len
      | Some e \<Rightarrow> if e > offset + len then offset + len else e) = offset + min len w"
    using assms length_takeWhile_le [of "\<lambda>b. b \<noteq> 0" "drop offset h"]
    by (auto simp: indexOf0_def w_def Let_def min_def)
  then show ?thesis
    by (simp add: tarText_def Let_def subarray_def w_def take_length_takeWhile takeWhile_take)
qed

text \<open>Text that survives a header field: well formed, no byte order mark, no zero unit.\<close>

definition plain_text :: "jsstr \<Rightarrow> bool" where
  "plain_text s = (well_formed s \<and> 0xFEFF \<notin> set s \<and> 0 \<notin> set s)"

lemma plain_text_no_bom: "plain_text s \<Longrightarrow> no_bom s"
  by (cases s) (auto simp: plain_text_def no_bom_def)

lemma tarText_read:
  assumes "subarray h offset (offset + len) = encode s @ replicate k 0"
    and "offset + len \<le> length h" and "plain_text s"
  shows "tarText h offset len = Inr s"
proof -
  have nz: "0 \<notin> set (encode s)" using assms(3) by (simp add: plain_text_def encode_nonzero)
  have "takeWhile (\<lambda>b. b \<noteq> 0) (encode s @ replicate k 0) = encode s"
    using nz by (subst takeWhile_append2) auto
  moreover have "decode (encode s) = Some s"
    using decode_encode plain_text_no_bom [OF assms(3)] assms(3) by (simp add: plain_text_def)
  ultimately show ?thesis using assms(1,2) by (simp add: tarText_slot)
qed

definition octal_text :: "nat \<Rightarrow> nat \<Rightarrow> jsstr" where
  "octal_text len n = padStart (len - 1) 48 (digits_of 8 n)"

lemma octal_text_digits: "list_all (\<lambda>u. in_range 48 55 u) (octal_text len n)"
proof -
  have "list_all (\<lambda>u. in_range 48 55 u) (digits_of 8 n)"
    using digits_of_range [of 8 n] by (auto simp: list_all_iff in_range_def word_le_nat_alt word_less_nat_alt)
  then show ?thesis by (auto simp: octal_text_def padStart_def list_all_iff in_range_def)
qed

lemma octal_text_plain: "ascii (octal_text len n)" "plain_text (octal_text len n)"
proof -
  have range: "48 \<le> u \<and> u \<le> 55" if "u \<in> set (octal_text len n)" for u
    using octal_text_digits [of len n] that by (auto simp: list_all_iff in_range_def)
  then show a: "ascii (octal_text len n)"
    by (force simp: ascii_def list_all_iff word_le_nat_alt word_less_nat_alt)
  show "plain_text (octal_text len n)"
    using range a by (auto simp: plain_text_def ascii_well_formed word_le_nat_alt dest!: range)
qed

lemma octal_text_value: "digits_value 8 (octal_text len n) = n"
  by (simp add: octal_text_def padStart_def digits_value_zeros digits_of_value)

lemma length_octal_text:
  "n < 8 ^ (len - 1) \<Longrightarrow> 1 < len \<Longrightarrow> length (octal_text len n) = len - 1"
  using length_digits_of [of 8 n "len - 1"] by (simp add: octal_text_def padStart_def)

lemma length_encode_ascii: "ascii s \<Longrightarrow> length (encode s) = length s"
  by (simp add: encode_ascii)

lemma writeTarOctal_ok:
  assumes "n < 8 ^ (len - 1)" and "1 < len"
  shows "writeTarOctal h offset len (int n) = Inr (set_at h offset (encode (octal_text len n)))"
    and "length (encode (octal_text len n)) = len - 1"
proof -
  show l: "length (encode (octal_text len n)) = len - 1"
    using assms by (simp add: length_encode_ascii octal_text_plain length_octal_text)
  have "padStart (len - 1) 48 (int_to_string 8 (int n)) = octal_text len n"
    by (simp add: octal_text_def int_to_string_def)
  with l assms show "writeTarOctal h offset len (int n) =
      Inr (set_at h offset (encode (octal_text len n)))"
    by (simp add: writeTarOctal_def writeTarText_def Let_def length_octal_text)
qed

lemma trim_octal: "trim (octal_text len n) = octal_text len n"
proof -
  have "\<not> is_space u" if "u \<in> set (octal_text len n)" for u
    using octal_text_digits [of len n] that
    by (auto simp: list_all_iff in_range_def is_space_def word_le_nat_alt word_unat_eq_iff)
  then have "dropWhile is_space (octal_text len n) = octal_text len n"
    "dropWhile is_space (rev (octal_text len n)) = rev (octal_text len n)"
    by (auto simp: dropWhile_eq_self_iff hd_rev)
  then show ?thesis by (simp add: trim_def)
qed

lemma parseTarOctal_read:
  assumes "subarray h offset (offset + len) = encode (octal_text len n) @ replicate k 0"
    and "offset + len \<le> length h" and "n < 8 ^ (len - 1)" and "1 < len" and "n < 8 ^ 17"
  shows "parseTarOctal h offset len = Inr n"
proof -
  have "octal_text len n \<noteq> []" by (simp add: octal_text_def padStart_def)
  moreover have "isSafeInteger (JInt (int n))"
    using assms(5) by (simp add: max_safe_integer_def)
  ultimately show ?thesis
    using assms(1,2) octal_text_plain octal_text_digits
    by (simp add: parseTarOctal_def tarText_read trim_octal octal_text_value Let_def del: isSafeInteger.simps)
qed

section \<open>The header of a file\<close>

text \<open>The 512 bytes before the checksum, as the writes that make them.\<close>

definition header_writes :: "jsstr \<Rightarrow> jsstr \<Rightarrow> nat \<Rightarrow> nat \<Rightarrow> (nat \<times> bytes) list" where
  "header_writes name pre mode n =
     [(0, encode name), (100, encode (octal_text 8 mode)), (108, encode (octal_text 8 0)),
      (116, encode (octal_text 8 0)), (124, encode (octal_text 12 n)),
      (136, encode (octal_text 12 0)), (148, replicate 8 0x20), (156, [0x30]),
      (257, encode (js ''ustar'')), (263, encode (js ''00'')), (265, encode (js ''root'')),
      (297, encode (js ''root'')), (345, encode pre)]"

definition header_base :: "jsstr \<Rightarrow> jsstr \<Rightarrow> nat \<Rightarrow> nat \<Rightarrow> bytes" where
  "header_base name pre mode n = writes (replicate 512 0) (header_writes name pre mode n)"

lemma ascii_plain_text: "ascii s \<Longrightarrow> 0 \<notin> set s \<Longrightarrow> plain_text s"
  by (auto simp: plain_text_def ascii_well_formed ascii_def list_all_iff)

lemma header_ascii: "ascii (js ''ustar'')" "ascii (js ''00'')" "ascii (js ''root'')"
  by (simp_all add: ascii_def js_simps)

lemma header_words [simp]:
  "length (encode (js ''ustar'')) = 5" "length (encode (js ''00'')) = 2"
  "length (encode (js ''root'')) = 4"
  by (simp_all add: length_encode_ascii header_ascii)

lemma ustar_plain [simp]: "plain_text (js ''ustar'')"
  by (rule ascii_plain_text) (simp_all add: header_ascii, simp add: js_simps)

lemma length_octal_fields:
  "mode < 8 ^ 7 \<Longrightarrow> length (encode (octal_text 8 mode)) = 7"
  "n < 8 ^ 11 \<Longrightarrow> length (encode (octal_text 12 n)) = 11"
  using writeTarOctal_ok(2) [of mode 8] writeTarOctal_ok(2) [of n 12] by simp_all

lemma writeTarText_ok:
  "length (encode s) \<le> len \<Longrightarrow> writeTarText h offset len s = Inr (set_at h offset (encode s))"
  by (simp add: writeTarText_def)

lemma header_writes_bounds:
  assumes "length (encode name) \<le> 100" "length (encode pre) \<le> 155" "mode < 8 ^ 7" "n < 8 ^ 11"
  shows "list_all (in_bounds 512) (header_writes name pre mode n)"
  using assms by (simp add: header_writes_def in_bounds_def length_octal_fields)

lemma header_base_length:
  assumes "length (encode name) \<le> 100" "length (encode pre) \<le> 155" "mode < 8 ^ 7" "n < 8 ^ 11"
  shows "length (header_base name pre mode n) = 512"
  using header_writes_bounds [OF assms] by (simp add: header_base_def length_writes)

lemma header_checksum_fits:
  assumes "length h = 512"
  shows "sum_list (map unat (h :: bytes)) < 8 ^ 6"
proof -
  have "sum_list (map unat h) \<le> 255 * length h"
  proof (induction h)
    case (Cons b h)
    then show ?case using unat_byte_bound [of b] by (simp del: unat_byte_bound)
  qed simp
  with assms show ?thesis by simp
qed

definition header_image :: "jsstr \<Rightarrow> jsstr \<Rightarrow> nat \<Rightarrow> nat \<Rightarrow> bytes" where
  "header_image name pre mode n =
     (let h = header_base name pre mode n in
      set_at h 148 (encode (octal_text 7 (sum_list (map unat h)) @ [0, 32])))"

lemma tarHeader_image:
  assumes "splitTarPath path = Inr (name, pre)"
    and "length (encode name) \<le> 100" "length (encode pre) \<le> 155"
    and "file_mode f = int mode" "mode < 8 ^ 7" "length (file_bytes f) < 8 ^ 11"
  shows "tarHeader path f = Inr (header_image name pre mode (length (file_bytes f)))"
proof -
  let ?h = "header_base name pre mode (length (file_bytes f))"
  have "length ?h = 512" using assms by (intro header_base_length) simp_all
  then have c: "sum_list (map unat ?h) < 8 ^ 6" by (rule header_checksum_fits)
  have "padStart 6 48 (int_to_string 8 (int (sum_list (map unat ?h)))) =
      octal_text 7 (sum_list (map unat ?h))"
    by (simp add: octal_text_def int_to_string_def)
  moreover have "length (octal_text 7 (sum_list (map unat ?h))) = 6"
    using c by (simp add: length_octal_text)
  ultimately have ck: "writeTarChecksum ?h (sum_list (map unat ?h)) =
      Inr (header_image name pre mode (length (file_bytes f)))"
    by (simp add: writeTarChecksum_def header_image_def Let_def)
  have z: "writeTarOctal h off 8 0 = Inr (set_at h off (encode (octal_text 8 0)))"
    "writeTarOctal h off 12 0 = Inr (set_at h off (encode (octal_text 12 0)))" for h off
    using writeTarOctal_ok(1) [of 0 8 h off] writeTarOctal_ok(1) [of 0 12 h off] by simp_all
  show ?thesis
    using assms writeTarOctal_ok(1) [of mode 8] writeTarOctal_ok(1) [of "length (file_bytes f)" 12]
    by (simp add: tarHeader_def writeTarText_ok z Let_def ck [unfolded header_base_def header_writes_def writes_def, simplified])
qed

lemma length_checksum_field:
  assumes "c < 8 ^ 6"
  shows "length (encode (octal_text 7 c @ [0, 32])) = 8"
proof -
  have "ascii (octal_text 7 c @ [0, 32])"
    using octal_text_plain(1) [of 7 c] by (simp add: ascii_def)
  then show ?thesis using assms by (simp add: length_encode_ascii length_octal_text)
qed

text \<open>The slots the reader looks at.\<close>

lemma header_image_slots:
  assumes "length (encode name) \<le> 100" "length (encode pre) \<le> 155" "mode < 8 ^ 7" "n < 8 ^ 11"
  defines "h \<equiv> header_image name pre mode n"
  shows "length h = 512"
    and "subarray h 0 (0 + 100) = encode name @ replicate (100 - length (encode name)) 0"
    and "subarray h 100 (100 + 8) = encode (octal_text 8 mode) @ replicate 1 0"
    and "subarray h 124 (124 + 12) = encode (octal_text 12 n) @ replicate 1 0"
    and "subarray h 156 157 = [0x30]"
    and "subarray h 257 (257 + 6) = encode (js ''ustar'') @ replicate 1 0"
    and "subarray h 345 (345 + 155) = encode pre @ replicate (155 - length (encode pre)) 0"
proof -
  let ?b = "header_base name pre mode n"
  have len: "length ?b = 512" using assms by (intro header_base_length)
  define ck where "ck = encode (octal_text 7 (sum_list (map unat ?b)) @ [0, 32])"
  have ckl: "length ck = 8"
    using header_checksum_fits [OF len] by (simp add: ck_def length_checksum_field)
  define ws where "ws = header_writes name pre mode n @ [(148, ck)]"
  have h: "h = writes (replicate 512 0) ws"
    by (simp add: h_def header_image_def ck_def ws_def Let_def header_base_def)
  have bounds: "list_all (in_bounds (length (replicate 512 (0::byte)))) ws"
    using header_writes_bounds [OF assms(1-4)] ckl by (simp add: ws_def in_bounds_def)
  show "length h = 512" using bounds by (simp add: h length_writes)
  note fl = length_octal_fields(1) [OF assms(3)] length_octal_fields(1) [of 0, simplified]
    length_octal_fields(2) [OF assms(4)] length_octal_fields(2) [of 0, simplified]
  have slot: "subarray h a b = bs @ replicate (b - (a + length bs)) 0"
    if "(a, bs) \<in> set ws" "list_all (\<lambda>w. w = (a, bs) \<or> outside a b w) ws" "a + length bs \<le> b"
      "b \<le> 512" for a b bs
    using subarray_writes_at [OF bounds that(1-3)] that(4) by (simp add: h subarray_replicate)
  note wd = ws_def header_writes_def outside_def
  show "subarray h 0 (0 + 100) = encode name @ replicate (100 - length (encode name)) 0"
    using slot [of 0 "encode name" 100] assms(1,2) fl ckl by (simp add: wd)
  show "subarray h 100 (100 + 8) = encode (octal_text 8 mode) @ replicate 1 0"
    using slot [of 100 "encode (octal_text 8 mode)" 108] assms(1,2) fl ckl by (simp add: wd)
  show "subarray h 124 (124 + 12) = encode (octal_text 12 n) @ replicate 1 0"
    using slot [of 124 "encode (octal_text 12 n)" 136] assms(1,2) fl ckl by (simp add: wd)
  show "subarray h 156 157 = [0x30]"
    using slot [of 156 "[0x30]" 157] assms(1,2) fl ckl by (simp add: wd)
  show "subarray h 257 (257 + 6) = encode (js ''ustar'') @ replicate 1 0"
    using slot [of 257 "encode (js ''ustar'')" 263] assms(1,2) fl ckl by (simp add: wd)
  show "subarray h 345 (345 + 155) = encode pre @ replicate (155 - length (encode pre)) 0"
    using slot [of 345 "encode pre" 500] assms(1,2) fl ckl by (simp add: wd)
qed

end
