(* ===== verification/Archive_Roundtrip.thy ===== *)
theory Archive_Roundtrip
  imports Tar_Roundtrip Sample_Platform "HOL-Library.Multiset"
begin

text \<open>
  Correctness of the content archive as a whole: what \<open>packageTar\<close> writes, that
  \<open>unpackTar\<close> reads it back, and that the archive depends on the set of files only.
\<close>

section \<open>Names and prefixes\<close>

lemma plain_text_slash: "plain_text (a @ js ''/'' @ b) \<longleftrightarrow> plain_text a \<and> plain_text b"
  by (auto simp: plain_text_def js_simps well_formed_sep is_high_def is_low_def in_range_def)

lemma join_on_nonempty: "ps \<noteq> [] \<Longrightarrow> \<forall>p \<in> set ps. p \<noteq> [] \<Longrightarrow> join_on s ps \<noteq> []"
  by (cases ps) (auto simp: neq_Nil_conv, case_tac list, auto)

lemma splitTarLoop_parts:
  "splitTarLoop parts index = Inr (name, pre) \<Longrightarrow> 0 < index \<Longrightarrow>
    length (encode name) \<le> 100 \<and> length (encode pre) \<le> 155 \<and>
    (\<exists>i. 0 < i \<and> i < length parts \<and> pre = join_on (js ''/'') (take i parts) \<and>
         name = join_on (js ''/'') (drop i parts))"
proof (induction parts index rule: splitTarLoop.induct)
  case (1 parts index)
  note step = 1(2) [unfolded splitTarLoop.simps [of parts index]]
  show ?case
  proof (cases "length (encode (join_on (js ''/'') (take index parts))) \<le> 155 \<and>
      length (encode (join_on (js ''/'') (drop index parts))) \<le> 100")
    case True
    with step 1(3) show ?thesis by (auto simp: Let_def split: if_splits)
  next
    case False
    with step have "index < length parts" "splitTarLoop parts (Suc index) = Inr (name, pre)"
      by (auto simp: Let_def split: if_splits)
    with 1(1) False show ?thesis by blast
  qed
qed

text \<open>The path is rebuilt from its two fields.\<close>

lemma splitTarPath_sound:
  assumes "splitTarPath path = Inr (name, pre)" and "safe_segments path"
  shows "length (encode name) \<le> 100" and "length (encode pre) \<le> 155"
    and "path = (if pre \<noteq> [] then pre @ js ''/'' @ name else name)"
    and "plain_text path \<Longrightarrow> plain_text name \<and> plain_text pre"
proof -
  have *: "length (encode name) \<le> 100 \<and> length (encode pre) \<le> 155 \<and>
      (pre = [] \<and> path = name \<or> pre \<noteq> [] \<and> path = pre @ js ''/'' @ name)"
  proof (cases "length (encode path) \<le> 100")
    case True
    with assms(1) show ?thesis by (auto simp: splitTarPath_def encode_def)
  next
    case False
    with assms(1) have "splitTarLoop (split_on 47 path) 1 = Inr (name, pre)"
      by (simp add: splitTarPath_def)
    from splitTarLoop_parts [OF this] obtain i where i: "0 < i" "i < length (split_on 47 path)"
      "pre = join_on (js ''/'') (take i (split_on 47 path))"
      "name = join_on (js ''/'') (drop i (split_on 47 path))"
      and l: "length (encode name) \<le> 100" "length (encode pre) \<le> 155" by auto
    have "path = pre @ js ''/'' @ name"
      using join_on_take_drop [OF i(1,2), of "js ''/''"] i(3,4) join_split_on [of 47 path]
      by (simp add: js_simps)
    moreover have "pre \<noteq> []" unfolding i(3)
      using i(1,2) assms(2) by (intro join_on_nonempty) (auto simp: safe_segments_def list_all_iff dest: in_set_takeD)
    ultimately show ?thesis using l by blast
  qed
  then show "length (encode name) \<le> 100" "length (encode pre) \<le> 155"
    "path = (if pre \<noteq> [] then pre @ js ''/'' @ name else name)" by auto
  show "plain_text path \<Longrightarrow> plain_text name \<and> plain_text pre"
    using * by (auto simp: plain_text_slash) (auto simp: plain_text_def)
qed

section \<open>A header is read back\<close>

lemma nth_subarray: "a < b \<Longrightarrow> b \<le> length xs \<Longrightarrow> subarray xs a b = x # r \<Longrightarrow> xs ! a = x"
  unfolding subarray_def
  by (metis (no_types, lifting) Cons_nth_drop_Suc diff_is_0_eq leD less_le_trans list.inject
      take_Suc_Cons not0_implies_Suc)

lemma header_image_read:
  assumes "length (encode name) \<le> 100" "length (encode pre) \<le> 155" "mode < 8 ^ 7" "n < 8 ^ 11"
    and "plain_text name" "plain_text pre"
  shows "readTarHeader (header_image name pre mode n) =
      Inr (if pre \<noteq> [] then pre @ js ''/'' @ name else name, n, mode)"
    and "\<not> all_zero (header_image name pre mode n)"
    and "length (header_image name pre mode n) = 512"
proof -
  let ?h = "header_image name pre mode n"
  note s = header_image_slots [OF assms(1-4)]
  show len: "length ?h = 512" by (rule s(1))
  have 156: "?h ! 156 = 0x30" using nth_subarray [of 156 157 ?h] len s(5) by simp
  then show "\<not> all_zero ?h"
    using len by (force simp: all_zero_def list_all_length dest!: spec [of _ 156])
  have "tarText ?h 257 6 = Inr (js ''ustar'')" "tarText ?h 0 100 = Inr name"
    "tarText ?h 345 155 = Inr pre"
    using len by (auto intro!: tarText_read s(2,6,7) assms(5,6))
  moreover have "parseTarOctal ?h 124 12 = Inr n" "parseTarOctal ?h 100 8 = Inr mode"
    using len assms(3,4) by (auto intro!: parseTarOctal_read s(3,4))
  ultimately show "readTarHeader ?h =
      Inr (if pre \<noteq> [] then pre @ js ''/'' @ name else name, n, mode)"
    using 156 by (simp add: readTarHeader_def)
qed

text \<open>The files the builder writes: safe paths that survive a field, and the two modes.\<close>

definition valid_entry :: "jsstr \<times> out_file \<Rightarrow> bool" where
  "valid_entry e = (safe_path 255 (fst e) \<and> plain_text (fst e) \<and> file_mode (snd e) \<in> {420, 493})"

lemma tarHeader_read:
  assumes "tarHeader path f = Inr h" and "valid_entry (path, f)"
    and "length (file_bytes f) < 8 ^ 11"
  shows "readTarHeader h = Inr (path, length (file_bytes f), nat (file_mode f))"
    and "\<not> all_zero h" and "length h = 512"
proof -
  obtain name pre where np: "splitTarPath path = Inr (name, pre)"
    using assms(1) by (auto simp: tarHeader_def result_simps)
  have seg: "safe_segments path" and pl: "plain_text path"
    using assms(2) by (auto simp: valid_entry_def safe_path_def)
  note sp = splitTarPath_sound [OF np seg]
  have m: "file_mode f = int (nat (file_mode f))" "nat (file_mode f) < 8 ^ 7"
    using assms(2) by (auto simp: valid_entry_def)
  have h: "h = header_image name pre (nat (file_mode f)) (length (file_bytes f))"
    using tarHeader_image [OF np sp(1,2) m assms(3)] assms(1) by simp
  show "readTarHeader h = Inr (path, length (file_bytes f), nat (file_mode f))"
    "\<not> all_zero h" "length h = 512"
    using header_image_read [OF sp(1,2) m(2) assms(3)] sp(3) sp(4) [OF pl] h by simp_all
qed

section \<open>The stream\<close>

definition entry_image :: "jsstr \<times> out_file \<Rightarrow> bytes" where
  "entry_image e = (case tarHeader (fst e) (snd e) of Inl _ \<Rightarrow> []
     | Inr h \<Rightarrow> h @ file_bytes (snd e) @ replicate (padding (length (file_bytes (snd e)))) 0)"

definition entry_size :: "jsstr \<times> out_file \<Rightarrow> nat" where
  "entry_size e = 512 + length (file_bytes (snd e)) + padding (length (file_bytes (snd e)))"

definition stream_size :: "files \<Rightarrow> nat" where
  "stream_size es = sum_list (map entry_size es)"

definition headed :: "jsstr \<times> out_file \<Rightarrow> bool" where
  "headed e = (\<exists>h. tarHeader (fst e) (snd e) = Inr h)"

lemma stream_size_simps [simp]: "stream_size [] = 0"
  "stream_size (e # es) = entry_size e + stream_size es"
  by (simp_all add: stream_size_def)

text \<open>Every header that is made has 512 bytes.\<close>

definition yields_length :: "nat \<Rightarrow> bytes result \<Rightarrow> bool" where
  "yields_length n m = (\<forall>h. m = Inr h \<longrightarrow> length h = n)"

lemma yields_length_bind:
  "yields_length n m \<Longrightarrow> (\<And>h. length h = n \<Longrightarrow> yields_length k (f h)) \<Longrightarrow> yields_length k (bindR m f)"
  by (auto simp: yields_length_def result_simps)

lemma yields_length_split:
  "(\<And>name pre. yields_length k (f (name, pre))) \<Longrightarrow> yields_length k (bindR m f)"
  by (auto simp: yields_length_def result_simps)

lemma yields_length_text: "off + len \<le> length h \<Longrightarrow> yields_length (length h) (writeTarText h off len s)"
  by (auto simp: yields_length_def writeTarText_def Let_def)

lemma yields_length_octal:
  "off + len \<le> length h \<Longrightarrow> yields_length (length h) (writeTarOctal h off len v)"
  using yields_length_text by (auto simp: yields_length_def writeTarOctal_def Let_def)

lemma yields_length_checksum:
  assumes "156 \<le> length h"
  shows "yields_length (length h) (writeTarChecksum h v)"
  unfolding yields_length_def
proof (intro allI impI)
  fix h' assume *: "writeTarChecksum h v = Inr h'"
  have "padStart 6 48 (int_to_string 8 (int v)) = octal_text 7 v"
    by (simp add: octal_text_def int_to_string_def)
  with * have "length (octal_text 7 v) = 6" and
    h': "h' = set_at h 148 (encode (octal_text 7 v @ [0, 32]))"
    by (auto simp: writeTarChecksum_def Let_def split: if_splits)
  moreover have "ascii (octal_text 7 v @ [0, 32])"
    using octal_text_plain(1) [of 7 v] by (simp add: ascii_def)
  ultimately have "length (encode (octal_text 7 v @ [0, 32])) = 8"
    by (simp add: length_encode_ascii)
  with assms h' show "length h' = length h" by simp
qed

lemma yields_length_512:
  "length h = 512 \<Longrightarrow> off + len \<le> 512 \<Longrightarrow> yields_length 512 (writeTarText h off len s)"
  "length h = 512 \<Longrightarrow> off + len \<le> 512 \<Longrightarrow> yields_length 512 (writeTarOctal h off len v)"
  "length h = 512 \<Longrightarrow> yields_length 512 (writeTarChecksum h c)"
  using yields_length_text [of off len h s] yields_length_octal [of off len h v]
    yields_length_checksum [of h c] by simp_all

lemma tarHeader_length: "tarHeader path f = Inr h \<Longrightarrow> length h = 512"
proof -
  have "yields_length 512 (tarHeader path f)"
    unfolding tarHeader_def Let_def
    by (rule yields_length_split, simp only: prod.case)
      ((rule yields_length_bind, (rule yields_length_512; simp))+, rule yields_length_512(3))
  then show "tarHeader path f = Inr h \<Longrightarrow> length h = 512" by (simp add: yields_length_def)
qed

text \<open>The loop succeeds exactly when every header does and the total stays in the limit.\<close>

lemma packageTarLoop_iff:
  "packageTarLoop es chunks tot = Inr (cs, t) \<longleftrightarrow>
    list_all headed es \<and> t = tot + stream_size es \<and>
    (es = [] \<or> t \<le> maxPackageTarBytes PRODUCTION_OUTPUT_LIMITS) \<and>
    cs = chunks @ concat (map (\<lambda>e. case tarHeader (fst e) (snd e) of Inl _ \<Rightarrow> []
      | Inr h \<Rightarrow> [h, file_bytes (snd e), replicate (padding (length (file_bytes (snd e)))) 0]) es)"
proof (induction es arbitrary: chunks tot)
  case (Cons e es)
  obtain path f where e: "e = (path, f)" by (cases e)
  show ?case
  proof (cases "tarHeader path f")
    case (Inl err)
    then show ?thesis by (simp add: e headed_def)
  next
    case (Inr h)
    have "entry_size e = 512 + length (file_bytes f) + padding (length (file_bytes f))"
      by (simp add: e entry_size_def)
    with Inr Cons show ?thesis
      by (cases es) (auto simp: e headed_def Let_def)
  qed
qed auto

lemma concat_concat_map: "concat (concat (map g es)) = concat (map (\<lambda>e. concat (g e)) es)"
  by (induction es) auto

lemma length_stream:
  assumes "list_all headed es"
  shows "length (concat (map entry_image es)) = stream_size es"
proof -
  have "length (entry_image e) = entry_size e" if "headed e" for e
    using that by (auto simp: entry_image_def entry_size_def headed_def dest: tarHeader_length)
  with assms show ?thesis by (induction es) simp_all
qed

lemma packageTar_iff:
  "packageTar files = Inr tar \<longleftrightarrow>
    list_all headed (sorted_entries files) \<and>
    stream_size (sorted_entries files) + 1024 \<le> maxPackageTarBytes PRODUCTION_OUTPUT_LIMITS \<and>
    tar = concat (map entry_image (sorted_entries files)) @ replicate 1024 0"
proof -
  let ?es = "sorted_entries files"
  let ?g = "\<lambda>e. case tarHeader (fst e) (snd e) of Inl _ \<Rightarrow> []
      | Inr h \<Rightarrow> [h, file_bytes (snd e), replicate (padding (length (file_bytes (snd e)))) 0]"
  have img: "concat (?g e) = entry_image e" for e
    by (simp add: entry_image_def split: sum.splits)
  have tot: "length (concat (concat (map ?g ?es) @ [replicate 1024 0])) = stream_size ?es + 1024"
    if "list_all headed ?es"
    using length_stream [OF that] by (simp add: concat_concat_map img)
  show ?thesis
  proof (cases "packageTarLoop ?es [] 0")
    case (Inl e)
    then show ?thesis
      using packageTarLoop_iff [of ?es "[]" 0 "concat (map ?g ?es)" "stream_size ?es"]
      by (auto simp: packageTar_def)
  next
    case (Inr r)
    then obtain cs t where r: "packageTarLoop ?es [] 0 = Inr (cs, t)" by (cases r) auto
    then have *: "list_all headed ?es" "t = stream_size ?es" "cs = concat (map ?g ?es)"
      by (simp_all add: packageTarLoop_iff)
    have "concatenate (cs @ [replicate 1024 0]) (t + 1024) =
        concat (map entry_image ?es) @ replicate 1024 0"
      unfolding * by (subst concatenate_concat [OF tot [OF *(1), symmetric]])
        (simp add: concat_concat_map img)
    with r * show ?thesis by (auto simp: packageTar_def)
  qed
qed

section \<open>Reading the stream\<close>

definition unpacked_of :: "platform \<Rightarrow> out_file \<Rightarrow> unpacked" where
  "unpacked_of P f = \<lparr>u_bytes = file_bytes f, u_sha256 = sha256 P (file_bytes f),
     u_sizeBytes = length (file_bytes f), u_mode = nat (file_mode f)\<rparr>"

lemma unpackTarLoop_end:
  assumes "subarray tar off (off + 512) = replicate 512 0"
    and "subarray tar (off + 512) (off + 1024) = replicate 512 0" and "length tar = off + 1024"
  shows "unpackTarLoop P tar off files = Inr files"
proof -
  have "all_zero (replicate 512 0)" by (auto simp: all_zero_def list_all_iff)
  with assms show ?thesis by (subst unpackTarLoop.simps) (simp add: Let_def)
qed

lemma unpackTarLoop_step:
  assumes "subarray tar off (off + 512) = h" and "\<not> all_zero h"
    and "readTarHeader h = Inr (path, n, mode)"
    and "subarray tar (off + 512) (off + 512 + n) = bs" and "off + 512 + n \<le> length tar"
    and "safeOutputPath (Str path)" "validOutputMode (JInt (int mode))" "\<not> has files path"
  shows "unpackTarLoop P tar off files = unpackTarLoop P tar (off + 512 + n + padding n)
    (files @ [(path, \<lparr>u_bytes = bs, u_sha256 = sha256 P bs, u_sizeBytes = n, u_mode = mode\<rparr>)])"
  using assms update_fresh [OF assms(8)]
  by (subst unpackTarLoop.simps) (simp add: Let_def)

lemma unpackTarLoop_stream:
  assumes "list_all headed es" and "list_all valid_entry es"
    and "\<forall>e \<in> set es. length (file_bytes (snd e)) < 8 ^ 11"
    and "distinct (map fst files @ map fst es)"
  shows "unpackTarLoop P (pre @ concat (map entry_image es) @ replicate 1024 0) (length pre) files =
    Inr (files @ map (apsnd (unpacked_of P)) es)"
  using assms
proof (induction es arbitrary: pre files)
  case Nil
  have "unpackTarLoop P (pre @ replicate 1024 0) (length pre) files = Inr files"
    by (rule unpackTarLoop_end) (simp_all add: subarray_def)
  then show ?case by simp
next
  case (Cons e es)
  obtain path f where e: "e = (path, f)" by (cases e)
  obtain h where h: "tarHeader path f = Inr h" using Cons.prems(1) by (auto simp: e headed_def)
  let ?n = "length (file_bytes f)"
  let ?rest = "concat (map entry_image es) @ replicate 1024 0"
  let ?tar = "pre @ concat (map entry_image (e # es)) @ replicate 1024 0"
  have v: "valid_entry (path, f)" "?n < 8 ^ 11" using Cons.prems(2,3) by (auto simp: e)
  note rd = tarHeader_read [OF h v]
  have tar: "?tar = (pre @ h @ file_bytes f @ replicate (padding ?n) 0) @ ?rest"
    by (simp add: entry_image_def e h)
  have hd: "subarray ?tar (length pre) (length pre + 512) = h"
    unfolding tar using rd(3) by (simp add: subarray_def)
  have dt: "subarray ?tar (length pre + 512) (length pre + 512 + ?n) = file_bytes f"
    unfolding tar using rd(3) by (simp add: subarray_def)
  have len: "length ?tar = length pre + 512 + ?n + padding ?n + length ?rest"
    unfolding tar using rd(3) by simp
  have ok: "safeOutputPath (Str path)" "validOutputMode (JInt (int (nat (file_mode f))))"
    "\<not> has files path"
    using v(1) Cons.prems(4) by (auto simp: valid_entry_def safeOutputPath_def validOutputMode_def e)
  have "unpackTarLoop P ?tar (length pre) files = unpackTarLoop P ?tar
      (length pre + 512 + ?n + padding ?n) (files @ [(path, unpacked_of P f)])"
    unfolding unpacked_of_def
    by (rule unpackTarLoop_step [OF hd rd(2,1) dt _ ok]) (simp only: len)
  also have "\<dots> = unpackTarLoop P ((pre @ h @ file_bytes f @ replicate (padding ?n) 0) @ ?rest)
      (length (pre @ h @ file_bytes f @ replicate (padding ?n) 0)) (files @ [(path, unpacked_of P f)])"
    unfolding tar using rd(3) by (simp add: add.assoc)
  also have "\<dots> = Inr ((files @ [(path, unpacked_of P f)]) @ map (apsnd (unpacked_of P)) es)"
    using Cons.prems by (intro Cons.IH) (auto simp: e)
  finally show ?case by (simp add: e)
qed

lemma stream_entry_bound: "e \<in> set es \<Longrightarrow> length (file_bytes (snd e)) \<le> stream_size es"
  by (induction es) (auto simp: entry_size_def)

lemma tar_roundtrip:
  assumes "packageTar files = Inr tar" and "list_all valid_entry files"
    and "distinct (map fst files)"
  shows "unpackTar P tar = Inr (map (apsnd (unpacked_of P)) (sorted_entries files))"
proof -
  let ?es = "sorted_entries files"
  from assms(1) have *: "list_all headed ?es"
    "stream_size ?es + 1024 \<le> maxPackageTarBytes PRODUCTION_OUTPUT_LIMITS"
    "tar = concat (map entry_image ?es) @ replicate 1024 0" by (simp_all add: packageTar_iff)
  have "length (file_bytes (snd e)) < 8 ^ 11" if "e \<in> set ?es" for e
    using stream_entry_bound [OF that] *(2) by (simp add: limit_defs)
  moreover have "list_all valid_entry ?es" "distinct (map fst ?es)"
    using assms(2,3) by (auto simp: sorted_entries_def list_all_iff distinct_map)
  ultimately show ?thesis
    using unpackTarLoop_stream [of ?es "[]" P "[]"] *(1,3) by (simp add: unpackTar_def)
qed

lemma archive_roundtrip:
  assumes "packageTar files = Inr tar" and "list_all valid_entry files"
    and "distinct (map fst files)"
  shows "\<exists>archive. packageDeterministicTarZst files = Inr archive \<and>
    unpackDeterministicTarZst P archive = Inr (map (apsnd (unpacked_of P)) (sorted_entries files))"
proof (intro exI conjI)
  let ?es = "sorted_entries files"
  from assms(1) have *: "list_all headed ?es"
    "stream_size ?es + 1024 \<le> maxPackageTarBytes PRODUCTION_OUTPUT_LIMITS"
    "tar = concat (map entry_image ?es) @ replicate 1024 0" by (simp_all add: packageTar_iff)
  have b: "length tar \<le> maxPackageTarBytes PRODUCTION_OUTPUT_LIMITS"
    using *(2) length_stream [OF *(1)] by (simp add: *(3))
  show "packageDeterministicTarZst files = Inr (zstd_frame tar)"
    using assms(1) rawZstd_frame [OF b] by (simp add: packageDeterministicTarZst_def)
  show "unpackDeterministicTarZst P (zstd_frame tar) =
      Inr (map (apsnd (unpacked_of P)) ?es)"
    using unpackZstd_frame [OF _ b] *(3) tar_roundtrip [OF assms]
    by (simp add: unpackDeterministicTarZst_def)
qed

section \<open>When packaging succeeds, and what it depends on\<close>

lemma packageDeterministicTarZst_eq:
  "packageDeterministicTarZst files = Inr archive \<longleftrightarrow>
    (\<exists>tar. packageTar files = Inr tar \<and> archive = zstd_frame tar)"
proof -
  have "length tar \<le> maxPackageTarBytes PRODUCTION_OUTPUT_LIMITS" if "packageTar files = Inr tar" for tar
    using that length_stream [of "sorted_entries files"] by (auto simp: packageTar_iff)
  then show ?thesis
    by (auto simp: packageDeterministicTarZst_def result_simps rawZstd_frame)
qed

lemma headed_iff:
  assumes "valid_entry e" and "length (file_bytes (snd e)) < 8 ^ 11"
  shows "headed e \<longleftrightarrow> (\<exists>np. splitTarPath (fst e) = Inr np)"
proof
  assume "\<exists>np. splitTarPath (fst e) = Inr np"
  then obtain name pre where np: "splitTarPath (fst e) = Inr (name, pre)" by auto
  have "safe_segments (fst e)" "file_mode (snd e) = int (nat (file_mode (snd e)))"
    "nat (file_mode (snd e)) < 8 ^ 7" using assms(1) by (auto simp: valid_entry_def safe_path_def)
  with splitTarPath_sound(1,2) [OF np] tarHeader_image [OF np] assms(2) show "headed e"
    unfolding headed_def by blast
qed (auto simp: headed_def tarHeader_def result_simps)

lemma stream_size_sorted: "stream_size (sorted_entries files) = stream_size files"
proof -
  have "mset (map entry_size (sort_key fst files)) = mset (map entry_size files)" by simp
  then show ?thesis
    unfolding stream_size_def sorted_entries_def by (metis sum_mset_sum_list)
qed

lemma packaging_succeeds:
  assumes "list_all valid_entry files"
  shows "(\<exists>archive. packageDeterministicTarZst files = Inr archive) \<longleftrightarrow>
    (\<forall>e \<in> set files. \<exists>np. splitTarPath (fst e) = Inr np) \<and>
    stream_size files + 1024 \<le> maxPackageTarBytes PRODUCTION_OUTPUT_LIMITS"
proof -
  have "headed e \<longleftrightarrow> (\<exists>np. splitTarPath (fst e) = Inr np)"
    if "e \<in> set files" "stream_size files + 1024 \<le> maxPackageTarBytes PRODUCTION_OUTPUT_LIMITS" for e
    using that assms stream_entry_bound [OF that(1)]
    by (intro headed_iff) (auto simp: list_all_iff limit_defs)
  moreover have "set (sorted_entries files) = set files" by (simp add: sorted_entries_def)
  ultimately show ?thesis
    unfolding packageDeterministicTarZst_eq packageTar_iff stream_size_sorted list_all_iff by auto
qed

lemma sorted_entries_unique:
  assumes "mset files = mset files'" and "distinct (map fst files)"
  shows "sorted_entries files = sorted_entries files'"
proof -
  have "distinct (map fst files')"
    using assms by (metis distinct_map mset_map mset_eq_imp_distinct_iff)
  then show ?thesis
    unfolding sorted_entries_def using assms
    by (intro map_sorted_distinct_set_unique [where f = fst])
      (auto simp: distinct_map dest: mset_eq_setD)
qed

lemma packaging_order_irrelevant:
  assumes "mset files = mset files'" and "distinct (map fst files)"
  shows "packageDeterministicTarZst files = packageDeterministicTarZst files'"
  using sorted_entries_unique [OF assms]
  by (simp add: packageDeterministicTarZst_def packageTar_def)

section \<open>What an accepted archive holds\<close>

definition unpacked_ok :: "platform \<Rightarrow> unpacked_files \<Rightarrow> bool" where
  "unpacked_ok P files = (distinct (map fst files) \<and>
     list_all (\<lambda>(path, u). safe_path 255 path \<and> u_mode u \<in> {420, 493} \<and>
       u_sizeBytes u = length (u_bytes u) \<and> u_sha256 u = sha256 P (u_bytes u)) files)"

lemma unpackTarLoop_ok:
  "unpackTarLoop P tar offset files = Inr out \<Longrightarrow> unpacked_ok P files \<Longrightarrow> unpacked_ok P out"
proof (induction P tar offset files rule: unpackTarLoop.induct)
  case (1 P tar offset files)
  note run = "1.prems"(1) [unfolded unpackTarLoop.simps [of P tar offset files]]
  show ?case
  proof (cases "all_zero (subarray tar offset (offset + 512))")
    case True
    with run "1.prems"(2) show ?thesis by (auto simp: Let_def split: if_splits)
  next
    case False
    with run obtain path n mode where
      rd: "readTarHeader (subarray tar offset (offset + 512)) = Inr (path, n, mode)"
      by (auto simp: Let_def split: if_splits sum.splits)
    let ?bs = "subarray tar (offset + 512) (offset + 512 + n)"
    let ?u = "\<lparr>u_bytes = ?bs, u_sha256 = sha256 P ?bs, u_sizeBytes = n, u_mode = mode\<rparr>"
    from run rd False have g: "offset + 512 \<le> length tar" "safeOutputPath (Str path)"
      "\<not> has files path" "offset + 512 + n \<le> length tar" "validOutputMode (JInt (int mode))"
      and nxt: "unpackTarLoop P tar (offset + 512 + n + padding n) (AList.update path ?u files) = Inr out"
      by (simp_all add: Let_def split: if_splits)
    have "mode \<in> {420, 493}" using g(5) by (auto simp: validOutputMode_def)
    then have "unpacked_ok P (AList.update path ?u files)"
      using g "1.prems"(2)
      by (auto simp: update_fresh unpacked_ok_def safeOutputPath_def)
    with "1.IH" [OF g(1) refl False rd refl refl refl] g nxt show ?thesis by simp
  qed
qed

lemma unpack_ok:
  "unpackDeterministicTarZst P archive = Inr files \<Longrightarrow> unpacked_ok P files"
  using unpackTarLoop_ok [of P _ 0 "[]" files]
  by (auto simp: unpackDeterministicTarZst_def unpackTar_def result_simps unpacked_ok_def)

section \<open>Properties of the content archive\<close>

definition sample_files :: files where
  "sample_files = [(js ''server.jar'', \<lparr>file_bytes = [1, 2, 3], file_mode = 420\<rparr>),
     (js ''config/a.txt'', \<lparr>file_bytes = [104, 105], file_mode = 420\<rparr>)]"

lemma sample_text: "plain_text (js ''server.jar'')" "plain_text (js ''config/a.txt'')"
  by (rule ascii_plain_text; simp add: ascii_def js_simps)+

lemma sample_files_valid: "list_all valid_entry sample_files" "distinct (map fst sample_files)"
  using sample_text
  by (simp_all add: sample_files_def valid_entry_def)
    (simp_all add: js_simps safe_path_def safe_segments_def drive_prefix_def char_class_defs)

lemma sample_files_split: "\<forall>e \<in> set sample_files. \<exists>np. splitTarPath (fst e) = Inr np"
proof -
  have "ascii (js ''server.jar'')" "ascii (js ''config/a.txt'')"
    by (simp_all add: ascii_def js_simps)
  then show ?thesis by (simp add: sample_files_def splitTarPath_def length_encode_ascii)
qed

lemma sample_files_size:
  "stream_size sample_files + 1024 \<le> maxPackageTarBytes PRODUCTION_OUTPUT_LIMITS"
  by (simp add: sample_files_def entry_size_def padding_def limit_defs)



text \<open>
  C2. Packaging fails only for the reasons the limits name: it succeeds exactly when every path
  can be split into the name and prefix fields of a header and the padded stream stays within
  \<open>maxPackageTarBytes\<close>. The frame around the stream never exceeds its own limit.
\<close>

theorem content_archive_succeeds_iff:
  assumes "list_all valid_entry files"
  shows "(\<exists>archive. packageDeterministicTarZst files = Inr archive) \<longleftrightarrow>
    (\<forall>(path, f) \<in> set files. \<exists>np. splitTarPath path = Inr np) \<and>
    (\<Sum>(path, f) \<leftarrow> files. 512 + length (file_bytes f) + padding (length (file_bytes f))) + 1024
      \<le> maxPackageTarBytes PRODUCTION_OUTPUT_LIMITS"
proof -
  have "entry_size = (\<lambda>(path, f). 512 + length (file_bytes f) + padding (length (file_bytes f)))"
    by (auto simp: entry_size_def)
  with packaging_succeeds [OF assms] show ?thesis by (auto simp: stream_size_def)
qed

theorem content_archive_succeeds_iff_witness:
  "\<exists>archive. packageDeterministicTarZst sample_files = Inr archive"
proof -
  have "(\<Sum>(path, f) \<leftarrow> sample_files. 512 + length (file_bytes f) +
      padding (length (file_bytes f))) + 1024 \<le> maxPackageTarBytes PRODUCTION_OUTPUT_LIMITS"
    by (simp add: sample_files_def padding_def limit_defs)
  then show ?thesis
    using content_archive_succeeds_iff [OF sample_files_valid(1)] sample_files_split by auto
qed

text \<open>
  C8. The archive is deterministic: the insertion order of the files does not change a byte.
\<close>

theorem content_archive_deterministic:
  assumes "mset files = mset files'" and "distinct (map fst files)"
  shows "packageDeterministicTarZst files = packageDeterministicTarZst files'"
  by (rule packaging_order_irrelevant [OF assms])

theorem content_archive_deterministic_witness:
  "packageDeterministicTarZst sample_files = packageDeterministicTarZst (rev sample_files)"
  by (rule content_archive_deterministic [OF _ sample_files_valid(2)]) simp

text \<open>
  C4. An archive that \<open>unpackDeterministicTarZst\<close> accepts, whoever made it, holds pairwise
  distinct safe relative paths, regular modes, and for each file the true size and digest.
\<close>

theorem unpacked_archive_sound:
  assumes "unpackDeterministicTarZst P archive = Inr files"
  shows "distinct (map fst files) \<and>
    list_all (\<lambda>(path, u). safe_path 255 path \<and> u_mode u \<in> {420, 493} \<and>
      u_sizeBytes u = length (u_bytes u) \<and> u_sha256 u = sha256 P (u_bytes u)) files"
  using unpack_ok [OF assms] by (simp add: unpacked_ok_def)

theorem unpacked_archive_sound_witness:
  "\<exists>archive files. unpackDeterministicTarZst sample_platform archive = Inr files \<and>
    length files = 2 \<and> distinct (map fst files)"
proof -
  obtain archive where "packageDeterministicTarZst sample_files = Inr archive"
    using packaging_succeeds [OF sample_files_valid(1)] sample_files_split sample_files_size by blast
  then obtain tar where "packageTar sample_files = Inr tar" by (auto simp: packageDeterministicTarZst_eq)
  from archive_roundtrip [OF this sample_files_valid, of sample_platform]
  obtain a where "unpackDeterministicTarZst sample_platform a =
      Inr (map (apsnd (unpacked_of sample_platform)) (sorted_entries sample_files))" by blast
  moreover have "length (sorted_entries sample_files) = 2"
    by (simp add: sorted_entries_def sample_files_def)
  ultimately show ?thesis using unpacked_archive_sound by fastforce
qed

text \<open>
  The frame of raw blocks is faithful for every non-empty stream within the limit,
  whatever its length is relative to the block size.
\<close>

theorem zstd_frame_roundtrip:
  assumes "input \<noteq> []" and "length input \<le> maxPackageTarBytes PRODUCTION_OUTPUT_LIMITS"
  shows "\<exists>archive. rawZstd input = Inr archive \<and> unpackZstd archive = Inr input \<and>
    length archive \<le> maxPackageArchiveBytes PRODUCTION_OUTPUT_LIMITS"
  using rawZstd_frame [OF assms(2)] unpackZstd_frame [OF assms] zstd_frame_bound [OF assms(2)]
  by blast

theorem zstd_frame_roundtrip_witness:
  "\<exists>archive. rawZstd (replicate 131073 7) = Inr archive \<and>
    unpackZstd archive = Inr (replicate 131073 7)"
  using zstd_frame_roundtrip [of "replicate 131073 7"] by (auto simp: limit_defs)

end
