(* ===== verification/World_Seed.thy ===== *)
theory World_Seed
  imports Exact_Transfer Sample_Platform
begin

text \<open>
  \<open>src/compiler/src/world-seed.mjs\<close>: the worker that verifies a grant for a world seed,
  downloads exactly that object and hands it to an unpacker. The control plane, the fetch
  function and the unpacker are arguments. Shown: the unpacker only ever sees the bytes the job
  names, under the job's own key, and the default unpacker refuses everything.
\<close>

section \<open>Definitions\<close>

definition invalid_seed_grants :: js_error where
  "invalid_seed_grants = WorldSeedFailure ''invalid_world_seed_grants''"

text \<open>\<open>Object.keys(value).length\<close>\<close>

fun key_count :: "jsval \<Rightarrow> nat" where
  "key_count (Obj ps) = length ps"
| "key_count (Arr vs) = length vs"
| "key_count (Str s) = length s"
| "key_count _ = 0"

definition seed_https_url :: "jsval \<Rightarrow> bool" where
  "seed_https_url value = (is_str value \<and> prefix (js ''https://'') (the_str value))"

definition seed_key :: "jsstr \<Rightarrow> jsstr \<Rightarrow> jsstr \<Rightarrow> jsstr" where
  "seed_key accountId serviceId seedId = js ''shared-hosting/'' @ accountId @ js ''/'' @ serviceId @
     js ''/world-seeds/'' @ seedId @ js ''.xmcl-world-seed''"

definition validateJob :: "platform \<Rightarrow> jsval \<Rightarrow> unit result" where
  "validateJob P job =
     bindR (js_String P (get job ''accountId'')) (\<lambda>account.
     bindR (js_String P (get job ''serviceId'')) (\<lambda>service.
       let archive = get job ''archive'' in
       require (truthy job \<and> validId (get job ''accountId'') \<and> validId (get job ''serviceId'') \<and>
         validId (get job ''seedId'') \<and> is_str (get job ''worldName'') \<and> the_str (get job ''worldName'') \<noteq> [] \<and>
         truthy archive \<and> validSha256 (get archive ''sha256'') \<and> isSafeInteger (get archive ''sizeBytes'') \<and>
         1 \<le> the_int (get archive ''sizeBytes'') \<and> the_int (get archive ''sizeBytes'') \<le> 512 * 1024 * 1024 \<and>
         get archive ''key'' = Str (seed_key account service (the_str (get job ''seedId''))))
       (WorldSeedFailure ''invalid_world_seed_job'')))"

definition verifyWorldSeedGrantSet :: "jsval \<Rightarrow> jsval \<Rightarrow> jsval result" where
  "verifyWorldSeedGrantSet grants job =
     bindR (require (truthy grants \<and> strict_eq (get grants ''accountId'') (get job ''accountId'') \<and>
       strict_eq (get grants ''serviceId'') (get job ''serviceId'') \<and>
       strict_eq (get grants ''seedId'') (get job ''seedId'') \<and> is_arr (get grants ''grants'') \<and>
       length (the_arr (get grants ''grants'')) = 1) invalid_seed_grants) (\<lambda>_.
       let input = hd (the_arr (get grants ''grants'')) in
       bindR (require (truthy input \<and> get input ''method'' = Str (js ''GET'') \<and>
         strict_eq (get input ''key'') (get (get job ''archive'') ''key'') \<and> seed_https_url (get input ''url'') \<and>
         is_str (get input ''expiresAt'') \<and>
         (nullish (get input ''headers'') \<or> key_count (get input ''headers'') = 0)) invalid_seed_grants) (\<lambda>_.
         Inr input))"

definition downloadExactWorldSeed ::
    "platform \<Rightarrow> (jsval \<Rightarrow> jsval \<Rightarrow> response result) \<Rightarrow> jsval \<Rightarrow> jsval \<Rightarrow> bytes result" where
  "downloadExactWorldSeed P fetchImpl grant expected =
     bindR (fetchImpl (get grant ''url'') (get grant ''headers'')) (\<lambda>r.
     bindR (require (rs_ok r) (WorldSeedFailure ''world_seed_download_failed'')) (\<lambda>_.
       let len = content_length P r in
       bindR (require (isSafeInteger len \<and> 1 \<le> the_int len \<and> strict_eq len (get expected ''sizeBytes''))
         (WorldSeedFailure ''world_seed_size_mismatch'')) (\<lambda>_.
       bindR (of_option network_error (body_bytes (rs_body r))) (\<lambda>bytes.
       bindR (require (JInt (int (length bytes)) = get expected ''sizeBytes'' \<and>
         Str (sha256 P bytes) = get expected ''sha256'') (WorldSeedFailure ''world_seed_hash_mismatch'')) (\<lambda>_.
         Inr bytes)))))"

record seed_input =
  seed_archive :: bytes
  seed_accountId :: jsval
  seed_serviceId :: jsval
  seed_seedId :: jsval
  seed_worldName :: jsval

definition FailClosedWorldSeedHandler :: "seed_input \<Rightarrow> 'a result" where
  "FailClosedWorldSeedHandler input = Inl (WorldSeedFailure ''world_seed_handler_unavailable'')"

definition WorldSeedWorker_run ::
    "platform \<Rightarrow> (jsval \<Rightarrow> jsval result) \<Rightarrow> (jsval \<Rightarrow> jsval \<Rightarrow> response result) \<Rightarrow>
      (seed_input \<Rightarrow> 'a result) \<Rightarrow> jsval \<Rightarrow> 'a result" where
  "WorldSeedWorker_run P getWorldSeedGrants fetchImpl unpack job =
     bindR (validateJob P job) (\<lambda>_.
     bindR (getWorldSeedGrants (get job ''seedId'')) (\<lambda>grants.
     bindR (verifyWorldSeedGrantSet grants job) (\<lambda>input.
     bindR (downloadExactWorldSeed P fetchImpl input (get job ''archive'')) (\<lambda>archive.
       unpack \<lparr>seed_archive = archive, seed_accountId = get job ''accountId'',
         seed_serviceId = get job ''serviceId'', seed_seedId = get job ''seedId'',
         seed_worldName = get job ''worldName''\<rparr>))))"

section \<open>Properties\<close>

text \<open>
  C30. A world seed run that succeeds handed its unpacker bytes of the size and digest the job
  names, at most 512 MiB, fetched through a GET grant for the job's key, which lies under the
  job's own account and service.
\<close>

theorem world_seed_exact:
  assumes "WorldSeedWorker_run P getWorldSeedGrants fetchImpl unpack job = Inr x"
  shows "\<exists>bytes input account service seed. unpack \<lparr>seed_archive = bytes, seed_accountId = Str account,
      seed_serviceId = Str service, seed_seedId = Str seed, seed_worldName = get job ''worldName''\<rparr> = Inr x \<and>
    get (get job ''archive'') ''sha256'' = Str (sha256 P bytes) \<and>
    get (get job ''archive'') ''sizeBytes'' = JInt (int (length bytes)) \<and> length bytes \<le> 512 * 1024 * 1024 \<and>
    get input ''method'' = Str (js ''GET'') \<and> get input ''key'' = Str (seed_key account service seed) \<and>
    (\<exists>r. fetchImpl (get input ''url'') (get input ''headers'') = Inr r \<and> rs_ok r \<and> body_bytes (rs_body r) = Some bytes)"
proof -
  from assms obtain grants input bytes where
    j: "validateJob P job = Inr ()" and g: "verifyWorldSeedGrantSet grants job = Inr input"
    and d: "downloadExactWorldSeed P fetchImpl input (get job ''archive'') = Inr bytes"
    and u: "unpack \<lparr>seed_archive = bytes, seed_accountId = get job ''accountId'',
         seed_serviceId = get job ''serviceId'', seed_seedId = get job ''seedId'',
         seed_worldName = get job ''worldName''\<rparr> = Inr x"
    by (auto simp: WorldSeedWorker_run_def result_simps)
  from j obtain account service seed where ids: "get job ''accountId'' = Str account" "get job ''serviceId'' = Str service"
      "get job ''seedId'' = Str seed" "get (get job ''archive'') ''key'' = Str (seed_key account service seed)"
      "the_int (get (get job ''archive'') ''sizeBytes'') \<le> 512 * 1024 * 1024"
    by (cases "get job ''accountId''"; cases "get job ''serviceId''"; cases "get job ''seedId''")
      (auto simp: validateJob_def result_simps Let_def validId_def)
  from d obtain r where r: "fetchImpl (get input ''url'') (get input ''headers'') = Inr r" "rs_ok r"
      "body_bytes (rs_body r) = Some bytes" "JInt (int (length bytes)) = get (get job ''archive'') ''sizeBytes''"
      "Str (sha256 P bytes) = get (get job ''archive'') ''sha256''"
    by (auto simp: downloadExactWorldSeed_def result_simps Let_def)
  have "the_int (get (get job ''archive'') ''sizeBytes'') = int (length bytes)" using r(4) by (metis the_int_Int)
  then have len: "length bytes \<le> 512 * 1024 * 1024" using ids(5) by simp
  from g ids(4) have i: "get input ''method'' = Str (js ''GET'')" "strict_eq (get input ''key'') (Str (seed_key account service seed))"
    by (auto simp: verifyWorldSeedGrantSet_def result_simps Let_def)
  then have "get input ''key'' = Str (seed_key account service seed)" by (cases "get input ''key''") auto
  with u ids r len i(1) show ?thesis
    by (intro exI [of _ bytes] exI [of _ input] exI [of _ account] exI [of _ service] exI [of _ seed]) simp
qed

definition sample_seed_job :: jsval where
  "sample_seed_job = Obj [(js ''accountId'', Str (js ''a'')), (js ''serviceId'', Str (js ''s'')), (js ''seedId'', Str (js ''w'')),
     (js ''worldName'', Str (js ''world'')), (js ''archive'', Obj [(js ''sha256'', Str (sample_sha256 [1, 2])),
       (js ''sizeBytes'', JInt 2), (js ''key'', Str (seed_key (js ''a'') (js ''s'') (js ''w'')))])]"

definition sample_seed_grants :: jsval where
  "sample_seed_grants = Obj [(js ''accountId'', Str (js ''a'')), (js ''serviceId'', Str (js ''s'')), (js ''seedId'', Str (js ''w'')),
     (js ''grants'', Arr [Obj [(js ''method'', Str (js ''GET'')), (js ''key'', Str (seed_key (js ''a'') (js ''s'') (js ''w''))),
       (js ''url'', Str (js ''https://files.example/w'')), (js ''expiresAt'', Str (js ''2030-01-01''))]])]"

definition sample_response :: "bytes \<Rightarrow> response" where
  "sample_response bs = \<lparr>rs_ok = True, rs_status = 200, rs_redirected = False, rs_url = [],
     rs_headers = (\<lambda>name. if name = ''content-length'' then Some (digits_of 10 (length bs)) else None),
     rs_body = Stream [Chunk (take 1 bs), Chunk (drop 1 bs)]\<rparr>"

lemma sample_content_length: "content_length sample_platform (sample_response bs) = JInt (int (length bs))"
proof -
  have "digits_of 10 n \<noteq> []" for n by (subst digits_of.simps) simp
  then show ?thesis
    by (simp add: content_length_def sample_response_def sample_platform_def digits_of_value digits_digit)
qed

lemma sample_body: "body_bytes (rs_body (sample_response bs)) = Some bs"
  by (simp add: body_bytes_def sample_response_def)

lemma sample_seed_run:
  "WorldSeedWorker_run sample_platform (\<lambda>_. Inr sample_seed_grants) (\<lambda>_ _. Inr (sample_response [1, 2]))
    (\<lambda>input. Inr (seed_archive input)) sample_seed_job = Inr [1, 2]"
proof -
  have id: "validId (Str (js [c]))" if "c \<in> set ''asw''" for c
    using that by (auto simp: validId_def js_simps char_class_defs)
  have "validSha256 (Str (sample_sha256 [1, 2]))" "sha256 sample_platform [1, 2] = sample_sha256 [1, 2]"
    using sha256_validSha256 [OF sample_sha256_hex, of "[1, 2]"] by (simp_all add: sample_platform_def)
  moreover have "seed_https_url (Str (js ''https://files.example/w''))"
    by (simp add: seed_https_url_def js_simps)
  moreover note sample_content_length [of "[1, 2]"] sample_body [of "[1, 2]"]
  moreover have "rs_ok (sample_response [1, 2])" by (simp add: sample_response_def)
  ultimately show ?thesis
    using id
    by (simp add: WorldSeedWorker_run_def validateJob_def sample_seed_job_def verifyWorldSeedGrantSet_def
        sample_seed_grants_def downloadExactWorldSeed_def max_safe_integer_def nullish_def)
qed

theorem world_seed_exact_witness:
  "\<exists>bytes. get (get sample_seed_job ''archive'') ''sha256'' = Str (sha256 sample_platform bytes) \<and> length bytes \<le> 512 * 1024 * 1024"
  using world_seed_exact [OF sample_seed_run] by blast

lemma world_seed_fails_closed:
  "\<nexists>x. WorldSeedWorker_run P getWorldSeedGrants fetchImpl FailClosedWorldSeedHandler job = Inr x"
  by (auto simp: WorldSeedWorker_run_def result_simps FailClosedWorldSeedHandler_def)

end
