(* ===== verification/Sample_Worker.thy ===== *)
theory Sample_Worker
  imports Bundle_Properties Worker_Properties Archive_Roundtrip World_Seed
begin

text \<open>
  A complete sample job of the compiler worker: grants, a bundle, built content that passes the
  verification, and an environment in which the run publishes it. The witnesses of the worker's
  properties are instances at this job.
\<close>

section \<open>Built content\<close>

definition sample_arguments :: "jsstr list" where
  "sample_arguments = [js ''-jar'', js ''server.jar'', js ''nogui'']"

definition sample_launcher :: bytes where
  "sample_launcher = encode (launcher_text sample_arguments)"

definition sample_built_files :: files where
  "sample_built_files = [(js ''.xmcl/launch.sh'', \<lparr>file_bytes = sample_launcher, file_mode = 493\<rparr>),
     (js ''.xmcl/runtime.json'', \<lparr>file_bytes = [82], file_mode = 420\<rparr>)]"

definition sample_built_archive :: bytes where
  "sample_built_archive = (case packageDeterministicTarZst sample_built_files of Inr a \<Rightarrow> a | Inl _ \<Rightarrow> [])"

lemma launcher_ascii: "ascii (launcher_text sample_arguments)"
  by (simp add: launcher_text_def sample_arguments_def ascii_def js_simps)

lemma sample_launcher: "decode sample_launcher = Some (launcher_text sample_arguments)"
  "generatedLauncher sample_arguments = Inr sample_launcher" "length sample_launcher \<le> 1000"
proof -
  show "decode sample_launcher = Some (launcher_text sample_arguments)"
    by (simp add: sample_launcher_def decode_encode_ascii launcher_ascii)
  show "generatedLauncher sample_arguments = Inr sample_launcher"
    by (simp add: generatedLauncher_def sample_launcher_def)
      (simp add: sample_arguments_def argument_char_def js_simps char_class_defs)
  show "length sample_launcher \<le> 1000"
    by (simp add: sample_launcher_def encode_ascii [OF launcher_ascii])
      (simp add: launcher_text_def sample_arguments_def)
qed

lemma sample_built_valid: "list_all valid_entry sample_built_files" "distinct (map fst sample_built_files)"
proof -
  have "plain_text (js ''.xmcl/launch.sh'')" "plain_text (js ''.xmcl/runtime.json'')"
    by (rule ascii_plain_text; simp add: ascii_def js_simps)+
  then show "list_all valid_entry sample_built_files"
    by (simp add: sample_built_files_def valid_entry_def)
      (simp add: js_simps safe_path_def safe_segments_def drive_prefix_def char_class_defs)
  show "distinct (map fst sample_built_files)" by (simp add: sample_built_files_def)
qed

lemma sample_built_sorted: "sorted_entries sample_built_files = sample_built_files"
proof -
  have "js ''.xmcl/launch.sh'' < js ''.xmcl/runtime.json''" by (simp add: js_simps)
  then show ?thesis by (simp add: sorted_entries_def sample_built_files_def)
qed

lemma sample_built_packaged: "packageDeterministicTarZst sample_built_files = Inr sample_built_archive"
proof -
  have "length (encode (js ''.xmcl/launch.sh'')) \<le> 100" "length (encode (js ''.xmcl/runtime.json'')) \<le> 100"
    using length_encode [of "js ''.xmcl/launch.sh''"] length_encode [of "js ''.xmcl/runtime.json''"] by simp_all
  then have "\<forall>e \<in> set sample_built_files. \<exists>np. splitTarPath (fst e) = Inr np"
    by (simp add: sample_built_files_def splitTarPath_def)
  moreover have "padding n < 512" for n by (simp add: padding_def)
  then have "padding (length sample_launcher) \<le> 512" "padding 1 \<le> 512" by (simp_all add: less_imp_le)
  then have "stream_size sample_built_files + 1024 \<le> maxPackageTarBytes PRODUCTION_OUTPUT_LIMITS"
    using sample_launcher(3) by (simp add: sample_built_files_def entry_size_def stream_size_def limit_defs)
  ultimately obtain a where "packageDeterministicTarZst sample_built_files = Inr a"
    using packaging_succeeds [OF sample_built_valid(1)] by blast
  then show ?thesis by (simp add: sample_built_archive_def)
qed

definition sample_entry :: "string \<Rightarrow> bytes \<Rightarrow> int \<Rightarrow> jsval" where
  "sample_entry path bs mode = Obj [(js ''path'', Str (js path)), (js ''sha256'', Str (sha256 bundle_platform bs)),
     (js ''sizeBytes'', JInt (int (length bs))), (js ''mode'', JInt mode)]"

definition sample_content :: jsval where
  "sample_content = Obj [(js ''key'', Str (content_key (js ''a'') (js ''s'') (replicate 64 97))), (js ''format'', Str (js ''tar.zst'')),
     (js ''sha256'', Str (sha256 bundle_platform sample_built_archive)),
     (js ''sizeBytes'', JInt (int (length sample_built_archive))),
     (js ''entries'', Arr [sample_entry ''.xmcl/launch.sh'' sample_launcher 493, sample_entry ''.xmcl/runtime.json'' [82] 420])]"

definition sample_descriptor :: jsval where
  "sample_descriptor = Obj [(js ''schemaVersion'', JInt 1),
     (js ''runtime'', Obj [(js ''path'', Str (js ''.xmcl/runtime.json'')), (js ''sha256'', Str (sha256 bundle_platform [82]))]),
     (js ''launch'', Obj [(js ''path'', Str (js ''.xmcl/launch.sh'')), (js ''kind'', Str (js ''generated-server-launcher'')),
       (js ''arguments'', Arr [])])]"

definition sample_built :: built where
  "sample_built = \<lparr>b_archive = sample_built_archive, b_content = sample_content, b_descriptor = sample_descriptor\<rparr>"

lemma bundle_platform_hex: "sha256_hex bundle_platform"
  using sample_sha256_hex by (simp add: sha256_hex_def bundle_platform_def)

definition sample_meta :: "string \<Rightarrow> bytes \<Rightarrow> int \<Rightarrow> entry_meta" where
  "sample_meta path bs mode = \<lparr>em_path = js path, em_sha256 = sha256 bundle_platform bs,
     em_sizeBytes = int (length bs), em_mode = mode\<rparr>"

lemma sample_normalize:
  assumes "path \<in> {''.xmcl/launch.sh'', ''.xmcl/runtime.json''}" and "mode \<in> {420, 493}" and "length bs \<le> 1000"
    and "previous = [] \<or> previous < js path"
  shows "normalize_entry bundle_platform (previous, acc) (sample_entry path bs mode) =
    Inr (js path, acc @ [sample_meta path bs mode])"
proof -
  have "safeOutputPath (Str (js path))" "generated_path (js path)"
    using assms(1) by (auto simp: safeOutputPath_def js_simps safe_path_def safe_segments_def drive_prefix_def
        char_class_defs generated_path_def)
  then show ?thesis
    using assms(2-4) sha256_validSha256 [OF bundle_platform_hex, of bs]
    by (auto simp: normalize_entry_def sample_entry_def sameKeysI max_safe_integer_def validOutputMode_def
        comparePath_def sample_meta_def bundle_platform_hex)
qed

lemma sample_entry_metadata: "validateEntryMetadata bundle_platform (the_arr (get sample_content ''entries'')) =
    Inr [sample_meta ''.xmcl/launch.sh'' sample_launcher 493, sample_meta ''.xmcl/runtime.json'' [82] 420]"
proof -
  have lt: "js ''.xmcl/launch.sh'' < js ''.xmcl/runtime.json''" by (simp add: js_simps)
  have len: "int (length sample_launcher) \<le> 1000" using sample_launcher(3) by simp
  have "outputSizeWithinLimit [JInt (int (length sample_launcher)), JInt 1]
      (JInt (int (maxPackageInputBytes PRODUCTION_OUTPUT_LIMITS)))"
    using len by (simp add: outputSizeWithinLimit_def limit_defs max_safe_integer_def)
  then show ?thesis
    using lt sample_launcher(3)
    by (simp add: validateEntryMetadata_def sample_content_def limit_defs sample_normalize) (simp add: sample_meta_def)
qed

lemma sample_unpacked: "unpackDeterministicTarZst bundle_platform sample_built_archive =
    Inr (map (apsnd (unpacked_of bundle_platform)) sample_built_files)"
proof -
  from sample_built_packaged obtain tar where "packageTar sample_built_files = Inr tar"
    by (auto simp: packageDeterministicTarZst_def result_simps)
  from archive_roundtrip [OF this sample_built_valid, of bundle_platform] sample_built_packaged
  show ?thesis by (simp add: sample_built_sorted)
qed

lemma sample_runtime_ok: "runtime_ok bundle_platform sample_runtime = Inr True"
proof -
  have "validMinecraftVersion (Str (js ''1.21.1''))" "validLoaderVersion (Str (js ''0.16.9''))"
    "validIdentifier (Str (js ''java-runtime-delta''))" "validIdentifier (Str (js ''jre-21''))"
    by (simp_all add: validMinecraftVersion_def validLoaderVersion_def version_major_def version_part_def js_simps
        char_class_defs validIdentifier_def)
  moreover have "validSha256 (Str (replicate 64 97))"
    by (simp add: validSha256_def list_all_iff char_class_defs)
  ultimately show ?thesis
    by (simp add: runtime_ok_def sample_runtime_def sample_loader_def validLoader_def sameKeysI max_safe_integer_def
        loaderTemplates_def)
qed

lemma sample_built_small: "length sample_built_archive \<le> 9007199254740991" "Suc 0 \<le> length sample_built_archive"
proof -
  from sample_built_packaged obtain tar where z: "rawZstd tar = Inr sample_built_archive"
    by (auto simp: packageDeterministicTarZst_def result_simps)
  then have t: "length tar \<le> maxPackageTarBytes PRODUCTION_OUTPUT_LIMITS"
    by (auto simp: rawZstd_def split: if_splits)
  with z rawZstd_frame [OF t] have f: "sample_built_archive = zstd_frame tar" by simp
  show "length sample_built_archive \<le> 9007199254740991" "Suc 0 \<le> length sample_built_archive"
    using zstd_frame_bound [OF t] by (simp_all add: f length_zstd_frame limit_defs)
qed

lemma sample_immutable: "validateImmutableContent bundle_platform sample_built = Inr ()"
proof -
  have plan: "createAssemblyPlan bundle_platform (runtime_toolchain sample_runtime) = Inr \<lparr>p_toolchain = runtime_toolchain sample_runtime,
      p_template = js ''fabric-server-jar-v1'', p_arguments = sample_arguments\<rparr>"
    by (simp add: createAssemblyPlan_def runtime_toolchain_def Let_def sample_runtime_def sample_loader_def
        loaderTemplates_def launch_arguments_def sample_arguments_def)
  have args: "get (get sample_runtime ''launch'') ''arguments'' = Arr (map Str sample_arguments)"
    by (simp add: sample_runtime_def sample_arguments_def)
  have gen: "validateGeneratedRuntimeAndLauncher bundle_platform (unpacked_of bundle_platform \<lparr>file_bytes = [82], file_mode = 420\<rparr>)
      (unpacked_of bundle_platform \<lparr>file_bytes = sample_launcher, file_mode = 493\<rparr>) = Inr ()"
    using sample_runtime_ok plan sample_launcher(1,2)
    by (simp add: validateGeneratedRuntimeAndLauncher_def unpacked_of_def sample_parse_json args)
  have key: "validContentKey (Str (content_key (js ''a'') (js ''s'') (replicate 64 97)))"
    by (simp add: validContentKey_def content_key_def)
      (auto simp: js_simps list_ex_iff char_class_defs)
  have len: "int (length sample_built_archive) \<le> max_safe_integer"
    using sample_built_small by (simp add: max_safe_integer_def)
  have dig: "validSha256 (Str (sha256 bundle_platform bs))" for bs by (rule sha256_validSha256 [OF bundle_platform_hex])
  show ?thesis
    using sample_entry_metadata sample_unpacked gen key len dig
    by (simp add: validateImmutableContent_def sample_built_def)
      (simp add: sample_content_def sample_descriptor_def validGeneratedDescriptor_def sample_built_files_def
        check_unpacked_def sample_meta_def unpacked_of_def)
qed

section \<open>A run\<close>

definition sample_job :: jsval where
  "sample_job = Obj [(js ''accountId'', Str (js ''a'')), (js ''serviceId'', Str (js ''s'')),
     (js ''deploymentId'', Str (js ''d'')), (js ''compilerRequestId'', Str (js ''r'')),
     (js ''manifestSha256'', Str (replicate 64 97)),
     (js ''expectedContentKey'', Str (content_key (js ''a'') (js ''s'') (replicate 64 97))),
     (js ''frozenManifest'', sample_frozen)]"

definition sample_get :: "jsval \<Rightarrow> jsval" where
  "sample_get key = Obj [(js ''key'', key), (js ''method'', Str (js ''GET'')),
     (js ''url'', Str (js ''https://files.example/object'')), (js ''expiresAt'', Str (js ''2030-01-01''))]"

definition sample_put :: jsval where
  "sample_put = Obj [(js ''key'', get sample_job ''expectedContentKey''), (js ''method'', Str (js ''PUT'')),
     (js ''url'', Str (js ''https://files.example/object'')), (js ''expiresAt'', Str (js ''2030-01-01'')),
     (js ''headers'', Obj [(js ''if-none-match'', Str (js ''*''))])]"

definition sample_grants :: jsval where
  "sample_grants = Obj [(js ''accountId'', Str (js ''a'')), (js ''serviceId'', Str (js ''s'')),
     (js ''deploymentId'', Str (js ''d'')), (js ''compilerRequestId'', Str (js ''r'')),
     (js ''manifestSha256'', Str (replicate 64 97)),
     (js ''grants'', Arr [sample_get (get (get sample_frozen ''archive'') ''key''), sample_put])]"

text \<open>
  The control plane binds the publication it is given, or one bound by an earlier delivery; the
  store serves the bundle and accepts the upload, and has no object to reconcile with.
\<close>

definition sample_environment :: "string \<Rightarrow> (jsval \<Rightarrow> jsval) \<Rightarrow> environment" where
  "sample_environment status bound =
     \<lparr>getGrants = (\<lambda>_. Inr sample_grants),
      fetchImpl = (\<lambda>h. (case last h of Download _ \<Rightarrow> Inr (sample_response sample_archive)
        | Upload _ _ \<Rightarrow> Inr (sample_response [])
        | _ \<Rightarrow> Inr ((sample_response [])\<lparr>rs_ok := False\<rparr>), False)),
      build = (\<lambda>_ _ _ _. Inr (Some sample_built)),
      prepareUpload = (\<lambda>h. case last h of
          Prepare publication \<Rightarrow> Inr (Obj [(js ''status'', Str (js status)), (js ''publication'', bound publication),
            (js ''reconciliation'', sample_get (get sample_job ''expectedContentKey''))])
        | _ \<Rightarrow> Inl network_error),
      publish = (\<lambda>_. Inr ())\<rparr>"

lemma sample_archive_nonempty: "Suc 0 \<le> length sample_archive"
proof -
  have "0 < length sample_archive" using sample_bundle by (auto simp: validateBundle_def readZip_def result_simps)
  then show ?thesis by linarith
qed

lemma sample_job_ok: "validateCompilerJob sample_job = Inr ()"
proof -
  have seg: "validKeySegment (Str (js [c]))" if "c \<in> set ''asdri''" for c
    using that by (auto simp: validKeySegment_def js_simps char_class_defs)
  have "validSha256 (Str (replicate 64 97))" by (simp add: validSha256_def list_all_iff char_class_defs)
  moreover have "validSha256 (Str (sample_sha256 sample_archive))"
    using sha256_validSha256 [OF sample_sha256_hex, of sample_archive] by (simp add: sample_platform_def)
  moreover note sample_archive_nonempty
  moreover have "js ''shared-hosting/a/s/compiler-inputs/i.xmcl-server-bundle'' = input_key (js ''a'') (js ''s'') (js ''i'')"
    by (simp add: input_key_def flip: js_append)
  ultimately show ?thesis
    using seg sample_archive_size
    by (simp add: validateCompilerJob_def job_fields_ok_def job_archive_ok_def job_keys_ok_def sample_job_def sample_frozen_def
        hasExactKeys_def sameKeysI MAX_BUNDLE_BYTES_def max_safe_integer_def limit_defs)
qed

lemma sample_signed_grants: "exactHttpsUrl bundle_platform (Str (js ''https://files.example/object''))"
  "grantExpiresAt bundle_platform (sample_get k) = Some 10" "grantExpiresAt bundle_platform sample_put = Some 10"
proof -
  have "prefix (js ''https://files.example/'') (js ''https://files.example/object'')" by (simp add: js_simps)
  then show "exactHttpsUrl bundle_platform (Str (js ''https://files.example/object''))"
    by (simp add: exactHttpsUrl_def bundle_platform_def sample_platform_def sample_url_def)
qed (simp_all add: grantExpiresAt_def sample_get_def sample_put_def bundle_platform_def sample_platform_def max_safe_integer_def)

lemma sample_get_signed: "isExactSignedGrant bundle_platform (sample_get k) ''GET'' \<longleftrightarrow> is_str k"
  using sample_signed_grants(2) [of k] sample_signed_grants(1)
  by (simp add: isExactSignedGrant_def) (simp add: sample_get_def hasExactKeys_def sameKeysI)

lemma sample_put_signed: "isExactSignedGrant bundle_platform sample_put ''PUT''"
  using sample_signed_grants(1,3)
  by (simp add: isExactSignedGrant_def) (simp add: sample_put_def hasExactKeys_def sameKeysI sample_job_def)

lemma strict_eq_str: "is_str v \<Longrightarrow> strict_eq v v"
  by (cases v) simp_all

lemma sample_grants_ok: "verifyGrantSet bundle_platform None sample_grants sample_job =
    Inr (sample_get (get (get sample_frozen ''archive'') ''key''), sample_put)"
proof -
  have g: "get (sample_get k) ''method'' = Str (js ''GET'')" "get sample_put ''method'' = Str (js ''PUT'')"
    "get (sample_get k) ''key'' = k" "get (sample_get k) ''headers'' = Undefined"
    "get sample_put ''key'' = get sample_job ''expectedContentKey''" for k
    by (simp_all add: sample_get_def sample_put_def)
  have h: "hasExactOutputHeaders (get sample_put ''headers'')"
    by (simp add: hasExactOutputHeaders_def hasExactHeaders_def sample_put_def sameKeysI)
  have m: "grants_match sample_grants sample_job"
    by (simp add: grants_match_def hasExactKeys_def sameKeysI sample_grants_def sample_job_def)
  have a: "access (sample_get k) ''method'' = Inr (Str (js ''GET''))" "access sample_put ''method'' = Inr (Str (js ''PUT''))" for k
    by (simp_all add: access_def nullish_def sample_get_def sample_put_def)
  have k: "is_str (get (get sample_frozen ''archive'') ''key'')"
    "get (get (get sample_job ''frozenManifest'') ''archive'') ''key'' = get (get sample_frozen ''archive'') ''key''"
    "is_str (get sample_job ''expectedContentKey'')"
    by (simp_all add: sample_frozen_def sample_job_def)
  have gs: "the_arr (get sample_grants ''grants'') = [sample_get (get (get sample_frozen ''archive'') ''key''), sample_put]"
    by (simp add: sample_grants_def)
  show ?thesis
    using k(1,3) by (simp add: verifyGrantSet_def m gs a g h k sample_get_signed sample_put_signed hasExactHeaders_def strict_eq_str)
qed

lemma bundle_platform_number: "string_to_number bundle_platform = string_to_number sample_platform"
  by (simp add: bundle_platform_def)

lemma sample_download:
  "downloadExact bundle_platform (Inr (sample_response sample_archive)) False grant (get sample_frozen ''archive'') 30000 =
    Inr sample_archive"
proof -
  have "content_length bundle_platform (sample_response sample_archive) = JInt (int (length sample_archive))"
    using sample_content_length [of sample_archive] unfolding content_length_def bundle_platform_number .
  moreover have "readExactBody (sample_response sample_archive) (int (length sample_archive)) = Inr sample_archive"
    using sample_archive_size sample_body by (simp add: readExactBody_iff)
  moreover note sample_archive_nonempty
  moreover have "check_response bundle_platform url code (sample_response sample_archive) = Inr ()" for url code
    by (simp add: check_response_def sample_response_def)
  ultimately show ?thesis
    using sample_archive_size
    by (simp add: downloadExact_def exactRequest_def validate_download_def sample_frozen_def MAX_BUNDLE_BYTES_def
        max_safe_integer_def limit_defs)
      (simp add: bundle_platform_def sample_platform_def)
qed

abbreviation sample_publication :: jsval where
  "sample_publication \<equiv> publicationForControlPlane sample_job sample_built"

lemma sample_prepare: "\<exists>h1. prepare_phase bundle_platform (sample_environment status bound) 30000 sample_job [] =
    (Inr (sample_put, sample_built, sample_publication), h1)"
proof -
  have f: "get sample_job ''frozenManifest'' = sample_frozen" by (simp add: sample_job_def)
  have "verifyBuiltContent bundle_platform (Some sample_built) sample_job = Inr sample_built"
    using sample_immutable by (simp add: verifyBuiltContent_def)
      (simp add: sample_built_def sample_content_def sample_descriptor_def sample_job_def)
  then show ?thesis
    using sample_job_ok sample_grants_ok sample_download sample_bundle
    by (simp add: prepare_phase_def act_bind_def lift_def perform_def f sample_environment_def)
qed

text \<open>The digest of a publication replaced by that of other content.\<close>

definition rebind :: "bytes \<Rightarrow> jsval \<Rightarrow> jsval" where
  "rebind other publication = Obj [(js ''deploymentId'', get publication ''deploymentId''),
     (js ''manifestSha256'', get publication ''manifestSha256''),
     (js ''content'', Obj [(js ''key'', get (get publication ''content'') ''key''), (js ''sha256'', Str (sha256 bundle_platform other)),
       (js ''compressedSize'', JInt (int (length other))), (js ''logicalSize'', JInt 1), (js ''paths'', Arr [])]),
     (js ''descriptor'', get publication ''descriptor'')]"

lemma sample_publication_content:
  "get sample_publication ''content'' = Obj [(js ''key'', get sample_job ''expectedContentKey''),
     (js ''sha256'', Str (sha256 bundle_platform sample_built_archive)),
     (js ''compressedSize'', JInt (int (length sample_built_archive))),
     (js ''logicalSize'', JInt (int (length sample_launcher) + 1)),
     (js ''paths'', Arr [Str (js ''.xmcl/launch.sh''), Str (js ''.xmcl/runtime.json'')])]"
  by (simp add: publicationForControlPlane_def Let_def sample_built_def sample_content_def sample_job_def sample_entry_def)

lemma sample_bound:
  assumes "other \<noteq> []" and "int (length other) \<le> max_safe_integer"
  shows "verifyPreparedUpload (Obj [(js ''status'', Str (js ''upload_existing'')), (js ''publication'', rebind other sample_publication),
      (js ''reconciliation'', r)]) sample_job = Inr (rebind other sample_publication)"
  using assms sha256_validSha256 [OF bundle_platform_hex, of other]
  by (cases other) (simp_all add: verifyPreparedUpload_def rebind_def sample_publication_content max_safe_integer_def,
      simp add: publicationForControlPlane_def Let_def sample_job_def)

lemma sample_bound_same:
  "verifyPreparedUpload (Obj [(js ''status'', Str (js ''upload_prepared'')), (js ''publication'', sample_publication),
      (js ''reconciliation'', r)]) sample_job = Inr sample_publication"
proof -
  have d: "plainObject (get sample_publication ''descriptor'')" "get sample_publication ''deploymentId'' = Str (js ''d'')"
    "get sample_publication ''manifestSha256'' = get sample_job ''manifestSha256''"
    by (simp_all add: publicationForControlPlane_def Let_def sample_job_def)
  show ?thesis
    using d sample_built_small sample_launcher(3) sha256_validSha256 [OF bundle_platform_hex, of sample_built_archive]
    by (simp add: verifyPreparedUpload_def sample_publication_content max_safe_integer_def) (simp add: sample_job_def)
qed

lemma sample_upload: "upload bundle_platform (sample_environment status bound) 30000 og archive h = (Inr (), h @ [Upload og archive])"
  by (simp add: upload_def perform_def uploadExact_def exactRequest_def sample_environment_def check_response_def sample_response_def)

lemma sample_reconcile_fails:
  "\<exists>e h'. reconcileExactUpload bundle_platform (sample_environment status bound) 30000 grant publication h = (Inl e, h')"
  by (simp add: reconcileExactUpload_def Let_def lift_def perform_def exactRequest_def sample_environment_def
      validate_reconciliation_def check_response_def)

text \<open>The run of a first delivery: prepared, uploaded, published.\<close>

lemma sample_run: "\<exists>pre. CompilerWorker_run bundle_platform (sample_environment ''upload_prepared'' (\<lambda>p. p)) 30000 sample_job [] =
    (Published (Str (js ''d'')), pre @ [Upload sample_put sample_built_archive, Publish sample_publication])"
proof -
  let ?env = "sample_environment ''upload_prepared'' (\<lambda>p. p)"
  from sample_prepare obtain h1 where
    h1: "prepare_phase bundle_platform ?env 30000 sample_job [] = (Inr (sample_put, sample_built, sample_publication), h1)"
    by blast
  have a: "b_archive sample_built = sample_built_archive" by (simp add: sample_built_def)
  have p: "prepareUpload ?env (h1 @ [Prepare sample_publication]) = Inr (Obj [(js ''status'', Str (js ''upload_prepared'')),
      (js ''publication'', sample_publication), (js ''reconciliation'', sample_get (get sample_job ''expectedContentKey''))])"
    by (simp add: sample_environment_def)
  have "upload_phase bundle_platform ?env 30000 sample_job sample_put sample_built sample_publication h1 =
      (Inr sample_publication, h1 @ [Prepare sample_publication, Upload sample_put sample_built_archive])"
    using sample_bound_same
    by (simp add: upload_phase_def act_bind_def perform_def lift_def store_def Let_def or_else_def sample_upload a p)
  then show ?thesis
    using h1 by (auto simp: CompilerWorker_run_def perform_def) (simp_all add: sample_environment_def sample_job_def)
qed

text \<open>
  A redelivery that finds a binding of an earlier build but no stored object: the archive that is
  uploaded is the one just built, and the digest that is published is the bound one.
\<close>

lemma redelivery_publishes_other_digest:
  assumes "other \<noteq> []" and "int (length other) \<le> max_safe_integer"
  shows "\<exists>pre. CompilerWorker_run bundle_platform (sample_environment ''upload_existing'' (rebind other)) 30000 sample_job [] =
    (Published (Str (js ''d'')), pre @ [Upload sample_put sample_built_archive, Publish (rebind other sample_publication)])"
proof -
  let ?env = "sample_environment ''upload_existing'' (rebind other)"
  from sample_prepare obtain h1 where
    h1: "prepare_phase bundle_platform ?env 30000 sample_job [] = (Inr (sample_put, sample_built, sample_publication), h1)"
    by blast
  let ?r = "sample_get (get sample_job ''expectedContentKey'')"
  from sample_reconcile_fails obtain e h2 where
    h2: "reconcileExactUpload bundle_platform ?env 30000 ?r (rebind other sample_publication) (h1 @ [Prepare sample_publication]) = (Inl e, h2)"
    by blast
  have a: "b_archive sample_built = sample_built_archive" by (simp add: sample_built_def)
  have p: "prepareUpload ?env (h1 @ [Prepare sample_publication]) = Inr (Obj [(js ''status'', Str (js ''upload_existing'')),
      (js ''publication'', rebind other sample_publication), (js ''reconciliation'', ?r)])"
    by (simp add: sample_environment_def)
  have "upload_phase bundle_platform ?env 30000 sample_job sample_put sample_built sample_publication h1 =
      (Inr (rebind other sample_publication), h2 @ [Upload sample_put sample_built_archive])"
    using sample_bound [OF assms] h2
    by (simp add: upload_phase_def act_bind_def perform_def lift_def store_def Let_def or_else_def sample_upload a p)
  then show ?thesis
    using h1 by (auto simp: CompilerWorker_run_def perform_def) (simp_all add: sample_environment_def sample_job_def)
qed

section \<open>Witnesses\<close>

theorem publish_after_store_witness:
  "\<exists>out h pre. CompilerWorker_run bundle_platform (sample_environment ''upload_prepared'' (\<lambda>p. p)) 30000 sample_job [] = (out, h) \<and>
    h = pre @ [Publish sample_publication]"
proof -
  from sample_run obtain pre where r: "CompilerWorker_run bundle_platform (sample_environment ''upload_prepared'' (\<lambda>p. p)) 30000
      sample_job [] = (Published (Str (js ''d'')), pre @ [Upload sample_put sample_built_archive, Publish sample_publication])"
    by blast
  from publish_after_store [OF r, of sample_publication] r show ?thesis by fastforce
qed

theorem failure_before_binding_witness:
  "\<exists>out h. CompilerWorker_run bundle_platform (sample_environment ''upload_prepared'' (\<lambda>p. p)) 30000 sample_job [] = (out, h) \<and>
    (\<nexists>x. Report_failed x \<in> set h)"
proof -
  from sample_run obtain pre where r: "CompilerWorker_run bundle_platform (sample_environment ''upload_prepared'' (\<lambda>p. p)) 30000
      sample_job [] = (Published (Str (js ''d'')), pre @ [Upload sample_put sample_built_archive, Publish sample_publication])"
    by blast
  from failure_before_binding [OF r] r show ?thesis by (metis outcome.distinct(5))
qed

theorem uploaded_content_verified_witness:
  "\<exists>b. b_archive b = sample_built_archive \<and> validateImmutableContent bundle_platform b = Inr ()"
proof -
  from sample_run obtain pre where r: "CompilerWorker_run bundle_platform (sample_environment ''upload_prepared'' (\<lambda>p. p)) 30000
      sample_job [] = (Published (Str (js ''d'')), pre @ [Upload sample_put sample_built_archive, Publish sample_publication])"
    by blast
  from uploaded_content_verified [OF r, of sample_put sample_built_archive] show ?thesis by fastforce
qed

theorem published_digest_stored_witness:
  "\<exists>bytes. get (get sample_publication ''content'') ''sha256'' = Str (sha256 bundle_platform bytes)"
proof -
  from sample_run obtain pre where r: "CompilerWorker_run bundle_platform (sample_environment ''upload_prepared'' (\<lambda>p. p)) 30000
      sample_job [] = (Published (Str (js ''d'')), pre @ [Upload sample_put sample_built_archive, Publish sample_publication])"
    by blast
  have b: "get (get (get prepared ''publication'') ''content'') ''sha256'' = get (get publication ''content'') ''sha256''"
    if "prepareUpload (sample_environment ''upload_prepared'' (\<lambda>p. p)) (hist @ [Prepare publication]) = Inr prepared"
    for hist publication prepared
    using that by (auto simp: sample_environment_def)
  have "\<exists>pre' bytes r. pre @ [Upload sample_put sample_built_archive, Publish sample_publication] = pre' @ [Publish sample_publication] \<and>
      get (get sample_publication ''content'') ''sha256'' = Str (sha256 bundle_platform bytes) \<and>
      fst (fetchImpl (sample_environment ''upload_prepared'' (\<lambda>p. p)) pre') = Inr r \<and> rs_ok r \<and>
      ((\<exists>og. last pre' = Upload og bytes) \<or> (\<exists>grant. last pre' = Reconcile grant) \<and> body_bytes (rs_body r) = Some bytes)"
    by (rule published_digest_stored [OF r]) (simp, erule b)
  then show ?thesis by blast
qed

end
