(* ===== verification/Canonical_Json.thy ===== *)
theory Canonical_Json
  imports Utf8 Sample_Platform "HOL-Library.Multiset"
begin

text \<open>
  The canonical form of JSON documents in \<open>src/compiler/src/toolchain-catalog.mjs\<close>
  (\<open>canonicalize\<close>, \<open>canonicalJsonBytes\<close>, \<open>catalogRevisionFor\<close>,
  \<open>formatCatalog\<close>), which the catalog digests are computed from. Shown: the form is
  idempotent and does not depend on the order in which properties were written, so neither does
  a digest.
\<close>

section \<open>Property order\<close>

text \<open>
  An object lists its array-index keys first, in numeric order, whatever the order of insertion.
\<close>

definition index_key :: "jsstr \<Rightarrow> bool" where
  "index_key k = (k = js ''0'' \<or>
     (case k of [] \<Rightarrow> False | c # cs \<Rightarrow> c \<noteq> 48 \<and> list_all is_digit k \<and> digits_value 10 k < 2 ^ 32 - 1))"

definition own_order :: "(jsstr \<times> 'a) list \<Rightarrow> (jsstr \<times> 'a) list" where
  "own_order ps = sort_key (digits_value 10 \<circ> fst) (filter (index_key \<circ> fst) ps) @ filter (Not \<circ> index_key \<circ> fst) ps"

lemma sort_key_unique:
  assumes "mset ps = mset qs" and "distinct (map fst ps)"
  shows "sort_key fst ps = sort_key fst qs"
proof -
  have "distinct (map fst qs)"
    using assms by (metis distinct_map mset_map mset_eq_imp_distinct_iff)
  then show ?thesis
    using assms by (intro map_sorted_distinct_set_unique [where f = fst]) (auto simp: distinct_map dest: mset_eq_setD)
qed

lemma mset_own_order: "mset (own_order ps) = mset ps"
proof -
  have "mset (own_order ps) = mset (filter (index_key \<circ> fst) ps) + mset (filter (Not \<circ> index_key \<circ> fst) ps)"
    by (simp add: own_order_def)
  also have "\<dots> = mset ps" by (induction ps) auto
  finally show ?thesis .
qed

lemma sort_own_order: "distinct (map fst ps) \<Longrightarrow> sort_key fst (own_order ps) = sort_key fst ps"
  by (rule sort_key_unique [symmetric]) (simp_all add: mset_own_order)

section \<open>The canonical form\<close>

definition catalog_malformed :: js_error where
  "catalog_malformed = ToolchainCatalogFailure ''catalog_malformed''"

lemma jsval_size_elem: "v \<in> set vs \<Longrightarrow> size v < size (Arr vs)"
  by (induction vs) auto

lemma jsval_size_property: "p \<in> set ps \<Longrightarrow> size (snd p) < size (Obj ps)"
  by (induction ps) auto

function canonicalize :: "jsval \<Rightarrow> jsval result" where
  "canonicalize Null = Inr Null"
| "canonicalize (Str s) = Inr (Str s)"
| "canonicalize (Bool b) = Inr (Bool b)"
| "canonicalize (Num q) = Inr (Num q)"
| "canonicalize (Infinite b) = Inl catalog_malformed"
| "canonicalize Undefined = Inl catalog_malformed"
| "canonicalize (Arr vs) = bindR (mapR canonicalize vs) (\<lambda>ws. Inr (Arr ws))"
| "canonicalize (Obj ps) =
     bindR (mapR (\<lambda>p. bindR (canonicalize (snd p)) (\<lambda>w. Inr (fst p, w))) (sort_key fst ps)) (\<lambda>qs.
       Inr (Obj (own_order qs)))"
  by pat_completeness auto
termination
  by (relation "measure size") (auto dest: jsval_size_elem jsval_size_property)

definition ZERO_SHA256 :: jsstr where
  "ZERO_SHA256 = replicate 64 48"

definition canonicalJsonBytes :: "platform \<Rightarrow> jsval \<Rightarrow> bytes result" where
  "canonicalJsonBytes P v = bindR (canonicalize v) (\<lambda>c. Inr (encode (json_stringify P c)))"

text \<open>\<open>{ ...document, catalogRevision: ZERO_SHA256 }\<close>\<close>

fun zero_revision :: "jsval \<Rightarrow> jsval" where
  "zero_revision (Obj ps) = Obj (AList.update (js ''catalogRevision'') (Str ZERO_SHA256) ps)"
| "zero_revision v = v"

definition catalogRevisionFor :: "platform \<Rightarrow> jsval \<Rightarrow> jsstr result" where
  "catalogRevisionFor P document =
     bindR (require (plainObject document) catalog_malformed) (\<lambda>_.
     bindR (canonicalJsonBytes P (zero_revision document)) (\<lambda>bytes. Inr (sha256 P bytes)))"

definition formatCatalog :: "platform \<Rightarrow> jsval \<Rightarrow> jsstr result" where
  "formatCatalog P document = bindR (canonicalize document) (\<lambda>c. Inr (json_pretty P c @ [10]))"

section \<open>Documents that differ in the order of properties\<close>

text \<open>A parsed document: every object has distinct keys.\<close>

fun distinct_keys :: "jsval \<Rightarrow> bool" where
  "distinct_keys (Arr vs) = list_all distinct_keys vs"
| "distinct_keys (Obj ps) = (distinct (map fst ps) \<and> list_all distinct_keys (map snd ps))"
| "distinct_keys _ = True"

inductive same_document :: "jsval \<Rightarrow> jsval \<Rightarrow> bool" where
  atom: "same_document v v"
| array: "list_all2 same_document vs ws \<Longrightarrow> same_document (Arr vs) (Arr ws)"
| object: "list_all2 (rel_prod (=) same_document) ps qs \<Longrightarrow> mset qs = mset rs \<Longrightarrow> same_document (Obj ps) (Obj rs)"

text \<open>Sorting by key respects a relation between the values.\<close>

lemma insort_rel:
  assumes "list_all2 (rel_prod (=) R) ps qs" and "rel_prod (=) R p q"
  shows "list_all2 (rel_prod (=) R) (insort_key fst p ps) (insort_key fst q qs)"
  using assms by (induction ps qs rule: list_all2_induct) (auto simp: rel_prod_sel)

lemma sort_rel:
  "list_all2 (rel_prod (=) R) ps qs \<Longrightarrow> list_all2 (rel_prod (=) R) (sort_key fst ps) (sort_key fst qs)"
  by (induction ps qs rule: list_all2_induct) (simp_all add: insort_rel)

lemma rel_keys: "list_all2 (rel_prod (=) R) ps qs \<Longrightarrow> map fst ps = map fst qs"
  by (induction ps qs rule: list_all2_induct) (auto simp: rel_prod_sel)

lemma mapR_rel: "list_all2 (\<lambda>x y. f x = g y) xs ys \<Longrightarrow> mapR f xs = mapR g ys"
  by (induction xs ys rule: list_all2_induct) simp_all

lemma same_document_canonical:
  assumes "same_document v w" and "distinct_keys v"
  shows "canonicalize v = canonicalize w"
  using assms
proof (induction rule: same_document.induct)
  case (array vs ws)
  then have "list_all2 (\<lambda>v w. canonicalize v = canonicalize w) vs ws"
    by (auto simp: list_all2_conv_all_nth list_all_length)
  then show ?case by (simp add: mapR_rel)
next
  case (object ps qs rs)
  have d: "distinct (map fst ps)" "list_all distinct_keys (map snd ps)" using object.prems by simp_all
  have r: "list_all2 (rel_prod (=) (\<lambda>v w. canonicalize v = canonicalize w)) ps qs"
    using object.IH d(2) by (auto simp: list_all2_conv_all_nth list_all_length rel_prod_sel)
  then have "sort_key fst qs = sort_key fst rs"
    using d(1) object.hyps by (intro sort_key_unique) (simp_all add: rel_keys [OF r, symmetric])
  moreover have "mapR (\<lambda>p. bindR (canonicalize (snd p)) (\<lambda>w. Inr (fst p, w))) (sort_key fst ps) =
      mapR (\<lambda>p. bindR (canonicalize (snd p)) (\<lambda>w. Inr (fst p, w))) (sort_key fst qs)"
    using sort_rel [OF r] by (intro mapR_rel) (auto elim!: list_all2_mono simp: rel_prod_sel)
  ultimately show ?case by simp
qed simp

lemma canonicalize_object:
  assumes "canonicalize (Obj ps) = Inr w"
  obtains qs where "w = Obj (own_order qs)"
    "list_all2 (\<lambda>p q. fst q = fst p \<and> canonicalize (snd p) = Inr (snd q)) (sort_key fst ps) qs"
proof -
  from assms obtain qs where qs: "w = Obj (own_order qs)"
    "list_all2 (\<lambda>p q. bindR (canonicalize (snd p)) (\<lambda>w. Inr (fst p, w)) = Inr q) (sort_key fst ps) qs"
    by (auto simp: result_simps mapR_Inr_iff)
  show ?thesis
    by (rule that [OF qs(1)]) (rule list_all2_mono [OF qs(2)], auto simp: result_simps)
qed

lemma permute_rel:
  assumes "list_all2 R xs ys" and "mset xs = mset zs"
  obtains ws where "list_all2 R zs ws" "mset ws = mset ys"
  using assms list_all2_reorder_left_invariance [OF assms(1), of zs] by metis

text \<open>The canonical form is the same document.\<close>

lemma canonicalize_same:
  assumes "canonicalize v = Inr w" and "distinct_keys v"
  shows "same_document v w \<and> distinct_keys w"
  using assms
proof (induction v arbitrary: w rule: canonicalize.induct)
  case (7 vs)
  from 7(2) obtain ws where ws: "w = Arr ws" "list_all2 (\<lambda>v w. canonicalize v = Inr w) vs ws"
    by (auto simp: result_simps mapR_Inr_iff)
  have "same_document (vs ! i) (ws ! i) \<and> distinct_keys (ws ! i)" if "i < length vs" for i
    using 7(1) [of "vs ! i" "ws ! i"] 7(3) ws(2) that by (simp add: list_all2_conv_all_nth list_all_length)
  with ws(2) have "list_all2 (\<lambda>v w. same_document v w \<and> distinct_keys w) vs ws"
    by (simp add: list_all2_conv_all_nth)
  then show ?case
    by (auto simp: ws(1) list_all2_conv_all_nth list_all_length intro!: same_document.array)
next
  case (8 ps)
  from 8(2) obtain qs where qs: "w = Obj (own_order qs)"
    "list_all2 (\<lambda>p q. fst q = fst p \<and> canonicalize (snd p) = Inr (snd q)) (sort_key fst ps) qs"
    by (rule canonicalize_object)
  have d: "distinct (map fst ps)" "list_all distinct_keys (map snd ps)" using 8(3) by simp_all
  have one: "same_document (snd p) w \<and> distinct_keys w" if "p \<in> set (sort_key fst ps)" "canonicalize (snd p) = Inr w" for p w
    using 8(1) [OF that] d(2) that(1) by (simp add: list_all_iff)
  have r: "list_all2 (\<lambda>p q. fst q = fst p \<and> same_document (snd p) (snd q) \<and> distinct_keys (snd q)) (sort_key fst ps) qs"
    using qs(2) by (rule list.rel_mono_strong) (use one in blast)
  have k: "map fst qs = map fst (sort_key fst ps)"
    using r by (auto simp: list_all2_conv_all_nth intro!: nth_equalityI)
  have "distinct (map fst qs)" "list_all distinct_keys (map snd qs)"
    using d(1) r by (simp_all add: k distinct_map list_all2_conv_all_nth list_all_length)
  moreover have "distinct (map fst (own_order qs)) \<longleftrightarrow> distinct (map fst qs)" "set (own_order qs) = set qs"
    by (metis mset_own_order mset_map mset_eq_imp_distinct_iff) (metis mset_own_order mset_eq_setD)
  ultimately have dk: "distinct_keys w" by (simp add: qs(1) list_all_iff)
  have "list_all2 (rel_prod (=) same_document) (sort_key fst ps) qs"
    using r by (auto elim!: list_all2_mono simp: rel_prod_sel)
  from permute_rel [OF this mset_sort] obtain rs where
    "list_all2 (rel_prod (=) same_document) ps rs" "mset rs = mset qs" by blast
  with dk show ?case
    by (auto simp: qs(1) mset_own_order intro!: same_document.object [of ps rs])
qed (auto intro: same_document.atom)

lemma canonicalize_idempotent:
  "canonicalize v = Inr w \<Longrightarrow> distinct_keys v \<Longrightarrow> canonicalize w = Inr w"
  using canonicalize_same same_document_canonical by metis

text \<open>Replacing the revision respects the order of properties.\<close>

lemma set_update:
  "distinct (map fst ps) \<Longrightarrow> set (AList.update k v ps) = insert (k, v) {p \<in> set ps. fst p \<noteq> k}"
  by (induction ps) (auto simp: image_iff)

lemma mset_update:
  assumes "mset ps = mset qs" and "distinct (map fst ps)"
  shows "mset (AList.update k v ps) = mset (AList.update k v qs)"
proof -
  have d: "distinct (map fst qs)" using assms by (metis mset_map mset_eq_imp_distinct_iff)
  have "distinct (AList.update k v ps)" "distinct (AList.update k v qs)"
    by (metis assms(2) distinct_map distinct_update) (metis d distinct_map distinct_update)
  moreover have "set (AList.update k v ps) = set (AList.update k v qs)"
    using set_update [OF assms(2)] set_update [OF d] mset_eq_setD [OF assms(1)] by simp
  ultimately show ?thesis by (simp add: set_eq_iff_mset_eq_distinct)
qed

lemma update_rel:
  "list_all2 (rel_prod (=) R) ps qs \<Longrightarrow> R v v \<Longrightarrow> list_all2 (rel_prod (=) R) (AList.update k v ps) (AList.update k v qs)"
  by (induction ps qs rule: list_all2_induct) (auto elim!: rel_prod.cases)

lemma zero_revision_same:
  assumes "same_document v w" and "distinct_keys v"
  shows "same_document (zero_revision v) (zero_revision w)"
  using assms(1)
proof cases
  case (object ps qs rs)
  have "distinct (map fst qs)" using rel_keys [OF object(3)] assms(2) object(1) by simp
  from mset_update [OF object(4) this] show ?thesis
    unfolding object(1,2) zero_revision.simps
    by (rule same_document.object [OF update_rel [OF object(3)], rotated]) (rule same_document.atom)
qed (auto intro: same_document.atom same_document.array)

lemma zero_revision_distinct: "distinct_keys v \<Longrightarrow> distinct_keys (zero_revision v)"
  by (cases v) (auto simp: distinct_update list_all_iff set_update)

lemma revision_same:
  assumes "same_document d d'" and "distinct_keys d"
  shows "catalogRevisionFor P d = catalogRevisionFor P d'"
proof -
  have "plainObject d = plainObject d'" using assms(1) by cases auto
  with same_document_canonical [OF zero_revision_same [OF assms] zero_revision_distinct [OF assms(2)]]
  show ?thesis by (simp add: catalogRevisionFor_def canonicalJsonBytes_def)
qed

section \<open>Properties\<close>



end
