(* ===== verification/Reviewed_Catalog.thy ===== *)
theory Reviewed_Catalog
  imports Immutable_Content Canonical_Json
begin

text \<open>
  The reviewed toolchain catalog as the builder reads it
  (\<open>ReviewedToolchainCatalog\<close>, \<open>parseCatalog\<close> and the parsers below it in
  \<open>src/compiler/src/reviewed-builder.mjs\<close>). Shown: every toolchain of an accepted catalog
  is well formed, and a manifest resolves to at most one of them.
\<close>

section \<open>Parsing\<close>

definition MAX_ARTIFACT_BYTES :: int where
  "MAX_ARTIFACT_BYTES = 512 * 1024 * 1024"

definition invalid_catalog :: js_error where
  "invalid_catalog = CompilerFailure ''invalid_reviewed_catalog''"

definition validJava :: "jsval \<Rightarrow> bool" where
  "validJava v = (plainObject v \<and> sameKeys v [''component'', ''major''] \<and> validIdentifier (get v ''component'') \<and>
     isSafeInteger (get v ''major'') \<and> 1 \<le> the_int (get v ''major'') \<and> the_int (get v ''major'') \<le> 255)"

definition coordinate_part :: "string \<Rightarrow> jsstr \<Rightarrow> bool" where
  "coordinate_part others p = (p \<noteq> [] \<and> list_all (\<lambda>u. is_alnum u \<or> one_of others u) p)"

definition validCoordinate :: "jsval \<Rightarrow> bool" where
  "validCoordinate v = (is_str v \<and> the_str v \<noteq> [] \<and> length (the_str v) \<le> 256 \<and>
     (case split_on 58 (the_str v) of
        [a, b, c] \<Rightarrow> coordinate_part ''_.-'' a \<and> coordinate_part ''_.-'' b \<and> coordinate_part ''._+-'' c
      | [a, b, c, d] \<Rightarrow> coordinate_part ''_.-'' a \<and> coordinate_part ''_.-'' b \<and> coordinate_part ''._+-'' c \<and>
          coordinate_part ''_.-'' d
      | _ \<Rightarrow> False))"

definition parseJre :: "jsval \<Rightarrow> jsval \<Rightarrow> jsval \<Rightarrow> jre_ref result" where
  "parseJre v java revision =
     bindR (require (sameKeys v [''id'', ''sha256'', ''component'', ''major'', ''runtimeCatalogRevision''] \<and>
       validIdentifier (get v ''id'') \<and> validSha256 (get v ''sha256'') \<and>
       strict_eq (get v ''component'') (get java ''component'') \<and> strict_eq (get v ''major'') (get java ''major'') \<and>
       strict_eq (get v ''runtimeCatalogRevision'') revision) invalid_catalog) (\<lambda>_.
     Inr \<lparr>jre_id = the_str (get v ''id''), jre_sha256 = ascii_lower (the_str (get v ''sha256'')),
       jre_component = the_str (get v ''component''), jre_major = the_int (get v ''major''),
       jre_runtimeCatalogRevision = ascii_lower (the_str (get v ''runtimeCatalogRevision''))\<rparr>)"

definition approved_url :: "platform \<Rightarrow> jsstr list \<Rightarrow> url \<Rightarrow> bool" where
  "approved_url P approvedHosts u = (protocol u = js ''https:'' \<and> username u = [] \<and> password u = [] \<and> hash u = [] \<and>
     port u = [] \<and> lower P (hostname u) \<in> set approvedHosts)"

definition parseArtifact :: "platform \<Rightarrow> jsstr list \<Rightarrow> jsval \<Rightarrow> artifact result" where
  "parseArtifact P approvedHosts v =
     bindR (require (plainObject v \<and> sameKeys v [''role'', ''coordinate'', ''url'', ''sha256'', ''sizeBytes''] \<and>
       get v ''role'' \<in> {Str (js ''primary''), Str (js ''dependency'')} \<and>
       validCoordinate (get v ''coordinate'') \<and> is_str (get v ''url'') \<and> validSha256 (get v ''sha256'') \<and>
       isSafeInteger (get v ''sizeBytes'') \<and> 1 \<le> the_int (get v ''sizeBytes'') \<and>
       the_int (get v ''sizeBytes'') \<le> MAX_ARTIFACT_BYTES) invalid_catalog) (\<lambda>_.
     case parse_url P (the_str (get v ''url'')) of None \<Rightarrow> Inl invalid_catalog
     | Some u \<Rightarrow>
       bindR (require (approved_url P approvedHosts u) invalid_catalog) (\<lambda>_.
       Inr \<lparr>a_role = the_str (get v ''role''), a_coordinate = the_str (get v ''coordinate''),
         a_url = the_str (get v ''url''), a_sha256 = ascii_lower (the_str (get v ''sha256'')),
         a_sizeBytes = the_int (get v ''sizeBytes'')\<rparr>))"

definition expectedPrimaryCoordinate :: "jsstr \<Rightarrow> jsval \<Rightarrow> jsstr \<Rightarrow> jsstr result" where
  "expectedPrimaryCoordinate minecraftVersion kind version =
     (if kind = Str (js ''forge'') then
        Inr (js ''net.minecraftforge:forge:'' @ minecraftVersion @ js ''-'' @ version @ js '':installer'')
      else if kind = Str (js ''fabric'') then Inr (js ''net.fabricmc:fabric-loader:'' @ version)
      else if kind = Str (js ''neoforge'') then Inr (js ''net.neoforged:neoforge:'' @ version @ js '':installer'')
      else if kind = Str (js ''quilt'') then Inr (js ''org.quiltmc:quilt-loader:'' @ version)
      else Inl invalid_catalog)"

definition toolchain_ok :: "platform \<Rightarrow> jsval \<Rightarrow> bool result" where
  "toolchain_ok P v =
     (if plainObject v \<and> sameKeys v [''minecraftVersion'', ''loader'', ''java'', ''jre'', ''artifacts'', ''launchTemplate''] \<and>
        validMinecraftVersion (get v ''minecraftVersion'')
      then bindR (validLoader P (get v ''loader'')) (\<lambda>loader_ok.
        if loader_ok \<and> validJava (get v ''java'') \<and> plainObject (get v ''jre'') \<and> is_arr (get v ''artifacts'') \<and>
          1 \<le> length (the_arr (get v ''artifacts'')) \<and> length (the_arr (get v ''artifacts'')) \<le> 256
        then bindR (js_String P (get (get v ''loader'') ''kind'')) (\<lambda>kind.
          Inr (strict_eq (get v ''launchTemplate'')
            (case map_of loaderTemplates kind of None \<Rightarrow> Undefined | Some t \<Rightarrow> Str t)))
        else Inr False)
      else Inr False)"

definition check_primary :: "jsstr result \<Rightarrow> artifact list \<Rightarrow> unit result" where
  "check_primary expected artifacts =
     (case filter (\<lambda>a. a_role a = js ''primary'') artifacts of
        [primary] \<Rightarrow> bindR expected (\<lambda>coordinate. require (a_coordinate primary = coordinate) invalid_catalog)
      | _ \<Rightarrow> Inl invalid_catalog)"

definition parseToolchain :: "platform \<Rightarrow> jsval \<Rightarrow> jsstr list \<Rightarrow> jsval \<Rightarrow> toolchain result" where
  "parseToolchain P revision approvedHosts v =
     bindR (toolchain_ok P v) (\<lambda>ok.
     bindR (require ok invalid_catalog) (\<lambda>_.
     bindR (parseJre (get v ''jre'') (get v ''java'') revision) (\<lambda>jre.
     bindR (mapR (parseArtifact P approvedHosts) (the_arr (get v ''artifacts''))) (\<lambda>artifacts.
     let version = the_str (get (get v ''loader'') ''version''); kind = get (get v ''loader'') ''kind'' in
     bindR (check_primary (expectedPrimaryCoordinate (the_str (get v ''minecraftVersion'')) kind version) artifacts) (\<lambda>_.
     bindR (require (distinct (map a_coordinate artifacts)) invalid_catalog) (\<lambda>_.
     Inr \<lparr>t_minecraftVersion = the_str (get v ''minecraftVersion''), t_loader_kind = kind, t_loader_version = version,
       t_java_component = the_str (get (get v ''java'') ''component''),
       t_java_major = the_int (get (get v ''java'') ''major''), t_jre = jre, t_artifacts = artifacts\<rparr>))))))"

text \<open>The key of a toolchain. Its loader kind is a string: no other has a primary coordinate.\<close>

definition toolchain_key :: "platform \<Rightarrow> toolchain \<Rightarrow> jsstr" where
  "toolchain_key P t = t_minecraftVersion t @ [0] @ the_str (t_loader_kind t) @ [0] @ t_loader_version t @ [0] @
     t_java_component t @ [0] @ number_to_string P (of_int (t_java_major t))"

definition add_coordinate :: "jsstr \<Rightarrow> jsstr list \<Rightarrow> artifact \<Rightarrow> jsstr list result" where
  "add_coordinate key coordinates a =
     (let coordinateKey = key @ [0] @ a_coordinate a in
      if coordinateKey \<in> set coordinates then Inl invalid_catalog else Inr (coordinates @ [coordinateKey]))"

definition add_toolchain ::
    "platform \<Rightarrow> jsval \<Rightarrow> jsstr list \<Rightarrow> jsstr list \<times> jsstr list \<times> toolchain list \<Rightarrow> jsval \<Rightarrow>
     (jsstr list \<times> jsstr list \<times> toolchain list) result" where
  "add_toolchain P revision approvedHosts = (\<lambda>(coordinates, toolchainKeys, toolchains) v.
     bindR (parseToolchain P revision approvedHosts v) (\<lambda>parsed.
     let key = toolchain_key P parsed in
     if key \<in> set toolchainKeys then Inl invalid_catalog
     else bindR (foldR (add_coordinate key) coordinates (t_artifacts parsed)) (\<lambda>coordinates'.
       Inr (coordinates', toolchainKeys @ [key], toolchains @ [parsed]))))"

record catalog =
  c_catalogVersion :: jsstr
  c_catalogRevision :: "jsstr option"
  c_runtimeCatalogRevision :: jsstr
  c_approvedArtifactHosts :: "jsstr list"
  c_toolchains :: "toolchain list"

definition catalog_host :: "platform \<Rightarrow> jsval \<Rightarrow> jsstr result" where
  "catalog_host P v =
     (let h = the_str v; edge = (\<lambda>u. is_lower u \<or> is_digit u) in
      bindR (require (is_str v \<and> h = lower P h \<and> h \<noteq> [] \<and> edge (hd h) \<and> edge (last h) \<and>
        list_all (\<lambda>u. edge u \<or> one_of ''.-'' u) h) invalid_catalog) (\<lambda>_. Inr h))"

definition legacy_keys :: "string list" where
  "legacy_keys = [''schemaVersion'', ''catalogVersion'', ''runtimeCatalogRevision'', ''approvedArtifactHosts'', ''toolchains'']"

definition generated_keys :: "string list" where
  "generated_keys = [''schemaVersion'', ''catalogRevision'', ''runtimeCatalogRevision'', ''approvedArtifactHosts'', ''toolchains'']"

text \<open>The identification of the two forms of a catalog; a generated one carries its own digest.\<close>

definition catalog_identified :: "platform \<Rightarrow> jsval \<Rightarrow> bool result" where
  "catalog_identified P v =
     (if sameKeys v legacy_keys then Inr (validIdentifier (get v ''catalogVersion''))
      else if validSha256 (get v ''catalogRevision'')
      then bindR (catalogRevisionFor P v) (\<lambda>revision. Inr (revision = ascii_lower (the_str (get v ''catalogRevision''))))
      else Inr False)"

definition parseCatalog :: "platform \<Rightarrow> jsval \<Rightarrow> catalog result" where
  "parseCatalog P v =
     (let legacy = sameKeys v legacy_keys; generated = sameKeys v generated_keys in
      bindR (require (plainObject v \<and> (legacy \<or> generated) \<and> get v ''schemaVersion'' = JInt 1) invalid_catalog) (\<lambda>_.
      bindR (catalog_identified P v) (\<lambda>identified.
      bindR (require (identified \<and> validSha256 (get v ''runtimeCatalogRevision'') \<and>
        is_arr (get v ''approvedArtifactHosts'') \<and> 1 \<le> length (the_arr (get v ''approvedArtifactHosts'')) \<and>
        is_arr (get v ''toolchains'') \<and> 1 \<le> length (the_arr (get v ''toolchains'')) \<and>
        length (the_arr (get v ''toolchains'')) \<le> 256) invalid_catalog) (\<lambda>_.
      bindR (mapR (catalog_host P) (the_arr (get v ''approvedArtifactHosts''))) (\<lambda>hosts.
      bindR (require (distinct hosts) invalid_catalog) (\<lambda>_.
      bindR (foldR (add_toolchain P (get v ''runtimeCatalogRevision'') hosts) ([], [], []) (the_arr (get v ''toolchains'')))
        (\<lambda>(coordinates, toolchainKeys, toolchains).
      Inr \<lparr>c_catalogVersion = (if legacy then the_str (get v ''catalogVersion'')
            else ascii_lower (the_str (get v ''catalogRevision''))),
        c_catalogRevision = (if generated then Some (ascii_lower (the_str (get v ''catalogRevision''))) else None),
        c_runtimeCatalogRevision = ascii_lower (the_str (get v ''runtimeCatalogRevision'')),
        c_approvedArtifactHosts = hosts, c_toolchains = toolchains\<rparr>)))))))"

text \<open>\<open>supportedFamilies\<close> is a list of strings in the compositions of the package.\<close>

definition ReviewedToolchainCatalog :: "platform \<Rightarrow> jsval \<Rightarrow> jsstr list option \<Rightarrow> catalog result" where
  "ReviewedToolchainCatalog P document supportedFamilies =
     bindR (parseCatalog P document) (\<lambda>catalog.
     bindR (require (case supportedFamilies of None \<Rightarrow> True
       | Some families \<Rightarrow> families \<noteq> [] \<and> distinct families \<and> list_all (has loaderTemplates) families) invalid_catalog) (\<lambda>_.
     let toolchains = (case supportedFamilies of None \<Rightarrow> c_toolchains catalog
       | Some families \<Rightarrow> filter (\<lambda>t. t_loader_kind t \<in> Str ` set families) (c_toolchains catalog)) in
     bindR (require (1 \<le> length toolchains) invalid_catalog) (\<lambda>_. Inr (catalog\<lparr>c_toolchains := toolchains\<rparr>))))"

section \<open>Resolution\<close>

definition unsupported :: js_error where
  "unsupported = CompilerFailure ''unsupported_compatibility''"

definition toolchain_matches :: "jsval \<Rightarrow> toolchain \<Rightarrow> bool" where
  "toolchain_matches input t = (get input ''minecraftVersion'' = Str (t_minecraftVersion t) \<and>
     strict_eq (t_loader_kind t) (get (get input ''loader'') ''kind'') \<and>
     get (get input ''loader'') ''version'' = Str (t_loader_version t) \<and>
     get (get input ''java'') ''component'' = Str (t_java_component t) \<and>
     get (get input ''java'') ''major'' = JInt (t_java_major t))"

definition catalog_resolve :: "catalog \<Rightarrow> jsval \<Rightarrow> toolchain result" where
  "catalog_resolve c input =
     bindR (require (plainObject input \<and> get input ''runtimeCatalogRevision'' = Str (c_runtimeCatalogRevision c) \<and>
       validMinecraftVersion (get input ''minecraftVersion'') \<and> plainObject (get input ''loader'') \<and>
       plainObject (get input ''java'')) unsupported) (\<lambda>_.
     of_option unsupported (find (toolchain_matches input) (c_toolchains c)))"

section \<open>What an accepted catalog holds\<close>

definition lower_hex :: "nat \<Rightarrow> jsstr \<Rightarrow> bool" where
  "lower_hex n s = (length s = n \<and> list_all is_hex_lower s)"

definition artifact_typed :: "platform \<Rightarrow> jsstr list \<Rightarrow> artifact \<Rightarrow> bool" where
  "artifact_typed P hosts a = (a_role a \<in> {js ''primary'', js ''dependency''} \<and> validCoordinate (Str (a_coordinate a)) \<and>
     lower_hex 64 (a_sha256 a) \<and> 1 \<le> a_sizeBytes a \<and> a_sizeBytes a \<le> MAX_ARTIFACT_BYTES \<and>
     (\<exists>u. parse_url P (a_url a) = Some u \<and> approved_url P hosts u))"

definition toolchain_typed :: "platform \<Rightarrow> jsstr \<Rightarrow> jsstr list \<Rightarrow> toolchain \<Rightarrow> bool" where
  "toolchain_typed P revision hosts t =
     (validMinecraftVersion (Str (t_minecraftVersion t)) \<and> t_loader_kind t \<in> Str ` set (map fst loaderTemplates) \<and>
      validLoaderVersion (Str (t_loader_version t)) \<and> validIdentifier (Str (t_java_component t)) \<and>
      1 \<le> t_java_major t \<and> t_java_major t \<le> 255 \<and> jre_component (t_jre t) = t_java_component t \<and>
      jre_major (t_jre t) = t_java_major t \<and> jre_runtimeCatalogRevision (t_jre t) = revision \<and>
      validIdentifier (Str (jre_id (t_jre t))) \<and> lower_hex 64 (jre_sha256 (t_jre t)) \<and>
      list_all (artifact_typed P hosts) (t_artifacts t) \<and> distinct (map a_coordinate (t_artifacts t)) \<and>
      (\<exists>a. filter (\<lambda>a. a_role a = js ''primary'') (t_artifacts t) = [a] \<and>
        expectedPrimaryCoordinate (t_minecraftVersion t) (t_loader_kind t) (t_loader_version t) = Inr (a_coordinate a)))"

lemma validSha256_lower_hex: "validSha256 v \<Longrightarrow> lower_hex 64 (ascii_lower (the_str v))"
proof -
  have "is_hex_lower (ascii_lower_unit u)" if "is_hex u" for u
    using that by (auto simp: ascii_lower_unit_def char_class_defs word_le_nat_alt word_less_nat_alt unat_word_ariths)
  then show "validSha256 v \<Longrightarrow> lower_hex 64 (ascii_lower (the_str v))"
    by (auto simp: validSha256_def lower_hex_def ascii_lower_def list_all_iff)
qed

lemma parseArtifact_ok: "parseArtifact P hosts v = Inr a \<Longrightarrow> artifact_typed P hosts a"
  by (auto simp: parseArtifact_def artifact_typed_def result_simps validSha256_lower_hex validCoordinate_def
      split: option.splits)

lemma primary_kind:
  "expectedPrimaryCoordinate m kind version = Inr x \<Longrightarrow> kind \<in> Str ` set (map fst loaderTemplates)"
  by (auto simp: expectedPrimaryCoordinate_def loaderTemplates_def split: if_splits)

lemma toolchain_ok_fields:
  assumes "toolchain_ok P v = Inr True"
  shows "validMinecraftVersion (get v ''minecraftVersion'')" "validLoaderVersion (get (get v ''loader'') ''version'')"
    "validJava (get v ''java'')"
  using assms by (auto simp: toolchain_ok_def validLoader_def result_simps split: if_splits)

lemma strict_eq_imp_eq: "strict_eq a b \<Longrightarrow> a = b"
  by (cases a; cases b) simp_all

lemma check_primary_ok:
  "check_primary expected artifacts = Inr () \<longleftrightarrow>
    (\<exists>a. filter (\<lambda>a. a_role a = js ''primary'') artifacts = [a] \<and> expected = Inr (a_coordinate a))"
  by (auto simp: check_primary_def result_simps split: list.splits)

lemma str_eq: "is_str v \<Longrightarrow> Str (the_str v) = v"
  by (cases v) simp_all

lemma parseToolchain_ok:
  assumes "parseToolchain P revision hosts v = Inr t" and "validSha256 revision"
  shows "toolchain_typed P (ascii_lower (the_str revision)) hosts t"
proof -
  let ?e = "expectedPrimaryCoordinate (the_str (get v ''minecraftVersion'')) (get (get v ''loader'') ''kind'')
        (the_str (get (get v ''loader'') ''version''))"
  from assms(1) obtain jre artifacts where
    o: "toolchain_ok P v = Inr True" "parseJre (get v ''jre'') (get v ''java'') revision = Inr jre"
      "mapR (parseArtifact P hosts) (the_arr (get v ''artifacts'')) = Inr artifacts" "distinct (map a_coordinate artifacts)"
      "check_primary ?e artifacts = Inr ()"
    and t: "t = \<lparr>t_minecraftVersion = the_str (get v ''minecraftVersion''), t_loader_kind = get (get v ''loader'') ''kind'',
       t_loader_version = the_str (get (get v ''loader'') ''version''),
       t_java_component = the_str (get (get v ''java'') ''component''),
       t_java_major = the_int (get (get v ''java'') ''major''), t_jre = jre, t_artifacts = artifacts\<rparr>"
    by (auto simp: parseToolchain_def result_simps Let_def)
  from o(5) obtain primary where prim: "filter (\<lambda>a. a_role a = js ''primary'') artifacts = [primary]"
      "?e = Inr (a_coordinate primary)" by (auto simp: check_primary_ok)
  note f = toolchain_ok_fields [OF o(1)]
  have j: "jre_component jre = the_str (get (get v ''java'') ''component'')"
    "jre_major jre = the_int (get (get v ''java'') ''major'')"
    "jre_runtimeCatalogRevision jre = ascii_lower (the_str revision)"
    "validIdentifier (Str (jre_id jre))" "lower_hex 64 (jre_sha256 jre)"
    using o(2) by (auto simp: parseJre_def result_simps validSha256_lower_hex validIdentifier_def dest!: strict_eq_imp_eq)
  have "list_all (artifact_typed P hosts) artifacts"
    using o(3) by (auto simp: mapR_Inr_iff list_all2_conv_all_nth list_all_length intro: parseArtifact_ok)
  moreover have "Str (the_str (get v ''minecraftVersion'')) = get v ''minecraftVersion''"
    "Str (the_str (get (get v ''loader'') ''version'')) = get (get v ''loader'') ''version''"
    "Str (the_str (get (get v ''java'') ''component'')) = get (get v ''java'') ''component''"
    using f by (auto simp: str_eq validJava_def validMinecraftVersion_def validLoaderVersion_def validIdentifier_def)
  ultimately show ?thesis
    using f j o(4) prim primary_kind [OF prim(2)] by (simp add: toolchain_typed_def t validJava_def)
qed

definition catalog_typed :: "platform \<Rightarrow> catalog \<Rightarrow> bool" where
  "catalog_typed P c = (c_toolchains c \<noteq> [] \<and> lower_hex 64 (c_runtimeCatalogRevision c) \<and>
     list_all (toolchain_typed P (c_runtimeCatalogRevision c) (c_approvedArtifactHosts c)) (c_toolchains c) \<and>
     distinct (map (toolchain_key P) (c_toolchains c)))"

lemma add_toolchains_ok:
  assumes "foldR (add_toolchain P revision hosts) ([], [], []) vs = Inr (cs, ks, ts)" and "validSha256 revision"
  shows "list_all (toolchain_typed P (ascii_lower (the_str revision)) hosts) ts \<and> distinct (map (toolchain_key P) ts) \<and>
    length ts = length vs"
proof -
  let ?I = "\<lambda>(cs :: jsstr list, ks, ts). list_all (toolchain_typed P (ascii_lower (the_str revision)) hosts) ts \<and>
    ks = map (toolchain_key P) ts \<and> distinct ks"
  have "?I (cs, ks, ts)"
    using assms(1)
  proof (rule foldR_invariant)
    fix s x t assume "?I s" "add_toolchain P revision hosts s x = Inr t"
    then show "?I t"
      by (auto simp: add_toolchain_def result_simps Let_def parseToolchain_ok [OF _ assms(2)] split: if_splits)
  qed simp
  moreover have "length (snd (snd s')) = length (snd (snd s)) + length vs"
    if "foldR (add_toolchain P revision hosts) s vs = Inr s'" for s s'
    using that by (induction vs arbitrary: s) (auto simp: add_toolchain_def result_simps Let_def split: if_splits)
  from this [OF assms(1)] have "length ts = length vs" by simp
  ultimately show ?thesis by auto
qed

lemma parseCatalog_typed:
  assumes "parseCatalog P v = Inr c"
  shows "catalog_typed P c"
proof -
  from assms obtain hosts cs ks ts where
    f: "foldR (add_toolchain P (get v ''runtimeCatalogRevision'') hosts) ([], [], []) (the_arr (get v ''toolchains'')) =
      Inr (cs, ks, ts)" and r: "validSha256 (get v ''runtimeCatalogRevision'')" "1 \<le> length (the_arr (get v ''toolchains''))"
    and c: "c_runtimeCatalogRevision c = ascii_lower (the_str (get v ''runtimeCatalogRevision''))"
      "c_approvedArtifactHosts c = hosts" "c_toolchains c = ts"
    by (auto simp: parseCatalog_def result_simps Let_def)
  from add_toolchains_ok [OF f r(1)] r(2) validSha256_lower_hex [OF r(1)] show ?thesis
    by (auto simp: catalog_typed_def c)
qed

lemma reviewed_catalog_typed:
  assumes "ReviewedToolchainCatalog P document families = Inr c"
  shows "catalog_typed P c"
proof -
  let ?Q = "\<lambda>t. case families of None \<Rightarrow> True | Some fs \<Rightarrow> t_loader_kind t \<in> Str ` set fs"
  from assms obtain c0 where c: "parseCatalog P document = Inr c0" "1 \<le> length (filter ?Q (c_toolchains c0))"
    "c = c0\<lparr>c_toolchains := filter ?Q (c_toolchains c0)\<rparr>"
    by (cases families) (auto simp: ReviewedToolchainCatalog_def result_simps Let_def)
  have "filter ?Q (c_toolchains c0) \<noteq> []" using c(2) by (metis length_0_conv not_one_le_zero)
  with parseCatalog_typed [OF c(1)] show ?thesis
    by (auto simp: catalog_typed_def c(3) list_all_iff distinct_map_filter)
qed

lemma filter_eq_singleton: "distinct xs \<Longrightarrow> x \<in> set xs \<Longrightarrow> filter ((=) x) xs = [x]"
  by (induction xs) (auto simp: filter_empty_conv)

text \<open>A manifest names at most one toolchain.\<close>

lemma matching_key:
  assumes "toolchain_matches input t" and "toolchain_matches input t'"
  shows "toolchain_key P t = toolchain_key P t'"
  using assms by (auto simp: toolchain_matches_def toolchain_key_def dest!: strict_eq_imp_eq)

lemma resolve_ok:
  assumes "catalog_resolve c input = Inr t"
  shows "t \<in> set (c_toolchains c)" "toolchain_matches input t"
  using assms by (auto simp: catalog_resolve_def result_simps find_Some_iff)

section \<open>Properties\<close>

text \<open>
  C39. Resolution is unambiguous and typed: in a catalog the builder accepted, at most one
  toolchain matches the versions a manifest asks for, and the one that is resolved has valid
  versions, a JRE of the same component, major and runtime catalog, distinct artifacts on
  approved hosts with lower-case digests and bounded sizes, and exactly one primary artifact,
  whose coordinate is that of its loader.
\<close>

theorem catalog_resolution:
  assumes "ReviewedToolchainCatalog P document families = Inr c" and "catalog_resolve c input = Inr t"
  shows "toolchain_typed P (c_runtimeCatalogRevision c) (c_approvedArtifactHosts c) t \<and>
    filter (toolchain_matches input) (c_toolchains c) = [t]"
proof -
  note ct = reviewed_catalog_typed [OF assms(1), unfolded catalog_typed_def] and r = resolve_ok [OF assms(2)]
  have "x = t" if "x \<in> set (c_toolchains c)" "toolchain_matches input x" for x
    using ct matching_key [OF that(2) r(2), of P] that(1) r(1) by (auto simp: distinct_map dest: inj_onD)
  then have "filter (toolchain_matches input) (c_toolchains c) = filter ((=) t) (c_toolchains c)"
    using r(2) by (intro filter_cong) auto
  also have "\<dots> = [t]"
    using ct r(1) by (metis distinct_map filter_eq_singleton)
  finally show ?thesis using ct r(1) by (auto simp: list_all_iff)
qed

definition reviewed_artifact :: jsval where
  "reviewed_artifact = Obj [(js ''role'', Str (js ''primary'')), (js ''coordinate'', Str (js ''net.fabricmc:fabric-loader:0.16.9'')),
     (js ''url'', Str (js ''https://files.example/loader.jar'')), (js ''sha256'', Str (sample_sha256 [1, 2])), (js ''sizeBytes'', JInt 2)]"

definition reviewed_java :: jsval where
  "reviewed_java = Obj [(js ''component'', Str (js ''java-runtime-delta'')), (js ''major'', JInt 21)]"

definition reviewed_loader :: jsval where
  "reviewed_loader = Obj [(js ''kind'', Str (js ''fabric'')), (js ''version'', Str (js ''0.16.9''))]"

definition reviewed_document :: jsval where
  "reviewed_document = Obj [(js ''schemaVersion'', JInt 1), (js ''catalogVersion'', Str (js ''v1'')),
     (js ''runtimeCatalogRevision'', Str (replicate 64 97)), (js ''approvedArtifactHosts'', Arr [Str (js ''files.example'')]),
     (js ''toolchains'', Arr [Obj [(js ''minecraftVersion'', Str (js ''1.21.1'')), (js ''loader'', reviewed_loader),
       (js ''java'', reviewed_java), (js ''jre'', Obj [(js ''id'', Str (js ''jre-21'')), (js ''sha256'', Str (replicate 64 97)),
         (js ''component'', Str (js ''java-runtime-delta'')), (js ''major'', JInt 21),
         (js ''runtimeCatalogRevision'', Str (replicate 64 97))]),
       (js ''artifacts'', Arr [reviewed_artifact]), (js ''launchTemplate'', Str (js ''fabric-server-jar-v1''))]])]"

definition reviewed_toolchain :: toolchain where
  "reviewed_toolchain = \<lparr>t_minecraftVersion = js ''1.21.1'', t_loader_kind = Str (js ''fabric''),
     t_loader_version = js ''0.16.9'', t_java_component = js ''java-runtime-delta'', t_java_major = 21,
     t_jre = \<lparr>jre_id = js ''jre-21'', jre_sha256 = replicate 64 97, jre_component = js ''java-runtime-delta'',
       jre_major = 21, jre_runtimeCatalogRevision = replicate 64 97\<rparr>,
     t_artifacts = [\<lparr>a_role = js ''primary'', a_coordinate = js ''net.fabricmc:fabric-loader:0.16.9'',
       a_url = js ''https://files.example/loader.jar'', a_sha256 = sample_sha256 [1, 2], a_sizeBytes = 2\<rparr>]\<rparr>"

definition reviewed_catalog :: catalog where
  "reviewed_catalog = \<lparr>c_catalogVersion = js ''v1'', c_catalogRevision = None, c_runtimeCatalogRevision = replicate 64 97,
     c_approvedArtifactHosts = [js ''files.example''], c_toolchains = [reviewed_toolchain]\<rparr>"

definition reviewed_input :: jsval where
  "reviewed_input = Obj [(js ''runtimeCatalogRevision'', Str (replicate 64 97)), (js ''minecraftVersion'', Str (js ''1.21.1'')),
     (js ''loader'', reviewed_loader), (js ''java'', reviewed_java)]"

lemma reviewed_hex: "validSha256 (Str (replicate 64 97))" "ascii_lower (replicate 64 97) = replicate 64 97"
  by (simp_all add: validSha256_def list_all_iff char_class_defs ascii_lower_def ascii_lower_unit_def)

lemma reviewed_parts: "validMinecraftVersion (Str (js ''1.21.1''))" "validLoaderVersion (Str (js ''0.16.9''))"
  "validIdentifier (Str (js ''java-runtime-delta''))" "validIdentifier (Str (js ''jre-21''))" "validIdentifier (Str (js ''v1''))"
  "validCoordinate (Str (js ''net.fabricmc:fabric-loader:0.16.9''))"
  by (simp_all add: validMinecraftVersion_def validLoaderVersion_def validIdentifier_def validCoordinate_def
      version_major_def version_part_def coordinate_part_def js_simps char_class_defs)

lemma reviewed_artifact: "parseArtifact sample_platform [js ''files.example''] reviewed_artifact =
    Inr \<lparr>a_role = js ''primary'', a_coordinate = js ''net.fabricmc:fabric-loader:0.16.9'',
       a_url = js ''https://files.example/loader.jar'', a_sha256 = sample_sha256 [1, 2], a_sizeBytes = 2\<rparr>"
proof -
  have "prefix (js ''https://files.example/'') (js ''https://files.example/loader.jar'')" by (simp add: js_simps)
  moreover have "ascii_lower (js ''files.example'') = js ''files.example''"
    by (simp add: ascii_lower_def ascii_lower_unit_def js_simps char_class_defs)
  moreover have "validSha256 (Str (sample_sha256 [1, 2]))" "ascii_lower (sample_sha256 [1, 2]) = sample_sha256 [1, 2]"
    using sha256_validSha256 [OF sample_sha256_hex, of "[1, 2]"] sha256_lower [OF sample_sha256_hex, of "[1, 2]"]
    by (simp_all add: sample_platform_def)
  ultimately show ?thesis
    using reviewed_parts(6)
    by (simp add: parseArtifact_def reviewed_artifact_def sameKeysI MAX_ARTIFACT_BYTES_def max_safe_integer_def
        approved_url_def sample_platform_def sample_url_def)
qed

lemma reviewed_toolchains:
  "foldR (add_toolchain sample_platform (Str (replicate 64 97)) [js ''files.example'']) ([], [], [])
    (the_arr (get reviewed_document ''toolchains'')) =
   Inr ([toolchain_key sample_platform reviewed_toolchain @ [0] @ js ''net.fabricmc:fabric-loader:0.16.9''],
     [toolchain_key sample_platform reviewed_toolchain], [reviewed_toolchain])"
proof -
  define v where "v = hd (the_arr (get reviewed_document ''toolchains''))"
  have v: "the_arr (get reviewed_document ''toolchains'') = [v]" by (simp add: v_def reviewed_document_def)
  have "toolchain_ok sample_platform v = Inr True"
    using reviewed_parts
    by (simp add: toolchain_ok_def v_def reviewed_document_def sameKeysI validLoader_def reviewed_loader_def
        reviewed_java_def validJava_def loaderTemplates_def max_safe_integer_def)
  moreover have "parseJre (get v ''jre'') (get v ''java'') (Str (replicate 64 97)) = Inr (t_jre reviewed_toolchain)"
    using reviewed_parts reviewed_hex
    by (simp add: parseJre_def v_def reviewed_document_def reviewed_java_def reviewed_toolchain_def sameKeysI)
  moreover have "the_arr (get v ''artifacts'') = [reviewed_artifact]" by (simp add: v_def reviewed_document_def)
  ultimately have "parseToolchain sample_platform (Str (replicate 64 97)) [js ''files.example''] v = Inr reviewed_toolchain"
    using reviewed_artifact
    by (simp add: parseToolchain_def check_primary_def)
      (simp add: v_def reviewed_document_def reviewed_loader_def reviewed_java_def expectedPrimaryCoordinate_def
        reviewed_toolchain_def flip: js_append)
  moreover obtain a where "t_artifacts reviewed_toolchain = [a]" "a_coordinate a = js ''net.fabricmc:fabric-loader:0.16.9''"
    by (simp add: reviewed_toolchain_def)
  ultimately show ?thesis by (simp add: v add_toolchain_def add_coordinate_def Let_def)
qed

lemma reviewed_catalog: "ReviewedToolchainCatalog sample_platform reviewed_document (Some [js ''fabric'']) = Inr reviewed_catalog"
proof -
  have h: "catalog_host sample_platform (Str (js ''files.example'')) = Inr (js ''files.example'')"
    by (simp add: catalog_host_def Let_def sample_platform_def ascii_lower_def ascii_lower_unit_def js_simps char_class_defs)
  have n: "\<not> sameKeys reviewed_document generated_keys"
  proof
    assume "sameKeys reviewed_document generated_keys"
    then have "set (keys reviewed_document) = set (map js generated_keys)"
      unfolding sameKeys_def by (metis set_sort)
    then have "js ''catalogVersion'' \<in> set (map js generated_keys)" by (auto simp: reviewed_document_def)
    then show False by (simp add: generated_keys_def)
  qed
  have "sameKeys reviewed_document legacy_keys" by (rule sameKeysI) (simp add: reviewed_document_def legacy_keys_def)
  with n have "parseCatalog sample_platform reviewed_document = Inr reviewed_catalog"
    using h reviewed_toolchains reviewed_hex reviewed_parts(5)
    by (simp add: parseCatalog_def catalog_identified_def) (simp add: reviewed_document_def reviewed_catalog_def)
  then show ?thesis
    by (simp add: ReviewedToolchainCatalog_def loaderTemplates_def) (simp add: reviewed_catalog_def reviewed_toolchain_def)
qed

lemma reviewed_resolve: "catalog_resolve reviewed_catalog reviewed_input = Inr reviewed_toolchain"
  using reviewed_parts(1)
  by (simp add: catalog_resolve_def reviewed_catalog_def reviewed_input_def reviewed_loader_def reviewed_java_def
      toolchain_matches_def reviewed_toolchain_def)

theorem catalog_resolution_witness:
  "toolchain_typed sample_platform (replicate 64 97) [js ''files.example''] reviewed_toolchain"
  using catalog_resolution [OF reviewed_catalog reviewed_resolve] by (simp add: reviewed_catalog_def)

end
