(* ===== verification/Artifact_Download.thy ===== *)
theory Artifact_Download
  imports Reviewed_Catalog Exact_Transfer Tar_Roundtrip
begin

text \<open>
  \<open>StrictArtifactDownloader\<close> of \<open>src/compiler/src/reviewed-builder.mjs\<close>: reviewed
  artifacts, from a cache or from the host of their reviewed URL, and remote mods. Shown: what a
  download returns has the reviewed size and digest and comes from an approved place; this is the
  contract the builder relies on.
\<close>

section \<open>Artifacts and mods that may be fetched\<close>

definition reviewedArtifactDownloadUrl :: "platform \<Rightarrow> jsstr \<Rightarrow> jsstr result" where
  "reviewedArtifactDownloadUrl P text =
     (case parse_url P text of None \<Rightarrow> Inl (TypeError ''Invalid URL'')
      | Some u \<Rightarrow>
        if hostname u = js ''libraries.minecraft.net'' then
          (if prefix (js ''/com/mojang/'') (pathname u)
           then Inr (js ''https://repo.spongepowered.org/repository/maven-public'' @ pathname u)
           else Inr (js ''https://repo1.maven.org/maven2'' @ pathname u))
        else Inr (href u))"

definition validateApprovedArtifact :: "platform \<Rightarrow> int \<Rightarrow> jsstr list \<Rightarrow> artifact \<Rightarrow> unit result" where
  "validateApprovedArtifact P maxArtifactBytes approvedHosts a =
     bindR (require (1 \<le> maxArtifactBytes \<and> maxArtifactBytes \<le> max_safe_integer \<and> validCoordinate (Str (a_coordinate a)) \<and>
       validSha256 (Str (a_sha256 a)) \<and> a_sizeBytes a \<le> max_safe_integer \<and> 1 \<le> a_sizeBytes a \<and>
       a_sizeBytes a \<le> maxArtifactBytes) (CompilerFailure ''artifact_not_approved'')) (\<lambda>_.
     bindR (of_option (CompilerFailure ''artifact_not_approved'') (parse_url P (a_url a))) (\<lambda>u.
       require (approved_url P approvedHosts u \<and> search u = []) (CompilerFailure ''artifact_host_rejected'')))"

definition mod_host :: "platform \<Rightarrow> jsstr \<Rightarrow> jsstr \<Rightarrow> bool" where
  "mod_host P provider host =
     (let allowed = (if provider = js ''modrinth'' then js ''cdn.modrinth.com'' else js ''forgecdn.net'') in
      lower P host = allowed \<or> suffix (js ''.'' @ allowed) (lower P host))"

definition validateRemoteMod :: "platform \<Rightarrow> int \<Rightarrow> jsval \<Rightarrow> unit result" where
  "validateRemoteMod P maxArtifactBytes m =
     bindR (require (plainObject m \<and>
       sameKeys m [''downloadUrl'', ''fileId'', ''filename'', ''projectId'', ''provider'', ''sha256'', ''sizeBytes''] \<and>
       get m ''provider'' \<in> {Str (js ''modrinth''), Str (js ''curseforge'')} \<and>
       is_str (get m ''projectId'') \<and> the_str (get m ''projectId'') \<noteq> [] \<and>
       is_str (get m ''fileId'') \<and> the_str (get m ''fileId'') \<noteq> [] \<and> safeModFilename P (get m ''filename'') \<and>
       validSha256 (get m ''sha256'') \<and> isSafeInteger (get m ''sizeBytes'') \<and> 1 \<le> the_int (get m ''sizeBytes'') \<and>
       the_int (get m ''sizeBytes'') \<le> maxArtifactBytes \<and> is_str (get m ''downloadUrl''))
       (CompilerFailure ''invalid_remote_mod'')) (\<lambda>_.
     bindR (of_option (CompilerFailure ''remote_mod_host_rejected'') (parse_url P (the_str (get m ''downloadUrl'')))) (\<lambda>u.
       require (protocol u = js ''https:'' \<and> username u = [] \<and> password u = [] \<and> hash u = [] \<and> port u = [] \<and>
         mod_host P (the_str (get m ''provider'')) (hostname u)) (CompilerFailure ''remote_mod_host_rejected'')))"

section \<open>Responses\<close>

definition plain_length :: "jsstr \<Rightarrow> bool" where
  "plain_length s = (s = js ''0'' \<or> (s \<noteq> [] \<and> hd s \<noteq> 48 \<and> list_all is_digit s))"

text \<open>\<open>/^(?:0|[1-9]\d*)$/.test(text) && Number(text) <= maximum\<close>\<close>

definition declared_within :: "nat \<Rightarrow> jsstr \<Rightarrow> bool" where
  "declared_within maximum text = (plain_length text \<and> digits_value 10 text \<le> maximum)"

definition header_length :: "response \<Rightarrow> jsstr" where
  "header_length r = (case rs_headers r ''content-length'' of None \<Rightarrow> [] | Some t \<Rightarrow> t)"

definition encoded_response :: "platform \<Rightarrow> response \<Rightarrow> bool" where
  "encoded_response P r = (case rs_headers r ''content-encoding'' of None \<Rightarrow> False
     | Some e \<Rightarrow> e \<noteq> [] \<and> lower P e \<noteq> js ''identity'')"

fun collect_chunks :: "int \<Rightarrow> int \<Rightarrow> nat \<Rightarrow> bytes list \<Rightarrow> chunk list \<Rightarrow> (bytes list \<times> nat) result" where
  "collect_chunks expectedSize maxArtifactBytes tot chunks [] =
     (if int tot \<noteq> expectedSize then Inl (CompilerFailure ''artifact_size_mismatch'') else Inr (chunks, tot))"
| "collect_chunks expectedSize maxArtifactBytes tot chunks (Not_bytes # _) = Inl (CompilerFailure ''artifact_download_failed'')"
| "collect_chunks expectedSize maxArtifactBytes tot chunks (Read_error # _) = Inl network_error"
| "collect_chunks expectedSize maxArtifactBytes tot chunks (Chunk bs # rest) =
     (let tot' = tot + length bs in
      if int tot' > expectedSize \<or> int tot' > maxArtifactBytes then Inl (CompilerFailure ''artifact_size_mismatch'')
      else collect_chunks expectedSize maxArtifactBytes tot' (chunks @ [bs]) rest)"

definition readExactResponse :: "response \<Rightarrow> int \<Rightarrow> int \<Rightarrow> bytes result" where
  "readExactResponse r expectedSize maxArtifactBytes =
     (case rs_body r of
        Stream reads \<Rightarrow> bindR (collect_chunks expectedSize maxArtifactBytes 0 [] reads) (\<lambda>(chunks, tot).
          Inr (concatenate chunks tot))
      | Buffer None \<Rightarrow> Inl network_error
      | Buffer (Some bytes) \<Rightarrow> bindR (require (int (length bytes) = expectedSize \<and> int (length bytes) \<le> maxArtifactBytes)
          (CompilerFailure ''artifact_size_mismatch'')) (\<lambda>_. Inr bytes))"

text \<open>A request raced against its timer; an error that is not a failure of the package becomes one.\<close>

definition raced :: "response result \<times> bool \<Rightarrow> string \<Rightarrow> string \<Rightarrow> (response \<Rightarrow> 'a result) \<Rightarrow> 'a result" where
  "raced answer timeoutCode failureCode f =
     (if snd answer then Inl (CompilerFailure timeoutCode)
      else case bindR (fst answer) f of
          Inr x \<Rightarrow> Inr x
        | Inl (CompilerFailure c) \<Rightarrow> Inl (CompilerFailure c)
        | Inl _ \<Rightarrow> Inl (CompilerFailure failureCode))"

section \<open>The downloader\<close>

text \<open>What the cache reader returned: nothing, bytes, or something else.\<close>

datatype cached = Cache_miss | Cache_bytes bytes | Cache_other

record downloader =
  d_fetch :: "jsstr \<Rightarrow> response result \<times> bool"
  d_cache :: "(artifact \<Rightarrow> cached result) option"
  d_maxArtifactBytes :: int

definition StrictArtifactDownloader ::
    "(jsstr \<Rightarrow> response result \<times> bool) \<Rightarrow> (artifact \<Rightarrow> cached result) option \<Rightarrow> jsval \<Rightarrow> jsval \<Rightarrow> downloader result" where
  "StrictArtifactDownloader fetchImpl artifactCacheReader timeoutMs maxArtifactBytes =
     (let ms = default_to timeoutMs (JInt 30000); m = default_to maxArtifactBytes (JInt MAX_ARTIFACT_BYTES) in
      bindR (require (isSafeInteger ms \<and> 1 \<le> the_int ms \<and> the_int ms \<le> 300000 \<and> isSafeInteger m \<and> 1 \<le> the_int m \<and>
        the_int m \<le> MAX_ARTIFACT_BYTES) (TypeError ''invalid strict artifact downloader configuration'')) (\<lambda>_.
      Inr \<lparr>d_fetch = fetchImpl, d_cache = artifactCacheReader, d_maxArtifactBytes = the_int m\<rparr>))"

definition artifact_response :: "platform \<Rightarrow> int \<Rightarrow> artifact \<Rightarrow> jsstr \<Rightarrow> response \<Rightarrow> bytes result" where
  "artifact_response P maxArtifactBytes a downloadUrl r =
     (let failed = CompilerFailure ''artifact_download_failed''; mismatch = CompilerFailure ''artifact_size_mismatch'' in
      bindR (require (rs_status r = 200 \<and> \<not> rs_redirected r) failed) (\<lambda>_.
      bindR (if rs_url r = [] then Inr () else bindR (url_href P (Str (rs_url r))) (\<lambda>h.
        require (h = downloadUrl) (CompilerFailure ''artifact_redirect_rejected''))) (\<lambda>_.
      bindR (require (\<not> encoded_response P r) failed) (\<lambda>_.
      bindR (require (plain_length (header_length r)) mismatch) (\<lambda>_.
      let expectedSize = string_to_number P (header_length r) in
      bindR (require (isSafeInteger expectedSize \<and> the_int expectedSize = a_sizeBytes a \<and>
        the_int expectedSize \<le> maxArtifactBytes) mismatch) (\<lambda>_.
      bindR (readExactResponse r (the_int expectedSize) maxArtifactBytes) (\<lambda>bytes.
      bindR (require (sha256 P bytes = a_sha256 a) (CompilerFailure ''artifact_hash_mismatch'')) (\<lambda>_. Inr bytes))))))))"

definition download :: "platform \<Rightarrow> downloader \<Rightarrow> jsstr list \<Rightarrow> artifact \<Rightarrow> bytes result" where
  "download P d approvedHosts a =
     bindR (validateApprovedArtifact P (d_maxArtifactBytes d) approvedHosts a) (\<lambda>_.
     bindR (case d_cache d of None \<Rightarrow> Inr Cache_miss
       | Some reader \<Rightarrow> recast (reader a) (CompilerFailure ''artifact_cache_failed'')) (\<lambda>c.
     case c of
       Cache_bytes bytes \<Rightarrow> bindR (require (int (length bytes) = a_sizeBytes a \<and> sha256 P bytes = a_sha256 a)
         (CompilerFailure ''artifact_cache_mismatch'')) (\<lambda>_. Inr bytes)
     | Cache_other \<Rightarrow> Inl (CompilerFailure ''artifact_cache_mismatch'')
     | Cache_miss \<Rightarrow>
         bindR (reviewedArtifactDownloadUrl P (a_url a)) (\<lambda>downloadUrl.
         raced (d_fetch d downloadUrl) ''artifact_download_timeout'' ''artifact_download_failed''
           (artifact_response P (d_maxArtifactBytes d) a downloadUrl))))"

definition mod_response :: "platform \<Rightarrow> int \<Rightarrow> jsval \<Rightarrow> response \<Rightarrow> bytes result" where
  "mod_response P maxArtifactBytes m r =
     (let failed = CompilerFailure ''remote_mod_download_failed'' in
      bindR (require (rs_status r = 200 \<and> \<not> rs_redirected r) failed) (\<lambda>_.
      bindR (if rs_url r = [] then Inr () else bindR (url_href P (Str (rs_url r))) (\<lambda>h.
        bindR (url_href P (get m ''downloadUrl'')) (\<lambda>h'.
        require (h = h') (CompilerFailure ''remote_mod_redirect_rejected'')))) (\<lambda>_.
      bindR (require (\<not> encoded_response P r) failed) (\<lambda>_.
      bindR (require (plain_length (header_length r) \<and>
        strict_eq (string_to_number P (header_length r)) (get m ''sizeBytes'')) (CompilerFailure ''remote_mod_size_mismatch'')) (\<lambda>_.
      bindR (readExactResponse r (the_int (get m ''sizeBytes'')) maxArtifactBytes) (\<lambda>bytes.
      bindR (require (Str (sha256 P bytes) = get m ''sha256'') (CompilerFailure ''remote_mod_hash_mismatch'')) (\<lambda>_. Inr bytes)))))))"

definition downloadRemoteMod :: "platform \<Rightarrow> downloader \<Rightarrow> jsval \<Rightarrow> bytes result" where
  "downloadRemoteMod P d m =
     bindR (validateRemoteMod P (d_maxArtifactBytes d) m) (\<lambda>_.
     raced (d_fetch d (the_str (get m ''downloadUrl''))) ''remote_mod_download_timeout'' ''remote_mod_download_failed''
       (mod_response P (d_maxArtifactBytes d) m))"

section \<open>What a download returns\<close>

lemma collect_chunks_ok:
  assumes "collect_chunks n m tot chunks reads = Inr (cs, t)" and "tot = length (concat chunks)"
  shows "\<exists>bss. reads = map Chunk bss \<and> cs = chunks @ bss \<and> t = length (concat cs) \<and> int t = n"
  using assms
proof (induction n m tot chunks reads rule: collect_chunks.induct)
  case (4 n m tot chunks bs rest)
  let ?tot = "tot + length bs"
  from 4(2) have ok: "\<not> (n < int ?tot \<or> m < int ?tot)" "collect_chunks n m ?tot (chunks @ [bs]) rest = Inr (cs, t)"
    by (simp_all add: Let_def split: if_splits)
  from 4(1) [OF refl ok] 4(3) obtain bss where "rest = map Chunk bss" "cs = (chunks @ [bs]) @ bss"
    "t = length (concat cs)" "int t = n" by auto
  then show ?case by (intro exI [of _ "bs # bss"]) simp
qed (auto split: if_splits)

lemma readExactResponse_ok:
  assumes "readExactResponse r n m = Inr bytes"
  shows "body_bytes (rs_body r) = Some bytes \<and> int (length bytes) = n"
proof (cases "rs_body r")
  case (Stream reads)
  with assms obtain cs t where c: "collect_chunks n m 0 [] reads = Inr (cs, t)" "bytes = concatenate cs t"
    by (auto simp: readExactResponse_def result_simps)
  from collect_chunks_ok [OF c(1)] obtain bss where "reads = map Chunk bss" "cs = bss" "t = length (concat cs)" "int t = n"
    by auto
  with Stream c(2) show ?thesis by (simp add: body_bytes_Stream concatenate_concat) blast
next
  case (Buffer c)
  with assms show ?thesis by (cases c) (auto simp: readExactResponse_def result_simps body_bytes_def)
qed

lemma raced_ok: "raced answer t c f = Inr x \<longleftrightarrow> \<not> snd answer \<and> (\<exists>r. fst answer = Inr r \<and> f r = Inr x)"
  by (auto simp: raced_def bindR_def split: sum.splits js_error.splits)

lemma artifact_response_ok:
  assumes "artifact_response P m a url r = Inr bytes"
  shows "rs_status r = 200 \<and> \<not> rs_redirected r \<and> body_bytes (rs_body r) = Some bytes \<and>
    int (length bytes) = a_sizeBytes a \<and> sha256 P bytes = a_sha256 a"
  using assms by (auto simp: artifact_response_def Let_def result_simps dest!: readExactResponse_ok)

lemma mod_response_ok:
  assumes "mod_response P m x r = Inr bytes"
  shows "rs_status r = 200 \<and> \<not> rs_redirected r \<and> body_bytes (rs_body r) = Some bytes \<and>
    int (length bytes) = the_int (get x ''sizeBytes'') \<and> get x ''sha256'' = Str (sha256 P bytes)"
  using assms by (auto simp: mod_response_def Let_def result_simps dest!: readExactResponse_ok)

lemma validateApprovedArtifact_ok:
  "validateApprovedArtifact P m hosts a = Inr () \<Longrightarrow> \<exists>u. parse_url P (a_url a) = Some u \<and> approved_url P hosts u \<and> search u = []"
  by (auto simp: validateApprovedArtifact_def result_simps)

lemma download_ok:
  assumes "download P d hosts a = Inr bytes"
  shows "int (length bytes) = a_sizeBytes a \<and> sha256 P bytes = a_sha256 a \<and>
    (\<exists>u. parse_url P (a_url a) = Some u \<and> approved_url P hosts u \<and> search u = []) \<and>
    ((\<exists>reader. d_cache d = Some reader \<and> reader a = Inr (Cache_bytes bytes)) \<or>
     (\<exists>downloadUrl r. reviewedArtifactDownloadUrl P (a_url a) = Inr downloadUrl \<and> fst (d_fetch d downloadUrl) = Inr r \<and>
       rs_status r = 200 \<and> \<not> rs_redirected r \<and> body_bytes (rs_body r) = Some bytes))"
proof -
  from assms obtain c where v: "validateApprovedArtifact P (d_maxArtifactBytes d) hosts a = Inr ()"
    and c: "(case d_cache d of None \<Rightarrow> Inr Cache_miss
       | Some reader \<Rightarrow> recast (reader a) (CompilerFailure ''artifact_cache_failed'')) = Inr c"
    and r: "(case c of
       Cache_bytes bytes \<Rightarrow> bindR (require (int (length bytes) = a_sizeBytes a \<and> sha256 P bytes = a_sha256 a)
         (CompilerFailure ''artifact_cache_mismatch'')) (\<lambda>_. Inr bytes)
     | Cache_other \<Rightarrow> Inl (CompilerFailure ''artifact_cache_mismatch'')
     | Cache_miss \<Rightarrow>
         bindR (reviewedArtifactDownloadUrl P (a_url a)) (\<lambda>downloadUrl.
         raced (d_fetch d downloadUrl) ''artifact_download_timeout'' ''artifact_download_failed''
           (artifact_response P (d_maxArtifactBytes d) a downloadUrl))) = Inr bytes"
    by (auto simp: download_def result_simps)
  note u = validateApprovedArtifact_ok [OF v]
  show ?thesis
  proof (cases c)
    case Cache_miss
    with r u show ?thesis by (auto simp: result_simps raced_ok dest!: artifact_response_ok)
  next
    case (Cache_bytes bs)
    with r c u show ?thesis by (auto simp: result_simps split: option.splits)
  next
    case Cache_other
    with r show ?thesis by simp
  qed
qed

lemma validateRemoteMod_ok:
  assumes "validateRemoteMod P n m = Inr ()"
  shows "isSafeInteger (get m ''sizeBytes'')" "safeModFilename P (get m ''filename'')"
    "\<exists>u. parse_url P (the_str (get m ''downloadUrl'')) = Some u \<and> protocol u = js ''https:'' \<and>
      mod_host P (the_str (get m ''provider'')) (hostname u)"
  using assms unfolding validateRemoteMod_def bindR_eq_Inr require_eq_Inr of_option_eq_Inr by blast+

lemma downloadRemoteMod_ok:
  assumes "downloadRemoteMod P d m = Inr bytes"
  shows "get m ''sizeBytes'' = JInt (int (length bytes)) \<and> get m ''sha256'' = Str (sha256 P bytes) \<and>
    (\<exists>u r. parse_url P (the_str (get m ''downloadUrl'')) = Some u \<and> protocol u = js ''https:'' \<and>
      mod_host P (the_str (get m ''provider'')) (hostname u) \<and>
      fst (d_fetch d (the_str (get m ''downloadUrl''))) = Inr r \<and> rs_status r = 200 \<and> body_bytes (rs_body r) = Some bytes)"
proof -
  from assms obtain r where v: "validateRemoteMod P (d_maxArtifactBytes d) m = Inr ()"
    "fst (d_fetch d (the_str (get m ''downloadUrl''))) = Inr r" "mod_response P (d_maxArtifactBytes d) m r = Inr bytes"
    by (auto simp: downloadRemoteMod_def result_simps raced_ok)
  note m = validateRemoteMod_ok [OF v(1)] mod_response_ok [OF v(3)]
  have "get m ''sizeBytes'' = JInt (int (length bytes))" using m isSafeInteger_the_int by metis
  with v(2) m show ?thesis by blast
qed

section \<open>The contract with the builder\<close>

locale artifact_source =
  fixes P :: platform
    and fetch_artifact :: "jsstr list \<Rightarrow> artifact \<Rightarrow> bytes result"
    and fetch_mod :: "jsval \<Rightarrow> bytes result"
  assumes artifact_exact: "fetch_artifact hosts a = Inr bytes \<Longrightarrow>
      int (length bytes) = a_sizeBytes a \<and> sha256 P bytes = a_sha256 a \<and>
      (\<exists>u. parse_url P (a_url a) = Some u \<and> approved_url P hosts u)"
    and mod_exact: "fetch_mod m = Inr bytes \<Longrightarrow>
      get m ''sizeBytes'' = JInt (int (length bytes)) \<and> get m ''sha256'' = Str (sha256 P bytes) \<and>
      (\<exists>u. parse_url P (the_str (get m ''downloadUrl'')) = Some u \<and> mod_host P (the_str (get m ''provider'')) (hostname u))"

interpretation strict_downloader: artifact_source P "download P d" "downloadRemoteMod P d"
  by unfold_locales (drule download_ok, blast, drule downloadRemoteMod_ok, blast)

section \<open>Properties\<close>

text \<open>
  C34. A reviewed artifact that is downloaded has exactly the reviewed size and digest. Its
  reviewed URL is an https URL without credentials, port, query or fragment on an approved host,
  and the bytes are the answer of the cache for this artifact or the body of an unredirected 200
  response to a GET of that URL, or of its Maven mirror for the Minecraft library host.
\<close>

theorem artifact_download_exact:
  assumes "download P d hosts a = Inr bytes"
  shows "int (length bytes) = a_sizeBytes a \<and> sha256 P bytes = a_sha256 a \<and>
    (\<exists>u. parse_url P (a_url a) = Some u \<and> protocol u = js ''https:'' \<and> username u = [] \<and> password u = [] \<and> port u = [] \<and>
      search u = [] \<and> hash u = [] \<and> lower P (hostname u) \<in> set hosts \<and>
      ((\<exists>reader. d_cache d = Some reader \<and> reader a = Inr (Cache_bytes bytes)) \<or>
       (\<exists>src r. src \<in> (if hostname u = js ''libraries.minecraft.net''
            then (\<lambda>base. base @ pathname u) ` {js ''https://repo.spongepowered.org/repository/maven-public'', js ''https://repo1.maven.org/maven2''}
            else {href u}) \<and>
          fst (d_fetch d src) = Inr r \<and> rs_status r = 200 \<and> \<not> rs_redirected r \<and> body_bytes (rs_body r) = Some bytes)))"
proof -
  note d = download_ok [OF assms]
  from d obtain u where u: "parse_url P (a_url a) = Some u" "approved_url P hosts u" "search u = []" by blast
  have "src \<in> (if hostname u = js ''libraries.minecraft.net''
      then (\<lambda>base. base @ pathname u) ` {js ''https://repo.spongepowered.org/repository/maven-public'', js ''https://repo1.maven.org/maven2''}
      else {href u})" if "reviewedArtifactDownloadUrl P (a_url a) = Inr src" for src
    using that u(1) by (auto simp: reviewedArtifactDownloadUrl_def split: if_splits)
  with d u show ?thesis unfolding approved_url_def by blast
qed

definition served_artifact :: artifact where
  "served_artifact = \<lparr>a_role = js ''primary'', a_coordinate = js ''net.fabricmc:fabric-loader:0.16.9'',
     a_url = js ''https://files.example/loader.jar'', a_sha256 = sample_sha256 [1, 2], a_sizeBytes = 2\<rparr>"

definition served_response :: response where
  "served_response = \<lparr>rs_ok = True, rs_status = 200, rs_redirected = False, rs_url = [],
     rs_headers = (\<lambda>name. if name = ''content-length'' then Some (js ''2'') else None), rs_body = Stream [Chunk [1], Chunk [2]]\<rparr>"

definition serving_downloader :: downloader where
  "serving_downloader = \<lparr>d_fetch = (\<lambda>_. (Inr served_response, False)), d_cache = None, d_maxArtifactBytes = 100\<rparr>"

lemma served_download: "download sample_platform serving_downloader [js ''files.example''] served_artifact = Inr [1, 2]"
proof -
  have "prefix (js ''https://files.example/'') (js ''https://files.example/loader.jar'')" by (simp add: js_simps)
  moreover have "ascii_lower (js ''files.example'') = js ''files.example''"
    by (simp add: ascii_lower_def ascii_lower_unit_def js_simps char_class_defs)
  ultimately have u: "\<exists>u. parse_url sample_platform (a_url served_artifact) = Some u \<and>
      approved_url sample_platform [js ''files.example''] u \<and> search u = [] \<and> hostname u = js ''files.example''"
    by (simp add: served_artifact_def approved_url_def sample_platform_def sample_url_def)
  have h: "sha256 sample_platform [1, 2] = a_sha256 served_artifact" "validSha256 (Str (a_sha256 served_artifact))"
    using sha256_validSha256 [OF sample_sha256_hex, of "[1, 2]"] by (simp_all add: served_artifact_def sample_platform_def)
  have n: "string_to_number sample_platform (js ''2'') = JInt 2" "plain_length (js ''2'')"
    by (simp_all add: sample_platform_def digits_value_def plain_length_def js_simps char_class_defs)
  have "readExactResponse served_response 2 100 = Inr [1, 2]"
    by (simp add: readExactResponse_def served_response_def concatenate_concat)
  with h n have r: "artifact_response sample_platform 100 served_artifact url served_response = Inr [1, 2]" for url
    by (simp add: artifact_response_def header_length_def encoded_response_def)
      (simp add: served_response_def served_artifact_def max_safe_integer_def)
  from u h(2) reviewed_parts(6) have "validateApprovedArtifact sample_platform 100 [js ''files.example''] served_artifact = Inr ()"
    by (auto simp: validateApprovedArtifact_def) (simp add: served_artifact_def max_safe_integer_def)
  with u r show ?thesis
    by (auto simp: download_def serving_downloader_def reviewedArtifactDownloadUrl_def raced_def)
qed

theorem artifact_download_exact_witness:
  "int (length [1, 2 :: byte]) = a_sizeBytes served_artifact \<and> sha256 sample_platform [1, 2] = a_sha256 served_artifact"
  using artifact_download_exact [OF served_download] by blast

end
