(* ===== verification/Reviewed_Builder.thy ===== *)
theory Reviewed_Builder
  imports Artifact_Download Archive_Roundtrip
begin

text \<open>
  \<open>ReviewedRuntimeBuilder.build\<close> of \<open>src/compiler/src/reviewed-builder.mjs\<close>: from
  a validated bundle to the immutable content. The catalog, the JRE registry, the downloader and
  the sandbox are the injected dependencies of the source; each answers a call as a function of
  its argument.
\<close>

section \<open>The JRE\<close>

definition requiredSandboxCapabilities :: "(string \<times> jsval) list" where
  "requiredSandboxCapabilities = [(''ephemeralWorkspace'', Bool True), (''nonRoot'', Bool True),
     (''readOnlyBaseFilesystem'', Bool True), (''noSecrets'', Bool True), (''noDockerSocket'', Bool True),
     (''boundedResources'', Bool True), (''egress'', Str (js ''approved-artifacts-only''))]"

definition hasCapabilities :: "jsval \<Rightarrow> bool" where
  "hasCapabilities capabilities =
     (plainObject capabilities \<and> list_all (\<lambda>(k, v). strict_eq (get capabilities k) v) requiredSandboxCapabilities)"

text \<open>\<open>value?.toLowerCase()\<close>\<close>

definition optional_lower :: "platform \<Rightarrow> jsval \<Rightarrow> jsval result" where
  "optional_lower P v = (if nullish v then Inr Undefined
     else case v of Str s \<Rightarrow> Inr (Str (lower P s)) | _ \<Rightarrow> Inl (TypeError ''toLowerCase is not a function''))"

record jre_root =
  root_jre :: jre_ref
  root_token :: jsstr

definition unavailable :: js_error where
  "unavailable = CompilerFailure ''compiler_unavailable''"

definition resolveVerifiedJre :: "platform \<Rightarrow> (jre_ref \<Rightarrow> jsval result) \<Rightarrow> jre_ref \<Rightarrow> jre_root result" where
  "resolveVerifiedJre P resolve expected =
     bindR (recast (resolve expected) unavailable) (\<lambda>actual.
     bindR (require (plainObject actual \<and> get actual ''verified'' = Bool True \<and> get actual ''readOnly'' = Bool True \<and>
       get actual ''id'' = Str (jre_id expected)) unavailable) (\<lambda>_.
     bindR (optional_lower P (get actual ''sha256'')) (\<lambda>digest.
     bindR (require (digest = Str (jre_sha256 expected) \<and> get actual ''component'' = Str (jre_component expected) \<and>
       get actual ''major'' = JInt (jre_major expected)) unavailable) (\<lambda>_.
     bindR (optional_lower P (get actual ''runtimeCatalogRevision'')) (\<lambda>revision.
     bindR (require (revision = Str (jre_runtimeCatalogRevision expected) \<and> validIdentifier (get actual ''rootToken''))
       unavailable) (\<lambda>_.
     Inr \<lparr>root_jre = expected, root_token = the_str (get actual ''rootToken'')\<rparr>))))))"

section \<open>The output of the sandbox\<close>

text \<open>A file of the result: its bytes, unless it has none, and its mode.\<close>

record sandbox_file =
  sf_bytes :: "bytes option"
  sf_mode :: jsval

text \<open>The result: an attestation and the map of files, unless there is none.\<close>

record sandbox_result =
  sr_attestation :: jsval
  sr_files :: "(jsval, sandbox_file) jsmap option"

definition validSandboxAttestation :: "jsval \<Rightarrow> bool" where
  "validSandboxAttestation v = (plainObject v \<and>
     list_all (\<lambda>k. get v k = Bool True) [''ephemeralWorkspace'', ''nonRoot'', ''readOnlyBaseFilesystem'', ''noSecrets'',
       ''noDockerSocket'', ''boundedResources''] \<and> get v ''network'' = Str (js ''disabled''))"

definition invalid_output :: js_error where
  "invalid_output = CompilerFailure ''invalid_installer_output''"

definition installer_failed :: js_error where
  "installer_failed = CompilerFailure ''installer_failed''"

definition sandbox_size :: "sandbox_file \<Rightarrow> jsval" where
  "sandbox_size f = (case sf_bytes f of None \<Rightarrow> Undefined | Some bs \<Rightarrow> JInt (int (length bs)))"

definition add_sandbox_file :: "platform \<Rightarrow> files \<Rightarrow> jsval \<times> sandbox_file \<Rightarrow> files result" where
  "add_sandbox_file P files = (\<lambda>(path, f).
     if safeOutputPath path \<and> \<not> forbiddenOutputPath P (the_str path) \<and> \<not> prefix (js ''.xmcl/'') (the_str path) \<and>
       isSafeInteger (sf_mode f)
     then (case sf_bytes f of None \<Rightarrow> Inl invalid_output
       | Some bs \<Rightarrow> Inr (AList.update (the_str path) \<lparr>file_bytes = bs, file_mode = the_int (sf_mode f)\<rparr> files))
     else Inl invalid_output)"

definition normalizeSandboxOutput :: "platform \<Rightarrow> sandbox_result \<Rightarrow> files result" where
  "normalizeSandboxOutput P r =
     bindR (require (validSandboxAttestation (sr_attestation r)) installer_failed) (\<lambda>_.
     bindR (of_option invalid_output (sr_files r)) (\<lambda>result_files.
     bindR (require (length result_files \<le> maxFiles PRODUCTION_OUTPUT_LIMITS \<and>
       outputSizeWithinLimit (map (sandbox_size \<circ> snd) result_files) (JInt (int (maxSandboxBytes PRODUCTION_OUTPUT_LIMITS))))
       invalid_output) (\<lambda>_.
     foldR (add_sandbox_file P) [] result_files)))"

section \<open>Bundle content, remote mods and generated files\<close>

definition copy_file :: "platform \<Rightarrow> entries \<Rightarrow> files \<Rightarrow> bundle_file \<Rightarrow> files result" where
  "copy_file P entries files f =
     (if \<not> prefix (js ''instance/'') (bf_path f) then Inr files
      else let outputPath = drop (length ''instance/'') (bf_path f) in
        case map_of entries (bf_path f) of None \<Rightarrow> Inl (CompilerFailure ''invalid_local_content'')
        | Some source \<Rightarrow>
          bindR (require (int (length source) = bf_sizeBytes f \<and> sha256 P source = bf_sha256 f \<and>
            safeOutputPath (Str outputPath) \<and> \<not> forbiddenOutputPath P outputPath \<and> \<not> has files outputPath)
            (CompilerFailure ''invalid_local_content'')) (\<lambda>_.
          Inr (AList.update outputPath \<lparr>file_bytes = source, file_mode = 420\<rparr> files)))"

definition copyValidatedBundleContent :: "platform \<Rightarrow> files \<Rightarrow> bundle_manifest \<times> entries \<Rightarrow> files result" where
  "copyValidatedBundleContent P files = (\<lambda>(manifest, entries). foldR (copy_file P entries) files (bm_files manifest))"

definition collision_key :: "platform \<Rightarrow> jsstr \<Rightarrow> jsstr" where
  "collision_key P path = lower P (nfkc P path)"

definition add_mod ::
    "platform \<Rightarrow> (jsval \<Rightarrow> bytes option result) \<Rightarrow> jsstr list \<times> files \<Rightarrow> jsval \<Rightarrow> (jsstr list \<times> files) result" where
  "add_mod P fetch_mod = (\<lambda>(destinations, files) m.
     bindR (validateRemoteMod P MAX_ARTIFACT_BYTES m) (\<lambda>_.
     let path = js ''mods/'' @ the_str (get m ''filename''); key = collision_key P path in
     bindR (require (key \<notin> set destinations \<and> safeOutputPath (Str path) \<and> \<not> forbiddenOutputPath P path)
       (CompilerFailure ''remote_mod_collision'')) (\<lambda>_.
     bindR (fetch_mod m) (\<lambda>answer.
     case answer of None \<Rightarrow> Inl (CompilerFailure ''remote_mod_hash_mismatch'')
     | Some bytes \<Rightarrow>
       bindR (require (JInt (int (length bytes)) = get m ''sizeBytes'' \<and> Str (sha256 P bytes) = get m ''sha256'')
         (CompilerFailure ''remote_mod_hash_mismatch'')) (\<lambda>_.
       Inr (destinations @ [key], AList.update path \<lparr>file_bytes = bytes, file_mode = 420\<rparr> files))))))"

definition addRemoteMods :: "platform \<Rightarrow> (jsval \<Rightarrow> bytes option result) option \<Rightarrow> files \<Rightarrow> jsval \<Rightarrow> files result" where
  "addRemoteMods P downloader files mods =
     (if mods = Undefined then Inr files
      else bindR (require (is_arr mods \<and> length (the_arr mods) \<le> maxFiles PRODUCTION_OUTPUT_LIMITS \<and>
          (the_arr mods \<noteq> [] \<longrightarrow> downloader \<noteq> None)) (CompilerFailure ''invalid_remote_mod'')) (\<lambda>_.
        bindR (foldR (add_mod P (the downloader)) (map (collision_key P \<circ> fst) files, files) (the_arr mods)) (\<lambda>(destinations, files').
          Inr files')))"

definition addGeneratedFile :: "files \<Rightarrow> jsstr \<Rightarrow> bytes \<Rightarrow> int \<Rightarrow> files result" where
  "addGeneratedFile files path bytes mode =
     (if has files path then Inl invalid_output else Inr (AList.update path \<lparr>file_bytes = bytes, file_mode = mode\<rparr> files))"

definition runtimeDescriptor :: "toolchain \<Rightarrow> plan \<Rightarrow> jsval" where
  "runtimeDescriptor t p = Obj [(js ''schemaVersion'', JInt 1),
     (js ''runtimeCatalogRevision'', Str (jre_runtimeCatalogRevision (t_jre t))),
     (js ''minecraftVersion'', Str (t_minecraftVersion t)),
     (js ''loader'', Obj [(js ''kind'', t_loader_kind t), (js ''version'', Str (t_loader_version t))]),
     (js ''java'', Obj [(js ''component'', Str (t_java_component t)), (js ''major'', JInt (t_java_major t)),
       (js ''jreId'', Str (jre_id (t_jre t)))]),
     (js ''launch'', Obj [(js ''path'', Str (js ''.xmcl/launch.sh'')), (js ''kind'', Str (js ''generated-server-launcher'')),
       (js ''arguments'', Arr (map Str (p_arguments p)))])]"

definition encodeJson :: "platform \<Rightarrow> jsval \<Rightarrow> bytes" where
  "encodeJson P v = encode (json_stringify P v)"

definition entry_of :: "platform \<Rightarrow> jsstr \<times> out_file \<Rightarrow> jsval" where
  "entry_of P = (\<lambda>(path, f). Obj [(js ''path'', Str path), (js ''sha256'', Str (sha256 P (file_bytes f))),
     (js ''sizeBytes'', JInt (int (length (file_bytes f)))), (js ''mode'', JInt (file_mode f))])"

definition validateOutputFiles :: "platform \<Rightarrow> files \<Rightarrow> jsval list result" where
  "validateOutputFiles P files =
     bindR (require (2 \<le> length files \<and> length files \<le> maxFiles PRODUCTION_OUTPUT_LIMITS) failOutput) (\<lambda>_.
     bindR (require (list_all (\<lambda>(path, f). safeOutputPath (Str path) \<and>
       (generated_path path \<or> \<not> forbiddenOutputPath P path) \<and> validOutputMode (JInt (file_mode f))) (sorted_entries files))
       failOutput) (\<lambda>_.
     bindR (require (has files (js ''.xmcl/runtime.json'') \<and>
       (case map_of files (js ''.xmcl/launch.sh'') of None \<Rightarrow> False | Some f \<Rightarrow> file_mode f = 493) \<and>
       outputSizeWithinLimit (map (\<lambda>(path, f). JInt (int (length (file_bytes f)))) (sorted_entries files))
         (JInt (int (maxPackageInputBytes PRODUCTION_OUTPUT_LIMITS)))) failOutput) (\<lambda>_.
     Inr (map (entry_of P) (sorted_entries files)))))"

definition entryHash :: "jsval list \<Rightarrow> string \<Rightarrow> jsval result" where
  "entryHash entries path =
     (case find (\<lambda>e. get e ''path'' = Str (js path)) entries of None \<Rightarrow> Inl failOutput | Some e \<Rightarrow> Inr (get e ''sha256''))"

section \<open>The build\<close>

text \<open>What the sandbox is asked to assemble: the JRE, the plan and the downloaded artifacts.\<close>

record assembly =
  as_jre :: jre_root
  as_plan :: plan
  as_artifacts :: "(jsstr \<times> jsstr \<times> bytes) list"

text \<open>
  The injected dependencies; \<open>None\<close> is a missing one, or an answer that is not bytes or not
  an object.
\<close>

record builder =
  bd_catalog :: "catalog option"
  bd_resolve :: "(jre_ref \<Rightarrow> jsval result) option"
  bd_download :: "(jsstr list \<Rightarrow> artifact \<Rightarrow> bytes option result) option"
  bd_downloadRemoteMod :: "(jsval \<Rightarrow> bytes option result) option"
  bd_assemble :: "(assembly \<Rightarrow> sandbox_result option result) option"
  bd_capabilities :: jsval

definition ReviewedRuntimeBuilder :: "catalog result \<Rightarrow> builder \<Rightarrow> builder" where
  "ReviewedRuntimeBuilder toolchainCatalog bd =
     bd\<lparr>bd_catalog := (case toolchainCatalog of Inl _ \<Rightarrow> None | Inr c \<Rightarrow> Some c)\<rparr>"

definition hasReviewedDependencies :: "builder \<Rightarrow> bool" where
  "hasReviewedDependencies bd = (bd_resolve bd \<noteq> None \<and> bd_download bd \<noteq> None \<and> bd_assemble bd \<noteq> None \<and>
     hasCapabilities (bd_capabilities bd))"

definition resolve_input :: "bundle_manifest \<Rightarrow> jsval" where
  "resolve_input m = Obj [(js ''runtimeCatalogRevision'', Str (bm_catalog_sha256 m)),
     (js ''minecraftVersion'', Str (bm_minecraftVersion m)),
     (js ''loader'', Obj [(js ''kind'', Str (bm_loader_kind m)), (js ''version'', Str (bm_loader_version m))]),
     (js ''java'', Obj [(js ''component'', Str (bm_java_component m)), (js ''major'', JInt (bm_java_major m))])]"

definition download_artifact ::
    "platform \<Rightarrow> (jsstr list \<Rightarrow> artifact \<Rightarrow> bytes option result) \<Rightarrow> jsstr list \<Rightarrow> artifact \<Rightarrow> (jsstr \<times> jsstr \<times> bytes) result" where
  "download_artifact P fetch_artifact hosts a =
     bindR (fetch_artifact hosts a) (\<lambda>answer.
     case answer of None \<Rightarrow> Inl (CompilerFailure ''artifact_hash_mismatch'')
     | Some bytes \<Rightarrow> bindR (require (int (length bytes) = a_sizeBytes a \<and> sha256 P bytes = a_sha256 a)
         (CompilerFailure ''artifact_hash_mismatch'')) (\<lambda>_. Inr (a_coordinate a, a_url a, bytes)))"

definition install :: "platform \<Rightarrow> (assembly \<Rightarrow> sandbox_result option result) \<Rightarrow> assembly \<Rightarrow> files result" where
  "install P assemble request =
     bindR (recast (assemble request) installer_failed) (\<lambda>answer.
     case answer of None \<Rightarrow> Inl installer_failed | Some r \<Rightarrow> normalizeSandboxOutput P r)"

definition add_generated :: "platform \<Rightarrow> toolchain \<Rightarrow> plan \<Rightarrow> files \<Rightarrow> files result" where
  "add_generated P t p files =
     bindR (addGeneratedFile files (js ''.xmcl/runtime.json'') (encodeJson P (runtimeDescriptor t p)) 420) (\<lambda>files.
     bindR (generatedLauncher (p_arguments p)) (\<lambda>launcher.
       addGeneratedFile files (js ''.xmcl/launch.sh'') launcher 493))"

definition content_of :: "platform \<Rightarrow> jsval \<Rightarrow> jsval list \<Rightarrow> bytes \<Rightarrow> jsval" where
  "content_of P key entries archive = Obj [(js ''key'', key), (js ''format'', Str (js ''tar.zst'')),
     (js ''sha256'', Str (sha256 P archive)), (js ''sizeBytes'', JInt (int (length archive))), (js ''entries'', Arr entries)]"

definition descriptor_of :: "jsval \<Rightarrow> jsval" where
  "descriptor_of runtime_sha256 = Obj [(js ''schemaVersion'', JInt 1),
     (js ''runtime'', Obj [(js ''path'', Str (js ''.xmcl/runtime.json'')), (js ''sha256'', runtime_sha256)]),
     (js ''launch'', Obj [(js ''path'', Str (js ''.xmcl/launch.sh'')), (js ''kind'', Str (js ''generated-server-launcher'')),
       (js ''arguments'', Arr [])])]"

definition seal :: "platform \<Rightarrow> jsval \<Rightarrow> files \<Rightarrow> built result" where
  "seal P key files =
     bindR (validateOutputFiles P files) (\<lambda>entries.
     bindR (packageDeterministicTarZst files) (\<lambda>archive.
     bindR (entryHash entries ''.xmcl/runtime.json'') (\<lambda>runtime_sha256.
       Inr \<lparr>b_archive = archive, b_content = content_of P key entries archive, b_descriptor = descriptor_of runtime_sha256\<rparr>)))"

definition assemble_files ::
    "platform \<Rightarrow> builder \<Rightarrow> bundle_manifest \<times> entries \<Rightarrow> jsval \<Rightarrow> files result" where
  "assemble_files P bd bundle frozenManifest =
     (let catalog = the (bd_catalog bd) in
      bindR (catalog_resolve catalog (resolve_input (fst bundle))) (\<lambda>toolchain.
      bindR (require (get (get (get frozenManifest ''compatibility'') ''runtimeCatalog'') ''sha256'' =
        Str (c_runtimeCatalogRevision catalog)) unsupported) (\<lambda>_.
      bindR (resolveVerifiedJre P (the (bd_resolve bd)) (t_jre toolchain)) (\<lambda>jre.
      bindR (createAssemblyPlan P toolchain) (\<lambda>plan.
      bindR (mapR (download_artifact P (the (bd_download bd)) (c_approvedArtifactHosts catalog)) (t_artifacts toolchain)) (\<lambda>artifacts.
      bindR (install P (the (bd_assemble bd)) \<lparr>as_jre = jre, as_plan = plan, as_artifacts = artifacts\<rparr>) (\<lambda>files.
      bindR (copyValidatedBundleContent P files bundle) (\<lambda>files.
      bindR (addRemoteMods P (bd_downloadRemoteMod bd) files (get frozenManifest ''mods'')) (\<lambda>files.
        add_generated P toolchain plan files)))))))))"

definition build_content ::
    "platform \<Rightarrow> builder \<Rightarrow> bundle_manifest \<times> entries \<Rightarrow> jsval \<Rightarrow> jsval \<Rightarrow> built result" where
  "build_content P bd bundle frozenManifest expectedContentKey =
     bindR (require (bd_catalog bd \<noteq> None \<and> hasReviewedDependencies bd) unavailable) (\<lambda>_.
     bindR (require (validContentKey expectedContentKey) (CompilerFailure ''invalid_builder_input'')) (\<lambda>_.
     bindR (assemble_files P bd bundle frozenManifest) (\<lambda>files.
     bindR (seal P expectedContentKey files) (\<lambda>b.
     bindR (validateImmutableContent P b) (\<lambda>_. Inr b)))))"

end
