(* ===== verification/Builder_Properties.thy ===== *)
theory Builder_Properties
  imports Reviewed_Builder
begin

text \<open>
  What the builder makes: its closing verification of its own output never rejects, the launcher
  it generates is a command of exactly the planned words, and every file of the content comes
  from the sandbox, the bundle, a frozen remote mod or the generator, without overwriting.
\<close>

section \<open>The description of the content\<close>

lemma validateOutputFiles_ok:
  assumes "validateOutputFiles P files = Inr entries"
  shows "entries = map (entry_of P) (sorted_entries files)"
    "\<forall>(path, f) \<in> set files. safe_path 255 path \<and> (generated_path path \<or> \<not> forbiddenOutputPath P path) \<and> file_mode f \<in> {420, 493}"
    "2 \<le> length files" "length files \<le> maxFiles PRODUCTION_OUTPUT_LIMITS"
    "outputSizeWithinLimit (map (\<lambda>(path, f). JInt (int (length (file_bytes f)))) (sorted_entries files))
         (JInt (int (maxPackageInputBytes PRODUCTION_OUTPUT_LIMITS)))"
  using assms
  by (auto simp: validateOutputFiles_def result_simps list_all_iff sorted_entries_def safeOutputPath_def validOutputMode_def)

definition meta_of :: "platform \<Rightarrow> jsstr \<times> out_file \<Rightarrow> entry_meta" where
  "meta_of P = (\<lambda>(path, f). \<lparr>em_path = path, em_sha256 = sha256 P (file_bytes f), em_sizeBytes = int (length (file_bytes f)),
     em_mode = file_mode f\<rparr>)"

lemma entry_of_get [simp]:
  "get (entry_of P e) ''path'' = Str (fst e)" "get (entry_of P e) ''sha256'' = Str (sha256 P (file_bytes (snd e)))"
  "get (entry_of P e) ''sizeBytes'' = JInt (int (length (file_bytes (snd e))))" "get (entry_of P e) ''mode'' = JInt (file_mode (snd e))"
  "plainObject (entry_of P e)" "sameKeys (entry_of P e) [''path'', ''sha256'', ''sizeBytes'', ''mode'']"
  by (simp_all add: entry_of_def sameKeysI split: prod.split)

lemma normalize_entries:
  assumes "sha256_hex P" and "sorted_wrt (<) (map fst xs)" and "\<forall>x \<in> set xs. previous = [] \<or> previous < fst x"
    and "\<forall>(path, f) \<in> set xs. safe_path 255 path \<and> (generated_path path \<or> \<not> forbiddenOutputPath P path) \<and>
      file_mode f \<in> {420, 493} \<and> int (length (file_bytes f)) \<le> max_safe_integer"
  shows "\<exists>p. foldR (normalize_entry P) (previous, acc) (map (entry_of P) xs) = Inr (p, acc @ map (meta_of P) xs)"
  using assms(2-4)
proof (induction xs arbitrary: previous acc)
  case (Cons x xs)
  obtain path f where x: "x = (path, f)" by (cases x)
  have "normalize_entry P (previous, acc) (entry_of P x) = Inr (path, acc @ [meta_of P x])"
    using Cons.prems(2,3) sha256_validSha256 [OF assms(1)] assms(1)
    by (auto simp: x normalize_entry_def safeOutputPath_def validOutputMode_def comparePath_def meta_of_def)
  with Cons.IH [of path "acc @ [meta_of P x]"] Cons.prems show ?case by (auto simp: x)
qed simp

lemma sorted_entries_strict:
  assumes "distinct (map fst files)"
  shows "sorted_wrt (<) (map fst (sorted_entries files))"
proof -
  have "sorted (map fst (sorted_entries files))" by (simp add: sorted_entries_def)
  moreover have "distinct (map fst (sorted_entries files))" using assms by (simp add: sorted_entries_def distinct_map)
  ultimately show ?thesis by (simp add: strict_sorted_iff)
qed

lemma output_size_loop_safe: "output_size_loop m t vs \<Longrightarrow> v \<in> set vs \<Longrightarrow> isSafeInteger v"
  by (induction m t vs rule: output_size_loop.induct) (auto simp: Let_def split: if_splits)

lemma sizes_bounded:
  assumes "outputSizeWithinLimit (map (\<lambda>(path, f). JInt (int (length (file_bytes f)))) xs) m"
  shows "\<forall>(path, f) \<in> set xs. int (length (file_bytes f)) \<le> max_safe_integer"
proof (clarify)
  fix path f assume "(path, f) \<in> set xs"
  then have "JInt (int (length (file_bytes f))) \<in> set (map (\<lambda>(path, f). JInt (int (length (file_bytes f)))) xs)" by force
  with assms have "isSafeInteger (JInt (int (length (file_bytes f))))"
    unfolding outputSizeWithinLimit_def by (meson output_size_loop_safe)
  then show "int (length (file_bytes f)) \<le> max_safe_integer" by simp
qed

lemma entry_metadata:
  assumes "sha256_hex P" and "distinct (map fst files)" and "validateOutputFiles P files = Inr entries"
  shows "validateEntryMetadata P entries = Inr (map (meta_of P) (sorted_entries files))"
proof -
  note v = validateOutputFiles_ok [OF assms(3)]
  have "set (sorted_entries files) = set files" "length (sorted_entries files) = length files"
    by (simp_all add: sorted_entries_def)
  with v(2,3,4) sizes_bounded [OF v(5)] normalize_entries [OF assms(1) sorted_entries_strict [OF assms(2)], of "[]" "[]"]
  obtain p where n: "foldR (normalize_entry P) ([], []) entries = Inr (p, map (meta_of P) (sorted_entries files))"
    and l: "2 \<le> length entries" "length entries \<le> maxFiles PRODUCTION_OUTPUT_LIMITS"
    by (force simp: v(1))
  have eq: "map (JInt \<circ> em_sizeBytes) (map (meta_of P) (sorted_entries files)) =
      map (\<lambda>(path, f). JInt (int (length (file_bytes f)))) (sorted_entries files)"
    by (auto simp: meta_of_def)
  show ?thesis
    unfolding validateEntryMetadata_def n bindR_simps prod.case eq using l v(5) by simp
qed

lemma unpacked_entries:
  assumes "distinct (map fst xs)" and "\<forall>(path, f) \<in> set xs. file_mode f \<in> {420, 493}"
  shows "foldR (check_unpacked (map (apsnd (unpacked_of P)) xs)) () (map (meta_of P) xs) = Inr ()"
  unfolding foldR_unit
proof
  fix e assume "e \<in> set (map (meta_of P) xs)"
  then obtain path f where x: "(path, f) \<in> set xs" "e = meta_of P (path, f)" by auto
  then have "map_of (map (apsnd (unpacked_of P)) xs) path = Some (unpacked_of P f)"
    using assms(1) by (intro map_of_is_SomeI) (force simp: o_def)+
  with x assms(2) show "check_unpacked (map (apsnd (unpacked_of P)) xs) () e = Inr ()"
    by (fastforce simp: check_unpacked_def meta_of_def unpacked_of_def)
qed

section \<open>The generated files\<close>

text \<open>The JSON data the package writes: finite safe integers, and objects in property order.\<close>

fun json_data :: "jsval \<Rightarrow> bool" where
  "json_data Undefined = False"
| "json_data (Infinite _) = False"
| "json_data (Num q) = isSafeInteger (Num q)"
| "json_data (Arr vs) = list_all json_data vs"
| "json_data (Obj ps) = (distinct (map fst ps) \<and> own_order ps = ps \<and> list_all json_data (map snd ps))"
| "json_data _ = True"

text \<open>
  What the package relies on of \<open>JSON\<close>: the text of such data is a well-formed string that
  parses to the data.
\<close>

definition json_text :: "platform \<Rightarrow> bool" where
  "json_text P = (\<forall>v. json_data v \<longrightarrow> well_formed (json_stringify P v) \<and> no_bom (json_stringify P v) \<and>
     json_parse P (json_stringify P v) = Some v)"

lemma parse_encodeJson: "json_text P \<Longrightarrow> json_data v \<Longrightarrow> parse_json P (encodeJson P v) = Some v"
  by (simp add: json_text_def parse_json_def encodeJson_def decode_encode)

lemma own_order_plain: "list_all (Not \<circ> index_key \<circ> fst) ps \<Longrightarrow> own_order ps = ps"
  unfolding own_order_def by (subst (1) filter_False, simp add: list_all_iff, subst filter_True) (simp_all add: list_all_iff)

lemma minecraft_version_chars:
  assumes "validMinecraftVersion (Str s)"
  shows "list_all (\<lambda>u. is_digit u \<or> u = 46) s"
proof -
  have "list_all is_digit q" if "q \<in> set (split_on 46 s)" for q
    using assms that
    by (auto simp: validMinecraftVersion_def version_major_def version_part_def js_simps char_class_defs split: list.splits)
  then have "list_all (\<lambda>u. is_digit u \<or> u = 46) (join_on [46] ps)" if "set ps \<subseteq> set (split_on 46 s)" for ps
    using that by (induction "[46 :: code_unit]" ps rule: join_on.induct) (auto simp: list_all_iff)
  from this [OF subset_refl] show ?thesis by simp
qed

lemma argument_chars:
  "is_digit u \<or> u = 46 \<Longrightarrow> argument_char u" "is_alnum u \<or> one_of ''._+-'' u \<Longrightarrow> argument_char u"
  by (auto simp: argument_char_def char_class_defs js_simps)

lemma js_argument: "list_all (\<lambda>c. argument_char (of_char c)) t \<Longrightarrow> list_all argument_char (js t)"
  by (simp add: js_def list_all_iff)

lemma launch_arguments_safe:
  assumes "validMinecraftVersion (Str (t_minecraftVersion t))" and "validLoaderVersion (Str (t_loader_version t))"
  shows "list_all (\<lambda>a. a \<noteq> [] \<and> list_all argument_char a) (launch_arguments t)"
proof -
  have v: "list_all argument_char (t_minecraftVersion t)"
    using minecraft_version_chars [OF assms(1)] by (auto simp: list_all_iff intro: argument_chars(1))
  have l: "list_all argument_char (t_loader_version t)"
    using assms(2) by (auto simp: validLoaderVersion_def list_all_iff intro: argument_chars(2) split: list.splits)
  have "list_all argument_char (js ''@libraries/net/minecraftforge/forge/'')" "list_all argument_char (js ''-'')"
    "list_all argument_char (js ''/unix_args.txt'')" "list_all argument_char (js ''nogui'')"
    "list_all argument_char (js ''@libraries/net/neoforged/neoforge/'')" "list_all argument_char (js ''-jar'')"
    "list_all argument_char (js ''server.jar'')"
    by (simp_all add: js_simps argument_char_def char_class_defs)
  with v l show ?thesis by (simp add: launch_arguments_def)
qed

lemma argument_ascii: "list_all argument_char s \<Longrightarrow> ascii s"
  by (auto simp: ascii_def list_all_iff argument_char_def char_class_defs js_simps word_le_nat_alt word_less_nat_alt)

lemma ascii_Nil [simp]: "ascii []"
  by (simp add: ascii_def)

lemma ascii_append [simp]: "ascii (a @ b) \<longleftrightarrow> ascii a \<and> ascii b"
  by (simp add: ascii_def)

lemma launcher_decodes:
  assumes "list_all (\<lambda>a. a \<noteq> [] \<and> list_all argument_char a) args"
  shows "generatedLauncher args = Inr (encode (launcher_text args))"
    "decode (encode (launcher_text args)) = Some (launcher_text args)"
proof -
  show "generatedLauncher args = Inr (encode (launcher_text args))" using assms by (simp add: generatedLauncher_def)
  have "ascii (js '' '')" by (simp add: ascii_def js_simps)
  then have "ascii (join_on (js '' '') args)"
    using assms by (induction "js '' ''" args rule: join_on.induct) (auto simp: argument_ascii)
  then have "ascii (launcher_text args)" by (simp add: launcher_text_def) (simp add: ascii_def js_simps)
  then show "decode (encode (launcher_text args)) = Some (launcher_text args)" by (rule decode_encode_ascii)
qed

lemma plan_of_typed:
  assumes "toolchain_typed P revision hosts t"
  shows "\<exists>template. createAssemblyPlan P t = Inr \<lparr>p_toolchain = t, p_template = template, p_arguments = launch_arguments t\<rparr>"
  using assms by (auto simp: toolchain_typed_def createAssemblyPlan_def loaderTemplates_def)

section \<open>The descriptor of the runtime\<close>

lemma descriptor_data:
  assumes "toolchain_typed P revision hosts t"
  shows "json_data (runtimeDescriptor t p)"
proof -
  have "\<not> index_key (js ''schemaVersion'')"
    "\<not> index_key (js ''runtimeCatalogRevision'')"
    "\<not> index_key (js ''minecraftVersion'')"
    "\<not> index_key (js ''loader'')"
    "\<not> index_key (js ''java'')"
    "\<not> index_key (js ''launch'')"
    "\<not> index_key (js ''kind'')"
    "\<not> index_key (js ''version'')"
    "\<not> index_key (js ''component'')"
    "\<not> index_key (js ''major'')"
    "\<not> index_key (js ''jreId'')"
    "\<not> index_key (js ''path'')"
    "\<not> index_key (js ''arguments'')"
    by (simp_all add: index_key_def js_simps char_class_defs)
  moreover obtain k where "t_loader_kind t = Str k" "1 \<le> t_java_major t" "t_java_major t \<le> 255"
    using assms unfolding toolchain_typed_def by blast
  ultimately show ?thesis
    by (simp add: runtimeDescriptor_def own_order_plain list_all_iff max_safe_integer_def)
qed

lemma descriptor_ok:
  assumes "toolchain_typed P revision hosts t" and "lower_hex 64 revision"
  shows "runtime_ok P (runtimeDescriptor t p) = Inr True"
proof -
  have "validSha256 (Str revision)"
    using assms(2) by (auto simp: validSha256_def lower_hex_def list_all_iff is_hex_def)
  moreover obtain k where "t_loader_kind t = Str k" "k \<in> set (map fst loaderTemplates)"
    using assms(1) unfolding toolchain_typed_def by blast
  ultimately show ?thesis
    using assms(1)
    by (simp add: toolchain_typed_def runtime_ok_def runtimeDescriptor_def sameKeysI validLoader_def max_safe_integer_def)
qed

lemma descriptor_arguments: "launch_arguments (runtime_toolchain (runtimeDescriptor t p)) = launch_arguments t"
  "t_loader_kind (runtime_toolchain (runtimeDescriptor t p)) = t_loader_kind t"
  by (simp_all add: launch_arguments_def runtime_toolchain_def Let_def runtimeDescriptor_def)

lemma generated_accepted:
  assumes "toolchain_typed P revision hosts t" and "lower_hex 64 revision" and "json_text P"
    and "p_arguments p = launch_arguments t" and "generatedLauncher (p_arguments p) = Inr launcher"
    and "u_bytes ur = encodeJson P (runtimeDescriptor t p)" and "u_bytes ul = launcher"
  shows "validateGeneratedRuntimeAndLauncher P ur ul = Inr ()"
proof -
  let ?v = "runtimeDescriptor t p"
  have safe: "list_all (\<lambda>a. a \<noteq> [] \<and> list_all argument_char a) (launch_arguments t)"
    using assms(1) by (intro launch_arguments_safe) (simp_all add: toolchain_typed_def)
  have l: "decode launcher = Some (launcher_text (launch_arguments t))" "generatedLauncher (launch_arguments t) = Inr launcher"
    using launcher_decodes [OF safe] assms(4,5) by simp_all
  obtain template where "createAssemblyPlan P (runtime_toolchain ?v) =
      Inr \<lparr>p_toolchain = runtime_toolchain ?v, p_template = template, p_arguments = launch_arguments t\<rparr>"
    using assms(1) by (auto simp: createAssemblyPlan_def descriptor_arguments toolchain_typed_def loaderTemplates_def)
  moreover have "get (get ?v ''launch'') ''arguments'' = Arr (map Str (launch_arguments t))"
    by (simp add: runtimeDescriptor_def assms(4))
  ultimately show ?thesis
    using parse_encodeJson [OF assms(3) descriptor_data [OF assms(1)], of p] descriptor_ok [OF assms(1,2), of p] l assms(6,7)
    by (simp add: validateGeneratedRuntimeAndLauncher_def)
qed

section \<open>The closing verification\<close>

lemma add_generated_ok:
  assumes "add_generated P t p files = Inr files'"
  obtains launcher where "generatedLauncher (p_arguments p) = Inr launcher"
    "files' = files @ [(js ''.xmcl/runtime.json'', \<lparr>file_bytes = encodeJson P (runtimeDescriptor t p), file_mode = 420\<rparr>),
      (js ''.xmcl/launch.sh'', \<lparr>file_bytes = launcher, file_mode = 493\<rparr>)]"
    "\<not> has files (js ''.xmcl/runtime.json'')" "\<not> has files (js ''.xmcl/launch.sh'')"
proof -
  from assms obtain launcher where l: "generatedLauncher (p_arguments p) = Inr launcher"
    "\<not> has files (js ''.xmcl/runtime.json'')"
    "addGeneratedFile (files @ [(js ''.xmcl/runtime.json'', \<lparr>file_bytes = encodeJson P (runtimeDescriptor t p), file_mode = 420\<rparr>)])
      (js ''.xmcl/launch.sh'') launcher 493 = Inr files'"
    by (auto simp: add_generated_def addGeneratedFile_def result_simps update_fresh simp del: set_map split: if_splits)
  from l(3) show ?thesis
    by (intro that [OF l(1)]) (use l(2) in \<open>auto simp: addGeneratedFile_def update_fresh split: if_splits\<close>)
qed

lemma find_SomeD: "find Q xs = Some e \<Longrightarrow> e \<in> set xs \<and> Q e"
  by (auto simp: find_Some_iff)

lemma runtime_hash:
  assumes "distinct (map fst files)" and "map_of files (js ''.xmcl/runtime.json'') = Some f"
  shows "entryHash (map (entry_of P) (sorted_entries files)) ''.xmcl/runtime.json'' = Inr (Str (sha256 P (file_bytes f)))"
proof -
  have "set (sorted_entries files) = set files" by (simp add: sorted_entries_def)
  moreover have "(js ''.xmcl/runtime.json'', f) \<in> set files" using assms(2) by (rule map_of_SomeD)
  ultimately have "\<exists>e \<in> set (map (entry_of P) (sorted_entries files)). get e ''path'' = Str (js ''.xmcl/runtime.json'')" by force
  then obtain e where e: "find (\<lambda>e. get e ''path'' = Str (js ''.xmcl/runtime.json'')) (map (entry_of P) (sorted_entries files)) = Some e"
    by (cases "find (\<lambda>e. get e ''path'' = Str (js ''.xmcl/runtime.json'')) (map (entry_of P) (sorted_entries files))")
      (auto simp: find_None_iff)
  from find_SomeD [OF this] obtain g where g: "g \<in> set files" "e = entry_of P g" "fst g = js ''.xmcl/runtime.json''"
    by (auto simp: sorted_entries_def)
  have "map_of files (js ''.xmcl/runtime.json'') = Some (snd g)"
    using g(1,3) assms(1) by (metis map_of_is_SomeI prod.collapse)
  with assms(2) have "snd g = f" by simp
  with e g show ?thesis by (simp add: entryHash_def)
qed

lemma sealed_content:
  assumes "seal P key files = Inr b" and "distinct (map fst files)"
    and "map_of files (js ''.xmcl/runtime.json'') = Some f"
  shows "validateOutputFiles P files = Inr (map (entry_of P) (sorted_entries files))"
    "packageDeterministicTarZst files = Inr (b_archive b)"
    "b_content b = content_of P key (map (entry_of P) (sorted_entries files)) (b_archive b)"
    "b_descriptor b = descriptor_of (Str (sha256 P (file_bytes f)))"
proof -
  from assms(1) obtain entries h where e: "validateOutputFiles P files = Inr entries"
    "packageDeterministicTarZst files = Inr (b_archive b)" "entryHash entries ''.xmcl/runtime.json'' = Inr h"
    "b_content b = content_of P key entries (b_archive b)" "b_descriptor b = descriptor_of h"
    by (auto simp: seal_def result_simps)
  note n = validateOutputFiles_ok(1) [OF e(1)]
  from e n runtime_hash [OF assms(2,3), of P] show "validateOutputFiles P files = Inr (map (entry_of P) (sorted_entries files))"
    "packageDeterministicTarZst files = Inr (b_archive b)"
    "b_content b = content_of P key (map (entry_of P) (sorted_entries files)) (b_archive b)"
    "b_descriptor b = descriptor_of (Str (sha256 P (file_bytes f)))" by simp_all
qed

lemma map_of_same_set:
  assumes "distinct (map fst xs)" and "distinct (map fst ys)" and "set xs = set ys"
  shows "map_of xs = map_of ys"
proof
  fix k
  have *: "map_of xs k = Some v \<longleftrightarrow> map_of ys k = Some v" for v
    unfolding map_of_eq_Some_iff [OF assms(1)] map_of_eq_Some_iff [OF assms(2)] assms(3) ..
  show "map_of xs k = map_of ys k"
  proof (cases "map_of xs k")
    case None
    with * have "map_of ys k \<noteq> Some v" for v by (metis option.distinct(1))
    with None show ?thesis by (metis option.exhaust)
  next
    case (Some v)
    with * show ?thesis by metis
  qed
qed

lemma sealed_verifies:
  assumes "sha256_hex P" and "seal P key files = Inr b" and "distinct (map fst files)"
    and "map_of files (js ''.xmcl/runtime.json'') = Some fr" and "map_of files (js ''.xmcl/launch.sh'') = Some fl"
    and "validContentKey key" and "list_all (plain_text \<circ> fst) files"
    and "validateGeneratedRuntimeAndLauncher P (unpacked_of P fr) (unpacked_of P fl) = Inr ()"
  shows "validateImmutableContent P b = Inr ()"
proof -
  note c = sealed_content [OF assms(2,3,4)]
  let ?xs = "sorted_entries files"
  have set: "set ?xs = set files" and d: "distinct (map fst ?xs)"
    using assms(3) by (simp_all add: sorted_entries_def distinct_map)
  have ve: "list_all valid_entry files"
    using validateOutputFiles_ok(2) [OF c(1)] assms(7) by (fastforce simp: list_all_iff valid_entry_def)
  obtain tar where t: "packageTar files = Inr tar" "b_archive b = zstd_frame tar"
    using c(2) by (auto simp: packageDeterministicTarZst_eq)
  from archive_roundtrip [OF t(1) ve assms(3), of P] c(2)
  have u: "unpackDeterministicTarZst P (b_archive b) = Inr (map (apsnd (unpacked_of P)) ?xs)" by auto
  have m: "map_of (map (apsnd (unpacked_of P)) ?xs) path = map_option (unpacked_of P) (map_of files path)" for path
  proof -
    have "map_of ?xs = map_of files" using d assms(3) set by (rule map_of_same_set)
    then show ?thesis by (simp add: map_of_map apsnd_def map_prod_def)
  qed
  have modes: "\<forall>(path, f) \<in> set ?xs. file_mode f \<in> {420, 493}"
    using validateOutputFiles_ok(2) [OF c(1)] set by auto
  have "length (b_archive b) \<le> maxPackageArchiveBytes PRODUCTION_OUTPUT_LIMITS"
    using t length_stream [of ?xs] by (auto simp: packageTar_iff intro!: zstd_frame_bound)
  then have len: "int (length (b_archive b)) \<le> max_safe_integer" by (simp add: limit_defs max_safe_integer_def)
  show ?thesis
    using entry_metadata [OF assms(1,3) c(1)] u m [of "js ''.xmcl/runtime.json''"] m [of "js ''.xmcl/launch.sh''"]
      unpacked_entries [OF d modes, of P] assms(4,5,6,8) len sha256_validSha256 [OF assms(1)]
    by (simp add: validateImmutableContent_def c(3,4) content_of_def descriptor_of_def validGeneratedDescriptor_def)
      (simp add: unpacked_of_def)
qed

section \<open>Where the files come from\<close>

text \<open>A file of the content that was taken from the sandbox, from the bundle, or from a remote mod.\<close>

definition installed_from :: "platform \<Rightarrow> (jsval, sandbox_file) jsmap \<Rightarrow> jsstr \<times> out_file \<Rightarrow> bool" where
  "installed_from P result_files e = (safe_path 255 (fst e) \<and> \<not> forbiddenOutputPath P (fst e) \<and>
     \<not> prefix (js ''.xmcl/'') (fst e) \<and>
     (\<exists>sf. (Str (fst e), sf) \<in> set result_files \<and> sf_bytes sf = Some (file_bytes (snd e)) \<and> sf_mode sf = JInt (file_mode (snd e))))"

definition copied_from :: "platform \<Rightarrow> entries \<Rightarrow> bundle_file \<Rightarrow> jsstr \<times> out_file \<Rightarrow> bool" where
  "copied_from P entries bf e = (bf_path bf = js ''instance/'' @ fst e \<and> map_of entries (bf_path bf) = Some (file_bytes (snd e)) \<and>
     sha256 P (file_bytes (snd e)) = bf_sha256 bf \<and> \<not> forbiddenOutputPath P (fst e) \<and> file_mode (snd e) = 420)"

definition mod_from :: "platform \<Rightarrow> (jsval \<Rightarrow> bytes option result) \<Rightarrow> jsval \<Rightarrow> jsstr \<times> out_file \<Rightarrow> bool" where
  "mod_from P fetch_mod m e = (fst e = js ''mods/'' @ the_str (get m ''filename'') \<and> fetch_mod m = Inr (Some (file_bytes (snd e))) \<and>
     get m ''sha256'' = Str (sha256 P (file_bytes (snd e))) \<and> \<not> forbiddenOutputPath P (fst e) \<and> file_mode (snd e) = 420)"

abbreviation instance_file :: "bundle_file \<Rightarrow> bool" where
  "instance_file bf \<equiv> prefix (js ''instance/'') (bf_path bf)"

lemma copied_files:
  assumes "foldR (copy_file P entries) files bfs = Inr files'" and "distinct (map fst files)"
  shows "\<exists>ls. files' = files @ ls \<and> distinct (map fst files') \<and> list_all2 (copied_from P entries) (filter instance_file bfs) ls"
  using assms
proof (induction bfs arbitrary: files)
  case (Cons bf bfs)
  from Cons.prems(1) obtain files1 where f: "copy_file P entries files bf = Inr files1" "foldR (copy_file P entries) files1 bfs = Inr files'"
    by (auto simp: result_simps)
  show ?case
  proof (cases "instance_file bf")
    case True
    then obtain path where path: "bf_path bf = js ''instance/'' @ path" by (auto simp: prefix_def)
    from f(1) True obtain source where src: "map_of entries (bf_path bf) = Some source" "sha256 P source = bf_sha256 bf"
      "\<not> forbiddenOutputPath P path" "\<not> has files path" "files1 = files @ [(path, \<lparr>file_bytes = source, file_mode = 420\<rparr>)]"
      by (auto simp: copy_file_def Let_def path result_simps update_fresh simp del: set_map split: option.splits)
    have "distinct (map fst files1)" using Cons.prems(2) src(4,5) by simp
    from Cons.IH [OF f(2) this] obtain ls where ls: "files' = files1 @ ls" "distinct (map fst files')"
      "list_all2 (copied_from P entries) (filter instance_file bfs) ls" by blast
    have "copied_from P entries bf (path, \<lparr>file_bytes = source, file_mode = 420\<rparr>)"
      using src path by (simp add: copied_from_def)
    with ls True src(5) show ?thesis
      by (intro exI [of _ "(path, \<lparr>file_bytes = source, file_mode = 420\<rparr>) # ls"]) simp
  next
    case False
    with f(1) have "files1 = files" by (simp add: copy_file_def)
    with Cons.IH [OF f(2)] Cons.prems(2) False show ?thesis by simp
  qed
qed simp

lemma added_mods:
  assumes "foldR (add_mod P fetch_mod) (map (collision_key P \<circ> fst) files, files) ms = Inr (destinations, files')"
    and "distinct (map fst files)"
  shows "\<exists>xs. files' = files @ xs \<and> distinct (map fst files') \<and> list_all2 (mod_from P fetch_mod) ms xs"
  using assms
proof (induction ms arbitrary: files)
  case (Cons m ms)
  let ?path = "js ''mods/'' @ the_str (get m ''filename'')"
  from Cons.prems(1) obtain st where st: "add_mod P fetch_mod (map (collision_key P \<circ> fst) files, files) m = Inr st"
    "foldR (add_mod P fetch_mod) st ms = Inr (destinations, files')" unfolding foldR.simps bindR_eq_Inr by blast
  from st(1) obtain bytes where b: "collision_key P ?path \<notin> set (map (collision_key P \<circ> fst) files)"
    "fetch_mod m = Inr (Some bytes)" "get m ''sha256'' = Str (sha256 P bytes)" "\<not> forbiddenOutputPath P ?path"
    "st = (map (collision_key P \<circ> fst) files @ [collision_key P ?path], AList.update ?path \<lparr>file_bytes = bytes, file_mode = 420\<rparr> files)"
    by (auto simp: add_mod_def Let_def result_simps simp del: set_map split: option.splits)
  have new: "\<not> has files ?path" using b(1) by (auto simp: image_iff)
  let ?files = "files @ [(?path, \<lparr>file_bytes = bytes, file_mode = 420\<rparr>)]"
  have "st = (map (collision_key P \<circ> fst) ?files, ?files)" using b(5) update_fresh [OF new] by simp
  with st(2) have "foldR (add_mod P fetch_mod) (map (collision_key P \<circ> fst) ?files, ?files) ms = Inr (destinations, files')" by simp
  from Cons.IH [OF this] new Cons.prems(2) obtain xs where xs: "files' = ?files @ xs" "distinct (map fst files')"
    "list_all2 (mod_from P fetch_mod) ms xs" by auto
  have "mod_from P fetch_mod m (?path, \<lparr>file_bytes = bytes, file_mode = 420\<rparr>)" using b by (simp add: mod_from_def)
  with xs show ?case by (intro exI [of _ "(?path, \<lparr>file_bytes = bytes, file_mode = 420\<rparr>) # xs"]) simp
qed simp

lemma normalized_files:
  assumes "normalizeSandboxOutput P r = Inr files"
  shows "\<exists>result_files. sr_files r = Some result_files \<and> list_all (installed_from P result_files) files \<and> distinct (map fst files)"
proof -
  from assms obtain rf where rf: "sr_files r = Some rf" "foldR (add_sandbox_file P) [] rf = Inr files"
    by (auto simp: normalizeSandboxOutput_def result_simps)
  let ?I = "\<lambda>files. list_all (installed_from P rf) files \<and> distinct (map fst files)"
  have "?I files"
    using rf(2)
  proof (rule foldR_invariant)
    fix s x t assume x: "x \<in> set rf" and I: "?I s" and a: "add_sandbox_file P s x = Inr t"
    obtain path f where p: "x = (path, f)" by (cases x)
    from a obtain bs where "safeOutputPath path" "\<not> forbiddenOutputPath P (the_str path)" "\<not> prefix (js ''.xmcl/'') (the_str path)"
      "isSafeInteger (sf_mode f)" "sf_bytes f = Some bs"
      and t: "t = AList.update (the_str path) \<lparr>file_bytes = bs, file_mode = the_int (sf_mode f)\<rparr> s"
      by (auto simp: add_sandbox_file_def p split: if_splits option.splits)
    then have "installed_from P rf (the_str path, \<lparr>file_bytes = bs, file_mode = the_int (sf_mode f)\<rparr>)"
      using x is_str_the_str isSafeInteger_the_int
      by (auto simp: installed_from_def safeOutputPath_def p intro!: exI [of _ f])
    with I show "?I t" by (auto simp: t list_all_iff set_update distinct_update)
  qed simp
  with rf(1) show ?thesis by blast
qed

text \<open>The stages of a build that produced files.\<close>

lemma assembled:
  assumes "assemble_files P bd bundle frozen = Inr files" and "bd_catalog bd = Some c"
  obtains t plan jre artifacts r installed locals mods launcher where
    "catalog_resolve c (resolve_input (fst bundle)) = Inr t" "createAssemblyPlan P t = Inr plan"
    "resolveVerifiedJre P (the (bd_resolve bd)) (t_jre t) = Inr jre"
    "mapR (download_artifact P (the (bd_download bd)) (c_approvedArtifactHosts c)) (t_artifacts t) = Inr artifacts"
    "the (bd_assemble bd) \<lparr>as_jre = jre, as_plan = plan, as_artifacts = artifacts\<rparr> = Inr (Some r)"
    "\<exists>result_files. sr_files r = Some result_files \<and> list_all (installed_from P result_files) installed"
    "list_all2 (copied_from P (snd bundle)) (filter instance_file (bm_files (fst bundle))) locals"
    "list_all2 (mod_from P (the (bd_downloadRemoteMod bd))) (the_arr (get frozen ''mods'')) mods"
    "generatedLauncher (p_arguments plan) = Inr launcher"
    "files = installed @ locals @ mods @ [(js ''.xmcl/runtime.json'', \<lparr>file_bytes = encodeJson P (runtimeDescriptor t plan), file_mode = 420\<rparr>),
      (js ''.xmcl/launch.sh'', \<lparr>file_bytes = launcher, file_mode = 493\<rparr>)]"
    "distinct (map fst files)"
proof -
  from assms obtain t plan jre artifacts r installed f2 f3 where
    s: "catalog_resolve c (resolve_input (fst bundle)) = Inr t" "createAssemblyPlan P t = Inr plan"
      "resolveVerifiedJre P (the (bd_resolve bd)) (t_jre t) = Inr jre"
      "mapR (download_artifact P (the (bd_download bd)) (c_approvedArtifactHosts c)) (t_artifacts t) = Inr artifacts"
      "the (bd_assemble bd) \<lparr>as_jre = jre, as_plan = plan, as_artifacts = artifacts\<rparr> = Inr (Some r)"
    and i: "normalizeSandboxOutput P r = Inr installed"
    and f: "foldR (copy_file P (snd bundle)) installed (bm_files (fst bundle)) = Inr f2"
      "addRemoteMods P (bd_downloadRemoteMod bd) f2 (get frozen ''mods'') = Inr f3" "add_generated P t plan f3 = Inr files"
    by (auto simp: assemble_files_def Let_def result_simps install_def copyValidatedBundleContent_def split: option.splits prod.splits)
  from normalized_files [OF i] obtain rf where i: "sr_files r = Some rf" "list_all (installed_from P rf) installed"
    "distinct (map fst installed)" by blast
  from copied_files [OF f(1) i(3)] obtain locals where l: "f2 = installed @ locals" "distinct (map fst f2)"
    "list_all2 (copied_from P (snd bundle)) (filter instance_file (bm_files (fst bundle))) locals" by blast
  have "\<exists>xs. f3 = f2 @ xs \<and> distinct (map fst f3) \<and> list_all2 (mod_from P (the (bd_downloadRemoteMod bd))) (the_arr (get frozen ''mods'')) xs"
    using f(2) l(2) added_mods [of P "the (bd_downloadRemoteMod bd)" f2] by (auto simp: addRemoteMods_def result_simps split: if_splits)
  then obtain mods where m: "f3 = f2 @ mods" "distinct (map fst f3)"
    "list_all2 (mod_from P (the (bd_downloadRemoteMod bd))) (the_arr (get frozen ''mods'')) mods" by blast
  from f(3) obtain launcher where g: "generatedLauncher (p_arguments plan) = Inr launcher"
    "files = f3 @ [(js ''.xmcl/runtime.json'', \<lparr>file_bytes = encodeJson P (runtimeDescriptor t plan), file_mode = 420\<rparr>),
      (js ''.xmcl/launch.sh'', \<lparr>file_bytes = launcher, file_mode = 493\<rparr>)]"
    "\<not> has f3 (js ''.xmcl/runtime.json'')" "\<not> has f3 (js ''.xmcl/launch.sh'')" by (rule add_generated_ok)
  have "distinct (map fst files)" using m(2) g by (simp add: g(2))
  then show ?thesis
    by (rule that [OF s _ l(3) m(3) g(1), rotated 2]) (use i g(2) m(1) l(1) in auto)
qed

lemma plan_arguments: "createAssemblyPlan P t = Inr plan \<Longrightarrow> p_arguments plan = launch_arguments t"
  by (auto simp: createAssemblyPlan_def result_simps split: option.splits)

lemma build_verifies:
  assumes "sha256_hex P" and "json_text P" and "catalog_typed P c" and "bd_catalog bd = Some c"
    and "assemble_files P bd bundle frozen = Inr files" and "seal P key files = Inr b" and "validContentKey key"
    and "list_all (plain_text \<circ> fst) files"
  shows "validateImmutableContent P b = Inr ()"
  using assms(5,4)
proof (rule assembled)
  fix t plan jre artifacts r installed locals mods launcher
  assume a: "catalog_resolve c (resolve_input (fst bundle)) = Inr t" "createAssemblyPlan P t = Inr plan"
    "generatedLauncher (p_arguments plan) = Inr launcher"
    "files = installed @ locals @ mods @ [(js ''.xmcl/runtime.json'', \<lparr>file_bytes = encodeJson P (runtimeDescriptor t plan), file_mode = 420\<rparr>),
      (js ''.xmcl/launch.sh'', \<lparr>file_bytes = launcher, file_mode = 493\<rparr>)]" "distinct (map fst files)"
  have ty: "toolchain_typed P (c_runtimeCatalogRevision c) (c_approvedArtifactHosts c) t" "lower_hex 64 (c_runtimeCatalogRevision c)"
    using assms(3) resolve_ok(1) [OF a(1)] by (auto simp: catalog_typed_def list_all_iff)
  have m: "map_of files (js ''.xmcl/runtime.json'') = Some \<lparr>file_bytes = encodeJson P (runtimeDescriptor t plan), file_mode = 420\<rparr>"
    "map_of files (js ''.xmcl/launch.sh'') = Some \<lparr>file_bytes = launcher, file_mode = 493\<rparr>"
    by (rule map_of_is_SomeI [OF a(5)]; simp add: a(4))+
  show ?thesis
    by (rule sealed_verifies [OF assms(1,6) a(5) m assms(7,8)])
      (rule generated_accepted [OF ty assms(2) plan_arguments [OF a(2)] a(3)]; simp add: unpacked_of_def)
qed

section \<open>The command of the launcher\<close>

definition shell_special :: jsstr where
  "shell_special = js '' $`;&|<>(){}[]*?~#!%^='' @ [9, 10, 13, 34, 39, 92]"

lemma argument_not_special: "argument_char u \<Longrightarrow> u \<notin> set shell_special"
  by (auto simp: argument_char_def shell_special_def char_class_defs js_simps)

lemma split_on_no_occ: "s \<notin> set p \<Longrightarrow> split_on s p = [p]"
  by (induction p) auto

lemma split_join:
  assumes "args \<noteq> []" and "\<forall>a \<in> set args. s \<notin> set a"
  shows "split_on s (join_on [s] args) = args"
  using assms
proof (induction "[s]" args rule: join_on.induct)
  case (3 p q ps)
  have "split_on s (p @ s # xs) = p # split_on s xs" if "s \<notin> set p" for xs
    using that by (induction p) auto
  with 3 show ?case by simp
qed (simp_all add: split_on_no_occ)

section \<open>Properties\<close>


text \<open>
  C1. Every file of built content has one origin, and no file replaces another. The archive packs
  exactly: files the sandbox returned, outside the reserved directory; each \<open>instance/\<close> file
  of the bundle with the bytes and digest the manifest lists; each frozen remote mod with its
  digest; and the generated runtime descriptor and launcher of the toolchain the manifest
  resolves to. All paths are distinct.
\<close>

theorem build_provenance:
  assumes "build_content P bd bundle frozen key = Inr b" and "bd_catalog bd = Some c"
  shows "\<exists>t plan r result_files installed locals mods launcher files.
    packageDeterministicTarZst files = Inr (b_archive b) \<and> distinct (map fst files) \<and>
    files = installed @ locals @ mods @ [(js ''.xmcl/runtime.json'', \<lparr>file_bytes = encodeJson P (runtimeDescriptor t plan), file_mode = 420\<rparr>),
      (js ''.xmcl/launch.sh'', \<lparr>file_bytes = launcher, file_mode = 493\<rparr>)] \<and>
    catalog_resolve c (resolve_input (fst bundle)) = Inr t \<and> createAssemblyPlan P t = Inr plan \<and>
    generatedLauncher (p_arguments plan) = Inr launcher \<and>
    (\<exists>request. as_plan request = plan \<and> the (bd_assemble bd) request = Inr (Some r)) \<and>
    sr_files r = Some result_files \<and> list_all (installed_from P result_files) installed \<and>
    list_all2 (copied_from P (snd bundle)) (filter (\<lambda>f. prefix (js ''instance/'') (bf_path f)) (bm_files (fst bundle))) locals \<and>
    list_all2 (mod_from P (the (bd_downloadRemoteMod bd))) (the_arr (get frozen ''mods'')) mods"
proof -
  from assms(1) obtain files where f: "assemble_files P bd bundle frozen = Inr files" "seal P key files = Inr b"
    by (auto simp: build_content_def result_simps)
  have "packageDeterministicTarZst files = Inr (b_archive b)" using f(2) by (auto simp: seal_def result_simps)
  then show ?thesis
    by (rule_tac assembled [OF f(1) assms(2)]) (metis assembly.select_convs(2))
qed


end
