(* ===== verification/Sample_Builder.thy ===== *)
theory Sample_Builder
  imports Builder_Properties
begin

text \<open>
  A complete sample build: a catalog with one toolchain, a bundle with one configuration file, a
  sandbox that installs one server file. The witnesses of the builder's properties are instances
  at this build.
\<close>

section \<open>The dependencies\<close>

lemma sample_json_text: "json_text sample_platform"
proof -
  have "ascii (sample_text v)" for v
    using digits_digit [of "to_nat v"]
    by (auto simp: sample_text_def ascii_def list_all_iff char_class_defs js_simps word_le_nat_alt word_less_nat_alt)
  then have "well_formed (json_stringify sample_platform v)" "no_bom (json_stringify sample_platform v)" for v
    by (simp_all add: sample_platform_def ascii_well_formed ascii_no_bom)
  then show ?thesis by (simp add: json_text_def sample_json)
qed

definition assembled_attestation :: jsval where
  "assembled_attestation = Obj (map (\<lambda>k. (js k, Bool True)) [''ephemeralWorkspace'', ''nonRoot'', ''readOnlyBaseFilesystem'',
     ''noSecrets'', ''noDockerSocket'', ''boundedResources''] @ [(js ''network'', Str (js ''disabled''))])"

definition assembled_result :: sandbox_result where
  "assembled_result = \<lparr>sr_attestation = assembled_attestation,
     sr_files = Some [(Str (js ''server.jar''), \<lparr>sf_bytes = Some [7], sf_mode = JInt 420\<rparr>)]\<rparr>"

definition assembled_jre :: jsval where
  "assembled_jre = Obj [(js ''verified'', Bool True), (js ''readOnly'', Bool True), (js ''id'', Str (js ''jre-21'')),
     (js ''sha256'', Str (replicate 64 97)), (js ''component'', Str (js ''java-runtime-delta'')), (js ''major'', JInt 21),
     (js ''runtimeCatalogRevision'', Str (replicate 64 97)), (js ''rootToken'', Str (js ''jre-21''))]"

definition assembling_builder :: builder where
  "assembling_builder = \<lparr>bd_catalog = Some reviewed_catalog, bd_resolve = Some (\<lambda>_. Inr assembled_jre),
     bd_download = Some (\<lambda>hosts a. bindR (download sample_platform serving_downloader hosts a) (\<lambda>bytes. Inr (Some bytes))),
     bd_downloadRemoteMod = None, bd_assemble = Some (\<lambda>_. Inr (Some assembled_result)),
     bd_capabilities = Obj (map (\<lambda>(k, v). (js k, v)) requiredSandboxCapabilities)\<rparr>"

definition assembled_bundle :: "bundle_manifest \<times> entries" where
  "assembled_bundle = (\<lparr>bm_instanceName = js ''a'', bm_minecraftVersion = js ''1.21.1'', bm_loader_kind = js ''fabric'',
     bm_loader_version = js ''0.16.9'', bm_java_component = js ''java-runtime-delta'', bm_java_major = 21,
     bm_catalog_sha256 = replicate 64 97,
     bm_files = [\<lparr>bf_path = js ''instance/config/a.txt'', bf_sha256 = sample_sha256 [5], bf_sizeBytes = 1\<rparr>]\<rparr>,
     [(js ''instance/config/a.txt'', [5])])"

definition assembled_frozen :: jsval where
  "assembled_frozen = Obj [(js ''compatibility'', Obj [(js ''runtimeCatalog'', Obj [(js ''sha256'', Str (replicate 64 97))])]),
     (js ''mods'', Arr [])]"

definition assembled_plan :: plan where
  "assembled_plan = \<lparr>p_toolchain = reviewed_toolchain, p_template = js ''fabric-server-jar-v1'',
     p_arguments = [js ''-jar'', js ''server.jar'', js ''nogui'']\<rparr>"

definition assembled_launcher :: bytes where
  "assembled_launcher = encode (launcher_text (p_arguments assembled_plan))"

definition assembled_files :: files where
  "assembled_files = [(js ''server.jar'', \<lparr>file_bytes = [7], file_mode = 420\<rparr>),
     (js ''config/a.txt'', \<lparr>file_bytes = [5], file_mode = 420\<rparr>),
     (js ''.xmcl/runtime.json'', \<lparr>file_bytes = encodeJson sample_platform (runtimeDescriptor reviewed_toolchain assembled_plan), file_mode = 420\<rparr>),
     (js ''.xmcl/launch.sh'', \<lparr>file_bytes = assembled_launcher, file_mode = 493\<rparr>)]"

section \<open>The build\<close>

lemma assembled_paths:
  "safe_path 255 (js ''server.jar'')" "safe_path 255 (js ''config/a.txt'')"
  "safe_path 255 (js ''.xmcl/runtime.json'')" "safe_path 255 (js ''.xmcl/launch.sh'')"
  by (simp_all add: js_simps safe_path_def safe_segments_def drive_prefix_def char_class_defs)

lemma assembled_allowed: "\<not> forbiddenOutputPath sample_platform (js ''server.jar'')"
  "\<not> forbiddenOutputPath sample_platform (js ''config/a.txt'')"
  by (simp_all add: forbiddenOutputPath_def Let_def sample_platform_def ascii_lower_def ascii_lower_unit_def js_simps
      char_class_defs all_digits_def suffix_def)

lemma assembled_runtime: "runtimeDescriptor reviewed_toolchain assembled_plan = sample_runtime"
  by (simp add: runtimeDescriptor_def reviewed_toolchain_def assembled_plan_def sample_runtime_def)

lemma assembled_resolve: "catalog_resolve reviewed_catalog (resolve_input (fst assembled_bundle)) = Inr reviewed_toolchain"
  using reviewed_resolve
  by (simp add: resolve_input_def assembled_bundle_def reviewed_input_def reviewed_loader_def reviewed_java_def)

lemma assembled_create_plan: "createAssemblyPlan sample_platform reviewed_toolchain = Inr assembled_plan"
proof -
  have "t_loader_kind reviewed_toolchain = Str (js ''fabric'')" by (simp add: reviewed_toolchain_def)
  then show ?thesis
    by (simp add: createAssemblyPlan_def assembled_plan_def loaderTemplates_def launch_arguments_def)
qed

lemma assembled_resolve_jre: "\<exists>jre. resolveVerifiedJre sample_platform (\<lambda>_. Inr assembled_jre) (t_jre reviewed_toolchain) = Inr jre"
  using reviewed_parts(4) reviewed_hex(2)
  by (simp add: resolveVerifiedJre_def assembled_jre_def optional_lower_def nullish_def reviewed_toolchain_def sample_platform_def)

lemma assembled_downloads: "\<exists>as. mapR (download_artifact sample_platform (the (bd_download assembling_builder))
    (c_approvedArtifactHosts reviewed_catalog)) (t_artifacts reviewed_toolchain) = Inr as"
proof -
  have "t_artifacts reviewed_toolchain = [served_artifact]" by (simp add: reviewed_toolchain_def served_artifact_def)
  moreover have "sha256 sample_platform [1, 2] = a_sha256 served_artifact" "a_sizeBytes served_artifact = 2"
    by (simp_all add: served_artifact_def sample_platform_def)
  ultimately show ?thesis
    using served_download by (simp add: assembling_builder_def reviewed_catalog_def download_artifact_def)
qed

lemma assembled_install: "install sample_platform (the (bd_assemble assembling_builder)) request =
    Inr [(js ''server.jar'', \<lparr>file_bytes = [7], file_mode = 420\<rparr>)]"
proof -
  have "validSandboxAttestation assembled_attestation"
    by (simp add: validSandboxAttestation_def assembled_attestation_def)
  moreover have "\<not> prefix (js ''.xmcl/'') (js ''server.jar'')" by (simp add: js_simps)
  ultimately show ?thesis
    using assembled_paths(1) assembled_allowed(1)
    by (simp add: install_def assembling_builder_def assembled_result_def normalizeSandboxOutput_def add_sandbox_file_def
        sandbox_size_def safeOutputPath_def outputSizeWithinLimit_def limit_defs max_safe_integer_def)
qed

lemma assembled_copy: "copyValidatedBundleContent sample_platform [(js ''server.jar'', \<lparr>file_bytes = [7], file_mode = 420\<rparr>)] assembled_bundle =
    Inr [(js ''server.jar'', \<lparr>file_bytes = [7], file_mode = 420\<rparr>), (js ''config/a.txt'', \<lparr>file_bytes = [5], file_mode = 420\<rparr>)]"
proof -
  have "js ''instance/config/a.txt'' = js ''instance/'' @ js ''config/a.txt''" by (simp add: js_simps)
  then show ?thesis
    using assembled_paths(2) assembled_allowed(2)
    by (simp add: copyValidatedBundleContent_def assembled_bundle_def copy_file_def safeOutputPath_def sample_platform_def)
qed

lemma assembled_generate: "add_generated sample_platform reviewed_toolchain assembled_plan (take 2 assembled_files) = Inr assembled_files"
proof -
  have "generatedLauncher (p_arguments assembled_plan) = Inr assembled_launcher"
    unfolding assembled_launcher_def
    by (rule launcher_decodes) (simp add: assembled_plan_def argument_char_def js_simps char_class_defs)
  then show ?thesis
    by (simp add: add_generated_def addGeneratedFile_def assembled_files_def)
qed

lemma assembled_assemble: "assemble_files sample_platform assembling_builder assembled_bundle assembled_frozen = Inr assembled_files"
proof -
  obtain jre where j: "resolveVerifiedJre sample_platform (\<lambda>_. Inr assembled_jre) (t_jre reviewed_toolchain) = Inr jre"
    using assembled_resolve_jre by blast
  obtain as where as: "mapR (download_artifact sample_platform (the (bd_download assembling_builder))
      (c_approvedArtifactHosts reviewed_catalog)) (t_artifacts reviewed_toolchain) = Inr as"
    using assembled_downloads by blast
  have c: "bd_catalog assembling_builder = Some reviewed_catalog" "bd_resolve assembling_builder = Some (\<lambda>_. Inr assembled_jre)"
    "c_runtimeCatalogRevision reviewed_catalog = replicate 64 97"
    by (simp_all add: assembling_builder_def reviewed_catalog_def)
  have f: "get (get (get assembled_frozen ''compatibility'') ''runtimeCatalog'') ''sha256'' = Str (replicate 64 97)"
    "get assembled_frozen ''mods'' = Arr []"
    by (simp_all add: assembled_frozen_def)
  have t: "[(js ''server.jar'', \<lparr>file_bytes = [7], file_mode = 420\<rparr>), (js ''config/a.txt'', \<lparr>file_bytes = [5], file_mode = 420\<rparr>)] =
      take 2 assembled_files" by (simp add: assembled_files_def)
  show ?thesis
    unfolding assemble_files_def Let_def c f option.sel assembled_resolve
    by (simp add: j as assembled_create_plan assembled_install assembled_copy addRemoteMods_def t assembled_generate)
qed

lemma assembled_ascii: "list_all (ascii \<circ> fst) assembled_files" "ascii (launcher_text (p_arguments assembled_plan))"
  by (simp_all add: assembled_files_def launcher_text_def assembled_plan_def) (simp_all add: ascii_def js_simps)

lemma assembled_plain: "list_all (plain_text \<circ> fst) assembled_files"
proof -
  have "list_all (\<lambda>e. 0 \<notin> set (fst e)) assembled_files" by (simp add: assembled_files_def js_simps)
  with assembled_ascii(1) show ?thesis by (auto simp: list_all_iff intro!: ascii_plain_text)
qed

lemma assembled_bytes: "length (encodeJson sample_platform (runtimeDescriptor reviewed_toolchain assembled_plan)) = 1"
  "length assembled_launcher = 98"
proof -
  have "ascii (js ''r'')" by (simp add: ascii_def js_simps)
  then show "length (encodeJson sample_platform (runtimeDescriptor reviewed_toolchain assembled_plan)) = 1"
    by (simp add: assembled_runtime encodeJson_def sample_platform_def sample_text_def length_encode_ascii)
  show "length assembled_launcher = 98"
    using assembled_ascii(2) by (simp add: assembled_launcher_def length_encode_ascii)
      (simp add: launcher_text_def assembled_plan_def)
qed

lemma assembled_packs: "\<exists>archive. packageDeterministicTarZst assembled_files = Inr archive"
proof -
  have "list_all valid_entry assembled_files"
    using assembled_plain assembled_paths by (simp add: assembled_files_def valid_entry_def)
  moreover have "\<forall>e \<in> set assembled_files. \<exists>np. splitTarPath (fst e) = Inr np"
    using assembled_ascii(1) by (simp add: assembled_files_def splitTarPath_def length_encode_ascii)
  moreover have "stream_size assembled_files + 1024 \<le> maxPackageTarBytes PRODUCTION_OUTPUT_LIMITS"
    by (simp add: assembled_files_def assembled_bytes entry_size_def padding_def limit_defs)
  ultimately show ?thesis by (simp add: packaging_succeeds)
qed

lemma sum_list_sorted: "sum_list (map g (sorted_entries files)) = sum_list (map g files :: int list)"
proof -
  have "mset (map g (sorted_entries files)) = mset (map g files)" by (simp add: sorted_entries_def)
  then show ?thesis by (simp only: flip: sum_mset_sum_list)
qed

lemma assembled_seal: "\<exists>b. seal sample_platform (Str (js ''content'')) assembled_files = Inr b"
proof -
  have ok: "list_all (\<lambda>(path, f). safeOutputPath (Str path) \<and> (generated_path path \<or> \<not> forbiddenOutputPath sample_platform path) \<and>
      validOutputMode (JInt (file_mode f))) (sorted_entries assembled_files)"
    using assembled_paths assembled_allowed
    by (simp add: list_all_iff sorted_entries_def)
      (simp add: assembled_files_def safeOutputPath_def generated_path_def validOutputMode_def)
  have "sum_list (map (\<lambda>e. int (length (file_bytes (snd e)))) (sorted_entries assembled_files)) =
      sum_list (map (\<lambda>e. int (length (file_bytes (snd e)))) assembled_files)"
    by (rule sum_list_sorted)
  also have "\<dots> = 101" by (simp add: assembled_files_def assembled_bytes)
  finally have "outputSizeWithinLimit (map (\<lambda>(path, f). JInt (int (length (file_bytes f)))) (sorted_entries assembled_files))
      (JInt (int (maxPackageInputBytes PRODUCTION_OUTPUT_LIMITS)))"
    by (simp add: outputSizeWithinLimit_spec case_prod_unfold o_def list_all_iff sorted_entries_def)
      (simp add: assembled_files_def assembled_bytes bounded_size_def limit_defs max_safe_integer_def)
  with ok have v: "validateOutputFiles sample_platform assembled_files = Inr (map (entry_of sample_platform) (sorted_entries assembled_files))"
    by (simp add: validateOutputFiles_def) (simp add: assembled_files_def limit_defs)
  have "\<exists>e \<in> set (map (entry_of sample_platform) (sorted_entries assembled_files)). get e ''path'' = Str (js ''.xmcl/runtime.json'')"
    by (simp add: sorted_entries_def) (simp add: assembled_files_def)
  then have "find (\<lambda>e. get e ''path'' = Str (js ''.xmcl/runtime.json'')) (map (entry_of sample_platform) (sorted_entries assembled_files)) \<noteq> None"
    unfolding find_None_iff by blast
  then obtain h where "entryHash (map (entry_of sample_platform) (sorted_entries assembled_files)) ''.xmcl/runtime.json'' = Inr h"
    unfolding entryHash_def by (auto simp only: option.simps split: option.split)
  with v assembled_packs show ?thesis by (auto simp: seal_def)
qed

lemma assembled_dependencies: "hasReviewedDependencies assembling_builder" "bd_catalog assembling_builder = Some reviewed_catalog"
  "validContentKey (Str (js ''content''))"
  by (simp_all add: hasReviewedDependencies_def assembling_builder_def hasCapabilities_def requiredSandboxCapabilities_def
      validContentKey_def js_simps char_class_defs)

lemma assembled_build: "\<exists>b. build_content sample_platform assembling_builder assembled_bundle assembled_frozen (Str (js ''content'')) = Inr b"
proof -
  obtain b where s: "seal sample_platform (Str (js ''content'')) assembled_files = Inr b" using assembled_seal by blast
  have "validateImmutableContent sample_platform b = Inr ()"
    by (rule build_verifies [OF sample_sha256_hex sample_json_text reviewed_catalog_typed [OF reviewed_catalog]
          assembled_dependencies(2) assembled_assemble s assembled_dependencies(3) assembled_plain])
  with s show ?thesis by (simp add: build_content_def assembled_dependencies assembled_assemble)
qed

section \<open>The witnesses\<close>


theorem build_provenance_witness:
  "\<exists>b files. build_content sample_platform assembling_builder assembled_bundle assembled_frozen (Str (js ''content'')) = Inr b \<and>
    packageDeterministicTarZst files = Inr (b_archive b) \<and> distinct (map fst files)"
proof -
  obtain b where "build_content sample_platform assembling_builder assembled_bundle assembled_frozen (Str (js ''content'')) = Inr b"
    using assembled_build by blast
  with build_provenance [OF this assembled_dependencies(2)] show ?thesis
    by (elim exE conjE) (intro exI conjI)
qed


end
