(* ===== verification/Callback_Control_Plane.thy ===== *)
theory Callback_Control_Plane
  imports Compiler_Worker Artifact_Download
begin

text \<open>
  The control plane of a queued job, \<open>CallbackBoundControlPlane\<close> and
  \<open>AuthenticatedDeploymentCallbacks\<close> of \<open>src/compiler/src/http-worker.mjs\<close>: the
  grants, the upload preparation and the two terminal reports are signed POST requests to the
  control plane, bound to one compiler job. The signing identity and fetch are parameters; fetch
  answers as a function of the calls the run has made so far.
\<close>

section \<open>Bounded answers\<close>

definition MAX_REQUEST_BYTES :: nat where
  "MAX_REQUEST_BYTES = 256 * 1024"

definition MAX_CALLBACK_BYTES :: nat where
  "MAX_CALLBACK_BYTES = 4 * 1024 * 1024"

fun read_bounded :: "nat \<Rightarrow> nat \<Rightarrow> bytes list \<Rightarrow> chunk list \<Rightarrow> (bytes list \<times> nat) option" where
  "read_bounded maximum tot chunks [] = Some (chunks, tot)"
| "read_bounded maximum tot chunks (Chunk bs # rest) =
     (if tot + length bs > maximum then None else read_bounded maximum (tot + length bs) (chunks @ [bs]) rest)"
| "read_bounded maximum tot chunks (_ # rest) = None"

definition readBoundedResponse :: "response \<Rightarrow> nat \<Rightarrow> string \<Rightarrow> bytes result" where
  "readBoundedResponse r maximum failureCode =
     (let failed = CompilerFailure failureCode; len = rs_headers r ''content-length'' in
      bindR (require (case len of None \<Rightarrow> True | Some text \<Rightarrow> declared_within maximum text) failed) (\<lambda>_.
      case rs_body r of
        Buffer _ \<Rightarrow> Inl failed
      | Stream reads \<Rightarrow>
          bindR (of_option failed (read_bounded maximum 0 [] reads)) (\<lambda>(chunks, tot).
          bindR (require (case len of None \<Rightarrow> True | Some text \<Rightarrow> tot = digits_value 10 text) failed) (\<lambda>_.
            Inr (concatenate chunks tot)))))"

definition readBoundedCallbackBody :: "response \<Rightarrow> bytes result" where
  "readBoundedCallbackBody r = readBoundedResponse r MAX_CALLBACK_BYTES ''invalid_upload_preparation''"

section \<open>Parsing the answers\<close>

definition validCallbackDeploymentId :: "jsval \<Rightarrow> bool" where
  "validCallbackDeploymentId v = (is_str v \<and> (case the_str v of [] \<Rightarrow> False
     | u # us \<Rightarrow> is_alnum u \<and> length us \<le> 254 \<and> list_all (\<lambda>u. is_alnum u \<or> one_of ''._-'' u) us))"

definition parseGrantResponse :: "platform \<Rightarrow> jsval \<Rightarrow> response \<Rightarrow> jsval result" where
  "parseGrantResponse P job r =
     bindR (readBoundedResponse r MAX_REQUEST_BYTES ''invalid_grants'') (\<lambda>bytes.
     bindR (of_option invalid_grants (parse_json P bytes)) (\<lambda>grants.
     bindR (recast (verifyGrantSet P None grants job) invalid_grants) (\<lambda>_. Inr grants)))"

definition isReconciliationGrant :: "platform \<Rightarrow> jsval \<Rightarrow> jsval \<Rightarrow> bool" where
  "isReconciliationGrant P v expectedKey = (strict_eq (get v ''key'') expectedKey \<and> get v ''method'' = Str (js ''GET'') \<and>
     exactHttpsUrl P (get v ''url'') \<and> grantExpiresAt P v \<noteq> None \<and> get v ''headers'' = Undefined)"

definition upload_preparation_ok :: "platform \<Rightarrow> jsval \<Rightarrow> jsval \<Rightarrow> bool" where
  "upload_preparation_ok P job v = (plainObject v \<and>
     sameKeys v [''schemaVersion'', ''status'', ''compilerRequestId'', ''deploymentId'', ''manifestSha256'', ''content'',
       ''descriptor'', ''reconciliation''] \<and>
     get v ''schemaVersion'' = JInt 1 \<and> get v ''status'' \<in> {Str (js ''upload_prepared''), Str (js ''upload_existing'')} \<and>
     strict_eq (get v ''compilerRequestId'') (get job ''compilerRequestId'') \<and>
     strict_eq (get v ''deploymentId'') (get job ''deploymentId'') \<and>
     strict_eq (get v ''manifestSha256'') (get job ''manifestSha256'') \<and>
     plainObject (get v ''content'') \<and> plainObject (get v ''descriptor'') \<and> plainObject (get v ''reconciliation'') \<and>
     strict_eq (get (get v ''content'') ''key'') (get job ''expectedContentKey'') \<and>
     validSha256 (get (get v ''content'') ''sha256'') \<and>
     isSafeInteger (get (get v ''content'') ''compressedSize'') \<and> 1 \<le> the_int (get (get v ''content'') ''compressedSize'') \<and>
     isSafeInteger (get (get v ''content'') ''logicalSize'') \<and> 1 \<le> the_int (get (get v ''content'') ''logicalSize'') \<and>
     is_arr (get (get v ''content'') ''paths'') \<and>
     isReconciliationGrant P (get v ''reconciliation'') (get job ''expectedContentKey''))"

definition parseUploadPreparation :: "platform \<Rightarrow> jsval \<Rightarrow> response \<Rightarrow> jsval result" where
  "parseUploadPreparation P job r =
     (let invalid = CompilerFailure ''invalid_upload_preparation'' in
      bindR (readBoundedCallbackBody r) (\<lambda>bytes.
      bindR (of_option invalid (parse_json P bytes)) (\<lambda>v.
      bindR (require (upload_preparation_ok P job v) invalid) (\<lambda>_.
      Inr (Obj [(js ''status'', get v ''status''),
        (js ''publication'', Obj [(js ''deploymentId'', get v ''deploymentId''), (js ''manifestSha256'', get v ''manifestSha256''),
          (js ''content'', get v ''content''), (js ''descriptor'', get v ''descriptor'')]),
        (js ''reconciliation'', get v ''reconciliation'')])))))"

section \<open>Signed callbacks\<close>

text \<open>\<open>encodeURIComponent\<close>: every byte of the UTF-8 text that is not unreserved is escaped.\<close>

definition unreserved :: "code_unit \<Rightarrow> bool" where
  "unreserved u = (is_alnum u \<or> one_of ''-_.!~*()'' u \<or> u = 39)"

definition hex_upper :: "nat \<Rightarrow> code_unit" where
  "hex_upper n = (if n < 10 then of_nat (48 + n) else of_nat (55 + n))"

definition escape_byte :: "byte \<Rightarrow> jsstr" where
  "escape_byte b = (let u = of_nat (unat b) :: code_unit in
     if unreserved u then [u] else [37, hex_upper (unat b div 16), hex_upper (unat b mod 16)])"

definition encodeURIComponent :: "jsstr \<Rightarrow> jsstr result" where
  "encodeURIComponent s = (if well_formed s then Inr (concat (map escape_byte (encode s))) else Inl (PlainError ''URI malformed''))"

record callback_request =
  cq_url :: jsstr
  cq_body :: bytes
  cq_identity :: jsval

text \<open>
  \<open>cb_now h i\<close> is the \<open>i\<close>-th reading of the clock while the last call of \<open>h\<close> is
  served; a fetch yields its response or error and whether the timer fired first.
\<close>

record callbacks =
  cb_origin :: jsstr
  cb_timeoutMs :: int
  cb_signOutgoing :: "jsstr \<Rightarrow> bytes \<Rightarrow> int \<Rightarrow> jsval result"
  cb_now :: "event list \<Rightarrow> nat \<Rightarrow> int"
  cb_fetch :: "event list \<Rightarrow> callback_request \<Rightarrow> response result \<times> bool"

text \<open>What an injected identity offers; the two functions are present or not.\<close>

record authenticator =
  au_verifies :: bool
  au_signs :: bool
  au_replayProtected :: jsval

definition validAuthenticator :: "authenticator option \<Rightarrow> bool \<Rightarrow> bool" where
  "validAuthenticator a allowInsecureForTests = (case a of None \<Rightarrow> False
     | Some a \<Rightarrow> au_verifies a \<and> au_signs a \<and> (allowInsecureForTests \<or> au_replayProtected a = Bool True))"

definition AuthenticatedDeploymentCallbacks ::
    "platform \<Rightarrow> jsval \<Rightarrow> authenticator option \<Rightarrow> bool \<Rightarrow> jsval \<Rightarrow> bool \<Rightarrow> (jsstr \<times> int) result" where
  "AuthenticatedDeploymentCallbacks P controlPlaneOrigin authenticator fetch_is_function timeoutMs allowInsecureForTests =
     (let ms = default_to timeoutMs (JInt 10000) in
      bindR (require (validAuthenticator authenticator allowInsecureForTests \<and> fetch_is_function \<and> isSafeInteger ms \<and>
        1000 \<le> the_int ms \<and> the_int ms \<le> 60000) (TypeError ''invalid callback identity'')) (\<lambda>_.
      bindR (recast (js_String P controlPlaneOrigin) (TypeError ''invalid callback URL'')) (\<lambda>text.
      bindR (of_option (TypeError ''invalid callback URL'') (parse_url P text)) (\<lambda>u.
      bindR (require (truthy controlPlaneOrigin \<and> username u = [] \<and> password u = [] \<and> hash u = [] \<and>
        pathname u = js ''/'' \<and> search u = [] \<and>
        (protocol u = js ''https:'' \<or> allowInsecureForTests \<and> protocol u = js ''http:''))
        (TypeError ''invalid control-plane origin'')) (\<lambda>_.
      Inr (origin u, the_int ms))))))"

definition callback_kinds :: "string list" where
  "callback_kinds = [''grants'', ''upload-prepared'', ''published'', ''failed'']"

definition callback_target :: "jsstr \<Rightarrow> string \<Rightarrow> jsstr" where
  "callback_target deployment kind = js ''/v1/internal/shared-runtime-compiler/deployments/'' @ deployment @ js ''/'' @ js kind"

definition delivery_failed :: js_error where
  "delivery_failed = CompilerFailure ''callback_delivery_failed''"

text \<open>The signed request of a callback.\<close>

definition callback_request_for ::
    "platform \<Rightarrow> callbacks \<Rightarrow> event list \<Rightarrow> string \<Rightarrow> jsval \<Rightarrow> jsval \<Rightarrow> callback_request result" where
  "callback_request_for P cb h kind deploymentId payload =
     bindR (require (kind \<in> set callback_kinds \<and> validCallbackDeploymentId deploymentId) delivery_failed) (\<lambda>_.
     bindR (encodeURIComponent (the_str deploymentId)) (\<lambda>segment.
     let target = callback_target segment kind; body = encode (json_stringify P payload) in
     bindR (require (length body \<le> MAX_CALLBACK_BYTES) (CompilerFailure ''callback_payload_too_large'')) (\<lambda>_.
     bindR (cb_signOutgoing cb target body (cb_now cb h 0)) (\<lambda>identityHeaders.
       Inr \<lparr>cq_url = cb_origin cb @ target, cq_body = body, cq_identity = identityHeaders\<rparr>))))"

definition callback_response :: "platform \<Rightarrow> jsstr \<Rightarrow> response \<Rightarrow> response result" where
  "callback_response P url r =
     bindR (require (rs_ok r \<and> \<not> rs_redirected r) delivery_failed) (\<lambda>_.
     bindR (if rs_url r = [] then Inr () else bindR (url_href P (Str (rs_url r))) (\<lambda>a. require (a = url) delivery_failed)) (\<lambda>_.
       Inr r))"

definition post :: "platform \<Rightarrow> callbacks \<Rightarrow> event list \<Rightarrow> string \<Rightarrow> jsval \<Rightarrow> jsval \<Rightarrow> response result" where
  "post P cb h kind deploymentId payload =
     bindR (callback_request_for P cb h kind deploymentId payload) (\<lambda>rq.
       raced (cb_fetch cb h rq) ''callback_delivery_failed'' ''callback_delivery_failed'' (callback_response P (cq_url rq)))"

definition json_answer :: "platform \<Rightarrow> response \<Rightarrow> bool" where
  "json_answer P r = (rs_status r = 200 \<and> (case rs_headers r ''content-type'' of None \<Rightarrow> False
     | Some t \<Rightarrow> prefix (js ''application/json'') (lower P t)))"

definition grants :: "platform \<Rightarrow> callbacks \<Rightarrow> event list \<Rightarrow> jsval \<Rightarrow> jsval result" where
  "grants P cb h job =
     bindR (require (plainObject job \<and> validCallbackDeploymentId (get job ''deploymentId'') \<and>
       validId (get job ''compilerRequestId'')) invalid_grants) (\<lambda>_.
     bindR (post P cb h ''grants'' (get job ''deploymentId'') (Obj [(js ''schemaVersion'', JInt 1),
       (js ''compilerRequestId'', get job ''compilerRequestId''), (js ''deploymentId'', get job ''deploymentId'')])) (\<lambda>r.
     bindR (require (json_answer P r) invalid_grants) (\<lambda>_.
       parseGrantResponse P job r)))"

section \<open>The control plane of a job\<close>

definition bound_getGrants :: "platform \<Rightarrow> callbacks \<Rightarrow> jsval \<Rightarrow> event list \<Rightarrow> jsval \<Rightarrow> jsval result" where
  "bound_getGrants P cb job h deploymentId =
     bindR (require (strict_eq deploymentId (get job ''deploymentId'')) invalid_grants) (\<lambda>_.
     bindR (grants P cb h job) (\<lambda>gs.
     bindR (verifyGrantSet P (Some (cb_now cb h 1)) gs job) (\<lambda>_. Inr gs)))"

definition publication_matches :: "jsval \<Rightarrow> jsval \<Rightarrow> bool" where
  "publication_matches job publication = (truthy publication \<and>
     strict_eq (get publication ''deploymentId'') (get job ''deploymentId'') \<and>
     strict_eq (get publication ''manifestSha256'') (get job ''manifestSha256'') \<and>
     strict_eq (get (get publication ''content'') ''key'') (get job ''expectedContentKey''))"

definition callback_payload :: "jsval \<Rightarrow> string \<Rightarrow> (jsstr \<times> jsval) list \<Rightarrow> jsval" where
  "callback_payload job status rest = Obj ([(js ''schemaVersion'', JInt 1), (js ''status'', Str (js status)),
     (js ''compilerRequestId'', get job ''compilerRequestId''), (js ''deploymentId'', get job ''deploymentId''),
     (js ''manifestSha256'', get job ''manifestSha256'')] @ rest)"

definition content_fields :: "jsval \<Rightarrow> (jsstr \<times> jsval) list" where
  "content_fields publication =
     [(js ''content'', get publication ''content''), (js ''descriptor'', get publication ''descriptor'')]"

definition bound_publish :: "platform \<Rightarrow> callbacks \<Rightarrow> jsval \<Rightarrow> event list \<Rightarrow> jsval \<Rightarrow> unit result" where
  "bound_publish P cb job h publication =
     bindR (require (publication_matches job publication) (CompilerFailure ''invalid_publication'')) (\<lambda>_.
     bindR (post P cb h ''published'' (get job ''deploymentId'')
       (callback_payload job ''published'' (content_fields publication))) (\<lambda>_. Inr ()))"

definition bound_prepareUpload :: "platform \<Rightarrow> callbacks \<Rightarrow> jsval \<Rightarrow> event list \<Rightarrow> jsval \<Rightarrow> jsval result" where
  "bound_prepareUpload P cb job h publication =
     bindR (require (publication_matches job publication) (CompilerFailure ''invalid_upload_preparation'')) (\<lambda>_.
     bindR (post P cb h ''upload-prepared'' (get job ''deploymentId'')
       (callback_payload job ''upload_prepared'' (content_fields publication))) (parseUploadPreparation P job))"

record control_plane =
  terminalCallbackDelivered :: bool
  grantRefreshSucceeded :: bool

definition CallbackBoundControlPlane :: control_plane where
  "CallbackBoundControlPlane = \<lparr>terminalCallbackDelivered = False, grantRefreshSucceeded = False\<rparr>"

definition bound_failed ::
    "platform \<Rightarrow> callbacks \<Rightarrow> jsval \<Rightarrow> control_plane \<Rightarrow> event list \<Rightarrow> jsval \<Rightarrow> unit result" where
  "bound_failed P cb job cp h failure =
     bindR (require (grantRefreshSucceeded cp) invalid_grants) (\<lambda>_.
     bindR (require (truthy failure \<and> strict_eq (get failure ''deploymentId'') (get job ''deploymentId'') \<and>
       strict_eq (get failure ''manifestSha256'') (get job ''manifestSha256'') \<and>
       get failure ''code'' \<in> set (map (Str \<circ> js) failureCodes)) (CompilerFailure ''invalid_failure_callback'')) (\<lambda>_.
     bindR (post P cb h ''failed'' (get job ''deploymentId'')
       (callback_payload job ''failed'' [(js ''code'', get failure ''code'')])) (\<lambda>_. Inr ())))"

text \<open>The state of the control plane after the last call of a history.\<close>

definition after_call :: "platform \<Rightarrow> callbacks \<Rightarrow> jsval \<Rightarrow> event list \<Rightarrow> control_plane \<Rightarrow> control_plane" where
  "after_call P cb job h cp = (case last h of
     Get_grants d \<Rightarrow> if isl (bound_getGrants P cb job h d) then cp else cp\<lparr>grantRefreshSucceeded := True\<rparr>
   | Publish p \<Rightarrow> if isl (bound_publish P cb job h p) then cp else cp\<lparr>terminalCallbackDelivered := True\<rparr>
   | Report_failed f \<Rightarrow> if isl (bound_failed P cb job cp h f) then cp else cp\<lparr>terminalCallbackDelivered := True\<rparr>
   | _ \<Rightarrow> cp)"

definition control_plane_after :: "platform \<Rightarrow> callbacks \<Rightarrow> jsval \<Rightarrow> event list \<Rightarrow> control_plane" where
  "control_plane_after P cb job h =
     fold (\<lambda>n. after_call P cb job (take n h)) [1..<Suc (length h)] CallbackBoundControlPlane"

text \<open>The environment of a run whose control plane is the bound one.\<close>

fun event_argument :: "event \<Rightarrow> jsval" where
  "event_argument (Get_grants v) = v"
| "event_argument (Prepare v) = v"
| "event_argument (Publish v) = v"
| "event_argument _ = Undefined"

definition bound_environment :: "platform \<Rightarrow> callbacks \<Rightarrow> jsval \<Rightarrow> environment \<Rightarrow> environment" where
  "bound_environment P cb job env = env\<lparr>
     getGrants := (\<lambda>h. bound_getGrants P cb job h (event_argument (last h))),
     prepareUpload := (\<lambda>h. bound_prepareUpload P cb job h (event_argument (last h))),
     publish := (\<lambda>h. bound_publish P cb job h (event_argument (last h)))\<rparr>"

end
