(* ===== verification/Http_Worker.thy ===== *)
theory Http_Worker
  imports Callback_Control_Plane Reviewed_Builder Service_Identity Job_Queue
begin

text \<open>
  \<open>CompilerHttpWorker\<close> of \<open>src/compiler/src/http-worker.mjs\<close>: the HTTP endpoint that
  authenticates a job envelope and enqueues it, and the loops that claim a queued job, run it
  against the callback-bound control plane and finish it. The identity, the queue and the
  resolution of a request target are parameters with an explicit state.
\<close>

section \<open>Envelopes\<close>

definition MAX_ENVELOPE_LIFETIME_MS :: int where
  "MAX_ENVELOPE_LIFETIME_MS = 5 * 60 * 1000"

text \<open>\<open>Date.parse\<close> with a safe integer as its value.\<close>

definition safe_date :: "platform \<Rightarrow> jsval \<Rightarrow> int option" where
  "safe_date P v = (case date_parse P v of None \<Rightarrow> None | Some t \<Rightarrow> if \<bar>t\<bar> \<le> max_safe_integer then Some t else None)"

definition validMessageLifetime :: "platform \<Rightarrow> jsval \<Rightarrow> jsval \<Rightarrow> int \<Rightarrow> bool" where
  "validMessageLifetime P issuedAt expiresAt now = (case (safe_date P issuedAt, safe_date P expiresAt) of
     (Some issued, Some expires) \<Rightarrow> issued \<le> now + 60000 \<and> expires > now \<and> expires - issued \<le> MAX_ENVELOPE_LIFETIME_MS
   | _ \<Rightarrow> False)"

definition invalid_request :: js_error where
  "invalid_request = HttpWorkerError 400 ''invalid_request''"

definition envelope_ok :: "platform \<Rightarrow> int \<Rightarrow> jsval \<Rightarrow> bool" where
  "envelope_ok P now v = (plainObject v \<and>
     sameKeys v [''schemaVersion'', ''requestId'', ''issuedAt'', ''expiresAt'', ''job'', ''grants''] \<and>
     get v ''schemaVersion'' = JInt 1 \<and> validId (get v ''requestId'') \<and>
     plainObject (get v ''job'') \<and> plainObject (get v ''grants'') \<and>
     strict_eq (get v ''requestId'') (get (get v ''job'') ''compilerRequestId'') \<and>
     strict_eq (get (get v ''grants'') ''compilerRequestId'') (get v ''requestId'') \<and>
     validMessageLifetime P (get v ''issuedAt'') (get v ''expiresAt'') now)"

definition parseEnvelope :: "platform \<Rightarrow> bytes option \<Rightarrow> int \<Rightarrow> jsval result" where
  "parseEnvelope P body now =
     bindR (of_option invalid_request (Option.bind body (parse_json P))) (\<lambda>envelope.
     bindR (require (envelope_ok P now envelope) invalid_request) (\<lambda>_.
     bindR (recast (validateCompilerJob (get envelope ''job'')) invalid_request) (\<lambda>_. Inr envelope)))"

definition invalid_persisted :: js_error where
  "invalid_persisted = CompilerFailure ''invalid_persisted_job''"

definition parseQueuedEnvelope :: "platform \<Rightarrow> bytes \<Rightarrow> jsval result" where
  "parseQueuedEnvelope P body =
     bindR (of_option invalid_persisted (parse_json P body)) (\<lambda>v.
     bindR (of_option invalid_persisted (safe_date P (get v ''issuedAt''))) (\<lambda>issuedAt.
       recast (parseEnvelope P (Some body) issuedAt) invalid_persisted))"

section \<open>Requests and responses\<close>

record http_request =
  hq_method :: jsstr
  hq_url :: jsstr
  hq_headers :: "(jsstr, header_value) jsmap"
  hq_chunks :: "chunk list"

record http_response =
  hr_status :: nat
  hr_headers :: "(string \<times> jsstr) list"
  hr_body :: jsstr

definition string_header :: "http_request \<Rightarrow> string \<Rightarrow> jsstr option" where
  "string_header rq name = (case map_of (hq_headers rq) (js name) of Some (HText s) \<Rightarrow> Some s | _ \<Rightarrow> None)"

text \<open>\<open>resolve\<close> is \<open>new URL(value, "http://worker.invalid")\<close>.\<close>

definition parseTarget :: "(jsstr \<Rightarrow> url option) \<Rightarrow> jsstr \<Rightarrow> jsstr option" where
  "parseTarget resolve v = (case resolve v of None \<Rightarrow> None
     | Some u \<Rightarrow> if search u \<noteq> [] \<or> hash u \<noteq> [] then None else Some (pathname u))"

definition request_too_large :: js_error where
  "request_too_large = HttpWorkerError 413 ''request_too_large''"

fun request_chunks :: "nat \<Rightarrow> nat \<Rightarrow> bytes list \<Rightarrow> chunk list \<Rightarrow> (bytes list \<times> nat) result" where
  "request_chunks maximum tot chunks [] = Inr (chunks, tot)"
| "request_chunks maximum tot chunks (Not_bytes # rest) = Inl invalid_request"
| "request_chunks maximum tot chunks (Read_error # rest) = Inl network_error"
| "request_chunks maximum tot chunks (Chunk bs # rest) =
     (if tot + length bs > maximum then Inl request_too_large
      else request_chunks maximum (tot + length bs) (chunks @ [bs]) rest)"

definition readRequestBody :: "http_request \<Rightarrow> nat \<Rightarrow> bytes result" where
  "readRequestBody rq maximum =
     bindR (require (case string_header rq ''content-length'' of None \<Rightarrow> True | Some text \<Rightarrow> declared_within maximum text)
       request_too_large) (\<lambda>_.
     bindR (request_chunks maximum 0 [] (hq_chunks rq)) (\<lambda>(chunks, tot). Inr (concatenate chunks tot)))"

text \<open>\<open>/^application\/json(?:\s*;\s*charset=utf-8)?$/i\<close>\<close>

definition json_content_type :: "jsstr \<Rightarrow> bool" where
  "json_content_type text = (let s = ascii_lower text; base = js ''application/json''; rest = drop (length base) s in
     prefix base s \<and> (rest = [] \<or> (case dropWhile is_space rest of [] \<Rightarrow> False
       | u # us \<Rightarrow> u = 59 \<and> dropWhile is_space us = js ''charset=utf-8'')))"

definition isJsonContentType :: "jsstr option \<Rightarrow> bool" where
  "isJsonContentType v = (case v of None \<Rightarrow> False | Some text \<Rightarrow> json_content_type text)"

definition sendJson :: "platform \<Rightarrow> (string \<times> jsstr) list \<Rightarrow> nat \<Rightarrow> jsval \<Rightarrow> http_response" where
  "sendJson P headers status v =
     (let body = json_stringify P v in
      \<lparr>hr_status = status, hr_headers = headers @ [(''content-type'', js ''application/json; charset=utf-8''),
         (''cache-control'', js ''no-store''), (''content-length'', int_to_string 10 (int (length (encode body))))],
       hr_body = body\<rparr>)"

definition code_object :: "string \<Rightarrow> jsval" where
  "code_object code = Obj [(js ''code'', Str (js code))]"

fun normalizeHttpError :: "js_error \<Rightarrow> nat \<times> string" where
  "normalizeHttpError (HttpWorkerError status code) = (status, code)"
| "normalizeHttpError _ = (500, ''compiler_failed'')"

section \<open>The worker\<close>

text \<open>The injected identity and queue, with their states, and the resolution of targets.\<close>

record ('a, 'q) services =
  sv_resolve :: "jsstr \<Rightarrow> url option"
  sv_verifyIncoming :: "request \<Rightarrow> 'a \<Rightarrow> unit result \<times> 'a"
  sv_initialize :: "'q \<Rightarrow> unit result \<times> 'q"
  sv_enqueue :: "enqueue_input \<Rightarrow> 'q \<Rightarrow> bool result \<times> 'q"

record ('a, 'q) http_worker =
  hw_ready :: bool
  hw_maxConcurrentJobs :: nat
  hw_activeJobs :: nat
  hw_started :: bool
  hw_startPromise :: "unit result option"
  hw_stopping :: bool
  hw_loops :: nat
  hw_waiters :: nat
  hw_identity :: 'a
  hw_queue :: 'q

definition validConcurrency :: "jsval \<Rightarrow> bool" where
  "validConcurrency v = (isSafeInteger v \<and> 1 \<le> the_int v \<and> the_int v \<le> 16)"

definition objectRequestTimeout :: "jsval \<Rightarrow> int" where
  "objectRequestTimeout v = (if valid_timeout v then the_int v else 30000)"

definition CompilerHttpWorker :: "jsval \<Rightarrow> bool \<Rightarrow> bool \<Rightarrow> 'a \<Rightarrow> 'q \<Rightarrow> ('a, 'q) http_worker" where
  "CompilerHttpWorker maxConcurrentJobs composed queue_valid a q =
     \<lparr>hw_ready = (composed \<and> queue_valid),
      hw_maxConcurrentJobs = (if validConcurrency maxConcurrentJobs then nat (the_int maxConcurrentJobs) else 1),
      hw_activeJobs = 0, hw_started = False, hw_startPromise = None, hw_stopping = False, hw_loops = 0, hw_waiters = 0,
      hw_identity = a, hw_queue = q\<rparr>"

definition health :: "('a, 'q) http_worker \<Rightarrow> jsval" where
  "health w = Obj [(js ''status'', Str (js ''ok'')), (js ''ready'', Bool (hw_ready w)),
     (js ''activeJobs'', JInt (int (hw_activeJobs w)))]"

definition waitForWork :: "('a, 'q) http_worker \<Rightarrow> ('a, 'q) http_worker" where
  "waitForWork w = w\<lparr>hw_waiters := Suc (hw_waiters w)\<rparr>"

definition wake :: "('a, 'q) http_worker \<Rightarrow> ('a, 'q) http_worker" where
  "wake w = w\<lparr>hw_waiters := 0\<rparr>"

definition not_ready :: js_error where
  "not_ready = HttpWorkerError 503 ''compiler_unavailable''"

definition start :: "('a, 'q) services \<Rightarrow> ('a, 'q) http_worker \<Rightarrow> unit result \<times> ('a, 'q) http_worker" where
  "start sv w =
     (if \<not> hw_ready w then (Inl not_ready, w)
      else if hw_started w then (Inr (), w)
      else case hw_startPromise w of
          Some r \<Rightarrow> (r, w)
        | None \<Rightarrow> (case sv_initialize sv (hw_queue w) of
              (Inl e, q) \<Rightarrow> (Inl e, w\<lparr>hw_queue := q, hw_startPromise := Some (Inl e)\<rparr>)
            | (Inr _, q) \<Rightarrow> (Inr (), w\<lparr>hw_queue := q, hw_startPromise := Some (Inr ()), hw_started := True,
                hw_stopping := False, hw_loops := hw_maxConcurrentJobs w\<rparr>)))"

definition stop :: "('a, 'q) http_worker \<Rightarrow> ('a, 'q) http_worker" where
  "stop w = (if \<not> hw_started w then w
     else (wake (w\<lparr>hw_stopping := True\<rparr>))\<lparr>hw_loops := 0, hw_started := False, hw_startPromise := None\<rparr>)"

definition job_fingerprint :: "platform \<Rightarrow> jsval \<Rightarrow> jsstr" where
  "job_fingerprint P job = sha256 P (encode (json_stringify P job))"

definition queue_input :: "platform \<Rightarrow> jsval \<Rightarrow> bytes option \<Rightarrow> enqueue_input" where
  "queue_input P envelope body = \<lparr>in_id = get envelope ''requestId'', in_deploymentId = get (get envelope ''job'') ''deploymentId'',
     in_jobFingerprint = Str (job_fingerprint P (get envelope ''job'')), in_body = body\<rparr>"

definition enqueue_error :: "js_error \<Rightarrow> js_error" where
  "enqueue_error e = (if error_code e = Some ''idempotency_conflict'' then HttpWorkerError 409 ''idempotency_conflict'' else e)"

definition job_request :: "request \<Rightarrow> request" where
  "job_request rq = rq\<lparr>r_method := default_to (r_method rq) (Str (js ''POST'')),
     r_target := default_to (r_target rq) (Str (js ''/v1/compiler-jobs''))\<rparr>"

definition consume ::
    "platform \<Rightarrow> ('a, 'q) services \<Rightarrow> int \<Rightarrow> request \<Rightarrow> ('a, 'q) http_worker \<Rightarrow> jsval result \<times> ('a, 'q) http_worker" where
  "consume P sv now rq0 w =
     (let rq = job_request rq0 in
      if \<not> hw_ready w then (Inl not_ready, w)
      else if r_method rq \<noteq> Str (js ''POST'') \<or> r_target rq \<noteq> Str (js ''/v1/compiler-jobs'') then (Inl invalid_request, w)
      else case sv_verifyIncoming sv rq (hw_identity w) of
          (Inl _, a) \<Rightarrow> (Inl (HttpWorkerError 401 ''request_unauthorized''), w\<lparr>hw_identity := a\<rparr>)
        | (Inr _, a) \<Rightarrow>
          (case parseEnvelope P (r_body rq) now of
             Inl e \<Rightarrow> (Inl e, w\<lparr>hw_identity := a\<rparr>)
           | Inr envelope \<Rightarrow>
             (case sv_enqueue sv (queue_input P envelope (r_body rq)) (hw_queue w) of
                (Inl e, q) \<Rightarrow> (Inl (enqueue_error e), w\<lparr>hw_identity := a, hw_queue := q\<rparr>)
              | (Inr _, q) \<Rightarrow> (Inr (Obj [(js ''status'', Str (js ''accepted'')),
                  (js ''deploymentId'', get (get envelope ''job'') ''deploymentId'')]),
                  wake (w\<lparr>hw_identity := a, hw_queue := q\<rparr>)))))"

definition error_response :: "platform \<Rightarrow> js_error \<Rightarrow> http_response" where
  "error_response P e = (let (status, code) = normalizeHttpError e in
     sendJson P (if status = 429 then [(''retry-after'', js ''1'')] else []) status (code_object code))"

definition signed_request :: "jsstr \<Rightarrow> http_request \<Rightarrow> bytes \<Rightarrow> request" where
  "signed_request target rq body = \<lparr>r_method = Str (js ''POST''), r_target = Str target,
     r_headers = Header_record (hq_headers rq), r_body = Some body\<rparr>"

text \<open>A delivery to the job endpoint, once its method and content type are accepted.\<close>

definition deliver ::
    "platform \<Rightarrow> ('a, 'q) services \<Rightarrow> int \<Rightarrow> jsstr \<Rightarrow> http_request \<Rightarrow> ('a, 'q) http_worker \<Rightarrow> http_response \<times> ('a, 'q) http_worker" where
  "deliver P sv now target rq w =
     (case start sv w of
        (Inl e, w1) \<Rightarrow> (error_response P e, w1)
      | (Inr _, w1) \<Rightarrow>
        (case readRequestBody rq MAX_REQUEST_BYTES of
           Inl e \<Rightarrow> (error_response P e, w1)
         | Inr body \<Rightarrow>
           (case consume P sv now (signed_request target rq body) w1 of
              (Inl e, w2) \<Rightarrow> (error_response P e, w2)
            | (Inr accepted, w2) \<Rightarrow> (sendJson P [] 202 accepted, w2))))"

definition handleHttp ::
    "platform \<Rightarrow> ('a, 'q) services \<Rightarrow> int \<Rightarrow> http_request \<Rightarrow> ('a, 'q) http_worker \<Rightarrow> http_response \<times> ('a, 'q) http_worker" where
  "handleHttp P sv now rq w =
     (let not_found = sendJson P [] 404 (code_object ''not_found'') in
      case parseTarget (sv_resolve sv) (hq_url rq) of
        None \<Rightarrow> (not_found, w)
      | Some target \<Rightarrow>
        if target = [] then (not_found, w)
        else if hq_method rq = js ''GET'' \<and> target = js ''/healthz'' then (sendJson P [] 200 (health w), w)
        else if hq_method rq = js ''GET'' \<and> target = js ''/readyz'' then
          (sendJson P [] (if hw_ready w then 200 else 503)
            (Obj [(js ''status'', Str (js (if hw_ready w then ''ready'' else ''compiler_unavailable'')))]), w)
        else if target \<noteq> js ''/v1/compiler-jobs'' then (not_found, w)
        else if hq_method rq \<noteq> js ''POST'' then
          (sendJson P [(''allow'', js ''POST'')] 405 (code_object ''method_not_allowed''), w)
        else if \<not> isJsonContentType (string_header rq ''content-type'') then
          (sendJson P [] 415 (code_object ''content_type_required''), w)
        else deliver P sv now target rq w)"

section \<open>Queued jobs\<close>

definition outcome_json :: "jsval \<Rightarrow> outcome \<Rightarrow> jsval" where
  "outcome_json job out =
     (let uncertain = (\<lambda>status publication. Obj [(js ''status'', Str (js status)), (js ''deploymentId'', get job ''deploymentId''),
        (js ''manifestSha256'', get job ''manifestSha256''), (js ''content'', get publication ''content''),
        (js ''descriptor'', get publication ''descriptor'')]) in
      case out of
        Published d \<Rightarrow> Obj [(js ''status'', Str (js ''published'')), (js ''deploymentId'', d)]
      | Published_callback_uncertain p \<Rightarrow> uncertain ''published_callback_uncertain'' p
      | Upload_reconciliation_uncertain p \<Rightarrow> uncertain ''upload_reconciliation_uncertain'' p
      | Job_failed code \<Rightarrow> Obj [(js ''status'', Str (js ''failed'')), (js ''code'', Str (js code))])"

definition finish_outcome :: "bool \<Rightarrow> jsval \<Rightarrow> jsval" where
  "finish_outcome terminal result = Obj [(js ''kind'', Str (js (if terminal then ''terminal'' else ''retry''))), (js ''result'', result)]"

definition retry_outcome :: "js_error \<Rightarrow> jsval" where
  "retry_outcome e = finish_outcome False (Obj [(js ''status'', Str (js ''queue_retry'')),
     (js ''code'', Str (js (case error_code e of Some c \<Rightarrow> c | None \<Rightarrow> ''compiler_failed'')))])"

text \<open>The run of a queued job: what it is finished with, and the calls it made.\<close>

definition run_queued ::
    "platform \<Rightarrow> callbacks \<Rightarrow> environment \<Rightarrow> int \<Rightarrow> bytes \<Rightarrow> jsval result \<times> event list" where
  "run_queued P cb env ms body =
     (case parseQueuedEnvelope P body of Inl e \<Rightarrow> (Inl e, [])
      | Inr envelope \<Rightarrow>
        (let job = get envelope ''job'';
             (out, h) = CompilerWorker_run P (bound_environment P cb job env) ms job [];
             terminal = terminalCallbackDelivered (control_plane_after P cb job h) \<and>
               get (outcome_json job out) ''status'' \<in> {Str (js ''published''), Str (js ''failed'')}
         in (Inr (finish_outcome terminal (outcome_json job out)), h)))"

text \<open>The calls of \<open>finish\<close>; the first argument counts them.\<close>

definition finish_queued ::
    "(nat \<Rightarrow> jsval \<Rightarrow> jsval \<Rightarrow> 'q \<Rightarrow> unit result \<times> 'q) \<Rightarrow> jsval \<Rightarrow> jsval result \<Rightarrow> 'q \<Rightarrow> 'q" where
  "finish_queued finish jid r q =
     (case r of Inl e \<Rightarrow> snd (finish 0 jid (retry_outcome e) q)
      | Inr outcome \<Rightarrow> (case finish 0 jid outcome q of
          (Inr _, q') \<Rightarrow> q'
        | (Inl e, q') \<Rightarrow> snd (finish 1 jid (retry_outcome e) q')))"

definition processQueued ::
    "platform \<Rightarrow> callbacks \<Rightarrow> environment \<Rightarrow> int \<Rightarrow> (nat \<Rightarrow> jsval \<Rightarrow> jsval \<Rightarrow> 'q \<Rightarrow> unit result \<times> 'q) \<Rightarrow> claimed \<Rightarrow> 'q \<Rightarrow> 'q" where
  "processQueued P cb env ms finish queued q =
     finish_queued finish (c_id queued) (fst (run_queued P cb env ms (c_body queued))) q"

text \<open>The count of active jobs around the processing of one.\<close>

definition begin_job :: "('a, 'q) http_worker \<Rightarrow> ('a, 'q) http_worker" where
  "begin_job w = w\<lparr>hw_activeJobs := Suc (hw_activeJobs w)\<rparr>"

definition end_job :: "('a, 'q) http_worker \<Rightarrow> ('a, 'q) http_worker" where
  "end_job w = w\<lparr>hw_activeJobs := hw_activeJobs w - 1\<rparr>"

text \<open>One pass of \<open>runLoop\<close>: \<open>None\<close> ends the loop.\<close>

definition runLoop ::
    "('q \<Rightarrow> claimed option result \<times> 'q) \<Rightarrow> (claimed \<Rightarrow> 'q \<Rightarrow> 'q) \<Rightarrow> ('a, 'q) http_worker \<Rightarrow>
      unit result option \<times> ('a, 'q) http_worker" where
  "runLoop claim process w =
     (if hw_stopping w then (None, w)
      else case claim (hw_queue w) of
          (Inl e, q) \<Rightarrow> (Some (Inl e), w\<lparr>hw_queue := q\<rparr>)
        | (Inr None, q) \<Rightarrow> (Some (Inr ()), waitForWork (w\<lparr>hw_queue := q\<rparr>))
        | (Inr (Some queued), q) \<Rightarrow> (Some (Inr ()), end_job ((begin_job w)\<lparr>hw_queue := process queued q\<rparr>)))"

section \<open>The composition\<close>

definition validJreRegistry :: "builder \<Rightarrow> bool" where
  "validJreRegistry bd = (bd_resolve bd \<noteq> None)"

definition validSandboxAdapter :: "builder \<Rightarrow> bool" where
  "validSandboxAdapter bd = (bd_assemble bd \<noteq> None \<and> plainObject (bd_capabilities bd) \<and>
     list_all (\<lambda>(k, v). strict_eq (get (bd_capabilities bd) k) v) requiredSandboxCapabilities)"

text \<open>\<open>strict\<close> tells that the downloader is a \<open>StrictArtifactDownloader\<close>.\<close>

definition validArtifactDownloader :: "builder \<Rightarrow> bool \<Rightarrow> bool \<Rightarrow> bool" where
  "validArtifactDownloader bd strict allowInsecureForTests = (bd_download bd \<noteq> None \<and> (allowInsecureForTests \<or> strict))"

record worker_options =
  wo_catalog :: "catalog result"
  wo_builder :: builder
  wo_strict_downloader :: bool
  wo_requestAuthenticator :: "authenticator option"
  wo_callback_authenticator :: "authenticator option"
  wo_callback_origin :: jsval
  wo_callback_fetch :: bool
  wo_callback_timeoutMs :: jsval
  wo_allowInsecureForTests :: bool

definition createComposition :: "platform \<Rightarrow> worker_options \<Rightarrow> (builder \<times> jsstr \<times> int) option" where
  "createComposition P wo =
     (case wo_catalog wo of Inl _ \<Rightarrow> None
      | Inr catalog \<Rightarrow>
        if \<not> validJreRegistry (wo_builder wo) \<or> \<not> validSandboxAdapter (wo_builder wo) \<or>
          \<not> validArtifactDownloader (wo_builder wo) (wo_strict_downloader wo) (wo_allowInsecureForTests wo) \<or>
          \<not> validAuthenticator (wo_requestAuthenticator wo) (wo_allowInsecureForTests wo) then None
        else (case AuthenticatedDeploymentCallbacks P (wo_callback_origin wo) (wo_callback_authenticator wo)
            (wo_callback_fetch wo) (wo_callback_timeoutMs wo) (wo_allowInsecureForTests wo) of
          Inl _ \<Rightarrow> None
        | Inr (controlPlane, ms) \<Rightarrow> Some (ReviewedRuntimeBuilder (Inr catalog) (wo_builder wo), controlPlane, ms)))"

end
