(* ===== verification/Http_Properties.thy ===== *)
theory Http_Properties
  imports Http_Worker Queue_Operations
begin

text \<open>
  What the HTTP boundary of the worker guarantees: what an accepted delivery has passed, how
  every other one is answered, and which accepted envelopes the processing loop can read back.
\<close>

section \<open>Reading a request\<close>

lemma request_chunks_ok:
  assumes "request_chunks maximum tot chunks reads = Inr (cs, n)" and "tot = length (concat chunks)" and "tot \<le> maximum"
  shows "\<exists>bss. reads = map Chunk bss \<and> cs = chunks @ bss \<and> n = length (concat cs) \<and> n \<le> maximum"
  using assms
proof (induction reads arbitrary: tot chunks)
  case (Cons c reads)
  show ?case
  proof (cases c)
    case (Chunk bs)
    with Cons.prems have le: "tot + length bs \<le> maximum"
      and r: "request_chunks maximum (tot + length bs) (chunks @ [bs]) reads = Inr (cs, n)"
      by (simp_all split: if_splits)
    from Cons.IH [OF r _ le] Cons.prems(2) obtain bss where "reads = map Chunk bss" "cs = (chunks @ [bs]) @ bss"
      "n = length (concat cs)" "n \<le> maximum" by auto
    with Chunk show ?thesis by (auto intro!: exI [of _ "bs # bss"])
  qed (use Cons.prems in auto)
qed simp

lemma readRequestBody_ok:
  assumes "readRequestBody rq maximum = Inr body"
  shows "\<exists>bss. hq_chunks rq = map Chunk bss \<and> body = concat bss \<and> length body \<le> maximum"
proof -
  from assms obtain cs n where "request_chunks maximum 0 [] (hq_chunks rq) = Inr (cs, n)" "body = concatenate cs n"
    by (auto simp: readRequestBody_def result_simps)
  with request_chunks_ok [of maximum 0 "[]" "hq_chunks rq" cs n] show ?thesis
    by (auto simp: concatenate_concat)
qed

lemma readRequestBody_error:
  "readRequestBody rq maximum = Inl e \<Longrightarrow> e \<in> {request_too_large, invalid_request, network_error}"
proof -
  have "request_chunks maximum tot chunks reads = Inl e \<Longrightarrow> e \<in> {request_too_large, invalid_request, network_error}"
    for tot chunks reads
    by (induction maximum tot chunks reads rule: request_chunks.induct) (auto split: if_splits)
  then show "readRequestBody rq maximum = Inl e \<Longrightarrow> ?thesis"
    by (auto simp: readRequestBody_def result_simps)
qed

section \<open>Envelopes\<close>

lemma parseEnvelope_ok:
  "parseEnvelope P (Some body) now = Inr v \<longleftrightarrow>
    parse_json P body = Some v \<and> envelope_ok P now v \<and> validateCompilerJob (get v ''job'') = Inr ()"
  by (auto simp: parseEnvelope_def result_simps)

lemma parseEnvelope_error: "parseEnvelope P body now = Inl e \<Longrightarrow> e = invalid_request"
  by (auto simp: parseEnvelope_def result_simps of_option_def split: option.splits)

lemma lifetime_dates:
  assumes "envelope_ok P now v"
  obtains issued expires where "safe_date P (get v ''issuedAt'') = Some issued" "safe_date P (get v ''expiresAt'') = Some expires"
    "issued \<le> now + 60000" "now < expires" "expires - issued \<le> 300000"
  using assms
  by (auto simp: envelope_ok_def validMessageLifetime_def MAX_ENVELOPE_LIFETIME_MS_def split: option.splits)

text \<open>Only the lifetime depends on the clock.\<close>

lemma envelope_ok_at:
  assumes "envelope_ok P now v" and "safe_date P (get v ''issuedAt'') = Some issued"
    and "safe_date P (get v ''expiresAt'') = Some expires"
  shows "envelope_ok P issued v \<longleftrightarrow> issued < expires"
  using assms lifetime_dates [OF assms(1)]
  by (auto simp: envelope_ok_def validMessageLifetime_def MAX_ENVELOPE_LIFETIME_MS_def)

lemma envelope_identity:
  assumes "envelope_ok P now v"
  shows "get v ''requestId'' = get (get v ''job'') ''compilerRequestId''"
proof -
  have "strict_eq (get v ''requestId'') (get (get v ''job'') ''compilerRequestId'')"
    using assms by (simp add: envelope_ok_def)
  then show ?thesis by (cases "get v ''requestId''"; cases "get (get v ''job'') ''compilerRequestId''") auto
qed

section \<open>Services that do not answer with HTTP errors\<close>

text \<open>
  \<open>HttpWorkerError\<close> is private to the worker: the errors of a queue are others.
\<close>

definition foreign_error :: "js_error \<Rightarrow> bool" where
  "foreign_error e = (\<forall>status code. e \<noteq> HttpWorkerError status code)"

lemma foreign_error_simps [simp]: "\<not> foreign_error (HttpWorkerError status code)" "foreign_error (TypeError c)"
  "foreign_error (PlainError c)" "foreign_error (IoError c)" "foreign_error (ErrorCode c)" "foreign_error (CompilerFailure c)"
  by (simp_all add: foreign_error_def)

lemma normalize_foreign: "foreign_error e \<Longrightarrow> normalizeHttpError e = (500, ''compiler_failed'')"
  by (cases e) (auto simp: foreign_error_def)

lemma status_sendJson [simp]: "hr_status (sendJson P headers status v) = status"
  by (simp add: sendJson_def Let_def)

lemma status_error [simp]: "hr_status (error_response P e) = fst (normalizeHttpError e)"
  by (simp add: error_response_def split: prod.split)

text \<open>A kept start promise was rejected with an error of the queue, or the worker is started.\<close>

definition settled_start :: "('a, 'q) http_worker \<Rightarrow> bool" where
  "settled_start w = ((\<forall>e. hw_startPromise w = Some (Inl e) \<longrightarrow> foreign_error e) \<and>
     (hw_startPromise w = Some (Inr ()) \<longrightarrow> hw_started w))"

lemma job_request_delivery:
  "job_request (signed_request (js ''/v1/compiler-jobs'') rq body) = signed_request (js ''/v1/compiler-jobs'') rq body"
  "r_method (signed_request target rq body) = Str (js ''POST'')" "r_target (signed_request target rq body) = Str target"
  "r_body (signed_request target rq body) = Some body"
  by (simp_all add: signed_request_def default_to_def job_request_def)

text \<open>The interface of the queue the endpoint relies on.\<close>

locale http_services =
  fixes sv :: "('a, 'q) services"
  assumes initialize_errors: "sv_initialize sv q = (Inl e, q') \<Longrightarrow> foreign_error e"
    and enqueue_errors: "sv_enqueue sv inp q = (Inl e, q') \<Longrightarrow> foreign_error e \<and> q' = q"
begin

lemma start_error:
  assumes "start sv w = (Inl e, w')" and "settled_start w"
  shows "e = not_ready \<or> foreign_error e" and "settled_start w'"
  using assms initialize_errors
  by (auto simp: start_def settled_start_def split: if_splits option.splits prod.splits sum.splits)

lemma consume_cases:
  assumes "consume P sv now (signed_request (js ''/v1/compiler-jobs'') rq body) w = (r, w')" and "hw_ready w"
  obtains (unauthorized) e a where "sv_verifyIncoming sv (signed_request (js ''/v1/compiler-jobs'') rq body) (hw_identity w) = (Inl e, a)"
      "r = Inl (HttpWorkerError 401 ''request_unauthorized'')" "w' = w\<lparr>hw_identity := a\<rparr>"
  | (malformed) a where "sv_verifyIncoming sv (signed_request (js ''/v1/compiler-jobs'') rq body) (hw_identity w) = (Inr (), a)"
      "r = Inl invalid_request" "w' = w\<lparr>hw_identity := a\<rparr>"
  | (refused) a envelope e where "parseEnvelope P (Some body) now = Inr envelope"
      "sv_enqueue sv (queue_input P envelope (Some body)) (hw_queue w) = (Inl e, hw_queue w)" "foreign_error e"
      "r = Inl (enqueue_error e)" "w' = w\<lparr>hw_identity := a\<rparr>"
  | (accepted) a envelope dup q where
      "sv_verifyIncoming sv (signed_request (js ''/v1/compiler-jobs'') rq body) (hw_identity w) = (Inr (), a)"
      "parseEnvelope P (Some body) now = Inr envelope"
      "sv_enqueue sv (queue_input P envelope (Some body)) (hw_queue w) = (Inr dup, q)"
      "r = Inr (Obj [(js ''status'', Str (js ''accepted'')), (js ''deploymentId'', get (get envelope ''job'') ''deploymentId'')])"
      "w' = wake (w\<lparr>hw_identity := a, hw_queue := q\<rparr>)"
proof -
  obtain v a where v: "sv_verifyIncoming sv (signed_request (js ''/v1/compiler-jobs'') rq body) (hw_identity w) = (v, a)"
    by fastforce
  note c = assms(1) [unfolded consume_def Let_def job_request_delivery]
  show thesis
  proof (cases v)
    case (Inl e)
    with c v assms(2) show ?thesis by (auto intro!: unauthorized)
  next
    case (Inr u)
    then have u: "v = Inr ()" by simp
    show ?thesis
    proof (cases "parseEnvelope P (Some body) now")
      case (Inl e)
      with c v u assms(2) parseEnvelope_error [OF Inl] show ?thesis by (intro malformed [of a]) auto
    next
      case (Inr envelope)
      obtain x q where x: "sv_enqueue sv (queue_input P envelope (Some body)) (hw_queue w) = (x, q)" by fastforce
      show ?thesis
      proof (cases x)
        case (Inl e)
        with x enqueue_errors have "foreign_error e" "q = hw_queue w" by blast+
        with c v u Inr x Inl assms(2) show ?thesis by (intro refused [of envelope e a]) auto
      next
        case (Inr dup)
        with c v u \<open>parseEnvelope P (Some body) now = Inr envelope\<close> x assms(2) show ?thesis
          by (intro accepted [of a envelope dup q]) auto
      qed
    qed
  qed
qed

lemma enqueue_error_status: "foreign_error e \<Longrightarrow> fst (normalizeHttpError (enqueue_error e)) \<in> {409, 500}"
  by (auto simp: enqueue_error_def normalize_foreign)

lemma deliver_cases:
  assumes "deliver P sv now (js ''/v1/compiler-jobs'') rq w = (resp, w')" and "settled_start w"
  shows "hr_status resp \<in> {202, 400, 401, 409, 413, 500, 503}"
    and "hr_status resp \<noteq> 202 \<Longrightarrow> hw_queue w' = hw_queue (snd (start sv w))"
    and "hr_status resp = 202 \<Longrightarrow> \<exists>bss envelope dup.
      hw_ready w \<and> fst (start sv w) = Inr () \<and> hq_chunks rq = map Chunk bss \<and> length (concat bss) \<le> MAX_REQUEST_BYTES \<and>
      fst (sv_verifyIncoming sv (signed_request (js ''/v1/compiler-jobs'') rq (concat bss)) (hw_identity (snd (start sv w)))) = Inr () \<and>
      parseEnvelope P (Some (concat bss)) now = Inr envelope \<and>
      sv_enqueue sv (queue_input P envelope (Some (concat bss))) (hw_queue (snd (start sv w))) = (Inr dup, hw_queue w')"
proof -
  obtain r w1 where st: "start sv w = (r, w1)" by fastforce
  have "hr_status resp \<in> {202, 400, 401, 409, 413, 500, 503} \<and> (hr_status resp \<noteq> 202 \<longrightarrow> hw_queue w' = hw_queue w1) \<and>
    (hr_status resp = 202 \<longrightarrow> (\<exists>bss envelope dup. hw_ready w \<and> r = Inr () \<and>
      hq_chunks rq = map Chunk bss \<and> length (concat bss) \<le> MAX_REQUEST_BYTES \<and>
      fst (sv_verifyIncoming sv (signed_request (js ''/v1/compiler-jobs'') rq (concat bss)) (hw_identity w1)) = Inr () \<and>
      parseEnvelope P (Some (concat bss)) now = Inr envelope \<and>
      sv_enqueue sv (queue_input P envelope (Some (concat bss))) (hw_queue w1) = (Inr dup, hw_queue w')))"
  proof (cases r)
    case (Inl e)
    with assms st start_error [of w e w1] show ?thesis
      by (auto simp: deliver_def not_ready_def normalize_foreign)
  next
    case (Inr u)
    then have u: "r = Inr ()" by simp
    with st have ready: "hw_ready w" "hw_ready w1"
      by (auto simp: start_def split: if_splits option.splits prod.splits sum.splits)
    show ?thesis
    proof (cases "readRequestBody rq MAX_REQUEST_BYTES")
      case (Inl e)
      with assms st u readRequestBody_error [OF Inl] show ?thesis
        by (auto simp: deliver_def request_too_large_def invalid_request_def network_error_def)
    next
      case (Inr body)
      obtain bss where b: "hq_chunks rq = map Chunk bss" "body = concat bss" "length body \<le> MAX_REQUEST_BYTES"
        using readRequestBody_ok [OF Inr] by blast
      obtain x w2 where x: "consume P sv now (signed_request (js ''/v1/compiler-jobs'') rq body) w1 = (x, w2)" by fastforce
      with assms st u Inr have resp: "resp = (case x of Inl e \<Rightarrow> error_response P e | Inr v \<Rightarrow> sendJson P [] 202 v)" "w' = w2"
        by (auto simp: deliver_def split: sum.splits)
      from x ready(2) show ?thesis
      proof (cases rule: consume_cases)
        case (accepted a envelope dup q)
        with resp b ready(1) u show ?thesis by (auto simp: wake_def)
      next
        case (refused a envelope e)
        with resp enqueue_error_status [of e] show ?thesis by auto
      qed (use resp in \<open>auto simp: invalid_request_def\<close>)
    qed
  qed
  with st show "hr_status resp \<in> {202, 400, 401, 409, 413, 500, 503}"
    "hr_status resp \<noteq> 202 \<Longrightarrow> hw_queue w' = hw_queue (snd (start sv w))"
    "hr_status resp = 202 \<Longrightarrow> \<exists>bss envelope dup.
      hw_ready w \<and> fst (start sv w) = Inr () \<and> hq_chunks rq = map Chunk bss \<and> length (concat bss) \<le> MAX_REQUEST_BYTES \<and>
      fst (sv_verifyIncoming sv (signed_request (js ''/v1/compiler-jobs'') rq (concat bss)) (hw_identity (snd (start sv w)))) = Inr () \<and>
      parseEnvelope P (Some (concat bss)) now = Inr envelope \<and>
      sv_enqueue sv (queue_input P envelope (Some (concat bss))) (hw_queue (snd (start sv w))) = (Inr dup, hw_queue w')"
    by simp_all
qed

lemma handle_cases:
  assumes "handleHttp P sv now rq w = (resp, w')"
  obtains (direct) "hr_status resp \<in> {200, 404, 405, 415, 503}" "w' = w"
  | (job) "parseTarget (sv_resolve sv) (hq_url rq) = Some (js ''/v1/compiler-jobs'')" "hq_method rq = js ''POST''"
      "isJsonContentType (string_header rq ''content-type'')" "deliver P sv now (js ''/v1/compiler-jobs'') rq w = (resp, w')"
  using assms unfolding handleHttp_def Let_def
  by (auto split: option.splits if_splits)

lemma start_frame: "hw_identity (snd (start sv w)) = hw_identity w"
  by (auto simp: start_def split: option.splits prod.splits sum.splits)

end

section \<open>The filesystem queue behind the endpoint\<close>

definition fs_services ::
    "platform \<Rightarrow> (jsstr \<Rightarrow> url option) \<Rightarrow> (request \<Rightarrow> 'a \<Rightarrow> unit result \<times> 'a) \<Rightarrow> clock \<Rightarrow> ('a, disk) services" where
  "fs_services P resolve verify clock = \<lparr>sv_resolve = resolve, sv_verifyIncoming = verify,
     sv_initialize = (\<lambda>d. completed (fs_initialize P clock d) d),
     sv_enqueue = (\<lambda>inp d. completed (fs_enqueue P clock inp d) d)\<rparr>"

lemma readRecord_foreign: "readRecord P dir name = Inl e \<Longrightarrow> foreign_error e"
  by (auto simp: readRecord_def decodeBody_def check_redelivery_def result_simps Let_def
      split: option.splits json_file.splits if_splits)

lemma readRecordIfPresent_foreign: "readRecordIfPresent P dir name = Inl e \<Longrightarrow> foreign_error e"
  using readRecord_foreign [of P dir name e]
  by (auto simp: readRecordIfPresent_def split: sum.splits if_splits)

lemma recover_loop_foreign: "snd (recover_loop P clock i names d) = Inl e \<Longrightarrow> foreign_error e"
proof (induction names arbitrary: i d)
  case (Cons name names)
  show ?case
  proof (cases "recover_entry P d (clock i) name")
    case (Inl e')
    then have "foreign_error e'"
      by (auto simp: recover_entry_def result_simps assertSameIdentity_def
          dest: readRecord_foreign readRecordIfPresent_foreign split: option.splits if_splits)
    with Cons.prems Inl show ?thesis by simp
  next
    case (Inr es)
    with Cons.prems Cons.IH show ?thesis by (auto simp: case_prod_unfold Let_def)
  qed
qed simp

interpretation fs_endpoint: http_services "fs_services P resolve verify clock" for P resolve verify clock
proof
  fix q e q'
  assume "sv_initialize (fs_services P resolve verify clock) q = (Inl e, q')"
  then show "foreign_error e"
    using recover_loop_foreign by (auto simp: fs_services_def completed_def fs_initialize_def)
next
  fix inp q e q'
  assume "sv_enqueue (fs_services P resolve verify clock) inp q = (Inl e, q')"
  then show "foreign_error e \<and> q' = q"
    by (auto simp: fs_services_def completed_def fs_enqueue_def validateEnqueue_def assertSameIdentity_def result_simps Let_def
        dest: readRecordIfPresent_foreign split: sum.splits option.splits if_splits)
qed

section \<open>Properties of the endpoint\<close>

text \<open>
  A start promise that was rejected is kept: after one failed initialization no later delivery
  can start the worker, whatever the queue would answer now.
\<close>

lemma failed_start_is_permanent:
  assumes "hw_ready w" and "\<not> hw_started w" and "hw_startPromise w = None" and "sv_initialize sv (hw_queue w) = (Inl e, q)"
  shows "start sv' (snd (start sv w)) = (Inl e, snd (start sv w)) \<and> stop (snd (start sv w)) = snd (start sv w)"
  using assms by (simp add: start_def stop_def)



text \<open>
  C3. An envelope the endpoint accepted is read back by the processing loop, at any later time,
  exactly if it is issued before it expires; otherwise every attempt of its job fails with
  \<open>invalid_persisted_job\<close>. The endpoint itself accepts an envelope that is issued up to a
  minute ahead of the clock, so it does not enforce this order.
\<close>

theorem accepted_envelope_readable:
  assumes "parseEnvelope P (Some body) now = Inr envelope"
  shows "\<exists>issued expires. safe_date P (get envelope ''issuedAt'') = Some issued \<and>
    safe_date P (get envelope ''expiresAt'') = Some expires \<and>
    parseQueuedEnvelope P body = (if issued < expires then Inr envelope else Inl (CompilerFailure ''invalid_persisted_job''))"
proof -
  have v: "parse_json P body = Some envelope" "envelope_ok P now envelope" "validateCompilerJob (get envelope ''job'') = Inr ()"
    using assms by (simp_all add: parseEnvelope_ok)
  obtain issued expires where d: "safe_date P (get envelope ''issuedAt'') = Some issued"
    "safe_date P (get envelope ''expiresAt'') = Some expires" using lifetime_dates [OF v(2)] by metis
  have "parseQueuedEnvelope P body = recast (parseEnvelope P (Some body) issued) invalid_persisted"
    by (simp add: parseQueuedEnvelope_def v(1) d(1))
  also have "parseEnvelope P (Some body) issued = (if issued < expires then Inr envelope else Inl invalid_request)"
    using envelope_ok_at [OF v(2) d] v(1,3) by (auto simp: parseEnvelope_def)
  finally show ?thesis using d by (auto simp: invalid_persisted_def)
qed

end
