(* ===== verification/Worker_System.thy ===== *)
theory Worker_System
  imports Http_Properties Queue_Crash Worker_Properties
begin

text \<open>
  The worker process as a whole: HTTP deliveries, the loops that claim, run and finish queued
  jobs, clean stops, crashes in the middle of a durable operation, and restarts. The steps
  interleave freely; a run of a job and its final \<open>finish\<close> are separate steps, so other
  deliveries and jobs come between them. Shown: a job is archived only after the control plane
  accepted a terminal callback for exactly this job.
\<close>

section \<open>Terminal callbacks\<close>

text \<open>The request of a terminal callback that the last call of a history delivered.\<close>

definition posted :: "platform \<Rightarrow> callbacks \<Rightarrow> jsval \<Rightarrow> event list \<Rightarrow> string \<Rightarrow> (jsstr \<times> jsval) list \<Rightarrow> callback_request option" where
  "posted P cb job h kind rest =
     (case callback_request_for P cb h kind (get job ''deploymentId'') (callback_payload job kind rest) of
        Inl _ \<Rightarrow> None | Inr rq \<Rightarrow> Some rq)"

definition terminal_post :: "platform \<Rightarrow> callbacks \<Rightarrow> jsval \<Rightarrow> control_plane \<Rightarrow> event list \<Rightarrow> callback_request option" where
  "terminal_post P cb job cp h = (case last h of
     Publish p \<Rightarrow> if isl (bound_publish P cb job h p) then None else posted P cb job h ''published'' (content_fields p)
   | Report_failed f \<Rightarrow> if isl (bound_failed P cb job cp h f) then None
       else posted P cb job h ''failed'' [(js ''code'', get f ''code'')]
   | _ \<Rightarrow> None)"

definition terminal_posts :: "platform \<Rightarrow> callbacks \<Rightarrow> jsval \<Rightarrow> event list \<Rightarrow> callback_request list" where
  "terminal_posts P cb job h = concat (map (\<lambda>n.
     case terminal_post P cb job (control_plane_after P cb job (take n h)) (take (Suc n) h) of None \<Rightarrow> [] | Some rq \<Rightarrow> [rq])
     [0..<length h])"

definition delivered :: "platform \<Rightarrow> callbacks \<Rightarrow> bytes \<Rightarrow> event list \<Rightarrow> callback_request list" where
  "delivered P cb body h = (case parseQueuedEnvelope P body of Inl _ \<Rightarrow> []
     | Inr envelope \<Rightarrow> terminal_posts P cb (get envelope ''job'') h)"

text \<open>A terminal callback for the job of a request id and a deployment is among the delivered ones.\<close>

definition reported :: "platform \<Rightarrow> jsstr \<Rightarrow> callback_request list \<Rightarrow> jsval \<Rightarrow> jsval \<Rightarrow> bool" where
  "reported P base posts jid dep = (\<exists>rq \<in> set posts. \<exists>kind payload. kind \<in> {''published'', ''failed''} \<and>
     cq_url rq = base @ callback_target (the_str dep) kind \<and> cq_body rq = encode (json_stringify P payload) \<and>
     get payload ''status'' = Str (js kind) \<and> get payload ''compilerRequestId'' = jid \<and> get payload ''deploymentId'' = dep)"

lemma reported_mono: "reported P base posts jid dep \<Longrightarrow> set posts \<subseteq> set posts' \<Longrightarrow> reported P base posts' jid dep"
  unfolding reported_def by blast

lemma control_plane_Nil: "control_plane_after P cb job [] = CallbackBoundControlPlane"
  by (simp add: control_plane_after_def)

lemma control_plane_snoc:
  "control_plane_after P cb job (h @ [ev]) = after_call P cb job (h @ [ev]) (control_plane_after P cb job h)"
proof -
  have "fold (\<lambda>n. after_call P cb job (take n (h @ [ev]))) [1..<Suc (length h)] cp =
      fold (\<lambda>n. after_call P cb job (take n h)) [1..<Suc (length h)] cp" for cp
    by (rule fold_cong) auto
  then show ?thesis by (simp add: control_plane_after_def)
qed

lemma terminal_posts_snoc: "terminal_posts P cb job (h @ [ev]) = terminal_posts P cb job h @
    (case terminal_post P cb job (control_plane_after P cb job h) (h @ [ev]) of None \<Rightarrow> [] | Some rq \<Rightarrow> [rq])"
proof -
  define ap where "ap h n = (case terminal_post P cb job (control_plane_after P cb job (take n h)) (take (Suc n) h)
    of None \<Rightarrow> [] | Some rq \<Rightarrow> [rq])" for h n
  have "ap (h @ [ev]) n = ap h n" if "n < length h" for n using that by (simp add: ap_def)
  then have m: "map (ap (h @ [ev])) [0..<length h] = map (ap h) [0..<length h]" by simp
  have "terminal_posts P cb job h = concat (map (ap h) [0..<length h])" for h
    unfolding terminal_posts_def ap_def [abs_def] by (rule refl)
  then show ?thesis by (simp add: ap_def [of "h @ [ev]" "length h"] m del: map_eq_conv)
qed

lemma encodeURIComponent_id:
  assumes "list_all (\<lambda>u. is_alnum u \<or> one_of ''._-'' u) s"
  shows "encodeURIComponent s = Inr s"
proof -
  have "u < 0x80" if "is_alnum u \<or> one_of ''._-'' u" for u
    using that by (auto simp: char_class_defs js_simps word_le_nat_alt word_less_nat_alt)
  with assms have a: "ascii s" by (auto simp: ascii_def list_all_iff)
  have "escape_byte (of_nat (unat u)) = [u]" if "u \<in> set s" for u
  proof -
    have u: "is_alnum u \<or> one_of ''._-'' u" "unat u < 128"
      using that assms a by (auto simp: list_all_iff ascii_def word_less_nat_alt)
    have "unreserved u" using u(1) by (auto simp: unreserved_def char_class_defs js_simps)
    moreover have "(of_nat (unat (of_nat (unat u) :: byte)) :: code_unit) = u"
      using unat_of_nat_small [of "unat u", where 'a = 8] u(2) by simp
    ultimately show ?thesis by (simp add: escape_byte_def Let_def)
  qed
  then have "concat (map (escape_byte \<circ> (\<lambda>u. of_nat (unat u))) s) = concat (map (\<lambda>u. [u]) s)"
    by (intro arg_cong [where f = concat] map_cong) auto
  then show ?thesis
    by (simp add: encodeURIComponent_def ascii_well_formed [OF a] encode_ascii [OF a])
qed

lemma posted_request:
  assumes "post P cb h kind (get job ''deploymentId'') (callback_payload job kind rest) = Inr r"
  shows "\<exists>rq. posted P cb job h kind rest = Some rq \<and>
    cq_url rq = cb_origin cb @ callback_target (the_str (get job ''deploymentId'')) kind \<and>
    cq_body rq = encode (json_stringify P (callback_payload job kind rest))"
proof -
  from assms obtain rq where rq: "callback_request_for P cb h kind (get job ''deploymentId'') (callback_payload job kind rest) = Inr rq"
    by (auto simp: post_def result_simps)
  then have "validCallbackDeploymentId (get job ''deploymentId'')" by (auto simp: callback_request_for_def result_simps)
  then have "list_all (\<lambda>u. is_alnum u \<or> one_of ''._-'' u) (the_str (get job ''deploymentId''))"
    by (auto simp: validCallbackDeploymentId_def split: list.splits)
  from encodeURIComponent_id [OF this] rq show ?thesis
    by (auto simp: posted_def callback_request_for_def result_simps Let_def)
qed

lemma payload_fields [simp]:
  "get (callback_payload job kind rest) ''status'' = Str (js kind)"
  "get (callback_payload job kind rest) ''compilerRequestId'' = get job ''compilerRequestId''"
  "get (callback_payload job kind rest) ''deploymentId'' = get job ''deploymentId''"
  by (simp_all add: callback_payload_def)

lemma reportedI:
  assumes "posted P cb job h kind rest = Some rq" and "rq \<in> set posts" and "kind \<in> {''published'', ''failed''}"
    and "cq_url rq = cb_origin cb @ callback_target (the_str (get job ''deploymentId'')) kind"
    and "cq_body rq = encode (json_stringify P (callback_payload job kind rest))"
  shows "reported P (cb_origin cb) posts (get job ''compilerRequestId'') (get job ''deploymentId'')"
  unfolding reported_def using assms
  by (intro bexI [of _ rq] exI [of _ kind] exI [of _ "callback_payload job kind rest"]) auto

lemma terminal_delivered:
  "terminalCallbackDelivered (control_plane_after P cb job h) \<Longrightarrow>
    reported P (cb_origin cb) (terminal_posts P cb job h) (get job ''compilerRequestId'') (get job ''deploymentId'')"
proof (induction h rule: rev_induct)
  case (snoc ev h)
  let ?cp = "control_plane_after P cb job h" and ?h = "h @ [ev]"
  show ?case
  proof (cases "terminalCallbackDelivered ?cp")
    case True
    from snoc.IH [OF this] show ?thesis by (rule reported_mono) (simp add: terminal_posts_snoc)
  next
    case False
    with snoc.prems have t: "terminalCallbackDelivered (after_call P cb job ?h ?cp)" by (simp add: control_plane_snoc)
    obtain kind rest r where p: "post P cb ?h kind (get job ''deploymentId'') (callback_payload job kind rest) = Inr r"
      "kind \<in> {''published'', ''failed''}" "terminal_post P cb job ?cp ?h = posted P cb job ?h kind rest"
    proof (cases ev)
      case (Publish q)
      with t False obtain u where u: "bound_publish P cb job ?h q = Inr u"
        by (cases "bound_publish P cb job ?h q") (simp_all add: after_call_def)
      then obtain r where "post P cb ?h ''published'' (get job ''deploymentId'') (callback_payload job ''published'' (content_fields q)) = Inr r"
        by (auto simp: bound_publish_def result_simps)
      with that [of "''published''" "content_fields q" r] Publish u show thesis by (simp add: terminal_post_def)
    next
      case (Report_failed f)
      with t False obtain u where u: "bound_failed P cb job ?cp ?h f = Inr u"
        by (cases "bound_failed P cb job ?cp ?h f") (simp_all add: after_call_def)
      then obtain r where "post P cb ?h ''failed'' (get job ''deploymentId'')
          (callback_payload job ''failed'' [(js ''code'', get f ''code'')]) = Inr r"
        by (auto simp: bound_failed_def result_simps)
      with that [of "''failed''" "[(js ''code'', get f ''code'')]" r] Report_failed u show thesis by (simp add: terminal_post_def)
    qed (use t False in \<open>auto simp: after_call_def split: if_splits\<close>)
    from posted_request [OF p(1)] obtain rq where "posted P cb job ?h kind rest = Some rq"
      "cq_url rq = cb_origin cb @ callback_target (the_str (get job ''deploymentId'')) kind"
      "cq_body rq = encode (json_stringify P (callback_payload job kind rest))" by blast
    with p(2,3) show ?thesis by (intro reportedI [of P cb job ?h kind rest rq]) (simp_all add: terminal_posts_snoc)
  qed
qed (simp add: control_plane_Nil CallbackBoundControlPlane_def)

section \<open>Where the jobs of a disk come from\<close>

text \<open>
  A property \<open>A\<close> of the waiting and \<open>F\<close> of the archived jobs of a disk, kept by every
  effect that writes only such jobs, hence by every prefix of a list of them.
\<close>

definition jobs_ok :: "platform \<Rightarrow> (job \<Rightarrow> bool) \<Rightarrow> (job \<Rightarrow> bool) \<Rightarrow> disk \<Rightarrow> bool" where
  "jobs_ok P A F d = ((\<forall>k j. waiting (fs_view P d) k = Some j \<longrightarrow> A j) \<and> (\<forall>k j. finished (fs_view P d) k = Some j \<longrightarrow> F j))"

fun effect_safe :: "platform \<Rightarrow> (job \<Rightarrow> bool) \<Rightarrow> (job \<Rightarrow> bool) \<Rightarrow> disk_effect \<Rightarrow> bool" where
  "effect_safe P A F (Write_pending k v) = A (doc_job P (stored v))"
| "effect_safe P A F (Write_archive k v) = F (doc_job P (stored v))"
| "effect_safe P A F (Remove_pending k) = True"

lemma jobs_okD:
  assumes "jobs_ok P A F d"
  shows "map_of (pending_dir d) k = Some (Document v) \<Longrightarrow> A (doc_job P v)"
    and "map_of (archive_dir d) k = Some (Document v) \<Longrightarrow> F (doc_job P v)"
  using assms unfolding jobs_ok_def by (metis file_job.simps(1) view_simps(1), metis file_job.simps(1) view_simps(2))

lemma effect_safe_jobs: "jobs_ok P A F d \<Longrightarrow> effect_safe P A F e \<Longrightarrow> jobs_ok P A F (apply_effect e d)"
  unfolding jobs_ok_def
  by (cases e) (auto simp: view_write_pending view_write_archive view_remove simp del: view_simps apply_effect.simps)

lemma effects_safe_jobs: "jobs_ok P A F d \<Longrightarrow> list_all (effect_safe P A F) es \<Longrightarrow> jobs_ok P A F (apply_effects es d)"
  by (induction es arbitrary: d) (simp_all add: effect_safe_jobs del: apply_effect.simps)

lemma effects_safe_prefix:
  "jobs_ok P A F d \<Longrightarrow> list_all (effect_safe P A F) es \<Longrightarrow> jobs_ok P A F (apply_effects (take i es) d)"
  by (rule effects_safe_jobs) (auto simp: list_all_iff dest: in_set_takeD)

text \<open>The property of waiting jobs depends on the identity and the bodies only.\<close>

definition body_property :: "(job \<Rightarrow> bool) \<Rightarrow> bool" where
  "body_property A = (\<forall>i b r s n t s' n' t'. A \<lparr>job_identity = i, job_body = b, job_redelivery = r, job_status = s, job_attempts = n, job_due = t\<rparr> \<longrightarrow>
     A \<lparr>job_identity = i, job_body = b, job_redelivery = r, job_status = s', job_attempts = n', job_due = t'\<rparr> \<and>
     A \<lparr>job_identity = i, job_body = (case r of None \<Rightarrow> b | Some b' \<Rightarrow> b'), job_redelivery = None, job_status = s', job_attempts = n', job_due = t'\<rparr>)"

lemma body_propertyD:
  assumes "body_property A" and "A j"
  shows "A (started j)" "A (rescheduled delay now j)" "A (j\<lparr>job_status := s\<rparr>)"
proof -
  obtain i b r s0 n t where j: "j = \<lparr>job_identity = i, job_body = b, job_redelivery = r, job_status = s0, job_attempts = n, job_due = t\<rparr>"
    by (cases j) auto
  note h = assms(1) [unfolded body_property_def, rule_format, OF assms(2) [unfolded j]]
  show "A (started j)" "A (rescheduled delay now j)" "A (j\<lparr>job_status := s\<rparr>)"
    using h by (simp_all add: j started_def rescheduled_def cong: option.case_cong)
qed

lemma enqueue_safe:
  assumes inv: "fs_inv P n d" and clk: "clock_ok (clock 0)" and jobs: "jobs_ok P A F d"
    and new: "\<And>now. A (job_input inp now)"
    and again: "\<And>j now. A j \<Longrightarrow> job_identity j = input_identity inp \<Longrightarrow> A (redeliver (the (in_body inp)) now j)"
  shows "list_all (effect_safe P A F) (fst (fs_enqueue P clock inp d))"
proof (cases "validateEnqueue inp")
  case (Inl e)
  then show ?thesis by (simp add: fs_enqueue_def)
next
  case (Inr u)
  then have ok: "validateEnqueue inp = Inr ()" by simp
  let ?k = "file_name P (the_str (in_id inp))"
  have b64: "base64_ok P" using fs_invD(1) [OF inv] .
  show ?thesis
  proof (rule pending_cases [OF inv, of ?k])
    assume "map_of (pending_dir d) ?k = None"
    with ok new new_record_doc(2) [OF ok clk b64] show ?thesis
      by (auto simp: fs_enqueue_def Let_def archived_lookup [OF inv] readRecordIfPresent_None split: option.splits json_file.splits)
  next
    fix v jid
    assume v: "map_of (pending_dir d) ?k = Some (Document v)" "valid_doc P v"
    have old: "A (doc_job P v)" using jobs_okD(1) [OF jobs v(1)] .
    have "A (doc_job P (stored (redelivery_running P (the (in_body inp)) (clock 0) v)))"
      if "doc_identity v = input_identity inp" "doc_status v = Running"
      using again [OF old] that redelivery_running_doc(2) [OF v(2) that(2) b64, of "the (in_body inp)" "clock 0" 0] by simp
    moreover have "A (doc_job P (stored (redelivery_waiting P (the (in_body inp)) (clock 0) (clock 1) v)))"
      if "doc_identity v = input_identity inp" "doc_status v \<noteq> Running"
      using again [OF old] that redelivery_waiting_doc(2) [OF v(2) that(2) b64 clk, of "the (in_body inp)" "clock 1"] by simp
    ultimately show ?thesis
      using ok v readRecordIfPresent_Some [OF v]
      by (auto simp: fs_enqueue_def Let_def archived_lookup [OF inv] assertSameIdentity_def require_def doc_running
          split: option.splits json_file.splits sum.splits if_splits)
  qed
qed

lemma claim_safe:
  assumes inv: "fs_inv P n d" and lim: "int n < max_safe_integer" and jobs: "jobs_ok P A F d" and A: "body_property A"
  shows "list_all (effect_safe P A F) (fst (fs_claim P clock d))"
    and "snd (fs_claim P clock d) = Inr (Some c) \<Longrightarrow> \<exists>j. A j \<and> c = claim_of j"
proof -
  let ?ks = "jsonFiles (pending_dir d)"
  have docs: "\<exists>v. map_of (pending_dir d) k = Some (Document v) \<and> valid_doc P v \<and> 0 \<le> the_int (get v ''attempts'') \<and>
      the_int (get v ''attempts'') < max_safe_integer" if "k \<in> set ?ks" for k
    by (rule pending_cases [OF inv, of k]) (use that jsonFiles_set [OF inv] lim in auto)
  then have "\<forall>k \<in> set ?ks. \<exists>v. map_of (pending_dir d) k = Some (Document v) \<and> valid_doc P v" by blast
  note loop = claim_loop_find [OF this, of "clock 0"]
  have "list_all (effect_safe P A F) (fst (fs_claim P clock d)) \<and>
      (snd (fs_claim P clock d) = Inr (Some c) \<longrightarrow> (\<exists>j. A j \<and> c = claim_of j))"
  proof (cases "find (\<lambda>k. due (doc_at (pending_dir d) k) (clock 0)) ?ks")
    case None
    with loop show ?thesis by (simp add: fs_claim_def)
  next
    case (Some k)
    then have "k \<in> set ?ks" by (auto simp: find_Some_iff)
    from docs [OF this] obtain v where v: "map_of (pending_dir d) k = Some (Document v)" "valid_doc P v"
      "0 \<le> the_int (get v ''attempts'')" "the_int (get v ''attempts'') < max_safe_integer" by blast
    have at: "doc_at (pending_dir d) k = v" using v(1) by (simp add: doc_at_def)
    have j: "A (doc_job P v)" using jobs_okD(1) [OF jobs v(1)] .
    have "A (doc_job P (stored (running_record v (clock 0))))"
      using running_record_doc(2) [OF v(2-4)] body_propertyD(1) [OF A j] by simp
    with Some loop at j show ?thesis by (auto simp: fs_claim_def Let_def)
  qed
  then show "list_all (effect_safe P A F) (fst (fs_claim P clock d))"
    "snd (fs_claim P clock d) = Inr (Some c) \<Longrightarrow> \<exists>j. A j \<and> c = claim_of j" by blast+
qed

lemma finish_safe:
  assumes inv: "fs_inv P n d" and clk: "clock_ok (clock 0)" and delay: "0 \<le> delay" and jobs: "jobs_ok P A F d"
    and A: "body_property A"
    and F: "\<And>j. waiting (fs_view P d) (file_name P (the_str jid)) = Some j \<Longrightarrow> is_terminal outcome \<Longrightarrow>
      fst (job_identity j) = jid \<Longrightarrow> F (j\<lparr>job_status := Terminal\<rparr>)"
  shows "list_all (effect_safe P A F) (fst (fs_finish P delay clock jid outcome d))"
proof (cases "readRecord P (pending_dir d) (file_name P (the_str jid))")
  case (Inl e)
  then show ?thesis by (simp add: fs_finish_def Let_def)
next
  case (Inr v)
  then have v: "map_of (pending_dir d) (file_name P (the_str jid)) = Some (Document v)" "valid_doc P v"
    by (simp_all add: readRecord_iff)
  have j: "A (doc_job P v)" using jobs_okD(1) [OF jobs v(1)] .
  have "F (doc_job P (stored (terminal_record v (get outcome ''result'') (JInt (clock 0)))))"
    if "get v ''id'' = jid" "get outcome ''kind'' = Str (js ''terminal'')"
    using F [of "doc_job P v"] v(1) that terminal_record_doc(2) [OF v(2)] by (simp add: is_terminal_def)
  moreover have "A (doc_job P (stored (retry_record v delay outcome clock)))"
    using retry_record_doc(2) [where clock = clock, OF v(2) clk delay] body_propertyD(2) [OF A j] by simp
  ultimately show ?thesis using Inr by (simp add: fs_finish_def Let_def)
qed

lemma recover_entry_safe:
  assumes "recover_entry P d now k = Inr es" and "jobs_ok P A F d" and "body_property A"
  shows "list_all (effect_safe P A F) es"
proof -
  from assms(1) obtain v where "readRecord P (pending_dir d) k = Inr v" and es: "es = [Remove_pending k] \<or> es = [] \<or>
      es = [Write_pending k (recovered_record v (JInt now))]"
    by (auto simp: recover_entry_def result_simps split: option.splits if_splits)
  then have v: "map_of (pending_dir d) k = Some (Document v)" "valid_doc P v" by (simp_all add: readRecord_iff)
  have "A (doc_job P (stored (recovered_record v (JInt now))))"
    using recovered_record_doc(2) [OF v(2)] body_propertyD(3) [OF assms(3) jobs_okD(1) [OF assms(2) v(1)]] by simp
  with es show ?thesis by auto
qed

lemma initialize_safe:
  assumes "jobs_ok P A F d" and "body_property A"
  shows "list_all (effect_safe P A F) (fst (fs_initialize P clock d))"
proof -
  have "list_all (effect_safe P A F) (fst (recover_loop P clock i names d))" if "jobs_ok P A F d" for i names d
    using that
  proof (induction names arbitrary: i d)
    case (Cons name names)
    show ?case
    proof (cases "recover_entry P d (clock i) name")
      case (Inr es)
      from recover_entry_safe [OF this Cons.prems assms(2)] have es: "list_all (effect_safe P A F) es" .
      from Cons.IH [OF effects_safe_jobs [OF Cons.prems es]] es Inr show ?thesis by (simp add: case_prod_unfold Let_def)
    qed simp
  qed simp
  then show ?thesis using assms(1) by (simp add: fs_initialize_def)
qed

section \<open>The process\<close>

text \<open>
  The state of the whole: the worker with the disk of its queue, whether a process is up, the
  claimed jobs, the jobs whose run has ended, and the terminal callbacks the control plane has
  accepted so far. \<open>sys_count\<close> counts the operations on the queue.
\<close>

record 'a system =
  sys_worker :: "('a, disk) http_worker"
  sys_up :: bool
  sys_running :: "claimed list"
  sys_ran :: "(claimed \<times> jsval result) list"
  sys_posts :: "callback_request list"
  sys_count :: nat

abbreviation sys_disk :: "'a system \<Rightarrow> disk" where
  "sys_disk s \<equiv> hw_queue (sys_worker s)"

definition with_disk :: "disk \<Rightarrow> 'a system \<Rightarrow> 'a system" where
  "with_disk d s = s\<lparr>sys_worker := (sys_worker s)\<lparr>hw_queue := d\<rparr>, sys_count := sys_count s + 2\<rparr>"

definition with_worker :: "(('a, disk) http_worker \<Rightarrow> ('a, disk) http_worker) \<Rightarrow> 'a system \<Rightarrow> 'a system" where
  "with_worker f s = s\<lparr>sys_worker := f (sys_worker s)\<rparr>"

definition crashed :: "disk_effect list \<Rightarrow> 'a system \<Rightarrow> 'a system" where
  "crashed es s = (with_disk (apply_effects es (sys_disk s)) s)\<lparr>sys_up := False, sys_running := [], sys_ran := []\<rparr>"

definition fs_finisher :: "platform \<Rightarrow> int \<Rightarrow> (nat \<Rightarrow> clock) \<Rightarrow> nat \<Rightarrow> jsval \<Rightarrow> jsval \<Rightarrow> disk \<Rightarrow> unit result \<times> disk" where
  "fs_finisher P delay clocks i jid outcome d = completed (fs_finish P delay (clocks i) jid outcome d) d"

text \<open>What the loop passes to \<open>finish\<close> for a job that ran.\<close>

definition finish_arguments :: "jsval result \<Rightarrow> jsval set" where
  "finish_arguments r = (case r of Inl e \<Rightarrow> range retry_outcome | Inr outcome \<Rightarrow> insert outcome (range retry_outcome))"

inductive system_step ::
    "platform \<Rightarrow> int \<Rightarrow> jsstr \<Rightarrow> (jsstr \<Rightarrow> url option) \<Rightarrow> (request \<Rightarrow> 'a \<Rightarrow> unit result \<times> 'a) \<Rightarrow> 'a system \<Rightarrow> 'a system \<Rightarrow> bool"
  for P delay base resolve verify where
  boot: "\<not> sys_up s \<Longrightarrow>
    system_step P delay base resolve verify s
      (s\<lparr>sys_up := True, sys_worker := CompilerHttpWorker concurrency composed True a (sys_disk s)\<rparr>)"
| start: "sys_up s \<Longrightarrow> start (fs_services P resolve verify clock) (sys_worker s) = (r, w) \<Longrightarrow>
    system_step P delay base resolve verify s (s\<lparr>sys_worker := w\<rparr>)"
| request: "sys_up s \<Longrightarrow> clock_ok (clock 0) \<Longrightarrow>
    handleHttp P (fs_services P resolve verify clock) now rq (sys_worker s) = (resp, w) \<Longrightarrow>
    system_step P delay base resolve verify s (s\<lparr>sys_worker := w, sys_count := sys_count s + 2\<rparr>)"
| claim: "sys_up s \<Longrightarrow> hw_started (sys_worker s) \<Longrightarrow> \<not> hw_stopping (sys_worker s) \<Longrightarrow>
    length (sys_running s) + length (sys_ran s) < hw_loops (sys_worker s) \<Longrightarrow>
    snd (fs_claim P clock (sys_disk s)) = Inr (Some c) \<Longrightarrow>
    system_step P delay base resolve verify s
      (with_worker begin_job (with_disk (apply_effects (fst (fs_claim P clock (sys_disk s))) (sys_disk s)) s)\<lparr>
        sys_running := c # sys_running s\<rparr>)"
| run: "sys_up s \<Longrightarrow> c \<in> set (sys_running s) \<Longrightarrow> cb_origin cb = base \<Longrightarrow> run_queued P cb env ms (c_body c) = (r, h) \<Longrightarrow>
    system_step P delay base resolve verify s (s\<lparr>sys_running := remove1 c (sys_running s), sys_ran := (c, r) # sys_ran s,
      sys_posts := sys_posts s @ delivered P cb (c_body c) h\<rparr>)"
| finish: "sys_up s \<Longrightarrow> (c, r) \<in> set (sys_ran s) \<Longrightarrow> clock_ok (clocks 0 0) \<Longrightarrow> clock_ok (clocks 1 0) \<Longrightarrow>
    system_step P delay base resolve verify s
      (with_worker end_job (with_disk (finish_queued (fs_finisher P delay clocks) (c_id c) r (sys_disk s)) s)\<lparr>
        sys_ran := remove1 (c, r) (sys_ran s)\<rparr>)"
| stop: "sys_up s \<Longrightarrow> sys_running s = [] \<Longrightarrow> sys_ran s = [] \<Longrightarrow>
    system_step P delay base resolve verify s (s\<lparr>sys_worker := stop (sys_worker s)\<rparr>)"
| crash_start: "sys_up s \<Longrightarrow> \<not> hw_started (sys_worker s) \<Longrightarrow>
    system_step P delay base resolve verify s (crashed (take i (fst (fs_initialize P clock (sys_disk s)))) s)"
| crash_request: "sys_up s \<Longrightarrow> hw_started (sys_worker s) \<Longrightarrow> clock_ok (clock 0) \<Longrightarrow>
    parseEnvelope P (Some body) now = Inr envelope \<Longrightarrow>
    system_step P delay base resolve verify s
      (crashed (take i (fst (fs_enqueue P clock (queue_input P envelope (Some body)) (sys_disk s)))) s)"
| crash_claim: "sys_up s \<Longrightarrow> hw_started (sys_worker s) \<Longrightarrow>
    system_step P delay base resolve verify s (crashed (take i (fst (fs_claim P clock (sys_disk s)))) s)"
| crash_finish: "sys_up s \<Longrightarrow> (c, r) \<in> set (sys_ran s) \<Longrightarrow> clock_ok (clock 0) \<Longrightarrow> outcome \<in> finish_arguments r \<Longrightarrow>
    system_step P delay base resolve verify s (crashed (take i (fst (fs_finish P delay clock (c_id c) outcome (sys_disk s)))) s)"

definition initial_system :: "'a \<Rightarrow> 'a system" where
  "initial_system a = \<lparr>sys_worker = CompilerHttpWorker Undefined True True a \<lparr>pending_dir = [], archive_dir = []\<rparr>,
     sys_up = False, sys_running = [], sys_ran = [], sys_posts = [], sys_count = 0\<rparr>"

section \<open>The invariant\<close>

text \<open>The bytes are an envelope the endpoint accepted, for the job of this identity.\<close>

definition accepted_body :: "platform \<Rightarrow> jsval \<times> jsval \<times> jsval \<Rightarrow> bytes \<Rightarrow> bool" where
  "accepted_body P i body = (\<exists>now envelope. parseEnvelope P (Some body) now = Inr envelope \<and>
     i = input_identity (queue_input P envelope (Some body)))"

definition accepted_job :: "platform \<Rightarrow> job \<Rightarrow> bool" where
  "accepted_job P j = (accepted_body P (job_identity j) (job_body j) \<and>
     (\<forall>b. job_redelivery j = Some b \<longrightarrow> accepted_body P (job_identity j) b))"

definition reported_job :: "platform \<Rightarrow> jsstr \<Rightarrow> callback_request list \<Rightarrow> job \<Rightarrow> bool" where
  "reported_job P base posts j = reported P base posts (fst (job_identity j)) (fst (snd (job_identity j)))"

definition accepted_claim :: "platform \<Rightarrow> claimed \<Rightarrow> bool" where
  "accepted_claim P c = (\<exists>fingerprint. accepted_body P (c_id c, c_deploymentId c, fingerprint) (c_body c))"

text \<open>The job of a claim is on the disk, and stays there.\<close>

definition known_claim :: "platform \<Rightarrow> disk \<Rightarrow> claimed \<Rightarrow> bool" where
  "known_claim P d c = (\<exists>fingerprint. identity_of (fs_view P d) (file_name P (the_str (c_id c))) =
     Some (c_id c, c_deploymentId c, fingerprint))"

definition reported_run :: "platform \<Rightarrow> jsstr \<Rightarrow> callback_request list \<Rightarrow> claimed \<times> jsval result \<Rightarrow> bool" where
  "reported_run P base posts = (\<lambda>(c, r). accepted_claim P c \<and> (case r of Inl e \<Rightarrow> True
     | Inr outcome \<Rightarrow> valid_outcome outcome \<and> (is_terminal outcome \<longrightarrow> reported P base posts (c_id c) (c_deploymentId c))))"

definition system_ok :: "platform \<Rightarrow> jsstr \<Rightarrow> 'a system \<Rightarrow> bool" where
  "system_ok P base s = (fs_inv P (sys_count s) (sys_disk s) \<and> settled_start (sys_worker s) \<and>
     (sys_up s \<and> hw_started (sys_worker s) \<longrightarrow> separate (fs_view P (sys_disk s))) \<and>
     jobs_ok P (accepted_job P) (reported_job P base (sys_posts s)) (sys_disk s) \<and>
     list_all (accepted_claim P) (sys_running s) \<and> list_all (reported_run P base (sys_posts s)) (sys_ran s) \<and>
     list_all (known_claim P (sys_disk s)) (sys_running s @ map fst (sys_ran s)) \<and>
     (sys_running s \<noteq> [] \<or> sys_ran s \<noteq> [] \<longrightarrow> sys_up s \<and> hw_started (sys_worker s)))"

lemma accepted_job_body_property: "body_property (accepted_job P)"
  by (auto simp: body_property_def accepted_job_def split: option.splits)

lemma accepted_new: "parseEnvelope P (Some body) now = Inr envelope \<Longrightarrow> accepted_job P (job_input (queue_input P envelope (Some body)) t)"
  by (auto simp: accepted_job_def accepted_body_def job_input_def queue_input_def)

lemma accepted_again:
  "parseEnvelope P (Some body) now = Inr envelope \<Longrightarrow> accepted_job P j \<Longrightarrow>
    job_identity j = input_identity (queue_input P envelope (Some body)) \<Longrightarrow> accepted_job P (redeliver body t j)"
  by (auto simp: accepted_job_def accepted_body_def redeliver_def)

lemma accepted_claim_of: "accepted_job P j \<Longrightarrow> accepted_claim P (claim_of j)"
  by (cases "job_identity j") (auto simp: accepted_claim_def accepted_job_def claim_of_def)

lemma accepted_claim_id:
  assumes "accepted_claim P c"
  obtains jid where "c_id c = Str jid" "jid \<noteq> []"
proof -
  from assms obtain body now envelope where e: "parseEnvelope P (Some body) now = Inr envelope" "c_id c = get envelope ''requestId''"
    by (auto simp: accepted_claim_def accepted_body_def input_identity_def queue_input_def)
  then have "validId (c_id c)" by (simp add: parseEnvelope_ok envelope_ok_def)
  then show thesis using that by (cases "c_id c") (auto simp: validId_def)
qed

lemma reported_job_mono: "set posts \<subseteq> set posts' \<Longrightarrow> reported_job P base posts j \<Longrightarrow> reported_job P base posts' j"
  by (simp add: reported_job_def reported_mono)

lemma reported_run_mono: "set posts \<subseteq> set posts' \<Longrightarrow> reported_run P base posts x \<Longrightarrow> reported_run P base posts' x"
  by (auto simp: reported_run_def dest: reported_mono split: sum.splits)

lemma jobs_ok_mono: "jobs_ok P A F d \<Longrightarrow> (\<And>j. F j \<Longrightarrow> F' j) \<Longrightarrow> jobs_ok P A F' d"
  by (simp add: jobs_ok_def)

lemma operation_ok:
  assumes "fs_inv P n d" and "separate (fs_view P d)" and "fs_op_ok x" and "int n < max_safe_integer" and "0 \<le> delay"
  shows "fs_inv P (n + 2) (apply_effects (fs_effects P delay x d) d)" "separate (fs_view P (apply_effects (fs_effects P delay x d) d))"
    "fs_inv P (n + 2) (apply_effects (take i (fs_effects P delay x d)) d)"
    "preserves (fs_view P d) (fs_view P (apply_effects (fs_effects P delay x d) d))"
proof -
  note e = fs_effects_ok [OF assms]
  then show "separate (fs_view P (apply_effects (fs_effects P delay x d) d))" by blast
  have ok: "effects_ok P (n + 2) (fs_effects P delay x d) d" using e effects_ok_mono [of P "Suc n" _ d "n + 2"] by simp
  have inv: "fs_inv P (n + 2) d" using fs_inv_mono [OF assms(1)] by simp
  show "fs_inv P (n + 2) (apply_effects (fs_effects P delay x d) d)"
    "preserves (fs_view P d) (fs_view P (apply_effects (fs_effects P delay x d) d))" by (rule effects_ok_all [OF inv ok])+
  show "fs_inv P (n + 2) (apply_effects (take i (fs_effects P delay x d)) d)" using effects_ok_prefix [OF inv ok] by blast
qed

lemma run_reported:
  assumes "run_queued P cb env ms (c_body c) = (r, h)" and "accepted_claim P c"
  shows "reported_run P (cb_origin cb) (posts @ delivered P cb (c_body c) h) (c, r)"
proof (cases r)
  case (Inl e)
  with assms(2) show ?thesis by (simp add: reported_run_def)
next
  case (Inr outcome)
  with assms(1) obtain envelope where q: "parseQueuedEnvelope P (c_body c) = Inr envelope"
    by (auto simp: run_queued_def split: sum.splits)
  let ?job = "get envelope ''job''"
  from assms(1) Inr q obtain result terminal where o: "outcome = finish_outcome terminal result"
    "terminal \<longrightarrow> terminalCallbackDelivered (control_plane_after P cb ?job h)"
    by (auto simp: run_queued_def Let_def split: prod.splits)
  from assms(2) obtain now envelope' where a: "parseEnvelope P (Some (c_body c)) now = Inr envelope'"
    "c_id c = get envelope' ''requestId''" "c_deploymentId c = get (get envelope' ''job'') ''deploymentId''"
    by (auto simp: accepted_claim_def accepted_body_def input_identity_def queue_input_def)
  have "parse_json P (c_body c) = Some envelope"
    using q by (auto simp: parseQueuedEnvelope_def result_simps parseEnvelope_ok)
  with a(1) have "envelope' = envelope" by (simp add: parseEnvelope_ok)
  with a have ids: "c_id c = get ?job ''compilerRequestId''" "c_deploymentId c = get ?job ''deploymentId''"
    using envelope_identity [of P now envelope] by (simp_all add: parseEnvelope_ok)
  have "valid_outcome outcome" "is_terminal outcome \<longleftrightarrow> terminal"
    by (simp_all add: o(1) valid_outcome_def is_terminal_def finish_outcome_def)
  moreover have "reported P (cb_origin cb) (posts @ delivered P cb (c_body c) h) (c_id c) (c_deploymentId c)" if "terminal"
    unfolding ids using terminal_delivered [of P cb ?job h] o(2) that
      reported_mono [of P "cb_origin cb" "terminal_posts P cb ?job h" _ _ "posts @ terminal_posts P cb ?job h"]
    by (simp add: delivered_def q)
  ultimately show ?thesis using assms(2) Inr by (simp add: reported_run_def)
qed

lemma retry_valid: "valid_outcome (retry_outcome e)" "\<not> is_terminal (retry_outcome e)"
  by (simp_all add: retry_outcome_def valid_outcome_def is_terminal_def finish_outcome_def)

lemma finish_arguments_ok:
  assumes "outcome \<in> finish_arguments r" and "reported_run P base posts (c, r)"
  shows "valid_outcome outcome \<and> (is_terminal outcome \<longrightarrow> reported P base posts (c_id c) (c_deploymentId c))"
  using assms retry_valid by (auto simp: finish_arguments_def reported_run_def split: sum.splits)

lemma known_claim_preserved: "known_claim P d c \<Longrightarrow> preserves (fs_view P d) (fs_view P d') \<Longrightarrow> known_claim P d' c"
  unfolding known_claim_def preserves_def by (metis option.distinct(1))

lemma known_claims_preserved:
  "list_all (known_claim P d) cs \<Longrightarrow> preserves (fs_view P d) (fs_view P d') \<Longrightarrow> list_all (known_claim P d') cs"
  by (auto simp: list_all_iff intro: known_claim_preserved)

lemma known_waiting:
  assumes "known_claim P d c" and "separate (fs_view P d)" and "waiting (fs_view P d) (file_name P (the_str (c_id c))) = Some j"
  shows "fst (snd (job_identity j)) = c_deploymentId c"
  using assms by (auto simp: known_claim_def identity_of_def separate_def simp del: view_simps)

text \<open>A claim hands out an accepted job that is on the disk.\<close>

lemma claim_known:
  assumes inv: "fs_inv P n d" and lim: "int n < max_safe_integer" and sep: "separate (fs_view P d)"
    and claim: "snd (fs_claim P clock d) = Inr (Some c)"
  shows "known_claim P d c"
proof -
  from fs_claim_refines [OF inv lim, of clock] claim obtain k j where j: "waiting (fs_view P d) k = Some j" "c = claim_of j"
    by (auto simp: spec_claim_def simp del: view_simps)
  obtain jid where id: "fst (job_identity j) = Str jid" "k = file_name P jid"
    by (rule pending_cases [OF inv, of k]) (use j(1) in \<open>auto simp: doc_identity_def\<close>)
  obtain a b c where "job_identity j = (a, b, c)" by (cases "job_identity j") auto
  with id j sep show ?thesis
    by (auto simp: known_claim_def claim_of_def identity_of_def separate_def simp del: view_simps split: option.splits)
qed

section \<open>Steps keep the invariant\<close>

text \<open>What is known about the disk, apart from the claims.\<close>

definition disk_ok :: "platform \<Rightarrow> jsstr \<Rightarrow> callback_request list \<Rightarrow> nat \<Rightarrow> bool \<Rightarrow> disk \<Rightarrow> bool" where
  "disk_ok P base posts n serving d = (fs_inv P n d \<and> (serving \<longrightarrow> separate (fs_view P d)) \<and>
     jobs_ok P (accepted_job P) (reported_job P base posts) d)"

lemma disk_ok_mono:
  "disk_ok P base posts n serving d \<Longrightarrow> n \<le> m \<Longrightarrow> set posts \<subseteq> set posts' \<Longrightarrow> disk_ok P base posts' m serving d"
  unfolding disk_ok_def by (blast intro: fs_inv_mono jobs_ok_mono reported_job_mono)

lemma disk_ok_idle: "disk_ok P base posts n serving d \<Longrightarrow> disk_ok P base posts n False d"
  by (simp add: disk_ok_def)

lemma disk_ok_operation:
  assumes "disk_ok P base posts n True d" and "fs_op_ok x" and "int n < max_safe_integer" and "0 \<le> delay"
    and "list_all (effect_safe P (accepted_job P) (reported_job P base posts)) (fs_effects P delay x d)"
  shows "disk_ok P base posts (n + 2) True (apply_effects (fs_effects P delay x d) d)"
    and "disk_ok P base posts (n + 2) False (apply_effects (take i (fs_effects P delay x d)) d)"
    and "preserves (fs_view P d) (fs_view P (apply_effects (fs_effects P delay x d) d))"
proof -
  have d: "fs_inv P n d" "separate (fs_view P d)" "jobs_ok P (accepted_job P) (reported_job P base posts) d"
    using assms(1) by (simp_all add: disk_ok_def)
  note o = operation_ok [OF d(1,2) assms(2-4)] and j = effects_safe_jobs [OF d(3) assms(5)] effects_safe_prefix [OF d(3) assms(5)]
  show "disk_ok P base posts (n + 2) True (apply_effects (fs_effects P delay x d) d)"
    "disk_ok P base posts (n + 2) False (apply_effects (take i (fs_effects P delay x d)) d)"
    "preserves (fs_view P d) (fs_view P (apply_effects (fs_effects P delay x d) d))"
    using o j by (simp_all add: disk_ok_def)
qed

lemma disk_ok_enqueue:
  assumes "disk_ok P base posts n True d" and "clock_ok (clock 0)" and "int n < max_safe_integer"
    and "parseEnvelope P (Some body) now = Inr envelope"
  shows "disk_ok P base posts (n + 2) True (apply_effects (fst (fs_enqueue P clock (queue_input P envelope (Some body)) d)) d)"
    and "disk_ok P base posts (n + 2) False (apply_effects (take i (fst (fs_enqueue P clock (queue_input P envelope (Some body)) d))) d)"
    and "preserves (fs_view P d) (fs_view P (apply_effects (fst (fs_enqueue P clock (queue_input P envelope (Some body)) d)) d))"
proof -
  let ?inp = "queue_input P envelope (Some body)"
  have "list_all (effect_safe P (accepted_job P) (reported_job P base posts)) (fst (fs_enqueue P clock ?inp d))"
    using assms(1) accepted_new [OF assms(4)] accepted_again [OF assms(4)]
    by (intro enqueue_safe [where clock = clock, OF _ assms(2)]) (auto simp: disk_ok_def queue_input_def)
  with disk_ok_operation [where x = "Fs_enqueue clock ?inp" and delay = 0, OF assms(1) _ assms(3)] assms(2)
  show "disk_ok P base posts (n + 2) True (apply_effects (fst (fs_enqueue P clock ?inp d)) d)"
    "disk_ok P base posts (n + 2) False (apply_effects (take i (fst (fs_enqueue P clock ?inp d))) d)"
    "preserves (fs_view P d) (fs_view P (apply_effects (fst (fs_enqueue P clock ?inp d)) d))" by simp_all
qed

lemma disk_ok_claim:
  assumes "disk_ok P base posts n True d" and "int n < max_safe_integer"
  shows "disk_ok P base posts (n + 2) True (apply_effects (fst (fs_claim P clock d)) d)"
    and "disk_ok P base posts (n + 2) False (apply_effects (take i (fst (fs_claim P clock d))) d)"
    and "preserves (fs_view P d) (fs_view P (apply_effects (fst (fs_claim P clock d)) d))"
    and "snd (fs_claim P clock d) = Inr (Some c) \<Longrightarrow> accepted_claim P c \<and> known_claim P d c"
proof -
  have d: "fs_inv P n d" "separate (fs_view P d)" "jobs_ok P (accepted_job P) (reported_job P base posts) d"
    using assms(1) by (simp_all add: disk_ok_def)
  note safe = claim_safe [OF d(1) assms(2) d(3) accepted_job_body_property]
  from disk_ok_operation [where x = "Fs_claim clock" and delay = 0, OF assms(1) _ assms(2)] safe(1)
  show "disk_ok P base posts (n + 2) True (apply_effects (fst (fs_claim P clock d)) d)"
    "disk_ok P base posts (n + 2) False (apply_effects (take i (fst (fs_claim P clock d))) d)"
    "preserves (fs_view P d) (fs_view P (apply_effects (fst (fs_claim P clock d)) d))" by simp_all
  show "accepted_claim P c \<and> known_claim P d c" if "snd (fs_claim P clock d) = Inr (Some c)"
    using safe(2) [OF that] accepted_claim_of claim_known [OF d(1) assms(2) d(2) that] by blast
qed

lemma disk_ok_finish:
  assumes d: "disk_ok P base posts n True d" and lim: "int n < max_safe_integer" and delay: "0 \<le> delay" and clk: "clock_ok (clock 0)"
    and claim: "accepted_claim P c" "known_claim P d c"
    and ok: "valid_outcome outcome" "is_terminal outcome \<longrightarrow> reported P base posts (c_id c) (c_deploymentId c)"
  shows "disk_ok P base posts (n + 2) True (apply_effects (fst (fs_finish P delay clock (c_id c) outcome d)) d)"
    and "disk_ok P base posts (n + 2) False (apply_effects (take i (fst (fs_finish P delay clock (c_id c) outcome d))) d)"
    and "preserves (fs_view P d) (fs_view P (apply_effects (fst (fs_finish P delay clock (c_id c) outcome d)) d))"
    and "snd (fs_finish P delay clock (c_id c) outcome d) = Inl e \<Longrightarrow> fst (fs_finish P delay clock (c_id c) outcome d) = []"
proof -
  obtain jid where id: "c_id c = Str jid" "jid \<noteq> []" by (rule accepted_claim_id [OF claim(1)])
  have i: "fs_inv P n d" "separate (fs_view P d)" "jobs_ok P (accepted_job P) (reported_job P base posts) d"
    using d by (simp_all add: disk_ok_def)
  have "list_all (effect_safe P (accepted_job P) (reported_job P base posts)) (fst (fs_finish P delay clock (c_id c) outcome d))"
  proof (rule finish_safe [where clock = clock, OF i(1) clk delay i(3) accepted_job_body_property])
    fix j assume "waiting (fs_view P d) (file_name P (the_str (c_id c))) = Some j" "is_terminal outcome" "fst (job_identity j) = c_id c"
    with known_waiting [OF claim(2) i(2)] ok(2) show "reported_job P base posts (j\<lparr>job_status := Terminal\<rparr>)"
      by (simp add: reported_job_def)
  qed
  with disk_ok_operation [where x = "Fs_finish clock jid outcome", OF d _ lim delay] clk id ok(1)
  show "disk_ok P base posts (n + 2) True (apply_effects (fst (fs_finish P delay clock (c_id c) outcome d)) d)"
    "disk_ok P base posts (n + 2) False (apply_effects (take i (fst (fs_finish P delay clock (c_id c) outcome d))) d)"
    "preserves (fs_view P d) (fs_view P (apply_effects (fst (fs_finish P delay clock (c_id c) outcome d)) d))" by simp_all
  show "fst (fs_finish P delay clock (c_id c) outcome d) = []" if "snd (fs_finish P delay clock (c_id c) outcome d) = Inl e"
    using that by (auto simp: fs_finish_def Let_def split: if_splits sum.splits)
qed

lemma disk_ok_initialize:
  assumes "disk_ok P base posts n False d"
  shows "snd (fs_initialize P clock d) = Inr ()"
    and "disk_ok P base posts n True (apply_effects (fst (fs_initialize P clock d)) d)"
    and "disk_ok P base posts n False (apply_effects (take i (fst (fs_initialize P clock d))) d)"
proof -
  have d: "fs_inv P n d" "jobs_ok P (accepted_job P) (reported_job P base posts) d" using assms by (simp_all add: disk_ok_def)
  note r = initialize_recovers [OF d(1), of clock] and safe = initialize_safe [OF d(2) accepted_job_body_property, of clock]
  show "snd (fs_initialize P clock d) = Inr ()" using r(1) .
  show "disk_ok P base posts n True (apply_effects (fst (fs_initialize P clock d)) d)"
    using effects_ok_all(1) [OF d(1) r(2)] r(3) effects_safe_jobs [OF d(2) safe] by (simp add: disk_ok_def)
  show "disk_ok P base posts n False (apply_effects (take i (fst (fs_initialize P clock d))) d)"
    using effects_ok_prefix [OF d(1) r(2), of i] effects_safe_prefix [OF d(2) safe, of i] by (simp add: disk_ok_def)
qed

lemma start_disk:
  assumes "start (fs_services P resolve verify clock) w = (r, w')" and "disk_ok P base posts n (hw_started w) (hw_queue w)"
    and "settled_start w"
  shows "disk_ok P base posts n (hw_started w') (hw_queue w')" "settled_start w'" "hw_started w \<Longrightarrow> w' = w"
proof -
  note i = disk_ok_initialize [where clock = clock, OF disk_ok_idle [OF assms(2)]]
  have "disk_ok P base posts n (hw_started w') (hw_queue w') \<and> settled_start w' \<and> (hw_started w \<longrightarrow> w' = w)"
    using assms i(1,2)
    by (auto simp: start_def fs_services_def completed_def settled_start_def split: if_splits option.splits)
  then show "disk_ok P base posts n (hw_started w') (hw_queue w')" "settled_start w'" "hw_started w \<Longrightarrow> w' = w" by blast+
qed

lemma deliver_frame:
  assumes "deliver P sv now target rq w = (resp, w')"
  shows "hw_started w' = hw_started (snd (start sv w))" "hw_startPromise w' = hw_startPromise (snd (start sv w))"
  using assms
  by (auto simp: deliver_def consume_def Let_def wake_def split: if_splits prod.splits sum.splits)

lemma request_disk:
  assumes "handleHttp P (fs_services P resolve verify clock) now rq w = (resp, w')" and "clock_ok (clock 0)"
    and "disk_ok P base posts n (hw_started w) (hw_queue w)" and "settled_start w" and "int n < max_safe_integer"
  shows "disk_ok P base posts (n + 2) (hw_started w') (hw_queue w')" "settled_start w'"
    "hw_started w \<Longrightarrow> hw_started w' \<and> preserves (fs_view P (hw_queue w)) (fs_view P (hw_queue w'))"
proof -
  let ?sv = "fs_services P resolve verify clock"
  have "disk_ok P base posts (n + 2) (hw_started w') (hw_queue w') \<and> settled_start w' \<and>
    (hw_started w \<longrightarrow> hw_started w' \<and> preserves (fs_view P (hw_queue w)) (fs_view P (hw_queue w')))"
    using assms(1)
  proof (cases rule: fs_endpoint.handle_cases)
    case direct
    with assms(3,4) show ?thesis by (auto intro: disk_ok_mono)
  next
    case job
    obtain r w1 where st: "start ?sv w = (r, w1)" by fastforce
    note s1 = start_disk [OF st assms(3,4)] and f = deliver_frame [OF job(4)]
    have set: "settled_start w'" using s1(2) f st by (simp add: settled_start_def)
    show ?thesis
    proof (cases "hr_status resp = 202")
      case False
      with fs_endpoint.deliver_cases(2) [OF job(4) assms(4)] st have "hw_queue w' = hw_queue w1" by simp
      with s1 f set st show ?thesis by (auto intro: disk_ok_mono)
    next
      case True
      from fs_endpoint.deliver_cases(3) [OF job(4) assms(4) True] obtain body envelope dup where d: "r = Inr ()"
        "parseEnvelope P (Some body) now = Inr envelope"
        "sv_enqueue ?sv (queue_input P envelope (Some body)) (hw_queue w1) = (Inr dup, hw_queue w')" using st by auto
      from st d(1) have up: "hw_started w1"
        using assms(4) by (auto simp: start_def settled_start_def split: if_splits option.splits prod.splits sum.splits)
      have q: "hw_queue w' = apply_effects (fst (fs_enqueue P clock (queue_input P envelope (Some body)) (hw_queue w1))) (hw_queue w1)"
        using d(3) by (simp add: fs_services_def completed_def)
      note e = disk_ok_enqueue [where clock = clock, OF _ assms(2,5) d(2)]
      from s1(1) up have "disk_ok P base posts n True (hw_queue w1)" by simp
      with e(1,3) s1(3) f(1) set st up q show ?thesis by auto
    qed
  qed
  then show "disk_ok P base posts (n + 2) (hw_started w') (hw_queue w')" "settled_start w'"
    "hw_started w \<Longrightarrow> hw_started w' \<and> preserves (fs_view P (hw_queue w)) (fs_view P (hw_queue w'))" by blast+
qed

lemma finish_disk:
  assumes d: "disk_ok P base posts n True d" and lim: "int n < max_safe_integer" and delay: "0 \<le> delay"
    and clk: "clock_ok (clocks 0 0)" "clock_ok (clocks 1 0)"
    and run: "reported_run P base posts (c, r)" and known: "known_claim P d c"
  shows "disk_ok P base posts (n + 2) True (finish_queued (fs_finisher P delay clocks) (c_id c) r d)"
    and "preserves (fs_view P d) (fs_view P (finish_queued (fs_finisher P delay clocks) (c_id c) r d))"
proof -
  have claim: "accepted_claim P c" using run by (simp add: reported_run_def)
  have one: "disk_ok P base posts (n + 2) True (snd (fs_finisher P delay clocks i (c_id c) outcome d)) \<and>
      preserves (fs_view P d) (fs_view P (snd (fs_finisher P delay clocks i (c_id c) outcome d))) \<and>
      (\<forall>e. fst (fs_finisher P delay clocks i (c_id c) outcome d) = Inl e \<longrightarrow> snd (fs_finisher P delay clocks i (c_id c) outcome d) = d)"
    if "i \<in> {0, 1}" "outcome \<in> finish_arguments r" for i outcome
  proof -
    have c: "clock_ok (clocks i 0)" using that(1) clk by auto
    have o: "valid_outcome outcome" "is_terminal outcome \<longrightarrow> reported P base posts (c_id c) (c_deploymentId c)"
      using finish_arguments_ok [OF that(2) run] by simp_all
    from disk_ok_finish [where clock = "clocks i", OF d lim delay c claim known o] show ?thesis
      by (auto simp: fs_finisher_def completed_def)
  qed
  have retry: "retry_outcome e \<in> finish_arguments r" for e by (auto simp: finish_arguments_def split: sum.splits)
  have "finish_queued (fs_finisher P delay clocks) (c_id c) r d \<in>
      {snd (fs_finisher P delay clocks i (c_id c) outcome d) | i outcome. i \<in> {0, 1} \<and> outcome \<in> finish_arguments r}"
  proof (cases r)
    case (Inl e)
    with retry [of e] show ?thesis by (auto simp: finish_queued_def)
  next
    case (Inr outcome)
    then have a: "outcome \<in> finish_arguments r" by (simp add: finish_arguments_def)
    obtain x d' where x: "fs_finisher P delay clocks 0 (c_id c) outcome d = (x, d')" by fastforce
    show ?thesis
    proof (cases x)
      case (Inl e)
      with one [of 0 outcome] a x have "d' = d" by simp
      with Inl Inr x retry [of e] show ?thesis by (auto simp: finish_queued_def)
    next
      case (Inr u)
      with \<open>r = Inr outcome\<close> x a show ?thesis by (auto simp: finish_queued_def intro!: exI [of _ 0] exI [of _ outcome])
    qed
  qed
  with one show "disk_ok P base posts (n + 2) True (finish_queued (fs_finisher P delay clocks) (c_id c) r d)"
    "preserves (fs_view P d) (fs_view P (finish_queued (fs_finisher P delay clocks) (c_id c) r d))" by auto
qed

lemma system_ok_alt:
  "system_ok P base s \<longleftrightarrow> disk_ok P base (sys_posts s) (sys_count s) (sys_up s \<and> hw_started (sys_worker s)) (sys_disk s) \<and>
     settled_start (sys_worker s) \<and> list_all (accepted_claim P) (sys_running s) \<and>
     list_all (reported_run P base (sys_posts s)) (sys_ran s) \<and>
     list_all (known_claim P (sys_disk s)) (sys_running s @ map fst (sys_ran s)) \<and>
     (sys_running s \<noteq> [] \<or> sys_ran s \<noteq> [] \<longrightarrow> sys_up s \<and> hw_started (sys_worker s))"
  by (auto simp: system_ok_def disk_ok_def)

lemma list_all_remove1: "list_all Q xs \<Longrightarrow> list_all Q (remove1 x xs)"
  by (auto simp: list_all_iff dest: notin_set_remove1)

lemma crashed_ok:
  assumes "disk_ok P base (sys_posts s) (sys_count s + 2) False (apply_effects es (sys_disk s))" and "settled_start (sys_worker s)"
  shows "system_ok P base (crashed es s)"
  using assms by (simp add: system_ok_alt crashed_def with_disk_def settled_start_def)

lemma system_step_ok:
  assumes "system_step P delay base resolve verify s s'" and "system_ok P base s" and "int (sys_count s) < max_safe_integer"
    and "0 \<le> delay"
  shows "system_ok P base s'"
proof -
  let ?w = "sys_worker s"
  have ok: "disk_ok P base (sys_posts s) (sys_count s) (sys_up s \<and> hw_started ?w) (sys_disk s)" "settled_start ?w"
    "list_all (accepted_claim P) (sys_running s)" "list_all (reported_run P base (sys_posts s)) (sys_ran s)"
    "list_all (known_claim P (sys_disk s)) (sys_running s @ map fst (sys_ran s))"
    "sys_running s \<noteq> [] \<or> sys_ran s \<noteq> [] \<Longrightarrow> sys_up s \<and> hw_started ?w"
    using assms(2) unfolding system_ok_alt by blast+
  have ran: "reported_run P base (sys_posts s) (c, r)" "known_claim P (sys_disk s) c"
    "disk_ok P base (sys_posts s) (sys_count s) True (sys_disk s)"
    if "(c, r) \<in> set (sys_ran s)" for c r
  proof -
    show "reported_run P base (sys_posts s) (c, r)" using that ok(4) by (simp add: list_all_iff)
    show "known_claim P (sys_disk s) c" using that ok(5) by (force simp: list_all_iff)
    have "sys_ran s \<noteq> []" using that by auto
    with ok(1,6) show "disk_ok P base (sys_posts s) (sys_count s) True (sys_disk s)" by simp
  qed
  from assms(1) show ?thesis
  proof cases
    case (boot concurrency composed a)
    with ok disk_ok_idle [OF ok(1)] show ?thesis
      by (auto simp: system_ok_alt CompilerHttpWorker_def settled_start_def)
  next
    case (start clock r w)
    then have "disk_ok P base (sys_posts s) (sys_count s) (hw_started ?w) (sys_disk s)" using ok(1) by simp
    note w = start_disk [OF start(3) this ok(2)]
    show ?thesis
    proof (cases "hw_started ?w")
      case True
      with w(3) start(1) ok show ?thesis by (simp add: system_ok_alt)
    next
      case False
      with ok(6) have "sys_running s = []" "sys_ran s = []" by auto
      with w(1,2) start(1,2) show ?thesis by (simp add: system_ok_alt)
    qed
  next
    case (request clock now rq resp w)
    then have "disk_ok P base (sys_posts s) (sys_count s) (hw_started ?w) (sys_disk s)" using ok(1) by simp
    note w = request_disk [OF request(4,3) this ok(2) assms(3)]
    show ?thesis
    proof (cases "hw_started ?w")
      case True
      with w(3) have "hw_started w" "preserves (fs_view P (sys_disk s)) (fs_view P (hw_queue w))" by simp_all
      with w(1,2) request(1,2) ok(3,4) known_claims_preserved [OF ok(5)] show ?thesis by (simp add: system_ok_alt)
    next
      case False
      with ok(6) have "sys_running s = []" "sys_ran s = []" by auto
      with w(1,2) request(1,2) show ?thesis by (simp add: system_ok_alt)
    qed
  next
    case (claim clock c)
    then have d: "disk_ok P base (sys_posts s) (sys_count s) True (sys_disk s)" using ok(1) by simp
    note c = disk_ok_claim [where clock = clock, OF d assms(3)]
    have "list_all (known_claim P (apply_effects (fst (fs_claim P clock (sys_disk s))) (sys_disk s)))
        ((c # sys_running s) @ map fst (sys_ran s))"
      using c(3) c(4) [OF claim(6)] ok(5) by (intro known_claims_preserved [OF _ c(3)]) simp
    with c(1) c(4) [OF claim(6)] claim ok show ?thesis
      by (simp add: system_ok_alt with_disk_def with_worker_def begin_job_def settled_start_def)
  next
    case (run c cb env ms r h)
    let ?posts = "sys_posts s @ delivered P cb (c_body c) h"
    from run(3) ok(3,5) have c: "accepted_claim P c" "known_claim P (sys_disk s) c" by (auto simp: list_all_iff)
    have "list_all (reported_run P base ?posts) ((c, r) # sys_ran s)"
      using run_reported [OF run(5) c(1)] run(4) ok(4) by (auto simp: list_all_iff intro: reported_run_mono)
    moreover have "disk_ok P base ?posts (sys_count s) (sys_up s \<and> hw_started ?w) (sys_disk s)"
      by (rule disk_ok_mono [OF ok(1)]) auto
    moreover have "sys_up s \<and> hw_started ?w" using run(3) by (intro ok(6)) auto
    ultimately show ?thesis using run(1) ok(2,3,5) c(2) by (simp add: system_ok_alt list_all_remove1)
  next
    case (finish c r clocks)
    note r = ran [OF finish(3)]
    note f = finish_disk [where clocks = clocks, OF r(3) assms(3,4) finish(4,5) r(1,2)]
    have "sys_up s \<and> hw_started ?w" using finish(3) by (intro ok(6)) auto
    moreover have "list_all (known_claim P (finish_queued (fs_finisher P delay clocks) (c_id c) r (sys_disk s)))
        (sys_running s @ map fst (remove1 (c, r) (sys_ran s)))"
    proof (rule known_claims_preserved [OF _ f(2)])
      show "list_all (known_claim P (sys_disk s)) (sys_running s @ map fst (remove1 (c, r) (sys_ran s)))"
        using ok(5) by (simp add: list.pred_map list_all_remove1)
    qed
    ultimately show ?thesis
      using finish(1) f(1) ok(2-4) by (simp add: system_ok_alt with_disk_def with_worker_def end_job_def settled_start_def list_all_remove1)
  next
    case stop
    with ok disk_ok_idle [OF ok(1)] show ?thesis
      by (auto simp: system_ok_alt stop_def wake_def settled_start_def)
  next
    case (crash_start i clock)
    have "disk_ok P base (sys_posts s) (sys_count s + 2) False
        (apply_effects (take i (fst (fs_initialize P clock (sys_disk s)))) (sys_disk s))"
      by (rule disk_ok_mono [OF disk_ok_initialize(3) [where clock = clock, OF disk_ok_idle [OF ok(1)]]]) simp_all
    with ok(2) crash_start(1) show ?thesis by (simp add: crashed_ok)
  next
    case (crash_request clock body now envelope i)
    with disk_ok_enqueue(2) [where clock = clock, OF _ crash_request(4) assms(3) crash_request(5)] ok(1,2) show ?thesis
      by (simp add: crashed_ok)
  next
    case (crash_claim i clock)
    with disk_ok_claim(2) [where clock = clock, OF _ assms(3)] ok(1,2) show ?thesis
      by (simp add: crashed_ok)
  next
    case (crash_finish c r clock outcome i)
    have a: "accepted_claim P c" using ran(1) [OF crash_finish(3)] by (simp add: reported_run_def)
    have o: "valid_outcome outcome" "is_terminal outcome \<longrightarrow> reported P base (sys_posts s) (c_id c) (c_deploymentId c)"
      using finish_arguments_ok [OF crash_finish(5) ran(1) [OF crash_finish(3)]] by simp_all
    from disk_ok_finish(2) [where clock = clock, OF ran(3) [OF crash_finish(3)] assms(3,4) crash_finish(4) a ran(2) [OF crash_finish(3)] o]
      crash_finish(1) ok(2) show ?thesis by (simp add: crashed_ok)
  qed
qed

lemma system_step_count: "system_step P delay base resolve verify s s' \<Longrightarrow> sys_count s \<le> sys_count s'"
  by (auto elim!: system_step.cases simp: with_disk_def with_worker_def crashed_def)

lemma initial_system_ok: "base64_ok P \<Longrightarrow> sha256_hex P \<Longrightarrow> system_ok P base (initial_system a)"
  by (simp add: system_ok_alt initial_system_def CompilerHttpWorker_def disk_ok_def fs_inv_def docs_ok_def jobs_ok_def
      settled_start_def)

lemma system_steps_ok:
  assumes "(system_step P delay base resolve verify)\<^sup>*\<^sup>* s s'" and "system_ok P base s" and "int (sys_count s') < max_safe_integer"
    and "0 \<le> delay"
  shows "system_ok P base s'"
  using assms
proof (induction rule: rtranclp_induct)
  case (step s1 s2)
  have lt: "int (sys_count s1) < max_safe_integer" using system_step_count [OF step.hyps(2)] step.prems(2) by simp
  from system_step_ok [OF step.hyps(2) step.IH [OF step.prems(1) lt step.prems(3)] lt step.prems(3)] show ?case .
qed simp

text \<open>
  C1. A job is archived only after it was reported. Start from an empty queue and let requests,
  claims, runs, finishes, stops, crashes inside any durable operation and restarts happen in any
  order, with any answers of the network: for every job in the archive, the control plane has
  accepted a \<open>published\<close> or \<open>failed\<close> callback, posted to the deployment of this job and
  carrying its compiler request id.
\<close>

theorem archived_job_reported:
  assumes "base64_ok P" and "sha256_hex P" and "0 \<le> delay"
    and "(system_step P delay base resolve verify)\<^sup>*\<^sup>* (initial_system a) s" and "int (sys_count s) < max_safe_integer"
    and "finished (fs_view P (hw_queue (sys_worker s))) k = Some j"
  shows "\<exists>rq \<in> set (sys_posts s). \<exists>kind payload. kind \<in> {''published'', ''failed''} \<and>
    cq_url rq = base @ callback_target (the_str (fst (snd (job_identity j)))) kind \<and>
    cq_body rq = encode (json_stringify P payload) \<and> get payload ''status'' = Str (js kind) \<and>
    get payload ''compilerRequestId'' = fst (job_identity j) \<and> get payload ''deploymentId'' = fst (snd (job_identity j))"
proof -
  from system_steps_ok [OF assms(4) initial_system_ok [OF assms(1,2)] assms(5,3)]
  have "jobs_ok P (accepted_job P) (reported_job P base (sys_posts s)) (sys_disk s)" by (simp add: system_ok_def)
  with assms(6) have "reported_job P base (sys_posts s) j" unfolding jobs_ok_def by blast
  then show ?thesis unfolding reported_job_def reported_def by blast
qed

section \<open>Active jobs\<close>

text \<open>The worker counts the jobs its loops hold, and there are no more of them than loops.\<close>

definition active_ok :: "'a system \<Rightarrow> bool" where
  "active_ok s = (let w = sys_worker s; held = length (sys_running s) + length (sys_ran s) in
     (sys_up s \<longrightarrow> hw_activeJobs w = held) \<and> (0 < held \<longrightarrow> sys_up s \<and> hw_started w) \<and> held \<le> hw_loops w \<and>
     hw_loops w \<le> hw_maxConcurrentJobs w \<and> 1 \<le> hw_maxConcurrentJobs w \<and> hw_maxConcurrentJobs w \<le> 16)"

lemma max_concurrency: "1 \<le> hw_maxConcurrentJobs (CompilerHttpWorker concurrency composed valid a q)"
  "hw_maxConcurrentJobs (CompilerHttpWorker concurrency composed valid a q) \<le> 16"
  by (auto simp: CompilerHttpWorker_def validConcurrency_def)

definition same_active :: "('a, 'q) http_worker \<Rightarrow> ('a, 'q) http_worker \<Rightarrow> bool" where
  "same_active w w' = (hw_activeJobs w' = hw_activeJobs w \<and> hw_maxConcurrentJobs w' = hw_maxConcurrentJobs w \<and>
     (hw_started w \<longrightarrow> hw_started w' \<and> hw_loops w' = hw_loops w) \<and> hw_loops w' \<in> {hw_loops w, hw_maxConcurrentJobs w})"

lemma start_active: "start sv w = (r, w') \<Longrightarrow> same_active w w'"
  by (auto simp: start_def same_active_def split: if_splits option.splits prod.splits sum.splits)

lemma consume_active:
  "consume P sv now rq w = (r, w') \<Longrightarrow> hw_activeJobs w' = hw_activeJobs w \<and> hw_maxConcurrentJobs w' = hw_maxConcurrentJobs w \<and>
    hw_started w' = hw_started w \<and> hw_loops w' = hw_loops w"
  by (auto simp: consume_def wake_def Let_def split: if_splits prod.splits sum.splits)

lemma handle_active:
  assumes "handleHttp P sv now rq w = (resp, w')"
  shows "same_active w w'"
proof -
  have "w' = w \<or> (\<exists>r1 w1 rq1 r2. start sv w = (r1, w1) \<and> (w' = w1 \<or> consume P sv now rq1 w1 = (r2, w')))"
    using assms by (auto simp: handleHttp_def deliver_def Let_def split: option.splits if_splits prod.splits sum.splits)
  then consider "w' = w" | r1 w1 rq1 r2 where "start sv w = (r1, w1)" "w' = w1 \<or> consume P sv now rq1 w1 = (r2, w')" by blast
  then show ?thesis
  proof cases
    case 2
    then show ?thesis using start_active [OF 2(1)] consume_active [of P sv now rq1 w1 r2 w'] by (auto simp: same_active_def)
  qed (simp add: same_active_def)
qed

lemma active_frame:
  assumes "active_ok s" and "sys_up s" and "same_active (sys_worker s) w"
  shows "active_ok (s\<lparr>sys_worker := w\<rparr>)" "active_ok (s\<lparr>sys_worker := w, sys_count := n\<rparr>)"
  using assms by (auto simp: active_ok_def same_active_def Let_def)

lemma active_step:
  assumes "system_step P delay base resolve verify s s'" and "active_ok s"
  shows "active_ok s'"
  using assms(1)
proof cases
  case (boot concurrency composed a)
  with assms(2) show ?thesis using max_concurrency [of concurrency composed True a "sys_disk s"]
    by (auto simp: active_ok_def Let_def CompilerHttpWorker_def)
next
  case (start clock r w)
  with active_frame(1) [OF assms(2)] start_active show ?thesis by blast
next
  case (request clock now rq resp w)
  with active_frame(2) [OF assms(2)] handle_active show ?thesis by blast
next
  case (run c cb env ms r h)
  then have "length (remove1 c (sys_running s)) + 1 = length (sys_running s)"
    by (auto simp: length_remove1) (metis One_nat_def Suc_pred length_pos_if_in_set)
  with run assms(2) show ?thesis by (auto simp: active_ok_def Let_def)
next
  case (finish c r clocks)
  then have "length (remove1 (c, r) (sys_ran s)) + 1 = length (sys_ran s)"
    by (auto simp: length_remove1) (metis One_nat_def Suc_pred length_pos_if_in_set)
  with finish assms(2) show ?thesis by (auto simp: active_ok_def Let_def with_disk_def with_worker_def end_job_def)
qed (use assms(2) in \<open>auto simp: active_ok_def Let_def with_disk_def with_worker_def begin_job_def crashed_def stop_def wake_def\<close>)

text \<open>
  C3. In every reachable state of a running process the health report counts exactly the jobs
  that were claimed and not yet finished, and these are at most the configured number of
  concurrent jobs, which lies between 1 and 16.
\<close>

theorem active_jobs_bounded:
  assumes "(system_step P delay base resolve verify)\<^sup>*\<^sup>* (initial_system a) s" and "sys_up s"
  shows "get (health (sys_worker s)) ''activeJobs'' = JInt (int (length (sys_running s) + length (sys_ran s))) \<and>
    length (sys_running s) + length (sys_ran s) \<le> hw_maxConcurrentJobs (sys_worker s) \<and>
    1 \<le> hw_maxConcurrentJobs (sys_worker s) \<and> hw_maxConcurrentJobs (sys_worker s) \<le> 16"
proof -
  have "active_ok s"
    using assms(1)
  proof (induction rule: rtranclp_induct)
    case base
    show ?case using max_concurrency [of Undefined True True a "\<lparr>pending_dir = [], archive_dir = []\<rparr>"]
      by (simp add: active_ok_def initial_system_def) (simp add: CompilerHttpWorker_def)
  qed (rule active_step)
  with assms(2) show ?thesis by (simp add: active_ok_def Let_def health_def)
qed

end
