(* ===== verification/Sample_Http.thy ===== *)
theory Sample_Http
  imports Worker_System Sample_Worker
begin

text \<open>
  A complete life of one job in the worker process: the delivery over HTTP, the claim, a run
  whose download fails, the accepted \<open>failed\<close> callback, and the archived job. The witnesses
  of the HTTP and process properties are instances at this life.
\<close>

section \<open>The platform and the documents\<close>

definition sample_envelope :: jsval where
  "sample_envelope = Obj [(js ''schemaVersion'', JInt 1), (js ''requestId'', Str (js ''r'')), (js ''issuedAt'', Str []),
     (js ''expiresAt'', Str (js ''soon'')), (js ''job'', sample_job), (js ''grants'', Obj [(js ''compilerRequestId'', Str (js ''r''))])]"

text \<open>Issued after it expires.\<close>

definition late_envelope :: jsval where
  "late_envelope = Obj [(js ''schemaVersion'', JInt 1), (js ''requestId'', Str (js ''r'')), (js ''issuedAt'', Str (js ''later'')),
     (js ''expiresAt'', Str (js ''soon'')), (js ''job'', sample_job), (js ''grants'', Obj [(js ''compilerRequestId'', Str (js ''r''))])]"

definition http_platform :: platform where
  "http_platform = bundle_platform\<lparr>
     json_parse := map_of [(js ''E'', sample_envelope), (js ''G'', sample_grants), (js ''F'', late_envelope)],
     json_stringify := (\<lambda>_. js ''{}'')\<rparr>"

lemma http_platform_ok: "base64_ok http_platform" "sha256_hex http_platform"
  using sample_base64(1) sample_sha256_hex by (simp_all add: base64_ok_def sha256_hex_def http_platform_def bundle_platform_def)

lemma http_fields: "date_parse http_platform = date_parse bundle_platform" "parse_url http_platform = parse_url bundle_platform"
  "lower http_platform = lower bundle_platform" "number_to_string http_platform = number_to_string bundle_platform"
  "json_stringify http_platform v = js ''{}''"
  by (simp_all add: http_platform_def)

lemma http_json: "parse_json http_platform [69] = Some sample_envelope" "parse_json http_platform [71] = Some sample_grants"
  "parse_json http_platform [70] = Some late_envelope"
proof -
  have "decode [b] = Some [of_nat (unat b)]" if "b \<in> {69, 70, 71 :: byte}" for b
  proof -
    have "ascii [of_nat (unat b)]" using that by (auto simp: ascii_def)
    from decode_encode_ascii [OF this] encode_ascii [OF this] that show ?thesis by auto
  qed
  then show "parse_json http_platform [69] = Some sample_envelope" "parse_json http_platform [71] = Some sample_grants"
    "parse_json http_platform [70] = Some late_envelope"
    by (simp_all add: parse_json_def http_platform_def js_simps)
qed

lemma http_js_String: "js_String http_platform v = js_String bundle_platform v"
proof (induction v)
  case (Arr vs)
  then have "mapR (\<lambda>v. if nullish v then Inr [] else js_String http_platform v) vs =
      mapR (\<lambda>v. if nullish v then Inr [] else js_String bundle_platform v) vs"
    by (intro mapR_cong) simp_all
  then show ?case by simp
qed (simp_all add: http_fields)

lemma verifyGrantSet_unexpired:
  assumes "verifyGrantSet P None gs job = Inr (input, out)" and "0 < now" and "\<not> expired P now input" "\<not> expired P now out"
  shows "verifyGrantSet P (Some now) gs job = Inr (input, out)"
  using assms by (auto simp: verifyGrantSet_def Let_def result_simps split: option.splits)

lemma http_grants: "verifyGrantSet http_platform None sample_grants sample_job =
    Inr (sample_get (get (get sample_frozen ''archive'') ''key''), sample_put)"
  "\<exists>gs. verifyGrantSet http_platform (Some 5) sample_grants sample_job = Inr gs"
proof -
  have u: "exactHttpsUrl http_platform = exactHttpsUrl bundle_platform" "grantExpiresAt http_platform = grantExpiresAt bundle_platform"
    unfolding exactHttpsUrl_def [abs_def] grantExpiresAt_def [abs_def] http_fields http_js_String by simp_all
  then have e: "isExactSignedGrant http_platform = isExactSignedGrant bundle_platform"
    by (auto simp: isExactSignedGrant_def fun_eq_iff)
  have x: "expired http_platform = expired bundle_platform" unfolding expired_def [abs_def] u ..
  have same: "verifyGrantSet http_platform = verifyGrantSet bundle_platform"
    unfolding verifyGrantSet_def [abs_def] e x ..
  show "verifyGrantSet http_platform None sample_grants sample_job =
    Inr (sample_get (get (get sample_frozen ''archive'') ''key''), sample_put)"
    by (simp add: same sample_grants_ok)
  show "\<exists>gs. verifyGrantSet http_platform (Some 5) sample_grants sample_job = Inr gs"
    using verifyGrantSet_unexpired [OF sample_grants_ok, of 5] by (simp add: same expired_def sample_signed_grants)
qed


section \<open>A delivery\<close>

lemma sample_envelope_ok: "envelope_ok http_platform 0 sample_envelope" "envelope_ok http_platform 0 late_envelope"
proof -
  have "validId (Str (js ''r''))" by (simp add: validId_def js_simps char_class_defs)
  moreover have "plainObject sample_job" by (simp add: sample_job_def)
  moreover have "strict_eq (Str (js ''r'')) (get sample_job ''compilerRequestId'')" by (simp add: sample_job_def)
  ultimately show "envelope_ok http_platform 0 sample_envelope" "envelope_ok http_platform 0 late_envelope"
    by (simp_all add: envelope_ok_def sample_envelope_def late_envelope_def sameKeysI validMessageLifetime_def safe_date_def
        http_fields bundle_platform_def sample_platform_def max_safe_integer_def MAX_ENVELOPE_LIFETIME_MS_def)
qed

lemma sample_envelope_job: "get sample_envelope ''job'' = sample_job" "get late_envelope ''job'' = sample_job"
  by (simp_all add: sample_envelope_def late_envelope_def)

lemma sample_parsed: "parseEnvelope http_platform (Some [69]) 0 = Inr sample_envelope"
  "parseEnvelope http_platform (Some [70]) 0 = Inr late_envelope"
  using sample_envelope_ok sample_job_ok
  by (simp_all add: parseEnvelope_ok http_json sample_envelope_job)

definition sample_resolve :: "jsstr \<Rightarrow> url option" where
  "sample_resolve text = Some \<lparr>protocol = js ''http:'', username = [], password = [], hostname = js ''worker.invalid'',
     port = [], pathname = text, search = [], hash = [], href = js ''http://worker.invalid'' @ text,
     origin = js ''http://worker.invalid''\<rparr>"

definition sample_verify :: "request \<Rightarrow> unit \<Rightarrow> unit result \<times> unit" where
  "sample_verify rq a = (Inr (), a)"

definition sample_delivery :: "byte \<Rightarrow> http_request" where
  "sample_delivery b = \<lparr>hq_method = js ''POST'', hq_url = js ''/v1/compiler-jobs'',
     hq_headers = [(js ''content-type'', HText (js ''application/json''))], hq_chunks = [Chunk [b]]\<rparr>"

abbreviation sample_services :: "(unit, disk) services" where
  "sample_services \<equiv> fs_services http_platform sample_resolve sample_verify (\<lambda>_. 0)"

definition empty_disk :: disk where
  "empty_disk = \<lparr>pending_dir = [], archive_dir = []\<rparr>"

definition fresh_worker :: "(unit, disk) http_worker" where
  "fresh_worker = CompilerHttpWorker Undefined True True () empty_disk"

definition started_worker :: "(unit, disk) http_worker" where
  "started_worker = fresh_worker\<lparr>hw_startPromise := Some (Inr ()), hw_started := True, hw_loops := 1\<rparr>"

definition sample_input :: enqueue_input where
  "sample_input = queue_input http_platform sample_envelope (Some [69])"

definition sample_disk :: disk where
  "sample_disk = apply_effects (fst (fs_enqueue http_platform (\<lambda>_. 0) sample_input empty_disk)) empty_disk"

definition http_key :: jsstr where
  "http_key = file_name http_platform (js ''r'')"

lemma sample_start: "start sample_services fresh_worker = (Inr (), started_worker)"
  by (simp add: start_def fresh_worker_def started_worker_def CompilerHttpWorker_def fs_services_def completed_def
      fs_initialize_def empty_disk_def jsonFiles_def validConcurrency_def)

lemma empty_view: "fs_view http_platform empty_disk = \<lparr>waiting = Map.empty, finished = Map.empty\<rparr>"
  "fs_inv http_platform 0 empty_disk"
  using http_platform_ok by (simp_all add: fs_view_def empty_disk_def fs_inv_def docs_ok_def)

lemma sample_enqueue: "completed (fs_enqueue http_platform (\<lambda>_. 0) sample_input empty_disk) empty_disk = (Inr False, sample_disk)"
  "fs_view http_platform sample_disk = \<lparr>waiting = [http_key \<mapsto> job_input sample_input 0], finished = Map.empty\<rparr>"
proof -
  have v: "validateEnqueue sample_input = Inr ()"
    using http_platform_ok(2)
    by (simp add: validateEnqueue_def sample_input_def queue_input_def sample_envelope_job job_fingerprint_def sha256_hex_def)
      (simp add: sample_envelope_def sample_job_def)
  have k: "the_str (in_id sample_input) = js ''r''" by (simp add: sample_input_def queue_input_def sample_envelope_def)
  have "(snd (fs_enqueue http_platform (\<lambda>_. 0) sample_input empty_disk), fs_view http_platform sample_disk) =
      spec_enqueue (file_name http_platform) sample_input 0 (fs_view http_platform empty_disk)"
    using fs_enqueue_refines [where clock = "\<lambda>_. 0", OF empty_view(2), of sample_input]
    by (simp add: sample_disk_def clock_ok_def max_safe_integer_def)
  then have "snd (fs_enqueue http_platform (\<lambda>_. 0) sample_input empty_disk) = Inr False \<and> fs_view http_platform sample_disk =
      \<lparr>waiting = [http_key \<mapsto> job_input sample_input 0], finished = Map.empty\<rparr>"
    by (simp add: spec_enqueue_def v empty_view(1) Let_def k http_key_def)
  then show "completed (fs_enqueue http_platform (\<lambda>_. 0) sample_input empty_disk) empty_disk = (Inr False, sample_disk)"
    "fs_view http_platform sample_disk = \<lparr>waiting = [http_key \<mapsto> job_input sample_input 0], finished = Map.empty\<rparr>"
    by (simp_all add: completed_def sample_disk_def case_prod_unfold)
qed

lemma sample_handled: "handleHttp http_platform sample_services 0 (sample_delivery 69) fresh_worker =
    (sendJson http_platform [] 202 (Obj [(js ''status'', Str (js ''accepted'')), (js ''deploymentId'', Str (js ''d''))]),
     started_worker\<lparr>hw_queue := sample_disk\<rparr>)"
proof -
  have "deliver http_platform sample_services 0 (js ''/v1/compiler-jobs'') (sample_delivery 69) fresh_worker =
    (sendJson http_platform [] 202 (Obj [(js ''status'', Str (js ''accepted'')), (js ''deploymentId'', Str (js ''d''))]),
     started_worker\<lparr>hw_queue := sample_disk\<rparr>)"
  proof -
    have body: "readRequestBody (sample_delivery 69) MAX_REQUEST_BYTES = Inr [69]"
      by (simp add: readRequestBody_def sample_delivery_def string_header_def MAX_REQUEST_BYTES_def concatenate_concat)
    have w: "hw_ready started_worker" "hw_queue started_worker = empty_disk" "hw_waiters started_worker = 0"
      "hw_identity started_worker = ()"
      by (simp_all add: started_worker_def fresh_worker_def CompilerHttpWorker_def)
    have "consume http_platform sample_services 0 (signed_request (js ''/v1/compiler-jobs'') (sample_delivery 69) [69]) started_worker =
      (Inr (Obj [(js ''status'', Str (js ''accepted'')), (js ''deploymentId'', Str (js ''d''))]),
       wake (started_worker\<lparr>hw_identity := (), hw_queue := sample_disk\<rparr>))"
      using sample_enqueue(1) sample_parsed(1) w
      by (simp add: consume_def Let_def job_request_delivery fs_services_def sample_verify_def sample_input_def sample_envelope_job)
        (simp add: sample_job_def)
    moreover have "wake (started_worker\<lparr>hw_identity := (), hw_queue := sample_disk\<rparr>) = started_worker\<lparr>hw_queue := sample_disk\<rparr>"
      using w by (simp add: wake_def)
    ultimately show ?thesis by (simp add: deliver_def sample_start body)
  qed
  moreover have "isJsonContentType (string_header (sample_delivery 69) ''content-type'')"
    by (simp add: isJsonContentType_def string_header_def sample_delivery_def json_content_type_def) (simp add: js_simps ascii_lower_def ascii_lower_unit_def char_class_defs)
  ultimately show ?thesis
    by (simp add: handleHttp_def fs_services_def parseTarget_def sample_resolve_def) (simp add: sample_delivery_def)
qed

section \<open>The run of the job\<close>

definition sample_answer :: response where
  "sample_answer = \<lparr>rs_ok = True, rs_status = 200, rs_redirected = False, rs_url = [],
     rs_headers = (\<lambda>name. if name = ''content-type'' then Some (js ''application/json'') else None),
     rs_body = Stream [Chunk [71]]\<rparr>"

definition sample_callbacks :: callbacks where
  "sample_callbacks = \<lparr>cb_origin = js ''https://control.example'', cb_timeoutMs = 10000,
     cb_signOutgoing = (\<lambda>_ _ _. Inr Undefined), cb_now = (\<lambda>_ _. 5), cb_fetch = (\<lambda>_ _. (Inr sample_answer, False))\<rparr>"

text \<open>The object store does not answer.\<close>

definition offline :: environment where
  "offline = (sample_environment ''upload_prepared'' (\<lambda>p. p))\<lparr>fetchImpl := (\<lambda>_. (Inl network_error, False))\<rparr>"

lemma sample_post: "kind \<in> {''grants'', ''failed''} \<Longrightarrow>
    post http_platform sample_callbacks h kind (Str (js ''d'')) payload = Inr sample_answer"
proof -
  assume kind: "kind \<in> {''grants'', ''failed''}"
  have "validCallbackDeploymentId (Str (js ''d''))" by (simp add: validCallbackDeploymentId_def js_simps char_class_defs)
  moreover have "encodeURIComponent (js ''d'') = Inr (js ''d'')"
    by (rule encodeURIComponent_id) (simp add: js_simps char_class_defs)
  moreover have "length (encode (js ''{}'')) \<le> MAX_CALLBACK_BYTES"
    using length_encode [of "js ''{}''"] by (simp add: MAX_CALLBACK_BYTES_def)
  ultimately show ?thesis
    using kind by (auto simp: post_def callback_request_for_def callback_kinds_def http_fields Let_def sample_callbacks_def raced_def
        callback_response_def sample_answer_def)
qed

lemma sample_job_fields [simp]: "get sample_job ''deploymentId'' = Str (js ''d'')"
  "get sample_job ''compilerRequestId'' = Str (js ''r'')" "plainObject sample_job"
  by (simp_all add: sample_job_def)

lemma sample_bound_grants: "bound_getGrants http_platform sample_callbacks sample_job h (Str (js ''d'')) = Inr sample_grants"
proof -
  have "validCallbackDeploymentId (Str (js ''d''))" "validId (Str (js ''r''))"
    by (simp_all add: validCallbackDeploymentId_def validId_def js_simps char_class_defs)
  moreover have "json_answer http_platform sample_answer"
    by (simp add: json_answer_def sample_answer_def http_fields bundle_platform_def sample_platform_def)
      (simp add: js_simps ascii_lower_def ascii_lower_unit_def char_class_defs)
  moreover have "readBoundedResponse sample_answer MAX_REQUEST_BYTES ''invalid_grants'' = Inr [71]"
    by (simp add: readBoundedResponse_def sample_answer_def Let_def MAX_REQUEST_BYTES_def of_option_def concatenate_concat)
  ultimately have "grants http_platform sample_callbacks h sample_job = Inr sample_grants"
    using sample_post http_grants(1) by (simp add: grants_def parseGrantResponse_def http_json)
  then show ?thesis using http_grants(2) by (auto simp: bound_getGrants_def sample_callbacks_def)
qed

definition sample_trace :: "event list" where
  "sample_trace = [Get_grants (Str (js ''d'')), Download (sample_get (get (get sample_frozen ''archive'') ''key'')),
     Report_failed (failure_report sample_job ''compiler_failed'')]"

lemma http_run: "CompilerWorker_run http_platform (bound_environment http_platform sample_callbacks sample_job offline) 30000 sample_job [] =
    (Job_failed ''compiler_failed'', sample_trace)"
proof -
  have "downloadExact http_platform (Inl network_error) False g e 30000 = Inl (CompilerFailure ''input_download_failed'')" for g e
    by (simp add: downloadExact_def exactRequest_def network_error_def)
  then have "prepare_phase http_platform (bound_environment http_platform sample_callbacks sample_job offline) 30000 sample_job [] =
    (Inl (CompilerFailure ''input_download_failed''), take 2 sample_trace)"
    using sample_job_ok sample_bound_grants http_grants(1)
    by (simp add: prepare_phase_def act_bind_def lift_def perform_def bound_environment_def offline_def Let_def sample_trace_def)
  then show ?thesis by (simp add: CompilerWorker_run_def classifyFailure_def failureCodes_def sample_trace_def)
qed

lemma sample_bound_failed: "grantRefreshSucceeded cp \<Longrightarrow>
    bound_failed http_platform sample_callbacks sample_job cp h (failure_report sample_job ''compiler_failed'') = Inr ()"
  using sample_post by (simp add: bound_failed_def failure_report_def failureCodes_def) (simp add: sample_job_def)

lemma sample_terminal: "terminalCallbackDelivered (control_plane_after http_platform sample_callbacks sample_job sample_trace)"
proof -
  let ?cp = "control_plane_after http_platform sample_callbacks sample_job"
  have 1: "grantRefreshSucceeded (?cp [Get_grants (Str (js ''d''))])"
    using control_plane_snoc [of http_platform sample_callbacks sample_job "[]"]
    by (simp add: control_plane_Nil after_call_def sample_bound_grants)
  have 2: "?cp [Get_grants (Str (js ''d'')), Download g] = ?cp [Get_grants (Str (js ''d''))]" for g
    using control_plane_snoc [of http_platform sample_callbacks sample_job "[Get_grants (Str (js ''d''))]" "Download g"]
    by (simp add: after_call_def)
  show ?thesis
    using control_plane_snoc [of http_platform sample_callbacks sample_job
        "[Get_grants (Str (js ''d'')), Download (sample_get (get (get sample_frozen ''archive'') ''key''))]"
        "Report_failed (failure_report sample_job ''compiler_failed'')"] 1
    by (simp add: sample_trace_def 2 after_call_def sample_bound_failed)
qed

definition sample_finish :: jsval where
  "sample_finish = finish_outcome True (Obj [(js ''status'', Str (js ''failed'')), (js ''code'', Str (js ''compiler_failed''))])"

lemma sample_queued: "parseQueuedEnvelope http_platform [69] = Inr sample_envelope"
  "run_queued http_platform sample_callbacks offline 30000 [69] = (Inr sample_finish, sample_trace)"
proof -
  have "safe_date http_platform (get sample_envelope ''issuedAt'') = Some 0"
    by (simp add: safe_date_def sample_envelope_def http_fields bundle_platform_def sample_platform_def max_safe_integer_def)
  then show q: "parseQueuedEnvelope http_platform [69] = Inr sample_envelope"
    by (simp add: parseQueuedEnvelope_def http_json sample_parsed(1))
  show "run_queued http_platform sample_callbacks offline 30000 [69] = (Inr sample_finish, sample_trace)"
    using http_run sample_terminal by (simp add: run_queued_def q sample_envelope_job outcome_json_def sample_finish_def Let_def)
qed

section \<open>The life of the job in the process\<close>

abbreviation sample_step :: "unit system \<Rightarrow> unit system \<Rightarrow> bool" where
  "sample_step \<equiv> system_step http_platform 1000 (js ''https://control.example'') sample_resolve sample_verify"

definition life_0 :: "unit system" where
  "life_0 = initial_system ()"

definition life_1 :: "unit system" where
  "life_1 = life_0\<lparr>sys_up := True, sys_worker := fresh_worker\<rparr>"

definition life_2 :: "unit system" where
  "life_2 = life_1\<lparr>sys_worker := started_worker\<lparr>hw_queue := sample_disk\<rparr>, sys_count := sys_count life_1 + 2\<rparr>"

abbreviation sample_claim :: claimed where
  "sample_claim \<equiv> claim_of (job_input sample_input 0)"

definition life_3 :: "unit system" where
  "life_3 = with_worker begin_job
     (with_disk (apply_effects (fst (fs_claim http_platform (\<lambda>_. 0) (sys_disk life_2))) (sys_disk life_2)) life_2)\<lparr>
     sys_running := sample_claim # sys_running life_2\<rparr>"

definition life_4 :: "unit system" where
  "life_4 = life_3\<lparr>sys_running := remove1 sample_claim (sys_running life_3), sys_ran := (sample_claim, Inr sample_finish) # sys_ran life_3,
     sys_posts := sys_posts life_3 @ delivered http_platform sample_callbacks (c_body sample_claim) sample_trace\<rparr>"

definition life_5 :: "unit system" where
  "life_5 = with_worker end_job (with_disk (finish_queued (fs_finisher http_platform 1000 (\<lambda>_ _. 0)) (c_id sample_claim) (Inr sample_finish) (sys_disk life_4)) life_4)\<lparr>
     sys_ran := remove1 (sample_claim, Inr sample_finish) (sys_ran life_4)\<rparr>"

lemma life_fields: "sys_up life_1" "sys_up life_2" "sys_up life_3" "sys_up life_4" "\<not> sys_up life_0"
  "sys_worker life_1 = fresh_worker" "sys_worker life_2 = started_worker\<lparr>hw_queue := sample_disk\<rparr>"
  "sys_disk life_0 = empty_disk" "sys_count life_2 = 2" "sys_count life_4 = 4" "sys_count life_5 = 6"
  "sys_running life_2 = []" "sys_ran life_2 = []" "sys_running life_3 = [sample_claim]" "sys_ran life_4 = [(sample_claim, Inr sample_finish)]"
  "sys_disk life_4 = sys_disk life_3" "hw_started (sys_worker life_4)"
  by (simp_all add: life_0_def life_1_def life_2_def life_3_def life_4_def life_5_def initial_system_def with_disk_def
      with_worker_def begin_job_def end_job_def started_worker_def empty_disk_def CompilerHttpWorker_def)

lemma http_claims: "snd (fs_claim http_platform (\<lambda>_. 0) sample_disk) = Inr (Some (claim_of (job_input sample_input 0)))"
  "fs_view http_platform (apply_effects (fst (fs_claim http_platform (\<lambda>_. 0) sample_disk)) sample_disk) =
    \<lparr>waiting = [http_key \<mapsto> started (job_input sample_input 0)], finished = Map.empty\<rparr>"
  if "fs_inv http_platform n sample_disk" and "n \<le> 2"
proof -
  have "int n < max_safe_integer" using that(2) by (simp add: max_safe_integer_def)
  from fs_claim_refines [where clock = "\<lambda>_. 0", OF that(1) this] obtain answer where
    a: "snd (fs_claim http_platform (\<lambda>_. 0) sample_disk) = Inr answer"
      "spec_claim 0 (fs_view http_platform sample_disk) answer
        (fs_view http_platform (apply_effects (fst (fs_claim http_platform (\<lambda>_. 0) sample_disk)) sample_disk))" by blast
  from a(2) have "answer = Some (claim_of (job_input sample_input 0)) \<and>
      fs_view http_platform (apply_effects (fst (fs_claim http_platform (\<lambda>_. 0) sample_disk)) sample_disk) =
      \<lparr>waiting = [http_key \<mapsto> started (job_input sample_input 0)], finished = Map.empty\<rparr>"
    unfolding sample_enqueue(2)
    by (auto simp: spec_claim_def claimable_def job_input_def split: option.splits if_splits)
  with a(1) show "snd (fs_claim http_platform (\<lambda>_. 0) sample_disk) = Inr (Some (claim_of (job_input sample_input 0)))"
    "fs_view http_platform (apply_effects (fst (fs_claim http_platform (\<lambda>_. 0) sample_disk)) sample_disk) =
      \<lparr>waiting = [http_key \<mapsto> started (job_input sample_input 0)], finished = Map.empty\<rparr>" by simp_all
qed

lemma sample_life_steps: "sample_step life_0 life_1" "sample_step life_1 life_2"
  "system_ok http_platform (js ''https://control.example'') life_2"
proof -
  have c: "clock_ok 0" by (simp add: clock_ok_def max_safe_integer_def)
  show 1: "sample_step life_0 life_1"
    using system_step.boot [OF life_fields(5), of http_platform 1000 "js ''https://control.example''" sample_resolve sample_verify
        Undefined True "()"] unfolding life_1_def fresh_worker_def life_fields(8) .
  have "handleHttp http_platform sample_services 0 (sample_delivery 69) (sys_worker life_1) =
      (sendJson http_platform [] 202 (Obj [(js ''status'', Str (js ''accepted'')), (js ''deploymentId'', Str (js ''d''))]),
       started_worker\<lparr>hw_queue := sample_disk\<rparr>)" using sample_handled by (simp add: life_fields)
  then show 2: "sample_step life_1 life_2"
    unfolding life_2_def by (rule system_step.request [OF life_fields(1) c])
  have 12: "sample_step\<^sup>*\<^sup>* (initial_system ()) life_2"
    using 1 2 unfolding life_0_def by (meson converse_rtranclp_into_rtranclp rtranclp.rtrancl_refl)
  show "system_ok http_platform (js ''https://control.example'') life_2"
    using system_steps_ok [OF 12 initial_system_ok [OF http_platform_ok]] by (simp add: max_safe_integer_def life_fields)
qed

lemma sample_life_claim: "sample_step life_2 life_3"
  "fs_view http_platform (sys_disk life_3) = \<lparr>waiting = [http_key \<mapsto> started (job_input sample_input 0)], finished = Map.empty\<rparr>"
proof -
  have inv: "fs_inv http_platform 2 sample_disk" using sample_life_steps(3) by (simp add: system_ok_def life_fields)
  have w: "hw_started (sys_worker life_2)" "\<not> hw_stopping (sys_worker life_2)"
    "length (sys_running life_2) + length (sys_ran life_2) < hw_loops (sys_worker life_2)"
    "snd (fs_claim http_platform (\<lambda>_. 0) (sys_disk life_2)) = Inr (Some sample_claim)"
    using http_claims(1) [OF inv]
    by (simp_all add: life_fields started_worker_def fresh_worker_def CompilerHttpWorker_def)
  show "sample_step life_2 life_3" unfolding life_3_def by (rule system_step.claim [OF life_fields(2) w])
  show "fs_view http_platform (sys_disk life_3) =
    \<lparr>waiting = [http_key \<mapsto> started (job_input sample_input 0)], finished = Map.empty\<rparr>"
    using http_claims(2) [OF inv] by (simp add: life_3_def with_disk_def with_worker_def begin_job_def life_fields)
qed

lemma sample_life_run: "sample_step life_3 life_4"
  unfolding life_4_def
proof (rule system_step.run [OF life_fields(3)])
  show "sample_claim \<in> set (sys_running life_3)" by (simp add: life_fields)
  show "cb_origin sample_callbacks = js ''https://control.example''" by (simp add: sample_callbacks_def)
  have "c_body sample_claim = [69]" by (simp add: claim_of_def job_input_def sample_input_def queue_input_def)
  then show "run_queued http_platform sample_callbacks offline 30000 (c_body sample_claim) = (Inr sample_finish, sample_trace)"
    using sample_queued(2) by simp
qed

lemma sample_life_finish: "sample_step life_4 life_5"
  unfolding life_5_def
  by (rule system_step.finish [OF life_fields(4)]) (simp_all add: life_fields clock_ok_def max_safe_integer_def)

lemma sample_life_all: "sample_step\<^sup>*\<^sup>* (initial_system ()) life_4" "sample_step\<^sup>*\<^sup>* (initial_system ()) life_5"
proof -
  have "sample_step\<^sup>*\<^sup>* life_0 life_4"
    using sample_life_steps(1,2) sample_life_claim(1) sample_life_run
    by (blast intro: converse_rtranclp_into_rtranclp)
  then show 4: "sample_step\<^sup>*\<^sup>* (initial_system ()) life_4" by (simp add: life_0_def)
  then show "sample_step\<^sup>*\<^sup>* (initial_system ()) life_5" using sample_life_finish by (rule rtranclp.rtrancl_into_rtrancl)
qed

lemma sample_life_archived: "finished (fs_view http_platform (sys_disk life_5)) http_key =
    Some ((started (job_input sample_input 0))\<lparr>job_status := Terminal\<rparr>)"
proof -
  have "system_ok http_platform (js ''https://control.example'') life_4"
    using system_steps_ok [OF sample_life_all(1) initial_system_ok [OF http_platform_ok]] by (simp add: max_safe_integer_def life_fields)
  then have inv: "fs_inv http_platform 4 (sys_disk life_4)" "separate (fs_view http_platform (sys_disk life_4))"
    by (simp_all add: system_ok_def life_fields)
  have v: "valid_outcome sample_finish" "is_terminal sample_finish"
    by (simp_all add: valid_outcome_def is_terminal_def sample_finish_def finish_outcome_def)
  have i: "c_id sample_claim = Str (js ''r'')" "fst (job_identity (job_input sample_input 0)) = Str (js ''r'')"
    by (simp_all add: claim_of_def job_input_def sample_input_def queue_input_def sample_envelope_def input_identity_def)
  have sp: "spec_finish (file_name http_platform) 1000 (js ''r'') True 0 (fs_view http_platform (sys_disk life_4)) =
      Some \<lparr>waiting = Map.empty, finished = [http_key \<mapsto> (started (job_input sample_input 0))\<lparr>job_status := Terminal\<rparr>]\<rparr>"
    unfolding life_fields(16) sample_life_claim(2) by (simp add: spec_finish_def Let_def http_key_def [symmetric] started_def i)
  define f where "f = fs_finish http_platform 1000 (\<lambda>_. 0) (Str (js ''r'')) sample_finish (sys_disk life_4)"
  have f: "snd f = Inr ()" "finished (fs_view http_platform (apply_effects (fst f) (sys_disk life_4))) http_key =
      Some ((started (job_input sample_input 0))\<lparr>job_status := Terminal\<rparr>)"
    using fs_finish_refines [where clock = "\<lambda>_. 0", OF inv(1) _ _ _ v(1) inv(2), of 1000 "js ''r''"] sp v(2)
    by (simp_all add: clock_ok_def max_safe_integer_def f_def)
  have "sys_disk life_5 = apply_effects (fst f) (sys_disk life_4)"
    using f(1) i(1) by (simp add: life_5_def with_disk_def with_worker_def end_job_def finish_queued_def fs_finisher_def completed_def f_def)
  with f(2) show ?thesis by simp
qed

section \<open>Witnesses\<close>

text \<open>The life of the job at the end-to-end property.\<close>

theorem archived_job_reported_witness:
  "\<exists>rq \<in> set (sys_posts life_5). \<exists>kind payload. kind \<in> {''published'', ''failed''} \<and>
    cq_url rq = js ''https://control.example'' @ callback_target (js ''d'') kind \<and>
    cq_body rq = encode (json_stringify http_platform payload) \<and> get payload ''status'' = Str (js kind) \<and>
    get payload ''compilerRequestId'' = Str (js ''r'') \<and> get payload ''deploymentId'' = Str (js ''d'')"
proof -
  have c: "int (sys_count life_5) < max_safe_integer" by (simp add: life_fields max_safe_integer_def)
  have i: "job_identity ((started (job_input sample_input 0))\<lparr>job_status := Terminal\<rparr>) =
      (Str (js ''r''), Str (js ''d''), in_jobFingerprint sample_input)"
    by (simp add: started_def job_input_def sample_input_def queue_input_def input_identity_def sample_envelope_job)
      (simp add: sample_envelope_def)
  have "0 \<le> (1000 :: int)" by simp
  from archived_job_reported [OF http_platform_ok this sample_life_all(2) c sample_life_archived]
  show ?thesis unfolding i by simp
qed

lemma settled_fresh: "settled_start fresh_worker"
  by (simp add: settled_start_def fresh_worker_def CompilerHttpWorker_def)



theorem accepted_envelope_readable_witness:
  "parseEnvelope http_platform (Some [70]) 0 = Inr late_envelope \<and>
    parseQueuedEnvelope http_platform [70] = Inl (CompilerFailure ''invalid_persisted_job'')"
proof -
  have "safe_date http_platform (get late_envelope ''issuedAt'') = Some 5" "safe_date http_platform (get late_envelope ''expiresAt'') = Some 4"
    by (simp_all add: safe_date_def late_envelope_def http_fields bundle_platform_def sample_platform_def max_safe_integer_def)
  with accepted_envelope_readable [OF sample_parsed(2)] sample_parsed(2) show ?thesis by auto
qed

theorem active_jobs_bounded_witness:
  "get (health (sys_worker life_4)) ''activeJobs'' = JInt 1 \<and> hw_maxConcurrentJobs (sys_worker life_4) \<le> 16"
  using active_jobs_bounded [OF sample_life_all(1) life_fields(4)]
  by (simp add: life_fields) (simp add: life_4_def life_fields)

end
