(* ===== verification/Toolchain_Catalog.thy ===== *)
theory Toolchain_Catalog
  imports Reviewed_Catalog Exact_Transfer "HOL-Library.Product_Lexorder"
begin

text \<open>
  The toolchain catalog (lock file) as its generator reads and validates it
  (\<open>src/compiler/src/toolchain-catalog.mjs\<close>): candidates, trusted URLs, the reviewed runtime
  catalog and \<open>validateToolchainCatalog\<close>.
\<close>

section \<open>Constants\<close>

abbreviation tc_failure :: "string \<Rightarrow> js_error" where
  "tc_failure code \<equiv> ToolchainCatalogFailure code"

definition MAX_METADATA_BYTES :: int where
  "MAX_METADATA_BYTES = 4 * 1024 * 1024"

definition APPROVED_METADATA_HOSTS :: "jsstr list" where
  "APPROVED_METADATA_HOSTS = map js [''maven.minecraftforge.net'', ''meta.fabricmc.net'', ''maven.neoforged.net'',
     ''meta.quiltmc.org'', ''piston-meta.mojang.com'']"

definition APPROVED_ARTIFACT_HOSTS :: "jsstr list" where
  "APPROVED_ARTIFACT_HOSTS = map js [''maven.fabricmc.net'', ''maven.minecraftforge.net'', ''maven.neoforged.net'',
     ''maven.quiltmc.org'', ''libraries.minecraft.net'', ''piston-data.mojang.com'']"

definition candidate_of :: "string \<Rightarrow> string \<Rightarrow> string \<Rightarrow> string \<Rightarrow> int \<Rightarrow> jsval" where
  "candidate_of minecraftVersion kind version component major = Obj [(js ''minecraftVersion'', Str (js minecraftVersion)),
     (js ''loader'', Obj [(js ''kind'', Str (js kind)), (js ''version'', Str (js version))]),
     (js ''java'', Obj [(js ''component'', Str (js component)), (js ''major'', JInt major)])]"

definition SUPPORTED_TOOLCHAIN_CANDIDATES :: "jsval list" where
  "SUPPORTED_TOOLCHAIN_CANDIDATES =
     [candidate_of ''1.12.2'' ''forge'' ''14.23.5.2859'' ''jre-legacy'' 8,
      candidate_of ''1.17.1'' ''fabric'' ''0.12.12'' ''java-runtime-alpha'' 16,
      candidate_of ''1.20.1'' ''fabric'' ''0.15.11'' ''java-runtime-gamma'' 17,
      candidate_of ''1.21.1'' ''neoforge'' ''21.1.115'' ''java-runtime-delta'' 21,
      candidate_of ''1.21.1'' ''neoforge'' ''21.1.249'' ''java-runtime-delta'' 21,
      candidate_of ''26.2'' ''fabric'' ''0.19.3'' ''java-runtime-epsilon'' 25]"

section \<open>Validators\<close>

definition validSha1 :: "jsval \<Rightarrow> bool" where
  "validSha1 v = (is_str v \<and> length (the_str v) = 40 \<and> list_all is_hex (the_str v))"

definition validPositiveInteger :: "jsval \<Rightarrow> int \<Rightarrow> bool" where
  "validPositiveInteger v maximum = (isSafeInteger v \<and> 0 < the_int v \<and> the_int v \<le> maximum)"

text \<open>Other properties of the object are allowed.\<close>

definition validJavaRequirement :: "jsval \<Rightarrow> bool" where
  "validJavaRequirement v = (plainObject v \<and> validIdentifier (get v ''component'') \<and> isSafeInteger (get v ''major'') \<and>
     0 < the_int (get v ''major'') \<and> the_int (get v ''major'') \<le> 255)"

definition validJre :: "jsval \<Rightarrow> bool" where
  "validJre v = (plainObject v \<and> sameKeys v [''component'', ''id'', ''major'', ''runtimeCatalogRevision'', ''sha256''] \<and>
     validIdentifier (get v ''id'') \<and> validIdentifier (get v ''component'') \<and>
     isSafeInteger (get v ''major'') \<and> 0 < the_int (get v ''major'') \<and>
     validSha256 (get v ''sha256'') \<and> validSha256 (get v ''runtimeCatalogRevision''))"

definition safeUrlPath :: "jsstr \<Rightarrow> bool" where
  "safeUrlPath path = (prefix (js ''/'') path \<and> 1 < length path \<and> \<not> list_ex (one_of [CHR 0x5c, CHR ''%'']) path \<and>
     list_all (\<lambda>segment. segment \<noteq> [] \<and> segment \<noteq> js ''.'' \<and> segment \<noteq> js ''..'') (tl (split_on 47 path)))"

definition trusted_url :: "platform \<Rightarrow> jsstr list \<Rightarrow> url \<Rightarrow> bool" where
  "trusted_url P hosts u = (protocol u = js ''https:'' \<and> username u = [] \<and> password u = [] \<and> port u = [] \<and> hash u = [] \<and>
     search u = [] \<and> lower P (hostname u) \<in> set hosts \<and> safeUrlPath (pathname u))"

definition assertTrustedUrl :: "platform \<Rightarrow> jsval \<Rightarrow> jsstr list \<Rightarrow> string \<Rightarrow> unit result" where
  "assertTrustedUrl P v hosts code =
     bindR (require (is_str v) (tc_failure code)) (\<lambda>_.
     bindR (of_option (tc_failure code) (parse_url P (the_str v))) (\<lambda>u.
       require (trusted_url P hosts u) (tc_failure code)))"

definition parseJson :: "platform \<Rightarrow> bytes \<Rightarrow> string \<Rightarrow> jsval result" where
  "parseJson P bytes code =
     bindR (of_option (tc_failure code) (parse_json P bytes)) (\<lambda>v.
     bindR (require (plainObject v) (tc_failure code)) (\<lambda>_. Inr v))"

section \<open>Candidates\<close>

definition validateCandidate :: "platform \<Rightarrow> jsval \<Rightarrow> unit result" where
  "validateCandidate P c =
     (if plainObject c \<and> sameKeys c [''java'', ''loader'', ''minecraftVersion''] \<and> validMinecraftVersion (get c ''minecraftVersion'')
      then bindR (validLoader P (get c ''loader'')) (\<lambda>loader_ok.
        require (loader_ok \<and> validJavaRequirement (get c ''java'')) (tc_failure ''candidate_invalid''))
      else Inl (tc_failure ''candidate_invalid''))"

text \<open>The keys of validated candidates and Java requirements; only the loader kind may be no string yet.\<close>

definition javaKey :: "platform \<Rightarrow> jsval \<Rightarrow> jsstr" where
  "javaKey P v = the_str (get v ''component'') @ [0] @ number_to_string P (of_int (the_int (get v ''major'')))"

definition candidateKey :: "platform \<Rightarrow> jsval \<Rightarrow> jsstr result" where
  "candidateKey P v =
     bindR (js_String P (get (get v ''loader'') ''kind'')) (\<lambda>kind.
       Inr (the_str (get v ''minecraftVersion'') @ [0] @ kind @ [0] @ the_str (get (get v ''loader'') ''version'') @ [0] @
         javaKey P (get v ''java'')))"

definition add_candidate :: "platform \<Rightarrow> jsstr list \<Rightarrow> jsval \<Rightarrow> jsstr list result" where
  "add_candidate P ks c =
     bindR (validateCandidate P c) (\<lambda>_.
     bindR (candidateKey P c) (\<lambda>key.
     bindR (require (key \<notin> set ks) (tc_failure ''duplicate_toolchain'')) (\<lambda>_. Inr (ks @ [key]))))"

definition validateCandidates :: "platform \<Rightarrow> jsval \<Rightarrow> unit result" where
  "validateCandidates P candidates =
     bindR (require (is_arr candidates \<and> 1 \<le> length (the_arr candidates) \<and> length (the_arr candidates) \<le> 32)
       (tc_failure ''candidate_invalid'')) (\<lambda>_.
     bindR (foldR (add_candidate P) [] (the_arr candidates)) (\<lambda>_. Inr ()))"

definition primaryArtifactUrl :: "platform \<Rightarrow> jsval \<Rightarrow> jsstr result" where
  "primaryArtifactUrl P c =
     bindR (validateCandidate P c) (\<lambda>_.
     let mc = the_str (get c ''minecraftVersion''); kind = get (get c ''loader'') ''kind'';
         version = the_str (get (get c ''loader'') ''version'') in
     if kind = Str (js ''forge'') then
       Inr (js ''https://maven.minecraftforge.net/net/minecraftforge/forge/'' @ mc @ js ''-'' @ version @ js ''/forge-'' @ mc @
         js ''-'' @ version @ js ''-installer.jar'')
     else if kind = Str (js ''fabric'') then
       Inr (js ''https://maven.fabricmc.net/net/fabricmc/fabric-loader/'' @ version @ js ''/fabric-loader-'' @ version @ js ''.jar'')
     else if kind = Str (js ''neoforge'') then
       Inr (js ''https://maven.neoforged.net/releases/net/neoforged/neoforge/'' @ version @ js ''/neoforge-'' @ version @
         js ''-installer.jar'')
     else if kind = Str (js ''quilt'') then
       Inr (js ''https://maven.quiltmc.org/repository/release/org/quiltmc/quilt-loader/'' @ version @ js ''/quilt-loader-'' @
         version @ js ''.jar'')
     else Inl (tc_failure ''candidate_invalid''))"

definition primaryCoordinate :: "jsval \<Rightarrow> jsstr result" where
  "primaryCoordinate c =
     (let mc = the_str (get c ''minecraftVersion''); kind = get (get c ''loader'') ''kind'';
          version = the_str (get (get c ''loader'') ''version'') in
      if kind = Str (js ''forge'') then Inr (js ''net.minecraftforge:forge:'' @ mc @ js ''-'' @ version @ js '':installer'')
      else if kind = Str (js ''fabric'') then Inr (js ''net.fabricmc:fabric-loader:'' @ version)
      else if kind = Str (js ''neoforge'') then Inr (js ''net.neoforged:neoforge:'' @ version @ js '':installer'')
      else if kind = Str (js ''quilt'') then Inr (js ''org.quiltmc:quilt-loader:'' @ version)
      else Inl (tc_failure ''candidate_invalid''))"

definition server_coordinate :: "jsval \<Rightarrow> jsstr" where
  "server_coordinate c = js ''com.mojang:minecraft-server:'' @ the_str (get c ''minecraftVersion'') @ js '':server''"

section \<open>The reviewed runtime catalog\<close>

record runtime =
  ru_revision :: jsstr
  ru_selected :: "(jsstr, jsval) jsmap"
  ru_resolutions :: "(jsstr, jsval) jsmap"

definition runtime_malformed :: js_error where
  "runtime_malformed = tc_failure ''runtime_catalog_malformed''"

definition add_requirement :: "platform \<Rightarrow> jsstr list \<Rightarrow> jsval \<Rightarrow> jsstr list result" where
  "add_requirement P requirements entry =
     bindR (require (validJavaRequirement entry \<and> javaKey P entry \<notin> set requirements) runtime_malformed) (\<lambda>_.
       Inr (requirements @ [javaKey P entry]))"

definition add_resolution :: "platform \<Rightarrow> (jsstr, jsval) jsmap \<Rightarrow> jsval \<Rightarrow> (jsstr, jsval) jsmap result" where
  "add_resolution P resolutions v =
     bindR (require (validJavaRequirement v \<and> \<not> has resolutions (javaKey P v)) runtime_malformed) (\<lambda>_.
     bindR (canonicalize v) (\<lambda>c. Inr (resolutions @ [(javaKey P v, c)])))"

definition add_runtime ::
    "platform \<Rightarrow> jsstr list \<Rightarrow> (jsstr, jsval) jsmap \<Rightarrow> (jsstr, jsval) jsmap \<Rightarrow> jsval \<Rightarrow> (jsstr, jsval) jsmap result" where
  "add_runtime P requirements resolutions selected entry =
     (let key = javaKey P entry in
      bindR (require (validJavaRequirement entry \<and> key \<in> set requirements \<and> has resolutions key \<and> \<not> has selected key)
        runtime_malformed) (\<lambda>_.
      bindR (canonicalize entry) (\<lambda>c. Inr (selected @ [(key, c)]))))"

text \<open>\<open>None\<close> stands for an argument that is no \<open>Uint8Array\<close>.\<close>

definition parseReviewedRuntimeCatalog :: "platform \<Rightarrow> bytes option \<Rightarrow> runtime result" where
  "parseReviewedRuntimeCatalog P runtimeCatalogBytes =
     bindR (of_option runtime_malformed runtimeCatalogBytes) (\<lambda>bytes.
     bindR (parseJson P bytes ''runtime_catalog_malformed'') (\<lambda>v.
     bindR (require (get v ''schemaVersion'' = JInt 1 \<and> plainObject (get v ''platform'') \<and>
       get (get v ''platform'') ''os'' = Str (js ''linux'') \<and> get (get v ''platform'') ''architecture'' = Str (js ''x64'') \<and>
       is_arr (get v ''requirements'') \<and> is_arr (get v ''runtimes'') \<and> is_arr (get v ''resolutions'')) runtime_malformed) (\<lambda>_.
     bindR (foldR (add_requirement P) [] (the_arr (get v ''requirements''))) (\<lambda>requirements.
     bindR (foldR (add_resolution P) [] (the_arr (get v ''resolutions''))) (\<lambda>resolutions.
     bindR (foldR (add_runtime P requirements resolutions) [] (the_arr (get v ''runtimes''))) (\<lambda>selected.
       Inr \<lparr>ru_revision = sha256 P bytes, ru_selected = selected, ru_resolutions = resolutions\<rparr>))))))"

definition jreFor :: "platform \<Rightarrow> runtime \<Rightarrow> jsval \<Rightarrow> jsval result" where
  "jreFor P runtime java =
     (let key = javaKey P java in
      bindR (require (has (ru_selected runtime) key) (tc_failure ''runtime_java_unavailable'')) (\<lambda>_.
      bindR (canonicalJsonBytes P (case map_of (ru_resolutions runtime) key of None \<Rightarrow> Undefined | Some r \<Rightarrow> r)) (\<lambda>bytes.
      Inr (Obj [(js ''id'', Str (the_str (get java ''component'') @ js ''-'' @ number_to_string P (of_int (the_int (get java ''major''))))),
        (js ''sha256'', Str (sha256 P bytes)), (js ''component'', get java ''component''), (js ''major'', get java ''major''),
        (js ''runtimeCatalogRevision'', Str (ru_revision runtime))]))))"

section \<open>Validation of a catalog\<close>

text \<open>
  \<open>sortArtifacts\<close> compares coordinates and roles. Where they are not all strings the order,
  or the error of the comparison, is that of the implementation; \<open>loose\<close> stands for it, and it
  does not matter: such artifacts are refused right after.
\<close>

definition artifact_order :: "jsval \<Rightarrow> jsstr \<times> jsstr" where
  "artifact_order a = (the_str (get a ''coordinate''), the_str (get a ''role''))"

definition sortArtifacts :: "(jsval list \<Rightarrow> jsval list result) \<Rightarrow> jsval list \<Rightarrow> jsval list result" where
  "sortArtifacts loose artifacts =
     (if list_all (\<lambda>a. is_str (get a ''coordinate'') \<and> is_str (get a ''role'')) artifacts
      then Inr (sort_key artifact_order artifacts) else loose artifacts)"

definition validateArtifact :: "platform \<Rightarrow> jsstr list \<Rightarrow> unit \<Rightarrow> jsval \<Rightarrow> unit result" where
  "validateArtifact P hosts u a =
     bindR (require (plainObject a \<and> sameKeys a [''coordinate'', ''role'', ''sha256'', ''sizeBytes'', ''url''] \<and>
       get a ''role'' \<in> {Str (js ''primary''), Str (js ''dependency'')} \<and> validCoordinate (get a ''coordinate'') \<and>
       validSha256 (get a ''sha256'') \<and> validPositiveInteger (get a ''sizeBytes'') MAX_ARTIFACT_BYTES)
       (tc_failure ''artifact_malformed'')) (\<lambda>_.
       assertTrustedUrl P (get a ''url'') hosts ''artifact_url_rejected'')"

definition server_path :: "jsstr \<Rightarrow> bool" where
  "server_path path = (let prefix_text = js ''/v1/objects/''; digest = take 40 (drop (length prefix_text) path) in
     path = prefix_text @ digest @ js ''/server.jar'' \<and> length digest = 40 \<and> list_all is_hex_lower digest)"

definition validateMinecraftServerUrl :: "platform \<Rightarrow> jsval \<Rightarrow> unit result" where
  "validateMinecraftServerUrl P v =
     bindR (js_String P v) (\<lambda>text.
     bindR (of_option (TypeError ''Invalid URL'') (parse_url P text)) (\<lambda>u.
       require (hostname u = js ''piston-data.mojang.com'' \<and> server_path (pathname u)) (tc_failure ''artifact_url_rejected'')))"

definition lock_toolchain_ok :: "platform \<Rightarrow> jsval \<Rightarrow> bool result" where
  "lock_toolchain_ok P v =
     (if plainObject v \<and> sameKeys v [''artifacts'', ''java'', ''jre'', ''launchTemplate'', ''loader'', ''minecraftVersion''] \<and>
        validMinecraftVersion (get v ''minecraftVersion'')
      then bindR (validLoader P (get v ''loader'')) (\<lambda>loader_ok.
        if loader_ok \<and> validJavaRequirement (get v ''java'') \<and> validJre (get v ''jre'')
        then bindR (js_String P (get (get v ''loader'') ''kind'')) (\<lambda>kind.
          Inr (strict_eq (get v ''launchTemplate'') (case map_of loaderTemplates kind of None \<Rightarrow> Undefined | Some t \<Rightarrow> Str t) \<and>
            is_arr (get v ''artifacts'') \<and> 2 \<le> length (the_arr (get v ''artifacts'')) \<and>
            length (the_arr (get v ''artifacts'')) \<le> 256))
        else Inr False)
      else Inr False)"

text \<open>The JRE of a toolchain is the one the runtime catalog prescribes, compared as canonical text.\<close>

definition check_jre :: "platform \<Rightarrow> runtime \<Rightarrow> jsval \<Rightarrow> jsval \<Rightarrow> unit result" where
  "check_jre P runtime revision t =
     bindR (jreFor P runtime (get t ''java'')) (\<lambda>expectedJre.
     bindR (canonicalize (get t ''jre'')) (\<lambda>actual.
     bindR (canonicalize expectedJre) (\<lambda>expected.
       require (json_stringify P actual = json_stringify P expected \<and>
         strict_eq (get (get t ''jre'') ''runtimeCatalogRevision'') revision) (tc_failure ''runtime_java_mismatch''))))"

definition toolchain_candidate :: "jsval \<Rightarrow> jsval" where
  "toolchain_candidate t = Obj [(js ''minecraftVersion'', get t ''minecraftVersion''), (js ''loader'', get t ''loader''),
     (js ''java'', get t ''java'')]"

definition check_required :: "platform \<Rightarrow> jsval \<Rightarrow> jsval result" where
  "check_required P t =
     (let artifacts = the_arr (get t ''artifacts''); missing = tc_failure ''required_artifact_missing'' in
      case (filter (\<lambda>a. get a ''role'' = Str (js ''primary'')) artifacts,
            filter (\<lambda>a. get a ''coordinate'' = Str (server_coordinate t)) artifacts) of
        ([primary], [server]) \<Rightarrow>
          bindR (primaryCoordinate (toolchain_candidate t)) (\<lambda>coordinate.
          bindR (require (get primary ''coordinate'' = Str coordinate) missing) (\<lambda>_.
          bindR (primaryArtifactUrl P (toolchain_candidate t)) (\<lambda>url.
          bindR (require (get primary ''url'' = Str url) missing) (\<lambda>_. Inr server))))
      | _ \<Rightarrow> Inl missing)"

definition validateToolchain ::
    "platform \<Rightarrow> (jsval list \<Rightarrow> jsval list result) \<Rightarrow> jsval \<Rightarrow> runtime \<Rightarrow> jsstr list \<Rightarrow> jsval \<Rightarrow> jsstr list result" where
  "validateToolchain P loose catalog runtime tupleKeys t =
     bindR (lock_toolchain_ok P t) (\<lambda>ok.
     bindR (require ok (tc_failure ''toolchain_malformed'')) (\<lambda>_.
     bindR (candidateKey P t) (\<lambda>tuple.
     bindR (require (tuple \<notin> set tupleKeys) (tc_failure ''duplicate_toolchain'')) (\<lambda>_.
     bindR (check_jre P runtime (get catalog ''runtimeCatalogRevision'') t) (\<lambda>_.
     bindR (check_required P t) (\<lambda>server.
     let artifacts = the_arr (get t ''artifacts'') in
     bindR (sortArtifacts loose artifacts) (\<lambda>ordered.
     bindR (require (json_stringify P (Arr ordered) = json_stringify P (Arr artifacts)) (tc_failure ''toolchain_not_canonical'')) (\<lambda>_.
     bindR (foldR (validateArtifact P (map the_str (the_arr (get catalog ''approvedArtifactHosts'')))) () artifacts) (\<lambda>_.
     bindR (validateMinecraftServerUrl P (get server ''url'')) (\<lambda>_.
     bindR (require (\<not> (get (get t ''loader'') ''kind'' = Str (js ''neoforge'') \<and> length artifacts < 3))
       (tc_failure ''required_artifact_missing'')) (\<lambda>_.
     Inr (tupleKeys @ [tuple]))))))))))))"

definition parseCatalogDocument :: "jsval \<Rightarrow> jsval result" where
  "parseCatalogDocument v =
     bindR (require (plainObject v \<and>
       sameKeys v [''approvedArtifactHosts'', ''catalogRevision'', ''runtimeCatalogRevision'', ''schemaVersion'', ''toolchains''] \<and>
       get v ''schemaVersion'' = JInt 1 \<and> validSha256 (get v ''catalogRevision'') \<and> validSha256 (get v ''runtimeCatalogRevision'') \<and>
       is_arr (get v ''approvedArtifactHosts'') \<and> is_arr (get v ''toolchains'') \<and> 1 \<le> length (the_arr (get v ''toolchains'')))
       (tc_failure ''catalog_malformed'')) (\<lambda>_.
       canonicalize v)"

definition sameStringList :: "jsval \<Rightarrow> jsstr list \<Rightarrow> bool" where
  "sameStringList actual expected = (is_arr actual \<and> the_arr actual = map Str expected)"

definition check_coverage :: "platform \<Rightarrow> jsval list option \<Rightarrow> jsval list \<Rightarrow> unit result" where
  "check_coverage P expectedCandidates toolchains =
     (case expectedCandidates of None \<Rightarrow> Inr ()
      | Some candidates \<Rightarrow>
        bindR (mapR (candidateKey P) candidates) (\<lambda>expected.
        bindR (mapR (candidateKey P) toolchains) (\<lambda>actual.
          require (card (set expected) = card (set actual) \<and> set expected \<subseteq> set actual) (tc_failure ''catalog_coverage_mismatch''))))"

text \<open>\<open>rawLockText\<close> is given exactly when the canonical text is required.\<close>

definition validateToolchainCatalog ::
    "platform \<Rightarrow> (jsval list \<Rightarrow> jsval list result) \<Rightarrow> jsval \<Rightarrow> bytes option \<Rightarrow> jsval list option \<Rightarrow> jsstr option \<Rightarrow> jsval result" where
  "validateToolchainCatalog P loose document runtimeCatalogBytes expectedCandidates rawLockText =
     bindR (parseCatalogDocument document) (\<lambda>catalog.
     bindR (parseReviewedRuntimeCatalog P runtimeCatalogBytes) (\<lambda>runtime.
     bindR (catalogRevisionFor P catalog) (\<lambda>revision.
     bindR (require (get catalog ''runtimeCatalogRevision'' = Str (ru_revision runtime) \<and>
       get catalog ''catalogRevision'' = Str revision) (tc_failure ''catalog_revision_mismatch'')) (\<lambda>_.
     bindR (case rawLockText of None \<Rightarrow> Inr ()
       | Some text \<Rightarrow> bindR (formatCatalog P catalog) (\<lambda>formatted. require (text = formatted) (tc_failure ''catalog_not_canonical''))) (\<lambda>_.
     bindR (require (sameStringList (get catalog ''approvedArtifactHosts'') APPROVED_ARTIFACT_HOSTS) (tc_failure ''catalog_hosts_invalid'')) (\<lambda>_.
     bindR (foldR (validateToolchain P loose catalog runtime) [] (the_arr (get catalog ''toolchains''))) (\<lambda>_.
     bindR (check_coverage P expectedCandidates (the_arr (get catalog ''toolchains''))) (\<lambda>_.
       canonicalize catalog))))))))"

end
