(* ===== verification/Catalog_Fetcher.thy ===== *)
theory Catalog_Fetcher
  imports Toolchain_Catalog Artifact_Download
begin

text \<open>
  \<open>StrictCatalogFetcher\<close> of \<open>src/compiler/src/toolchain-catalog.mjs\<close>: requests to
  the approved hosts, bounded in size and retried at most twice. A computation that fetches
  extends the history of requested URLs; what the network answers is a function of that history.
  Shown: the retry loop ends after at most three requests, and what it returns is the body of the
  last answer.
\<close>

section \<open>Computations that fetch\<close>

type_synonym 'a fetching = "jsstr list \<Rightarrow> 'a result \<times> jsstr list"

definition fetch_bind :: "'a fetching \<Rightarrow> ('a \<Rightarrow> 'b fetching) \<Rightarrow> 'b fetching" where
  "fetch_bind f g h = (case f h of (Inl e, h') \<Rightarrow> (Inl e, h') | (Inr x, h') \<Rightarrow> g x h')"

definition pure :: "'a result \<Rightarrow> 'a fetching" where
  "pure r h = (r, h)"

fun fetch_fold :: "('s \<Rightarrow> 'x \<Rightarrow> 's fetching) \<Rightarrow> 's \<Rightarrow> 'x list \<Rightarrow> 's fetching" where
  "fetch_fold f s [] = pure (Inr s)"
| "fetch_fold f s (x # xs) = fetch_bind (f s x) (\<lambda>s'. fetch_fold f s' xs)"

lemma fetch_bind_Inr: "fetch_bind f g h = (Inr y, h') \<longleftrightarrow> (\<exists>x h1. f h = (Inr x, h1) \<and> g x h1 = (Inr y, h'))"
  by (auto simp: fetch_bind_def split: prod.splits sum.splits)

lemma pure_Inr [simp]: "pure r h = (Inr y, h') \<longleftrightarrow> r = Inr y \<and> h' = h"
  by (auto simp: pure_def)

section \<open>Responses\<close>

fun catalog_chunks :: "nat \<Rightarrow> nat \<Rightarrow> bytes list \<Rightarrow> chunk list \<Rightarrow> (bytes list \<times> nat) result" where
  "catalog_chunks maxBytes tot chunks [] = Inr (chunks, tot)"
| "catalog_chunks maxBytes tot chunks (Not_bytes # _) = Inl (tc_failure ''upstream_fetch_failed'')"
| "catalog_chunks maxBytes tot chunks (Read_error # _) = Inl network_error"
| "catalog_chunks maxBytes tot chunks (Chunk bs # rest) =
     (if tot + length bs > maxBytes then Inl (tc_failure ''upstream_size_mismatch'')
      else catalog_chunks maxBytes (tot + length bs) (chunks @ [bs]) rest)"

definition catalog_body :: "response \<Rightarrow> nat \<Rightarrow> bytes result" where
  "catalog_body r maxBytes =
     (case rs_body r of
        Stream reads \<Rightarrow> bindR (catalog_chunks maxBytes 0 [] reads) (\<lambda>(chunks, tot). Inr (concatenate chunks tot))
      | Buffer None \<Rightarrow> Inl network_error
      | Buffer (Some bytes) \<Rightarrow> bindR (require (length bytes \<le> maxBytes) (tc_failure ''upstream_size_mismatch'')) (\<lambda>_. Inr bytes))"

definition catalog_response :: "platform \<Rightarrow> jsstr \<Rightarrow> nat \<Rightarrow> bool \<Rightarrow> response \<Rightarrow> bytes result" where
  "catalog_response P url maxBytes requireContentLength r =
     (let mismatch = tc_failure ''upstream_size_mismatch''; len = rs_headers r ''content-length''; encoded = encoded_response P r in
      bindR (require (rs_status r = 200 \<and> \<not> rs_redirected r) (tc_failure ''upstream_fetch_failed'')) (\<lambda>_.
      bindR (if rs_url r = [] then Inr () else
        bindR (url_href P (Str (rs_url r))) (\<lambda>actual.
        bindR (url_href P (Str url)) (\<lambda>expected. require (actual = expected) (tc_failure ''upstream_redirect_rejected'')))) (\<lambda>_.
      bindR (require (\<not> (requireContentLength \<and> encoded)) mismatch) (\<lambda>_.
      bindR (require (case len of None \<Rightarrow> \<not> requireContentLength | Some text \<Rightarrow> declared_within maxBytes text) mismatch) (\<lambda>_.
      bindR (catalog_body r maxBytes) (\<lambda>bytes.
      bindR (require (encoded \<or> (case len of None \<Rightarrow> True | Some text \<Rightarrow> length bytes = digits_value 10 text)) mismatch) (\<lambda>_.
        Inr bytes)))))))"

section \<open>The fetcher\<close>

record catalog_fetcher =
  cf_fetch :: "jsstr list \<Rightarrow> response result \<times> bool"
  cf_maxMetadataBytes :: nat
  cf_maxArtifactBytes :: nat

definition StrictCatalogFetcher ::
    "(jsstr list \<Rightarrow> response result \<times> bool) option \<Rightarrow> jsval \<Rightarrow> jsval \<Rightarrow> jsval \<Rightarrow> catalog_fetcher result" where
  "StrictCatalogFetcher fetchImpl timeoutMs maxMetadataBytes maxArtifactBytes =
     (let ms = default_to timeoutMs (JInt 30000); metadata = default_to maxMetadataBytes (JInt MAX_METADATA_BYTES);
          artifact = default_to maxArtifactBytes (JInt MAX_ARTIFACT_BYTES);
          invalid = TypeError ''invalid catalog fetcher configuration'' in
      bindR (of_option invalid fetchImpl) (\<lambda>fetch.
      bindR (require (validPositiveInteger ms 120000 \<and> validPositiveInteger metadata MAX_METADATA_BYTES \<and>
        validPositiveInteger artifact MAX_ARTIFACT_BYTES) invalid) (\<lambda>_.
      Inr \<lparr>cf_fetch = fetch, cf_maxMetadataBytes = nat (the_int metadata), cf_maxArtifactBytes = nat (the_int artifact)\<rparr>)))"

text \<open>A request raced against its timer; an error that is not a failure of the catalog becomes one.\<close>

definition catalog_raced :: "response result \<times> bool \<Rightarrow> (response \<Rightarrow> bytes result) \<Rightarrow> bytes result" where
  "catalog_raced answer f =
     (if snd answer then Inl (tc_failure ''upstream_fetch_timeout'')
      else case bindR (fst answer) f of
          Inr x \<Rightarrow> Inr x
        | Inl (ToolchainCatalogFailure c) \<Rightarrow> Inl (ToolchainCatalogFailure c)
        | Inl _ \<Rightarrow> Inl (tc_failure ''upstream_fetch_failed''))"

definition downloadOnce :: "platform \<Rightarrow> catalog_fetcher \<Rightarrow> jsstr \<Rightarrow> jsstr list \<Rightarrow> nat \<Rightarrow> bool \<Rightarrow> bytes fetching" where
  "downloadOnce P f url hosts maxBytes requireContentLength h =
     (case assertTrustedUrl P (Str url) hosts ''upstream_url_rejected'' of
        Inl e \<Rightarrow> (Inl e, h)
      | Inr _ \<Rightarrow> (let h' = h @ [url] in
          (catalog_raced (cf_fetch f h') (catalog_response P url maxBytes requireContentLength), h')))"

definition retryable :: "js_error \<Rightarrow> bool" where
  "retryable e = (e \<in> {tc_failure ''upstream_fetch_failed'', tc_failure ''upstream_fetch_timeout''})"

text \<open>The loop over the attempts; the pause between two of them has no effect.\<close>

function catalog_download :: "platform \<Rightarrow> catalog_fetcher \<Rightarrow> jsstr \<Rightarrow> jsstr list \<Rightarrow> nat \<Rightarrow> bool \<Rightarrow> nat \<Rightarrow> bytes fetching" where
  "catalog_download P f url hosts maxBytes requireContentLength attempt h =
     (if attempt < 3 then
        (case downloadOnce P f url hosts maxBytes requireContentLength h of
           (Inr bytes, h') \<Rightarrow> (Inr bytes, h')
         | (Inl e, h') \<Rightarrow>
             if \<not> retryable e \<or> attempt = 2 then (Inl e, h')
             else catalog_download P f url hosts maxBytes requireContentLength (Suc attempt) h')
      else (Inl (tc_failure ''upstream_fetch_failed''), h))"
  by pat_completeness auto
termination
  by (relation "measure (\<lambda>(P, f, url, hosts, maxBytes, requireContentLength, attempt, h). 3 - attempt)") auto

declare catalog_download.simps [simp del]

definition fetch_metadata :: "platform \<Rightarrow> catalog_fetcher \<Rightarrow> jsstr \<Rightarrow> bytes fetching" where
  "fetch_metadata P f url = catalog_download P f url APPROVED_METADATA_HOSTS (cf_maxMetadataBytes f) False 0"

definition fetch_artifact :: "platform \<Rightarrow> catalog_fetcher \<Rightarrow> jsstr \<Rightarrow> bytes fetching" where
  "fetch_artifact P f url = catalog_download P f url APPROVED_ARTIFACT_HOSTS (cf_maxArtifactBytes f) True 0"

definition fetch_checksum :: "platform \<Rightarrow> catalog_fetcher \<Rightarrow> jsstr \<Rightarrow> bytes fetching" where
  "fetch_checksum P f url = catalog_download P f url APPROVED_ARTIFACT_HOSTS (cf_maxMetadataBytes f) False 0"

section \<open>What a download returns\<close>

definition catalog_answer :: "platform \<Rightarrow> catalog_fetcher \<Rightarrow> jsstr \<Rightarrow> nat \<Rightarrow> bool \<Rightarrow> jsstr list \<Rightarrow> bytes result" where
  "catalog_answer P f url maxBytes requireContentLength h =
     catalog_raced (cf_fetch f h) (catalog_response P url maxBytes requireContentLength)"

lemma downloadOnce_trusted:
  assumes "assertTrustedUrl P (Str url) hosts ''upstream_url_rejected'' = Inr ()"
  shows "downloadOnce P f url hosts m c h = (catalog_answer P f url m c (h @ [url]), h @ [url])"
  using assms by (simp add: downloadOnce_def catalog_answer_def Let_def)

text \<open>The attempts end with the first answer that is no retryable failure, or with the third.\<close>

lemma download_attempts:
  assumes "assertTrustedUrl P (Str url) hosts ''upstream_url_rejected'' = Inr ()" and "attempt < 3"
  shows "\<exists>n. 1 \<le> n \<and> attempt + n \<le> 3 \<and>
    catalog_download P f url hosts m c attempt h = (catalog_answer P f url m c (h @ replicate n url), h @ replicate n url) \<and>
    (\<forall>i. 0 < i \<and> i < n \<longrightarrow> (\<exists>e. catalog_answer P f url m c (h @ replicate i url) = Inl e \<and> retryable e)) \<and>
    (attempt + n < 3 \<longrightarrow> \<not> (\<exists>e. catalog_answer P f url m c (h @ replicate n url) = Inl e \<and> retryable e))"
  using assms(2)
proof (induction "3 - attempt" arbitrary: attempt h)
  case (Suc k)
  let ?a = "\<lambda>n. catalog_answer P f url m c (h @ replicate n url)"
  have step: "catalog_download P f url hosts m c attempt h = (case ?a 1 of Inr bytes \<Rightarrow> (Inr bytes, h @ [url])
      | Inl e \<Rightarrow> if \<not> retryable e \<or> attempt = 2 then (Inl e, h @ [url])
          else catalog_download P f url hosts m c (Suc attempt) (h @ [url]))"
    using Suc.prems by (subst catalog_download.simps) (simp add: downloadOnce_trusted [OF assms(1)] split: sum.split)
  show ?case
  proof (cases "\<exists>e. ?a 1 = Inl e \<and> retryable e \<and> attempt \<noteq> 2")
    case False
    then have "catalog_download P f url hosts m c attempt h = (?a 1, h @ replicate 1 url)"
      using step by (auto split: sum.splits)
    with False Suc.prems show ?thesis by (intro exI [of _ 1]) auto
  next
    case True
    then obtain e where e: "?a 1 = Inl e" "retryable e" "attempt \<noteq> 2" by blast
    have "k = 3 - Suc attempt" "Suc attempt < 3" using Suc.hyps(2) Suc.prems e(3) by simp_all
    from Suc.hyps(1) [OF this, of "h @ [url]"] obtain n where
      n: "1 \<le> n" "Suc attempt + n \<le> 3"
        "catalog_download P f url hosts m c (Suc attempt) (h @ [url]) =
          (catalog_answer P f url m c ((h @ [url]) @ replicate n url), (h @ [url]) @ replicate n url)"
        "\<And>i. 0 < i \<Longrightarrow> i < n \<Longrightarrow> \<exists>e. catalog_answer P f url m c ((h @ [url]) @ replicate i url) = Inl e \<and> retryable e"
        "Suc attempt + n < 3 \<longrightarrow> \<not> (\<exists>e. catalog_answer P f url m c ((h @ [url]) @ replicate n url) = Inl e \<and> retryable e)"
      by blast
    have r: "(h @ [url]) @ replicate i url = h @ replicate (Suc i) url" for i by (simp add: replicate_append_same [symmetric])
    have "\<exists>e. ?a i = Inl e \<and> retryable e" if "0 < i" "i < Suc n" for i
    proof (cases "i = 1")
      case False
      with that obtain j where "i = Suc j" "0 < j" "j < n" by (cases i) auto
      with n(4) [of j] show ?thesis unfolding r by simp
    qed (use e in simp)
    with n step e show ?thesis by (intro exI [of _ "Suc n"]) (auto simp: r)
  qed
qed simp

lemma untrusted_download:
  "assertTrustedUrl P (Str url) hosts ''upstream_url_rejected'' = Inl e \<Longrightarrow>
    catalog_download P f url hosts m c 0 h = (Inl (tc_failure ''upstream_url_rejected''), h)"
  by (subst catalog_download.simps)
    (auto simp: downloadOnce_def assertTrustedUrl_def result_simps retryable_def of_option_def split: option.splits)

lemma catalog_chunks_ok:
  assumes "catalog_chunks m tot chunks reads = Inr (cs, n)" and "tot = length (concat chunks)" and "tot \<le> m"
  shows "n = length (concat cs) \<and> n \<le> m"
  using assms
proof (induction reads arbitrary: tot chunks)
  case (Cons c reads)
  show ?case
  proof (cases c)
    case (Chunk bs)
    with Cons.prems have "catalog_chunks m (tot + length bs) (chunks @ [bs]) reads = Inr (cs, n)" "tot + length bs \<le> m"
      by (simp_all split: if_splits)
    from Cons.IH [OF this(1) _ this(2)] Cons.prems(2) show ?thesis by simp
  qed (use Cons.prems in simp_all)
qed auto

lemma catalog_body_bound: "catalog_body r m = Inr bytes \<Longrightarrow> length bytes \<le> m"
  using catalog_chunks_ok [of m 0 "[]"]
  by (fastforce simp: catalog_body_def result_simps concatenate_concat split: body.splits option.splits)

lemma catalog_answer_ok:
  assumes "catalog_answer P f url m c h = Inr bytes"
  obtains r where "cf_fetch f h = (Inr r, False)" "rs_status r = 200" "\<not> rs_redirected r" "catalog_body r m = Inr bytes"
    "length bytes \<le> m"
proof -
  from assms obtain r where "cf_fetch f h = (Inr r, False)" "catalog_response P url m c r = Inr bytes"
    by (cases "cf_fetch f h") (auto simp: catalog_answer_def catalog_raced_def result_simps
        split: if_splits sum.splits js_error.splits)
  moreover from this(2) have "rs_status r = 200" "\<not> rs_redirected r" "catalog_body r m = Inr bytes"
    by (auto simp: catalog_response_def result_simps Let_def)
  ultimately show ?thesis using that catalog_body_bound by blast
qed

text \<open>
  A download that succeeds: the URL is trusted, and the bytes are the body of the answer to the
  last request, which was for this URL.
\<close>

lemma catalog_download_ok:
  assumes "catalog_download P f url hosts m c 0 h = (Inr bytes, h')"
  shows "assertTrustedUrl P (Str url) hosts ''upstream_url_rejected'' = Inr ()"
    and "\<exists>n. 1 \<le> n \<and> n \<le> 3 \<and> h' = h @ replicate n url \<and> catalog_answer P f url m c h' = Inr bytes"
proof -
  show t: "assertTrustedUrl P (Str url) hosts ''upstream_url_rejected'' = Inr ()"
    using assms untrusted_download by (cases "assertTrustedUrl P (Str url) hosts ''upstream_url_rejected''") fastforce+
  from download_attempts [OF t, of 0 f m c h] assms
  show "\<exists>n. 1 \<le> n \<and> n \<le> 3 \<and> h' = h @ replicate n url \<and> catalog_answer P f url m c h' = Inr bytes" by auto
qed

section \<open>Properties\<close>

text \<open>
  C38. A download ends, whatever the network answers: it makes at most three requests, all for the
  given URL, and none if the URL is not trusted. Its result is that of the last request; every
  request before it failed or timed out, and a download that ends earlier than the third request
  did not fail this way.
\<close>

theorem catalog_download_ends:
  "\<exists>n \<le> 3. snd (catalog_download P f url hosts m c 0 h) = h @ replicate n url \<and>
    (n = 0 \<longleftrightarrow> assertTrustedUrl P (Str url) hosts ''upstream_url_rejected'' \<noteq> Inr ()) \<and>
    (n = 0 \<longrightarrow> fst (catalog_download P f url hosts m c 0 h) = Inl (ToolchainCatalogFailure ''upstream_url_rejected'')) \<and>
    (0 < n \<longrightarrow> fst (catalog_download P f url hosts m c 0 h) = catalog_answer P f url m c (h @ replicate n url)) \<and>
    (\<forall>i. 0 < i \<and> i < n \<longrightarrow> catalog_answer P f url m c (h @ replicate i url) \<in>
      {Inl (ToolchainCatalogFailure ''upstream_fetch_failed''), Inl (ToolchainCatalogFailure ''upstream_fetch_timeout'')}) \<and>
    (0 < n \<and> n < 3 \<longrightarrow> catalog_answer P f url m c (h @ replicate n url) \<notin>
      {Inl (ToolchainCatalogFailure ''upstream_fetch_failed''), Inl (ToolchainCatalogFailure ''upstream_fetch_timeout'')})"
proof (cases "assertTrustedUrl P (Str url) hosts ''upstream_url_rejected''")
  case (Inl e)
  with untrusted_download [OF Inl] show ?thesis by (intro exI [of _ 0]) simp
next
  case (Inr u)
  then have t: "assertTrustedUrl P (Str url) hosts ''upstream_url_rejected'' = Inr ()" by simp
  from download_attempts [OF t, of 0 f m c h] obtain n where n: "1 \<le> n" "n \<le> 3"
    "catalog_download P f url hosts m c 0 h = (catalog_answer P f url m c (h @ replicate n url), h @ replicate n url)"
    "\<forall>i. 0 < i \<and> i < n \<longrightarrow> (\<exists>e. catalog_answer P f url m c (h @ replicate i url) = Inl e \<and> retryable e)"
    "n < 3 \<longrightarrow> \<not> (\<exists>e. catalog_answer P f url m c (h @ replicate n url) = Inl e \<and> retryable e)" by auto
  then show ?thesis using t by (intro exI [of _ n]) (fastforce simp: retryable_def)
qed

end
