(* ===== verification/Toolchain_Generator.thy ===== *)
theory Toolchain_Generator
  imports Catalog_Fetcher Zip_Reader
begin

text \<open>
  The generator of the toolchain catalog (\<open>generateToolchainCatalog\<close> of
  \<open>src/compiler/src/toolchain-catalog.mjs\<close>): the Minecraft and loader metadata, the Maven
  documents, the entries of an installer archive, and the artifacts whose size and digest the
  catalog records.
\<close>

section \<open>Minecraft metadata\<close>

definition verifySha1 :: "platform \<Rightarrow> bytes \<Rightarrow> jsval \<Rightarrow> string \<Rightarrow> unit result" where
  "verifySha1 P bytes expected code =
     require (validSha1 expected \<and> sha1 P bytes = ascii_lower (the_str expected)) (tc_failure code)"

definition verifyMinecraftJava :: "jsval \<Rightarrow> jsval \<Rightarrow> unit result" where
  "verifyMinecraftJava metadata candidate =
     (let java = get metadata ''javaVersion''; wanted = get candidate ''java''; mismatch = tc_failure ''minecraft_java_mismatch'' in
      if java = Undefined then
        require (get wanted ''component'' = Str (js ''jre-legacy'') \<and> get wanted ''major'' = JInt 8) mismatch
      else require (plainObject java \<and> strict_eq (get java ''component'') (get wanted ''component'') \<and>
        strict_eq (get java ''majorVersion'') (get wanted ''major'')) mismatch)"

definition metadata_malformed :: js_error where
  "metadata_malformed = tc_failure ''minecraft_metadata_malformed''"

text \<open>The metadata of one candidate's version, unless it is loaded already.\<close>

definition load_version ::
    "platform \<Rightarrow> catalog_fetcher \<Rightarrow> jsval \<Rightarrow> (jsstr, jsval) jsmap \<Rightarrow> jsval \<Rightarrow> (jsstr, jsval) jsmap fetching" where
  "load_version P f manifest selected candidate =
     (let version = the_str (get candidate ''minecraftVersion'') in
      if has selected version then pure (Inr selected)
      else case filter (\<lambda>entry. strict_eq (get entry ''id'') (get candidate ''minecraftVersion'')) (the_arr (get manifest ''versions'')) of
          [m] \<Rightarrow>
            fetch_bind (pure (require (plainObject m \<and> validSha1 (get m ''sha1'') \<and> is_str (get m ''url'')) metadata_malformed)) (\<lambda>_.
            fetch_bind (pure (assertTrustedUrl P (get m ''url'') [js ''piston-meta.mojang.com''] ''upstream_url_rejected'')) (\<lambda>_.
            fetch_bind (fetch_metadata P f (the_str (get m ''url''))) (\<lambda>bytes.
            fetch_bind (pure (verifySha1 P bytes (get m ''sha1'') ''upstream_checksum_mismatch'')) (\<lambda>_.
            fetch_bind (pure (parseJson P bytes ''minecraft_metadata_malformed'')) (\<lambda>metadata.
            fetch_bind (pure (verifyMinecraftJava metadata candidate)) (\<lambda>_.
              pure (Inr (selected @ [(version, metadata)]))))))))
        | _ \<Rightarrow> pure (Inl metadata_malformed))"

definition loadMinecraftMetadata :: "platform \<Rightarrow> catalog_fetcher \<Rightarrow> jsval list \<Rightarrow> (jsstr, jsval) jsmap fetching" where
  "loadMinecraftMetadata P f candidates =
     fetch_bind (fetch_metadata P f (js ''https://piston-meta.mojang.com/mc/game/version_manifest_v2.json'')) (\<lambda>bytes.
     fetch_bind (pure (parseJson P bytes ''minecraft_metadata_malformed'')) (\<lambda>manifest.
     fetch_bind (pure (require (is_arr (get manifest ''versions'')) metadata_malformed)) (\<lambda>_.
       fetch_fold (load_version P f manifest) [] candidates)))"

section \<open>Loader metadata\<close>

definition loader_malformed :: js_error where
  "loader_malformed = tc_failure ''loader_metadata_malformed''"

definition fabric_metadata_ok :: "jsval \<Rightarrow> jsval \<Rightarrow> bool" where
  "fabric_metadata_ok candidate v =
     (let version = get (get candidate ''loader'') ''version''; loader = get v ''loader'' in
      plainObject loader \<and> strict_eq (get loader ''version'') version \<and>
      get loader ''maven'' = Str (js ''net.fabricmc:fabric-loader:'' @ the_str version) \<and> plainObject (get v ''intermediary'') \<and>
      get (get v ''intermediary'') ''version'' \<in> {get candidate ''minecraftVersion'', Str (js ''0.0.0'')})"

definition loader_metadata_url :: "string \<Rightarrow> jsval \<Rightarrow> jsstr" where
  "loader_metadata_url base candidate = js base @ the_str (get candidate ''minecraftVersion'') @ js ''/'' @
     the_str (get (get candidate ''loader'') ''version'')"

definition loadFabricMetadata :: "platform \<Rightarrow> catalog_fetcher \<Rightarrow> jsval \<Rightarrow> jsval fetching" where
  "loadFabricMetadata P f candidate =
     fetch_bind (fetch_metadata P f (loader_metadata_url ''https://meta.fabricmc.net/v2/versions/loader/'' candidate)) (\<lambda>bytes.
     fetch_bind (pure (parseJson P bytes ''loader_metadata_malformed'')) (\<lambda>v.
     fetch_bind (pure (require (fabric_metadata_ok candidate v) loader_malformed)) (\<lambda>_. pure (Inr v))))"

definition quilt_metadata_ok :: "jsval \<Rightarrow> jsval \<Rightarrow> bool" where
  "quilt_metadata_ok candidate v =
     (let version = get (get candidate ''loader'') ''version''; loader = get v ''loader''; inter = get v ''intermediary'' in
      plainObject loader \<and> strict_eq (get loader ''version'') version \<and>
      get loader ''maven'' = Str (js ''org.quiltmc:quilt-loader:'' @ the_str version) \<and>
      validPositiveInteger (get loader ''file_size'') MAX_ARTIFACT_BYTES \<and> plainObject (get loader ''hashes'') \<and>
      validSha1 (get (get loader ''hashes'') ''sha1'') \<and>
      (inter = Undefined \<or> plainObject inter \<and> strict_eq (get inter ''version'') (get candidate ''minecraftVersion'')))"

definition loadQuiltMetadata :: "platform \<Rightarrow> catalog_fetcher \<Rightarrow> jsval \<Rightarrow> jsval fetching" where
  "loadQuiltMetadata P f candidate =
     fetch_bind (fetch_metadata P f (loader_metadata_url ''https://meta.quiltmc.org/v3/versions/loader/'' candidate)) (\<lambda>bytes.
     fetch_bind (pure (parseJson P bytes ''loader_metadata_malformed'')) (\<lambda>v.
     fetch_bind (pure (require (quilt_metadata_ok candidate v) loader_malformed)) (\<lambda>_. pure (Inr v))))"

section \<open>Maven documents\<close>

text \<open>The text before and after the first occurrence of a pattern.\<close>

fun split_at :: "jsstr \<Rightarrow> jsstr \<Rightarrow> (jsstr \<times> jsstr) option" where
  "split_at p s = (if prefix p s then Some ([], drop (length p) s)
     else case s of [] \<Rightarrow> None | u # us \<Rightarrow> map_option (apfst ((#) u)) (split_at p us))"

declare split_at.simps [simp del]

lemma split_at_append: "split_at p s = Some (a, b) \<Longrightarrow> s = a @ p @ b"
proof (induction s arbitrary: a)
  case Nil
  then show ?case by (auto simp: split_at.simps [of p "[]"] split: if_splits)
next
  case (Cons u us)
  then show ?case
    by (subst (asm) split_at.simps) (auto simp: prefix_def split: if_splits)
qed

definition open_tag :: "string \<Rightarrow> jsstr" where
  "open_tag name = js ''<'' @ js name @ js ''>''"

definition close_tag :: "string \<Rightarrow> jsstr" where
  "close_tag name = js ''</'' @ js name @ js ''>''"

lemma tags_length [simp]: "length (open_tag name) = length name + 2" "length (close_tag name) = length name + 3"
  by (simp_all add: open_tag_def close_tag_def)

text \<open>The matches of \<open>/<name>([\s\S]*?)<\/name>/g\<close>, left to right.\<close>

function tag_contents :: "string \<Rightarrow> jsstr \<Rightarrow> jsstr list" where
  "tag_contents name s = (case split_at (open_tag name) s of None \<Rightarrow> []
     | Some (_, rest) \<Rightarrow> (case split_at (close_tag name) rest of None \<Rightarrow> []
         | Some (content, rest') \<Rightarrow> content # tag_contents name rest'))"
  by pat_completeness auto
termination
  by (relation "measure (length \<circ> snd)") (auto dest!: split_at_append)

declare tag_contents.simps [simp del]

definition singleTag :: "jsstr \<Rightarrow> string \<Rightarrow> jsstr option" where
  "singleTag s name = (case tag_contents name s of [content] \<Rightarrow> Some content | _ \<Rightarrow> None)"

definition textTag :: "jsstr \<Rightarrow> string \<Rightarrow> jsstr option" where
  "textTag s name = (case singleTag s name of None \<Rightarrow> None
     | Some text \<Rightarrow> if text \<noteq> [] \<and> list_all (\<lambda>u. is_alnum u \<or> one_of ''_.-'' u) text then Some text else None)"

text \<open>\<open>/&(?:#\d+|#x[a-f0-9]+|[a-z]+);/i\<close> at the head of a text, and anywhere in it.\<close>

definition entity_body :: "(code_unit \<Rightarrow> bool) \<Rightarrow> jsstr \<Rightarrow> bool" where
  "entity_body ok s = (takeWhile ok s \<noteq> [] \<and> prefix (js '';'') (dropWhile ok s))"

fun entity_at :: "jsstr \<Rightarrow> bool" where
  "entity_at (u # us) = (u = 38 \<and> (entity_body (\<lambda>u. is_lower u \<or> is_upper u) us \<or>
     (case us of v # vs \<Rightarrow> v = 35 \<and> (entity_body is_digit vs \<or>
       (case vs of x # xs \<Rightarrow> (x = 120 \<or> x = 88) \<and> entity_body is_hex xs | [] \<Rightarrow> False)) | [] \<Rightarrow> False)))"
| "entity_at [] = False"

definition forbidden_markup :: "jsstr \<Rightarrow> bool" where
  "forbidden_markup xml = (split_at (js ''<!'') xml \<noteq> None \<or> list_ex entity_at (suffixes xml))"

text \<open>Parsing steps of the XML declaration: a literal, some white space, a quote.\<close>

definition skip :: "string \<Rightarrow> jsstr \<Rightarrow> jsstr option" where
  "skip text s = (if prefix (js text) s then Some (drop (length text) s) else None)"

definition skip_space :: "jsstr \<Rightarrow> jsstr option" where
  "skip_space s = (if s \<noteq> [] \<and> is_space (hd s) then Some (dropWhile is_space s) else None)"

definition skip_quote :: "jsstr \<Rightarrow> jsstr option" where
  "skip_quote s = (if s \<noteq> [] \<and> (hd s = 34 \<or> hd s = 39) then Some (tl s) else None)"

definition skip_encoding :: "jsstr \<Rightarrow> jsstr option" where
  "skip_encoding s = Option.bind (skip_space s) (\<lambda>s. Option.bind (skip ''encoding='' s) (\<lambda>s. Option.bind (skip_quote s) (\<lambda>s.
     let name_char = (\<lambda>u. is_alnum u \<or> one_of ''._-'' u) in
     if takeWhile name_char s = [] then None else skip_quote (dropWhile name_char s))))"

definition xml_declaration :: "jsstr \<Rightarrow> jsstr option" where
  "xml_declaration s =
     Option.bind (skip ''<?xml'' (dropWhile is_space s)) (\<lambda>s. Option.bind (skip_space s) (\<lambda>s.
     Option.bind (skip ''version='' s) (\<lambda>s. Option.bind (skip_quote s) (\<lambda>s. Option.bind (skip ''1.0'' s) (\<lambda>s.
     Option.bind (skip_quote s) (\<lambda>s.
     let s = (case skip_encoding s of None \<Rightarrow> s | Some t \<Rightarrow> t) in
     map_option (dropWhile is_space) (skip ''?>'' (dropWhile is_space s))))))))"

text \<open>\<open>/^<metadata>([\s\S]*)<\/metadata>\s*$/\<close>\<close>

definition metadata_element :: "jsstr \<Rightarrow> jsstr option" where
  "metadata_element xml =
     (let s = rev (dropWhile is_space (rev xml)); a = open_tag ''metadata''; b = close_tag ''metadata'' in
      if prefix a s \<and> suffix b s \<and> length a + length b \<le> length s
      then Some (take (length s - length a - length b) (drop (length a) s)) else None)"

text \<open>The versions of a list, and the text between them.\<close>

definition version_char :: "code_unit \<Rightarrow> bool" where
  "version_char u = (is_alnum u \<or> one_of ''._+-'' u)"

definition version_at :: "jsstr \<Rightarrow> (jsstr \<times> jsstr) option" where
  "version_at s = (if prefix (open_tag ''version'') s
     then (let rest = drop (length (open_tag ''version'')) s; v = takeWhile version_char rest; after = dropWhile version_char rest in
       if v \<noteq> [] \<and> prefix (close_tag ''version'') after then Some (v, drop (length (close_tag ''version'')) after) else None)
     else None)"

lemma version_at_shorter: "version_at s = Some (v, rest) \<Longrightarrow> length rest < length s"
  using length_dropWhile_le [of version_char "drop (length (open_tag ''version'')) s"]
  by (auto simp: version_at_def Let_def split: if_splits dest: prefix_length_le)

function scan_versions :: "jsstr \<Rightarrow> jsstr list \<times> jsstr" where
  "scan_versions s = (case version_at s of
     Some (v, rest) \<Rightarrow> (let (vs, between) = scan_versions rest in (v # vs, between))
   | None \<Rightarrow> (case s of [] \<Rightarrow> ([], []) | u # us \<Rightarrow> (let (vs, between) = scan_versions us in (vs, u # between))))"
  by pat_completeness auto
termination
  by (relation "measure length") (auto dest: version_at_shorter)

declare scan_versions.simps [simp del]

definition parseMavenMetadata :: "bytes \<Rightarrow> string \<Rightarrow> string \<Rightarrow> jsstr list result" where
  "parseMavenMetadata bytes expectedGroupId expectedArtifactId =
     (let malformed = tc_failure ''maven_metadata_malformed'' in
      bindR (of_option malformed (decode bytes)) (\<lambda>xml.
      bindR (require (\<not> forbidden_markup xml) malformed) (\<lambda>_.
      bindR (of_option malformed (metadata_element (case xml_declaration xml of None \<Rightarrow> xml | Some rest \<Rightarrow> rest))) (\<lambda>inner.
      bindR (require (textTag inner ''groupId'' = Some (js expectedGroupId) \<and>
        textTag inner ''artifactId'' = Some (js expectedArtifactId)) malformed) (\<lambda>_.
      bindR (of_option malformed (singleTag inner ''versioning'')) (\<lambda>versioning.
      bindR (require (versioning \<noteq> []) malformed) (\<lambda>_.
      bindR (of_option malformed (singleTag versioning ''versions'')) (\<lambda>lst.
      bindR (require (lst \<noteq> []) malformed) (\<lambda>_.
      let (vs, between) = scan_versions lst in
      bindR (require (vs \<noteq> [] \<and> list_all is_space between) malformed) (\<lambda>_. Inr vs))))))))))"

definition verifyMavenArtifactVersion :: "platform \<Rightarrow> catalog_fetcher \<Rightarrow> jsval \<Rightarrow> unit fetching" where
  "verifyMavenArtifactVersion P f candidate =
     (let forge = (get (get candidate ''loader'') ''kind'' = Str (js ''forge''));
          version = the_str (get (get candidate ''loader'') ''version'');
          expectedVersion = (if forge then the_str (get candidate ''minecraftVersion'') @ js ''-'' @ version else version);
          url = (if forge then js ''https://maven.minecraftforge.net/net/minecraftforge/forge/maven-metadata.xml''
            else js ''https://maven.neoforged.net/releases/net/neoforged/neoforge/maven-metadata.xml'') in
      fetch_bind (fetch_metadata P f url) (\<lambda>xml.
      fetch_bind (pure (if forge then parseMavenMetadata xml ''net.minecraftforge'' ''forge''
        else parseMavenMetadata xml ''net.neoforged'' ''neoforge'')) (\<lambda>versions.
        pure (require (expectedVersion \<in> set versions) (tc_failure ''loader_version_unavailable'')))))"

text \<open>\<open>/^([a-f0-9]{40})(?:\s+\*?[^\s]+)?$/i\<close>\<close>

definition sidecar_digest :: "jsstr \<Rightarrow> jsstr option" where
  "sidecar_digest text =
     (let digest = take 40 text; rest = drop 40 text; name = dropWhile is_space rest in
      if length digest = 40 \<and> list_all is_hex digest \<and>
        (rest = [] \<or> is_space (hd rest) \<and> name \<noteq> [] \<and> \<not> list_ex is_space name)
      then Some (ascii_lower digest) else None)"

definition fetchMavenSha1 :: "platform \<Rightarrow> catalog_fetcher \<Rightarrow> jsstr \<Rightarrow> jsstr fetching" where
  "fetchMavenSha1 P f artifactUrl =
     fetch_bind (fetch_checksum P f (artifactUrl @ js ''.sha1'')) (\<lambda>sidecar.
       pure (of_option (tc_failure ''upstream_checksum_missing'') (Option.bind (decode sidecar) (\<lambda>text. sidecar_digest (trim text)))))"

section \<open>Artifacts\<close>

text \<open>The catalog entry of an artifact and its bytes.\<close>

definition artifact_entry :: "platform \<Rightarrow> string \<Rightarrow> jsstr \<Rightarrow> jsstr \<Rightarrow> bytes \<Rightarrow> jsval" where
  "artifact_entry P role coordinate url bytes = Obj [(js ''role'', Str (js role)), (js ''coordinate'', Str coordinate),
     (js ''url'', Str url), (js ''sizeBytes'', JInt (int (length bytes))), (js ''sha256'', Str (sha256 P bytes))]"

definition downloadArtifact ::
    "platform \<Rightarrow> catalog_fetcher \<Rightarrow> string \<Rightarrow> jsstr \<Rightarrow> jsstr \<Rightarrow> jsval \<Rightarrow> jsval \<Rightarrow> (jsval \<times> bytes) fetching" where
  "downloadArtifact P f role coordinate url expectedSha1 expectedSize =
     fetch_bind (pure (require (validSha1 expectedSha1) (tc_failure ''upstream_checksum_missing''))) (\<lambda>_.
     fetch_bind (fetch_artifact P f url) (\<lambda>bytes.
     fetch_bind (pure (require (expectedSize = Undefined \<or> strict_eq (JInt (int (length bytes))) expectedSize)
       (tc_failure ''upstream_size_mismatch''))) (\<lambda>_.
     fetch_bind (pure (verifySha1 P bytes expectedSha1 ''upstream_checksum_mismatch'')) (\<lambda>_.
       pure (Inr (artifact_entry P role coordinate url bytes, bytes))))))"

definition resolvePrimaryArtifact :: "platform \<Rightarrow> catalog_fetcher \<Rightarrow> jsval \<Rightarrow> (jsval \<times> bytes) fetching" where
  "resolvePrimaryArtifact P f candidate =
     (let kind = get (get candidate ''loader'') ''kind'' in
      fetch_bind (pure (primaryArtifactUrl P candidate)) (\<lambda>url.
      fetch_bind (pure (primaryCoordinate candidate)) (\<lambda>coordinate.
      if kind = Str (js ''fabric'') then
        fetch_bind (loadFabricMetadata P f candidate) (\<lambda>metadata.
        fetch_bind (fetchMavenSha1 P f url) (\<lambda>digest.
        fetch_bind (pure (require (strict_eq (get (get metadata ''loader'') ''version'') (get (get candidate ''loader'') ''version''))
          loader_malformed)) (\<lambda>_.
          downloadArtifact P f ''primary'' coordinate url (Str digest) Undefined)))
      else if kind = Str (js ''quilt'') then
        fetch_bind (loadQuiltMetadata P f candidate) (\<lambda>metadata.
          downloadArtifact P f ''primary'' coordinate url (get (get (get metadata ''loader'') ''hashes'') ''sha1'')
            (get (get metadata ''loader'') ''file_size''))
      else
        fetch_bind (verifyMavenArtifactVersion P f candidate) (\<lambda>_.
        fetch_bind (fetchMavenSha1 P f url) (\<lambda>digest.
          downloadArtifact P f ''primary'' coordinate url (Str digest) Undefined)))))"

definition download_ok :: "jsval \<Rightarrow> bool" where
  "download_ok v = (plainObject v \<and> is_str (get v ''url'') \<and> validSha1 (get v ''sha1'') \<and>
     validPositiveInteger (get v ''size'') MAX_ARTIFACT_BYTES)"

definition resolveMinecraftServer :: "platform \<Rightarrow> catalog_fetcher \<Rightarrow> jsval \<Rightarrow> jsval \<Rightarrow> (jsval \<times> bytes) fetching" where
  "resolveMinecraftServer P f metadata candidate =
     (let server = get (get metadata ''downloads'') ''server'' in
      fetch_bind (pure (require (download_ok server) metadata_malformed)) (\<lambda>_.
      fetch_bind (pure (assertTrustedUrl P (get server ''url'') [js ''piston-data.mojang.com''] ''upstream_url_rejected'')) (\<lambda>_.
        downloadArtifact P f ''dependency'' (server_coordinate candidate) (the_str (get server ''url'')) (get server ''sha1'')
          (get server ''size''))))"

section \<open>The entries of an installer\<close>

text \<open>Reads outside the bytes are \<open>undefined\<close>, which the bitwise operators take for 0.\<close>

definition byte_at :: "bytes \<Rightarrow> nat \<Rightarrow> nat" where
  "byte_at bs i = (if i < length bs then unat (bs ! i) else 0)"

definition loose_u16 :: "bytes \<Rightarrow> nat \<Rightarrow> nat" where
  "loose_u16 bs i = byte_at bs i + 256 * byte_at bs (i + 1)"

definition loose_u32 :: "bytes \<Rightarrow> nat \<Rightarrow> nat" where
  "loose_u32 bs i = loose_u16 bs i + 65536 * loose_u16 bs (i + 2)"

text \<open>The content behind a central header; \<open>None\<close> ends the scan of this directory.\<close>

definition entry_content :: "platform \<Rightarrow> bytes \<Rightarrow> nat \<Rightarrow> bytes option result" where
  "entry_content P bs central =
     (let entry_local = loose_u32 bs (central + 42); meth = loose_u16 bs (central + 10);
          start = entry_local + 30 + loose_u16 bs (entry_local + 26) + loose_u16 bs (entry_local + 28);
          compressed = subarray bs start (start + loose_u32 bs (central + 20)) in
      if loose_u32 bs entry_local \<noteq> 0x04034b50 then Inr None
      else bindR (if meth = 0 then Inr (Some compressed)
          else if meth = 8 then bindR (of_option (PlainError ''invalid deflate data'') (inflateRaw P compressed)) (\<lambda>x. Inr (Some x))
          else Inr None) (\<lambda>answer.
        Inr (case answer of None \<Rightarrow> None | Some content \<Rightarrow> if length content \<noteq> loose_u32 bs (central + 24) then None else Some content)))"

fun scan_directory :: "platform \<Rightarrow> bytes \<Rightarrow> jsstr \<Rightarrow> nat \<Rightarrow> nat \<Rightarrow> bytes option result" where
  "scan_directory P bs expectedPath 0 central = Inr None"
| "scan_directory P bs expectedPath (Suc entries) central =
     (if loose_u32 bs central \<noteq> 0x02014b50 then Inr None
      else (let nameLength = loose_u16 bs (central + 28) in
        bindR (of_option decoding_error (decode (subarray bs (central + 46) (central + 46 + nameLength)))) (\<lambda>name.
        if name = expectedPath then entry_content P bs central
        else scan_directory P bs expectedPath entries
          (central + 46 + nameLength + loose_u16 bs (central + 30) + loose_u16 bs (central + 32)))))"

fun scan_archive :: "platform \<Rightarrow> bytes \<Rightarrow> jsstr \<Rightarrow> nat \<Rightarrow> nat \<Rightarrow> bytes result" where
  "scan_archive P bs expectedPath least offset =
     bindR (if loose_u32 bs offset \<noteq> 0x06054b50 then Inr None
       else scan_directory P bs expectedPath (loose_u16 bs (offset + 10)) (loose_u32 bs (offset + 16))) (\<lambda>found.
     case found of Some content \<Rightarrow> Inr content
     | None \<Rightarrow> if offset \<le> least then Inl loader_malformed else scan_archive P bs expectedPath least (offset - 1))"

declare scan_archive.simps [simp del]

definition readZipEntry :: "platform \<Rightarrow> bytes \<Rightarrow> jsstr \<Rightarrow> bytes result" where
  "readZipEntry P bs expectedPath =
     (if length bs < 22 then Inl loader_malformed
      else scan_archive P bs expectedPath (length bs - 65557) (length bs - 22))"

section \<open>Dependencies of NeoForge\<close>

text \<open>\<open>value.replace(/@(jar|zip|txt)$/, "")\<close>\<close>

definition strip_extension :: "jsstr \<Rightarrow> jsstr" where
  "strip_extension s = (if suffix (js ''@jar'') s \<or> suffix (js ''@zip'') s \<or> suffix (js ''@txt'') s then take (length s - 4) s else s)"

definition normalizeMavenCoordinate :: "jsval \<Rightarrow> jsstr option" where
  "normalizeMavenCoordinate v = (if \<not> is_str v then None
     else (let coordinate = strip_extension (the_str v) in if validCoordinate (Str coordinate) then Some coordinate else None))"

definition add_library ::
    "platform \<Rightarrow> catalog_fetcher \<Rightarrow> jsstr list \<times> jsval list \<Rightarrow> jsval \<Rightarrow> (jsstr list \<times> jsval list) fetching" where
  "add_library P f = (\<lambda>(ks, artifacts) library.
     (let download = get (get library ''downloads'') ''artifact'' in
      fetch_bind (pure (of_option loader_malformed (normalizeMavenCoordinate (get library ''name'')))) (\<lambda>coordinate.
      fetch_bind (pure (require (download_ok download) loader_malformed)) (\<lambda>_.
      let url = the_str (get download ''url''); key = coordinate @ [0] @ url in
      if key \<in> set ks then pure (Inr (ks, artifacts))
      else fetch_bind (downloadArtifact P f ''dependency'' coordinate url (get download ''sha1'') (get download ''size'')) (\<lambda>(entry, _).
        pure (Inr (ks @ [key], artifacts @ [entry])))))))"

text \<open>\<open>value?.slice(1, -1)\<close>: of a string, of nothing, and of other values.\<close>

fun inner_text :: "jsval \<Rightarrow> jsval result" where
  "inner_text (Str s) = Inr (Str (take (length s - 2) (drop 1 s)))"
| "inner_text (Arr vs) = Inr (Arr (take (length vs - 2) (drop 1 vs)))"
| "inner_text v = (if nullish v then Inr Undefined else Inl (TypeError ''slice is not a function''))"

definition version_path :: "jsval \<Rightarrow> jsstr" where
  "version_path v = (case v of Str s \<Rightarrow> (if prefix (js ''/'') s then tl s else s) | _ \<Rightarrow> [])"

definition resolveNeoForgeDependencies ::
    "platform \<Rightarrow> catalog_fetcher \<Rightarrow> bytes \<Rightarrow> jsval \<Rightarrow> jsval \<Rightarrow> jsval list fetching" where
  "resolveNeoForgeDependencies P f installerBytes metadata candidate =
     fetch_bind (pure (bindR (readZipEntry P installerBytes (js ''install_profile.json'')) (\<lambda>b. parseJson P b ''loader_metadata_malformed''))) (\<lambda>profile.
     fetch_bind (pure (bindR (readZipEntry P installerBytes (version_path (get profile ''json''))) (\<lambda>b. parseJson P b ''loader_metadata_malformed''))) (\<lambda>version.
     fetch_bind (pure (require (strict_eq (get profile ''minecraft'') (get candidate ''minecraftVersion'') \<and> is_arr (get profile ''libraries'') \<and>
       get version ''id'' = Str (js ''neoforge-'' @ the_str (get (get candidate ''loader'') ''version'')) \<and> is_arr (get version ''libraries''))
       loader_malformed)) (\<lambda>_.
     fetch_bind (fetch_fold (add_library P f) ([], []) (the_arr (get profile ''libraries'') @ the_arr (get version ''libraries''))) (\<lambda>(_, artifacts).
     let mappings = get (get metadata ''downloads'') ''server_mappings'' in
     fetch_bind (pure (inner_text (get (get (get profile ''data'') ''MOJMAPS'') ''server''))) (\<lambda>text.
     fetch_bind (pure (of_option metadata_malformed (normalizeMavenCoordinate text))) (\<lambda>coordinate.
     fetch_bind (pure (require (download_ok mappings) metadata_malformed)) (\<lambda>_.
     fetch_bind (downloadArtifact P f ''dependency'' coordinate (the_str (get mappings ''url'')) (get mappings ''sha1'') (get mappings ''size'')) (\<lambda>(entry, _).
       pure (Inr (artifacts @ [entry]))))))))))"

section \<open>The catalog\<close>

definition toolchain_order :: "jsval \<Rightarrow> jsstr \<times> jsstr \<times> jsstr \<times> jsstr \<times> int" where
  "toolchain_order t = (the_str (get t ''minecraftVersion''), the_str (get (get t ''loader'') ''kind''),
     the_str (get (get t ''loader'') ''version''), the_str (get (get t ''java'') ''component''), the_int (get (get t ''java'') ''major''))"

definition toolchain_entry :: "jsval \<Rightarrow> jsval \<Rightarrow> jsval list \<Rightarrow> jsval" where
  "toolchain_entry candidate jre artifacts = Obj [(js ''minecraftVersion'', get candidate ''minecraftVersion''),
     (js ''loader'', get candidate ''loader''), (js ''java'', get candidate ''java''), (js ''jre'', jre), (js ''artifacts'', Arr artifacts),
     (js ''launchTemplate'', (case map_of loaderTemplates (the_str (get (get candidate ''loader'') ''kind'')) of
        None \<Rightarrow> Undefined | Some t \<Rightarrow> Str t))]"

definition resolve_candidate ::
    "platform \<Rightarrow> (jsval list \<Rightarrow> jsval list result) \<Rightarrow> catalog_fetcher \<Rightarrow> runtime \<Rightarrow> (jsstr, jsval) jsmap \<Rightarrow> jsval list \<Rightarrow> jsval \<Rightarrow>
      jsval list fetching" where
  "resolve_candidate P loose f runtime minecraft toolchains candidate =
     (let metadata = (case map_of minecraft (the_str (get candidate ''minecraftVersion'')) of None \<Rightarrow> Undefined | Some m \<Rightarrow> m) in
      fetch_bind (pure (jreFor P runtime (get candidate ''java''))) (\<lambda>jre.
      fetch_bind (resolvePrimaryArtifact P f candidate) (\<lambda>(primary, installerBytes).
      fetch_bind (resolveMinecraftServer P f metadata candidate) (\<lambda>(server, _).
      fetch_bind (if get (get candidate ''loader'') ''kind'' = Str (js ''neoforge'')
        then resolveNeoForgeDependencies P f installerBytes metadata candidate else pure (Inr [])) (\<lambda>dependencies.
      fetch_bind (pure (sortArtifacts loose ([primary, server] @ dependencies))) (\<lambda>artifacts.
        pure (Inr (toolchains @ [toolchain_entry candidate jre artifacts]))))))))"

definition lock_document :: "jsstr \<Rightarrow> jsstr \<Rightarrow> jsval list \<Rightarrow> jsval" where
  "lock_document catalogRevision runtimeCatalogRevision toolchains = Obj [(js ''schemaVersion'', JInt 1),
     (js ''catalogRevision'', Str catalogRevision), (js ''runtimeCatalogRevision'', Str runtimeCatalogRevision),
     (js ''approvedArtifactHosts'', Arr (map Str APPROVED_ARTIFACT_HOSTS)), (js ''toolchains'', Arr toolchains)]"

definition finish_lock ::
    "platform \<Rightarrow> (jsval list \<Rightarrow> jsval list result) \<Rightarrow> bytes option \<Rightarrow> runtime \<Rightarrow> jsval list \<Rightarrow> jsval list \<Rightarrow> jsval result" where
  "finish_lock P loose runtimeCatalogBytes runtime candidates toolchains =
     (let sorted_toolchains = sort_key toolchain_order toolchains in
      bindR (catalogRevisionFor P (lock_document ZERO_SHA256 (ru_revision runtime) sorted_toolchains)) (\<lambda>revision.
      let lock = lock_document revision (ru_revision runtime) sorted_toolchains in
      bindR (validateToolchainCatalog P loose lock runtimeCatalogBytes (Some candidates) None) (\<lambda>_. canonicalize lock)))"

definition generateToolchainCatalog ::
    "platform \<Rightarrow> (jsval list \<Rightarrow> jsval list result) \<Rightarrow> bytes option \<Rightarrow> (jsstr list \<Rightarrow> response result \<times> bool) option \<Rightarrow> jsval \<Rightarrow> jsval \<Rightarrow>
      jsval fetching" where
  "generateToolchainCatalog P loose runtimeCatalogBytes fetchImpl candidates timeoutMs =
     fetch_bind (pure (parseReviewedRuntimeCatalog P runtimeCatalogBytes)) (\<lambda>runtime.
     fetch_bind (pure (validateCandidates P candidates)) (\<lambda>_.
     fetch_bind (pure (StrictCatalogFetcher fetchImpl timeoutMs Undefined Undefined)) (\<lambda>f.
     fetch_bind (loadMinecraftMetadata P f (the_arr candidates)) (\<lambda>minecraft.
     fetch_bind (fetch_fold (resolve_candidate P loose f runtime minecraft) [] (the_arr candidates)) (\<lambda>toolchains.
       pure (finish_lock P loose runtimeCatalogBytes runtime (the_arr candidates) toolchains))))))"

end
