(* ===== verification/Toolchain_Properties.thy ===== *)
theory Toolchain_Properties
  imports Toolchain_Generator Builder_Properties
begin

text \<open>
  What a generated and validated toolchain catalog guarantees: every artifact of it was downloaded
  as recorded, it validates again in its canonical text, and when the worker accepts it.
\<close>

section \<open>Reading canonical documents\<close>

lemma own_order_map_of: "distinct (map fst ps) \<Longrightarrow> map_of (own_order ps) k = map_of ps k"
proof -
  assume d: "distinct (map fst ps)"
  then have "distinct (map fst (own_order ps))" by (metis mset_own_order mset_map mset_eq_imp_distinct_iff)
  moreover have "set (own_order ps) = set ps" by (metis mset_own_order mset_eq_setD)
  ultimately show ?thesis using d by (metis map_of_eqI map_of_eq_None_iff map_of_is_SomeI map_of_SomeD not_Some_eq)
qed

lemma sort_map_of: "distinct (map fst ps) \<Longrightarrow> map_of (sort_key fst ps) k = map_of ps k"
proof -
  assume d: "distinct (map fst ps)"
  then have "distinct (map fst (sort_key fst ps))" by (metis mset_sort mset_map mset_eq_imp_distinct_iff)
  with d show ?thesis by (metis map_of_eq_None_iff map_of_is_SomeI map_of_SomeD not_Some_eq set_sort)
qed

lemma rel_map_of:
  assumes "list_all2 (\<lambda>p q. fst q = fst p \<and> R (snd p) (snd q)) ps qs"
  shows "rel_option R (map_of ps k) (map_of qs k)"
  using assms by (induction ps qs rule: list_all2_induct) auto

lemma canonical_map_of:
  assumes "canonicalize (Obj ps) = Inr w" and "distinct (map fst ps)"
  obtains qs where "w = Obj qs" "distinct (map fst qs)" "mset (map fst qs) = mset (map fst ps)" "own_order qs = qs"
    "\<And>k. rel_option (\<lambda>v x. canonicalize v = Inr x) (map_of ps k) (map_of qs k)"
proof -
  from assms(1) obtain qs where qs: "w = Obj (own_order qs)"
    "list_all2 (\<lambda>p q. fst q = fst p \<and> canonicalize (snd p) = Inr (snd q)) (sort_key fst ps) qs"
    by (rule canonicalize_object)
  from qs(2) have k: "map fst qs = map fst (sort_key fst ps)" by (auto simp: list_all2_conv_all_nth intro!: nth_equalityI)
  have d: "distinct (map fst qs)" using assms(2) unfolding k by (metis mset_sort mset_map mset_eq_imp_distinct_iff)
  show ?thesis
  proof (rule that [OF qs(1)])
    show "distinct (map fst (own_order qs))" using d by (metis mset_own_order mset_map mset_eq_imp_distinct_iff)
    show "mset (map fst (own_order qs)) = mset (map fst ps)" using k by (metis mset_map mset_own_order mset_sort)
    show "own_order (own_order qs) = own_order qs"
      by (simp add: own_order_def filter_sort sort_key_id_if_sorted o_def)
    show "rel_option (\<lambda>v x. canonicalize v = Inr x) (map_of ps k) (map_of (own_order qs) k)" for k
      using rel_map_of [OF qs(2), of k] assms(2) d by (simp add: own_order_map_of sort_map_of)
  qed
qed

text \<open>A property of a canonical document is the canonical form of that property.\<close>

lemma canonical_get:
  assumes "canonicalize v = Inr w" and "distinct_keys v"
  shows "(get v k = Undefined \<and> get w k = Undefined) \<or> (get v k \<noteq> Undefined \<and> canonicalize (get v k) = Inr (get w k))"
proof (cases v)
  case (Obj ps)
  from assms Obj obtain qs where qs: "w = Obj qs" "rel_option (\<lambda>v x. canonicalize v = Inr x) (map_of ps (js k)) (map_of qs (js k))"
    using canonical_map_of [of ps w thesis] by auto
  have u: "canonicalize Undefined \<noteq> Inr x" for x by simp
  show ?thesis
    using qs(2) u by (cases "map_of ps (js k)"; cases "map_of qs (js k)") (auto simp: Obj qs(1))
qed (use assms(1) in \<open>auto simp: result_simps\<close>)

lemma canonical_atom:
  "canonicalize v = Inr w \<Longrightarrow> is_str v \<Longrightarrow> w = v" "canonicalize v = Inr w \<Longrightarrow> isSafeInteger v \<Longrightarrow> w = v"
  "is_str v \<Longrightarrow> canonicalize v = Inr v" "isSafeInteger v \<Longrightarrow> canonicalize v = Inr v"
  by (cases v; simp)+

lemma canonical_get_atom:
  assumes "canonicalize v = Inr w" and "distinct_keys v" and "is_str (get v k) \<or> isSafeInteger (get v k)"
  shows "get w k = get v k"
  using canonical_get [OF assms(1,2), of k] assms(3) canonical_atom by fastforce

lemma canonical_kinds:
  assumes "canonicalize v = Inr w"
  shows "is_arr w = is_arr v" "plainObject w = plainObject v" "is_str w = is_str v" "isSafeInteger w = isSafeInteger v"
    "is_arr v \<Longrightarrow> length (the_arr w) = length (the_arr v)"
  using assms by (cases v; auto simp: result_simps mapR_length)+

lemma canonical_sameKeys:
  assumes "canonicalize v = Inr w" and "distinct_keys v"
  shows "sameKeys w ks = sameKeys v ks"
proof (cases v)
  case (Obj ps)
  with assms obtain qs where "w = Obj qs" "mset (map fst qs) = mset (map fst ps)"
    using canonical_map_of [of ps w thesis] by auto
  then have "sort (map fst qs) = sort (map fst ps)" by (metis properties_for_sort sorted_sort mset_sort)
  with \<open>w = Obj qs\<close> Obj show ?thesis by (simp add: sameKeys_def)
qed (use assms(1) in \<open>auto simp: result_simps sameKeys_def\<close>)

section \<open>A generated catalog validates again\<close>

lemma parseCatalogDocument_canonical:
  assumes "parseCatalogDocument v = Inr c" and "distinct_keys v"
  shows "parseCatalogDocument c = Inr c" "canonicalize v = Inr c" "distinct_keys c"
proof -
  from assms(1) show c: "canonicalize v = Inr c" by (auto simp: parseCatalogDocument_def result_simps)
  then show "distinct_keys c" using assms(2) canonicalize_same by blast
  have r: "plainObject v" "sameKeys v [''approvedArtifactHosts'', ''catalogRevision'', ''runtimeCatalogRevision'', ''schemaVersion'', ''toolchains'']"
    "get v ''schemaVersion'' = JInt 1" "validSha256 (get v ''catalogRevision'')" "validSha256 (get v ''runtimeCatalogRevision'')"
    "is_arr (get v ''approvedArtifactHosts'')" "is_arr (get v ''toolchains'')" "1 \<le> length (the_arr (get v ''toolchains''))"
    using assms(1) by (auto simp: parseCatalogDocument_def result_simps)
  note g = canonical_get [OF c assms(2)] and atom = canonical_get_atom [OF c assms(2)]
  have "get c ''schemaVersion'' = JInt 1" using atom [of "''schemaVersion''"] r(3) by (simp add: max_safe_integer_def)
  moreover have "get c ''catalogRevision'' = get v ''catalogRevision''" "get c ''runtimeCatalogRevision'' = get v ''runtimeCatalogRevision''"
    using atom r(4,5) by (simp_all add: validSha256_def)
  moreover have a: "canonicalize (get v k) = Inr (get c k)" if "is_arr (get v k)" for k
    using g [of k] that by auto
  note canonical_kinds(1,5) [OF a [OF r(6)]] canonical_kinds(1,5) [OF a [OF r(7)]]
  ultimately show "parseCatalogDocument c = Inr c"
    using r canonical_kinds(2) [OF c] canonical_sameKeys [OF c assms(2)] canonicalize_idempotent [OF c assms(2)]
    by (simp add: parseCatalogDocument_def)
qed

lemma validated_again:
  assumes "validateToolchainCatalog P loose document bytes candidates raw = Inr c" and "distinct_keys document"
  shows "validateToolchainCatalog P loose c bytes candidates (Some (json_pretty P c @ [10])) = Inr c \<and> canonicalize document = Inr c"
proof -
  from assms(1) obtain catalog where p: "parseCatalogDocument document = Inr catalog"
    by (auto simp: validateToolchainCatalog_def result_simps)
  note d = parseCatalogDocument_canonical [OF p assms(2)]
  have i: "canonicalize catalog = Inr catalog" using canonicalize_idempotent [OF d(2) assms(2)] .
  from assms(1) i have "c = catalog" by (auto simp: validateToolchainCatalog_def p result_simps)
  with assms(1) d i show ?thesis
    by (auto simp: validateToolchainCatalog_def p result_simps formatCatalog_def)
qed

section \<open>What the generator has fetched\<close>

text \<open>A computation extends the history, and its result satisfies a condition at the new one.\<close>

definition yields :: "jsstr list \<Rightarrow> 'a fetching \<Rightarrow> ('a \<Rightarrow> jsstr list \<Rightarrow> bool) \<Rightarrow> bool" where
  "yields h m Q = (\<forall>x h'. m h = (Inr x, h') \<longrightarrow> prefix h h' \<and> Q x h')"

lemma yields_bind:
  assumes "yields h m Q" and "\<And>x h1. prefix h h1 \<Longrightarrow> Q x h1 \<Longrightarrow> yields h1 (g x) R"
  shows "yields h (fetch_bind m g) R"
  using assms unfolding yields_def fetch_bind_Inr by (metis prefix_order.trans)

lemma yields_pure: "(\<And>x. r = Inr x \<Longrightarrow> Q x h) \<Longrightarrow> yields h (pure r) Q"
  by (simp add: yields_def)

lemma yields_weaken: "yields h m Q \<Longrightarrow> (\<And>x h1. prefix h h1 \<Longrightarrow> Q x h1 \<Longrightarrow> R x h1) \<Longrightarrow> yields h m R"
  by (auto simp: yields_def)

lemma yields_pure_bind: "(\<And>x. r = Inr x \<Longrightarrow> yields h (g x) R) \<Longrightarrow> yields h (fetch_bind (pure r) g) R"
  by (auto simp: yields_def fetch_bind_Inr)

lemma yields_fold:
  assumes "I s h" and "\<And>s x h1. x \<in> set xs \<Longrightarrow> prefix h h1 \<Longrightarrow> I s h1 \<Longrightarrow> yields h1 (f s x) I"
  shows "yields h (fetch_fold f s xs) I"
  using assms
proof (induction xs arbitrary: s h)
  case (Cons x xs)
  have "yields h (f s x) I" using Cons.prems by simp
  then show ?case
  proof (simp, elim yields_bind)
    fix s' h1 assume h1: "prefix h h1" "I s' h1"
    show "yields h1 (fetch_fold f s' xs) I"
    proof (rule Cons.IH [OF h1(2)])
      fix s2 y h2 assume "y \<in> set xs" "prefix h1 h2" "I s2 h2"
      with Cons.prems(2) [of y h2 s2] h1(1) show "yields h2 (f s2 y) I" by (auto intro: prefix_order.trans)
    qed
  qed
qed (auto intro: yields_pure)

text \<open>The entry of an artifact that was downloaded as recorded, with the answer to one of the requests.\<close>

definition recorded :: "platform \<Rightarrow> catalog_fetcher \<Rightarrow> jsstr list \<Rightarrow> jsval \<Rightarrow> bool" where
  "recorded P f h entry = (\<exists>role coordinate url bytes h1. entry = artifact_entry P role coordinate url bytes \<and>
     prefix (h1 @ [url]) h \<and> assertTrustedUrl P (Str url) APPROVED_ARTIFACT_HOSTS ''upstream_url_rejected'' = Inr () \<and>
     catalog_answer P f url (cf_maxArtifactBytes f) True (h1 @ [url]) = Inr bytes)"

lemma recorded_mono: "recorded P f h e \<Longrightarrow> prefix h h' \<Longrightarrow> recorded P f h' e"
  unfolding recorded_def using prefix_order.trans [of _ h h'] by blast

lemma yields_download: "yields h (catalog_download P f url hosts m c 0) (\<lambda>bytes h'.
    assertTrustedUrl P (Str url) hosts ''upstream_url_rejected'' = Inr () \<and>
    (\<exists>h1. h' = h1 @ [url] \<and> catalog_answer P f url m c h' = Inr bytes))"
  unfolding yields_def
proof (intro allI impI)
  fix bytes h' assume d: "catalog_download P f url hosts m c 0 h = (Inr bytes, h')"
  from catalog_download_ok(2) [OF d] obtain n where n: "1 \<le> n" "h' = h @ replicate n url" "catalog_answer P f url m c h' = Inr bytes"
    by blast
  then obtain k where "n = Suc k" by (cases n) auto
  with n(2) have "h' = (h @ replicate k url) @ [url]" by (simp add: replicate_append_same)
  then have "\<exists>h1. h' = h1 @ [url]" "prefix h h'" by blast (simp add: n(2))
  with n(3) catalog_download_ok(1) [OF d] show "prefix h h' \<and> assertTrustedUrl P (Str url) hosts ''upstream_url_rejected'' = Inr () \<and>
    (\<exists>h1. h' = h1 @ [url] \<and> catalog_answer P f url m c h' = Inr bytes)" by auto
qed

lemma yields_any: "yields h m Q \<Longrightarrow> yields h m (\<lambda>_ _. True)"
  by (auto simp: yields_def)

lemma yields_downloads: "yields h (fetch_metadata P f url) (\<lambda>_ _. True)" "yields h (fetch_checksum P f url) (\<lambda>_ _. True)"
  unfolding fetch_metadata_def fetch_checksum_def by (rule yields_any [OF yields_download])+

lemma yields_artifact: "yields h (downloadArtifact P f role coordinate url digest sz) (\<lambda>(entry, bytes) h'. recorded P f h' entry)"
  unfolding downloadArtifact_def fetch_artifact_def
proof (intro yields_pure_bind, rule yields_bind [OF yields_download], elim conjE exE, intro yields_pure_bind yields_pure, clarsimp)
  fix bytes h1
  assume "assertTrustedUrl P (Str url) APPROVED_ARTIFACT_HOSTS ''upstream_url_rejected'' = Inr ()"
    "catalog_answer P f url (cf_maxArtifactBytes f) True (h1 @ [url]) = Inr bytes"
  then show "recorded P f (h1 @ [url]) (artifact_entry P role coordinate url bytes)"
    unfolding recorded_def by blast
qed

lemmas yields_rules = yields_pure_bind yields_bind [OF yields_downloads(1)] yields_bind [OF yields_downloads(2)] yields_pure

lemma yields_loader:
  "yields h (loadFabricMetadata P f candidate) (\<lambda>_ _. True)" "yields h (loadQuiltMetadata P f candidate) (\<lambda>_ _. True)"
  "yields h (verifyMavenArtifactVersion P f candidate) (\<lambda>_ _. True)" "yields h (fetchMavenSha1 P f url) (\<lambda>_ _. True)"
  unfolding loadFabricMetadata_def loadQuiltMetadata_def verifyMavenArtifactVersion_def fetchMavenSha1_def Let_def
  by (intro yields_rules TrueI)+

lemma yields_primary: "yields h (resolvePrimaryArtifact P f candidate) (\<lambda>(entry, bytes) h'. recorded P f h' entry)"
  unfolding resolvePrimaryArtifact_def Let_def
  by (intro yields_pure_bind)
    (auto intro!: yields_artifact yields_pure_bind yields_bind [OF yields_loader(1)] yields_bind [OF yields_loader(2)]
      yields_bind [OF yields_loader(3)] yields_bind [OF yields_loader(4)] simp del: yields_def)

lemma yields_server: "yields h (resolveMinecraftServer P f metadata candidate) (\<lambda>(entry, bytes) h'. recorded P f h' entry)"
  unfolding resolveMinecraftServer_def Let_def by (intro yields_pure_bind yields_artifact)

lemma yields_libraries:
  "yields h (fetch_fold (add_library P f) ([], []) libraries) (\<lambda>(ks, artifacts) h'. list_all (recorded P f h') artifacts)"
proof (rule yields_fold)
  fix s :: "jsstr list \<times> jsval list" and library h1
  assume I: "(\<lambda>(ks, artifacts) h'. list_all (recorded P f h') artifacts) s h1"
  obtain ks artifacts where s: "s = (ks, artifacts)" by fastforce
  show "yields h1 (add_library P f s library) (\<lambda>(ks, artifacts) h'. list_all (recorded P f h') artifacts)"
    unfolding add_library_def s prod.case Let_def
  proof (intro yields_pure_bind, split if_split, intro conjI impI)
    fix coordinate
    show "yields h1 (pure (Inr (ks, artifacts))) (\<lambda>(ks, artifacts) h'. list_all (recorded P f h') artifacts)"
      using I by (auto simp: s intro!: yields_pure)
    show "yields h1 (fetch_bind (downloadArtifact P f ''dependency'' coordinate
        (the_str (get (get (get library ''downloads'') ''artifact'') ''url''))
        (get (get (get library ''downloads'') ''artifact'') ''sha1'') (get (get (get library ''downloads'') ''artifact'') ''size''))
      (\<lambda>(entry, _). pure (Inr (ks @ [coordinate @ [0] @ the_str (get (get (get library ''downloads'') ''artifact'') ''url'')],
        artifacts @ [entry])))) (\<lambda>(ks, artifacts) h'. list_all (recorded P f h') artifacts)"
      using I by (intro yields_bind [OF yields_artifact]) (auto simp: s list_all_iff intro!: yields_pure dest: recorded_mono)
  qed
qed simp

lemma yields_neoforge:
  "yields h (resolveNeoForgeDependencies P f bytes metadata candidate) (\<lambda>artifacts h'. list_all (recorded P f h') artifacts)"
  unfolding resolveNeoForgeDependencies_def
proof (intro yields_pure_bind, rule yields_bind [OF yields_libraries], clarsimp simp: Let_def, intro yields_pure_bind)
  fix h1 artifacts coordinate
  assume a: "list_all (recorded P f h1) artifacts"
  show "yields h1 (fetch_bind (downloadArtifact P f ''dependency'' coordinate
      (the_str (get (get (get metadata ''downloads'') ''server_mappings'') ''url''))
      (get (get (get metadata ''downloads'') ''server_mappings'') ''sha1'')
      (get (get (get metadata ''downloads'') ''server_mappings'') ''size''))
      (\<lambda>(entry, _). pure (Inr (artifacts @ [entry])))) (\<lambda>artifacts h'. list_all (recorded P f h') artifacts)"
    using a by (intro yields_bind [OF yields_artifact]) (auto simp: list_all_iff intro!: yields_pure dest: recorded_mono)
qed

text \<open>A toolchain of the catalog, as resolved for one of the candidates.\<close>

definition resolved :: "platform \<Rightarrow> catalog_fetcher \<Rightarrow> runtime \<Rightarrow> jsval list \<Rightarrow> jsstr list \<Rightarrow> jsval \<Rightarrow> bool" where
  "resolved P f runtime candidates h t = (\<exists>candidate jre artifacts. t = toolchain_entry candidate jre artifacts \<and>
     candidate \<in> set candidates \<and> jreFor P runtime (get candidate ''java'') = Inr jre \<and> list_all (recorded P f h) artifacts)"

lemma resolved_mono: "resolved P f runtime candidates h t \<Longrightarrow> prefix h h' \<Longrightarrow> resolved P f runtime candidates h' t"
  unfolding resolved_def by (metis (no_types, lifting) list.pred_mono_strong recorded_mono)

lemma recorded_sorted:
  assumes "list_all (recorded P f h) artifacts" and "sortArtifacts loose artifacts = Inr ordered"
  shows "list_all (recorded P f h) ordered"
proof -
  have "list_all (\<lambda>a. is_str (get a ''coordinate'') \<and> is_str (get a ''role'')) artifacts"
    using assms(1) by (auto simp: list_all_iff recorded_def artifact_entry_def)
  with assms show ?thesis by (auto simp: sortArtifacts_def list_all_iff)
qed

lemma yields_candidate:
  assumes "candidate \<in> set candidates" and "list_all (resolved P f runtime candidates h) toolchains"
  shows "yields h (resolve_candidate P loose f runtime minecraft toolchains candidate)
    (\<lambda>ts h'. list_all (resolved P f runtime candidates h') ts)"
  unfolding resolve_candidate_def Let_def
proof (rule yields_pure_bind, rule yields_bind [OF yields_primary], clarify, rule yields_bind [OF yields_server], clarify)
  fix jre h1 primary installer h2 server sb
  assume jre: "jreFor P runtime (get candidate ''java'') = Inr jre" and p1: "prefix h h1" and r1: "recorded P f h1 primary"
    and p2: "prefix h1 h2" and r2: "recorded P f h2 server"
  let ?metadata = "case map_of minecraft (the_str (get candidate ''minecraftVersion'')) of None \<Rightarrow> Undefined | Some m \<Rightarrow> m"
  have dep: "yields h2 (if get (get candidate ''loader'') ''kind'' = Str (js ''neoforge'')
      then resolveNeoForgeDependencies P f installer ?metadata candidate else pure (Inr []))
      (\<lambda>artifacts h'. list_all (recorded P f h') artifacts)"
    using yields_neoforge by (auto intro: yields_pure)
  show "yields h2 (fetch_bind (if get (get candidate ''loader'') ''kind'' = Str (js ''neoforge'')
      then resolveNeoForgeDependencies P f installer ?metadata candidate else pure (Inr []))
      (\<lambda>dependencies. fetch_bind (pure (sortArtifacts loose ([primary, server] @ dependencies)))
        (\<lambda>artifacts. pure (Inr (toolchains @ [toolchain_entry candidate jre artifacts])))))
    (\<lambda>ts h'. list_all (resolved P f runtime candidates h') ts)"
  proof (rule yields_bind [OF dep], rule yields_pure_bind, rule yields_pure, clarify)
    fix dependencies h3 artifacts
    assume p3: "prefix h2 h3" and r3: "list_all (recorded P f h3) dependencies"
      and sorted: "sortArtifacts loose ([primary, server] @ dependencies) = Inr artifacts"
    have "recorded P f h3 primary" "recorded P f h3 server"
      using recorded_mono [OF recorded_mono [OF r1 p2] p3] recorded_mono [OF r2 p3] .
    with r3 have "list_all (recorded P f h3) artifacts" using recorded_sorted [OF _ sorted] by simp
    with assms(1) jre have "resolved P f runtime candidates h3 (toolchain_entry candidate jre artifacts)"
      unfolding resolved_def by blast
    moreover have "prefix h h3" using p1 p2 p3 by (meson prefix_order.trans)
    with assms(2) have "list_all (resolved P f runtime candidates h3) toolchains"
      by (auto simp: list_all_iff dest: resolved_mono)
    ultimately show "list_all (resolved P f runtime candidates h3) (toolchains @ [toolchain_entry candidate jre artifacts])"
      by simp
  qed
qed

lemma yields_minecraft: "yields h (loadMinecraftMetadata P f candidates) (\<lambda>_ _. True)"
  unfolding loadMinecraftMetadata_def
proof (intro yields_rules yields_fold TrueI)
  fix s candidate h1 manifest
  show "yields h1 (load_version P f manifest s candidate) (\<lambda>_ _. True)"
    unfolding load_version_def Let_def by (auto split: list.split intro!: yields_rules)
qed

lemma generated:
  assumes "generateToolchainCatalog P loose bytes fetchImpl candidates timeoutMs h = (Inr lock, h')"
  obtains f runtime toolchains where "StrictCatalogFetcher fetchImpl timeoutMs Undefined Undefined = Inr f"
    "parseReviewedRuntimeCatalog P bytes = Inr runtime" "validateCandidates P candidates = Inr ()"
    "list_all (resolved P f runtime (the_arr candidates) h') toolchains"
    "finish_lock P loose bytes runtime (the_arr candidates) toolchains = Inr lock"
proof -
  from assms obtain runtime f minecraft h1 toolchains where
    g: "parseReviewedRuntimeCatalog P bytes = Inr runtime" "validateCandidates P candidates = Inr ()"
      "StrictCatalogFetcher fetchImpl timeoutMs Undefined Undefined = Inr f" "loadMinecraftMetadata P f (the_arr candidates) h = (Inr minecraft, h1)"
      "fetch_fold (resolve_candidate P loose f runtime minecraft) [] (the_arr candidates) h1 = (Inr toolchains, h')"
      "finish_lock P loose bytes runtime (the_arr candidates) toolchains = Inr lock"
    by (auto simp: generateToolchainCatalog_def fetch_bind_Inr)
  have "yields h1 (fetch_fold (resolve_candidate P loose f runtime minecraft) [] (the_arr candidates))
      (\<lambda>ts h'. list_all (resolved P f runtime (the_arr candidates) h') ts)"
    by (rule yields_fold) (simp_all add: yields_candidate)
  with g(5) have "list_all (resolved P f runtime (the_arr candidates) h') toolchains" by (simp add: yields_def)
  with g that show thesis by blast
qed

lemma distinct_keys_get: "distinct_keys v \<Longrightarrow> distinct_keys (get v k)"
  by (cases v) (auto simp: list_all_iff split: option.splits dest!: map_of_SomeD)

lemma distinct_keys_arr: "distinct_keys v \<Longrightarrow> x \<in> set (the_arr v) \<Longrightarrow> distinct_keys x"
  by (cases v) (auto simp: list_all_iff)

lemma resolved_distinct:
  assumes "resolved P f runtime candidates h t" and "list_all distinct_keys candidates"
  shows "distinct_keys t"
proof -
  from assms(1) obtain candidate jre artifacts where t: "t = toolchain_entry candidate jre artifacts" "candidate \<in> set candidates"
    "jreFor P runtime (get candidate ''java'') = Inr jre" "list_all (recorded P f h) artifacts"
    by (auto simp: resolved_def)
  have c: "distinct_keys candidate" using assms(2) t(2) by (simp add: list_all_iff)
  have "list_all distinct_keys artifacts"
    using t(4) by (auto simp: list_all_iff recorded_def artifact_entry_def)
  moreover have "distinct_keys jre"
    using t(3) distinct_keys_get [OF distinct_keys_get [OF c]] by (auto simp: jreFor_def Let_def result_simps)
  ultimately show ?thesis
    using distinct_keys_get [OF c] by (auto simp: t(1) toolchain_entry_def split: option.split)
qed

lemma finish_lock_ok:
  assumes "finish_lock P loose bytes runtime candidates toolchains = Inr lock" and "list_all distinct_keys toolchains"
  obtains revision where
    "canonicalize (lock_document revision (ru_revision runtime) (sort_key toolchain_order toolchains)) = Inr lock"
    "distinct_keys (lock_document revision (ru_revision runtime) (sort_key toolchain_order toolchains))"
    "validateToolchainCatalog P loose lock bytes (Some candidates) (Some (json_pretty P lock @ [10])) = Inr lock"
proof -
  from assms(1) obtain revision c where
    v: "validateToolchainCatalog P loose (lock_document revision (ru_revision runtime) (sort_key toolchain_order toolchains))
        bytes (Some candidates) None = Inr c"
      "canonicalize (lock_document revision (ru_revision runtime) (sort_key toolchain_order toolchains)) = Inr lock"
    by (auto simp: finish_lock_def Let_def result_simps)
  have d: "distinct_keys (lock_document revision (ru_revision runtime) (sort_key toolchain_order toolchains))"
    using assms(2) by (auto simp: lock_document_def list_all_iff)
  from validated_again [OF v(1) d] v(2) have "c = lock" by simp
  with validated_again [OF v(1) d] show thesis by (intro that [OF v(2) d]) simp
qed

section \<open>Properties of the generator\<close>

text \<open>
  C36. A generated catalog is stable: the document the generator returns, written in its canonical
  text, passes the validation that checks the text, the digests, the runtime catalog and the
  coverage of the candidates, and the validation returns the same document.
\<close>

theorem generated_catalog_valid:
  assumes "generateToolchainCatalog P loose bytes fetchImpl candidates timeoutMs h = (Inr lock, h')" and "distinct_keys candidates"
  shows "validateToolchainCatalog P loose lock bytes (Some (the_arr candidates)) (Some (json_pretty P lock @ [10])) = Inr lock"
  using assms(1)
proof (rule generated)
  fix f runtime toolchains
  assume t: "list_all (resolved P f runtime (the_arr candidates) h') toolchains"
    and l: "finish_lock P loose bytes runtime (the_arr candidates) toolchains = Inr lock"
  have "list_all distinct_keys (the_arr candidates)" using assms(2) distinct_keys_arr by (auto simp: list_all_iff)
  with t have "list_all distinct_keys toolchains" by (auto simp: list_all_iff intro: resolved_distinct)
  from finish_lock_ok [OF l this] show ?thesis by blast
qed

lemma canonical_array:
  assumes "canonicalize v = Inr w" and "distinct_keys v" and "get v k = Arr vs"
    and "x \<in> set (the_arr (get w k))"
  shows "\<exists>y \<in> set vs. canonicalize y = Inr x"
proof -
  from canonical_get [OF assms(1,2), of k] assms(3) have "canonicalize (Arr vs) = Inr (get w k)" by simp
  then obtain ws where "mapR canonicalize vs = Inr ws" "get w k = Arr ws" by (fastforce simp: result_simps)
  then have "list_all2 (\<lambda>v w. canonicalize v = Inr w) vs ws" "x \<in> set ws" using assms(4) by (simp_all add: mapR_Inr_iff)
  then show ?thesis by (induction rule: list_all2_induct) auto
qed

lemma recorded_canonical:
  assumes "recorded P f h e" and "canonicalize e = Inr a" and "cf_maxArtifactBytes f = 536870912"
  shows "\<exists>url u bytes r h1. get a ''url'' = Str url \<and> get a ''sizeBytes'' = JInt (int (length bytes)) \<and>
    get a ''sha256'' = Str (sha256 P bytes) \<and> parse_url P url = Some u \<and> trusted_url P APPROVED_ARTIFACT_HOSTS u \<and>
    prefix (h1 @ [url]) h \<and> cf_fetch f (h1 @ [url]) = (Inr r, False) \<and> rs_status r = 200 \<and> catalog_body r 536870912 = Inr bytes"
proof -
  from assms(1) obtain role coordinate url bytes h1 where
    e: "e = artifact_entry P role coordinate url bytes" "prefix (h1 @ [url]) h"
      "assertTrustedUrl P (Str url) APPROVED_ARTIFACT_HOSTS ''upstream_url_rejected'' = Inr ()"
      "catalog_answer P f url (cf_maxArtifactBytes f) True (h1 @ [url]) = Inr bytes"
    by (auto simp: recorded_def)
  from e(4) obtain r where r: "cf_fetch f (h1 @ [url]) = (Inr r, False)" "rs_status r = 200"
    "catalog_body r 536870912 = Inr bytes" "length bytes \<le> 536870912"
    unfolding assms(3) by (rule catalog_answer_ok)
  have "int (length bytes) \<le> max_safe_integer" using r(4) by (simp add: max_safe_integer_def)
  moreover have "distinct_keys e" by (simp add: e(1) artifact_entry_def)
  ultimately have "get a ''url'' = Str url" "get a ''sizeBytes'' = JInt (int (length bytes))" "get a ''sha256'' = Str (sha256 P bytes)"
    using canonical_get_atom [OF assms(2)] by (simp_all add: e(1) artifact_entry_def)
  moreover obtain u where "parse_url P url = Some u" "trusted_url P APPROVED_ARTIFACT_HOSTS u"
    using e(3) by (auto simp: assertTrustedUrl_def result_simps of_option_def split: option.splits)
  ultimately show ?thesis using e(2) r by blast
qed

text \<open>
  C35. Every artifact of a generated catalog was downloaded as recorded: one of the requests the
  generator made was for exactly its URL, which lies on an approved host, and was answered with a
  body of at most 512 MiB that has the recorded size and SHA-256 digest.
\<close>

theorem generated_artifacts_downloaded:
  assumes "generateToolchainCatalog P loose bytes (Some fetch) candidates timeoutMs h = (Inr lock, h')" and "distinct_keys candidates"
    and "t \<in> set (the_arr (get lock ''toolchains''))" and "a \<in> set (the_arr (get t ''artifacts''))"
  shows "\<exists>url u body r h1. get a ''url'' = Str url \<and> get a ''sizeBytes'' = JInt (int (length body)) \<and>
    get a ''sha256'' = Str (sha256 P body) \<and> parse_url P url = Some u \<and> trusted_url P APPROVED_ARTIFACT_HOSTS u \<and>
    prefix (h1 @ [url]) h' \<and> fetch (h1 @ [url]) = (Inr r, False) \<and> rs_status r = 200 \<and> catalog_body r 536870912 = Inr body"
  using assms(1)
proof (rule generated)
  fix f runtime toolchains
  assume f: "StrictCatalogFetcher (Some fetch) timeoutMs Undefined Undefined = Inr f"
    and ts: "list_all (resolved P f runtime (the_arr candidates) h') toolchains"
    and l: "finish_lock P loose bytes runtime (the_arr candidates) toolchains = Inr lock"
  have c: "list_all distinct_keys (the_arr candidates)" using assms(2) distinct_keys_arr by (auto simp: list_all_iff)
  with ts have d: "list_all distinct_keys toolchains" by (auto simp: list_all_iff intro: resolved_distinct)
  obtain revision where k: "canonicalize (lock_document revision (ru_revision runtime) (sort_key toolchain_order toolchains)) = Inr lock"
    "distinct_keys (lock_document revision (ru_revision runtime) (sort_key toolchain_order toolchains))"
    using finish_lock_ok [OF l d] by blast
  have "get (lock_document revision (ru_revision runtime) (sort_key toolchain_order toolchains)) ''toolchains'' =
      Arr (sort_key toolchain_order toolchains)" by (simp add: lock_document_def)
  from canonical_array [OF k this assms(3)] obtain t0 where t0: "t0 \<in> set toolchains" "canonicalize t0 = Inr t" by auto
  with ts have res: "resolved P f runtime (the_arr candidates) h' t0" by (simp add: list_all_iff)
  then obtain candidate jre artifacts where e: "t0 = toolchain_entry candidate jre artifacts" "list_all (recorded P f h') artifacts"
    by (auto simp: resolved_def)
  have "get t0 ''artifacts'' = Arr artifacts" by (simp add: e(1) toolchain_entry_def)
  from canonical_array [OF t0(2) resolved_distinct [OF res c] this assms(4)] obtain e0 where
    e0: "e0 \<in> set artifacts" "canonicalize e0 = Inr a" by blast
  have "cf_maxArtifactBytes f = 536870912" "cf_fetch f = fetch"
    using f by (auto simp: StrictCatalogFetcher_def Let_def result_simps default_to_def MAX_ARTIFACT_BYTES_def of_option_def)
  with recorded_canonical [OF _ e0(2), of P f h'] e0(1) e(2) show ?thesis by (simp add: list_all_iff)
qed

section \<open>A validated catalog in the worker\<close>

lemma flat_canonical:
  assumes "canonicalize v = Inr w" and "distinct_keys v" and "plainObject v" and "sameKeys v ks"
    and "list_all (\<lambda>k. is_str (get v k) \<or> isSafeInteger (get v k)) ks"
  shows "json_data w"
proof -
  from assms(3) obtain ps where v: "v = Obj ps" by (cases v) auto
  with assms(1,2) obtain qs where qs: "w = Obj qs" "distinct (map fst qs)" "own_order qs = qs"
    "mset (map fst qs) = mset (map fst ps)" "\<And>k. rel_option (\<lambda>v x. canonicalize v = Inr x) (map_of ps k) (map_of qs k)"
    using canonical_map_of [of ps w thesis] by auto
  have "json_data x" if "(k, x) \<in> set qs" for k x
  proof -
    have "mset (map fst ps) = mset (map js ks)"
      using assms(4) unfolding v sameKeys_def keys.simps by (metis mset_sort)
    then have "set (map fst qs) = set (map js ks)" using qs(4) by (metis mset_eq_setD)
    with that have "k \<in> set (map js ks)" by force
    then obtain k' where k': "k = js k'" "k' \<in> set ks" by auto
    have "map_of qs k = Some x" using that qs(2) by simp
    with qs(5) [of k] obtain y where "map_of ps k = Some y" "canonicalize y = Inr x" by (cases "map_of ps k") auto
    moreover from this k' assms(5) have "is_str y \<or> isSafeInteger y" by (auto simp: v list_all_iff)
    ultimately have "x = y" "is_str y \<or> isSafeInteger y" using canonical_atom by auto
    then show ?thesis by (cases y) auto
  qed
  then show ?thesis using qs by (auto simp: list_all_iff)
qed

lemma json_text_eq: "json_text P \<Longrightarrow> json_data v \<Longrightarrow> json_data w \<Longrightarrow> json_stringify P v = json_stringify P w \<Longrightarrow> v = w"
  unfolding json_text_def by (metis option.inject)

lemma check_jre_ok:
  assumes "check_jre P runtime revision t = Inr ()" and "json_text P" and "distinct_keys t" and "validJre (get t ''jre'')"
    and "validJavaRequirement (get t ''java'')"
  shows "get (get t ''jre'') ''component'' = get (get t ''java'') ''component''"
    "get (get t ''jre'') ''major'' = get (get t ''java'') ''major''"
    "strict_eq (get (get t ''jre'') ''runtimeCatalogRevision'') revision"
proof -
  let ?jre = "get t ''jre''" and ?java = "get t ''java''"
  from assms(1) obtain expected actual wanted where
    e: "jreFor P runtime ?java = Inr expected" "canonicalize ?jre = Inr actual" "canonicalize expected = Inr wanted"
      "json_stringify P actual = json_stringify P wanted" "strict_eq (get ?jre ''runtimeCatalogRevision'') revision"
    by (auto simp: check_jre_def result_simps)
  have java: "is_str (get ?java ''component'')" "isSafeInteger (get ?java ''major'')"
    using assms(5) by (auto simp: validJavaRequirement_def validIdentifier_def)
  from e(1) have ex: "get expected ''component'' = get ?java ''component''" "get expected ''major'' = get ?java ''major''"
    "plainObject expected" "sameKeys expected [''id'', ''sha256'', ''component'', ''major'', ''runtimeCatalogRevision'']"
    "is_str (get expected ''id'')" "is_str (get expected ''sha256'')" "is_str (get expected ''runtimeCatalogRevision'')"
    by (auto simp: jreFor_def Let_def result_simps sameKeysI)
  have dx: "distinct_keys expected"
    using e(1) distinct_keys_get [OF distinct_keys_get [OF assms(3)]] by (auto simp: jreFor_def Let_def result_simps)
  have j: "is_str (get ?jre ''component'')" "isSafeInteger (get ?jre ''major'')" "is_str (get ?jre ''id'')"
    "is_str (get ?jre ''sha256'')" "is_str (get ?jre ''runtimeCatalogRevision'')" "plainObject ?jre"
    "sameKeys ?jre [''component'', ''id'', ''major'', ''runtimeCatalogRevision'', ''sha256'']"
    using assms(4) by (auto simp: validJre_def validIdentifier_def validSha256_def)
  note dj = distinct_keys_get [OF assms(3), of "''jre''"]
  have "json_data actual" by (rule flat_canonical [OF e(2) dj j(6,7)]) (simp add: j)
  moreover have "json_data wanted" by (rule flat_canonical [OF e(3) dx ex(3,4)]) (simp add: ex java)
  ultimately have "actual = wanted" using json_text_eq [OF assms(2)] e(4) by blast
  with canonical_get_atom [OF e(2) dj] canonical_get_atom [OF e(3) dx] j java ex
  show "get ?jre ''component'' = get ?java ''component''" "get ?jre ''major'' = get ?java ''major''" by metis+
qed (use assms(1) in \<open>auto simp: check_jre_def result_simps\<close>)

lemma split_on_cover: "x \<in> set xs \<Longrightarrow> x \<noteq> s \<Longrightarrow> \<exists>p \<in> set (split_on s xs). x \<in> set p"
proof (induction xs)
  case (Cons y ys)
  obtain p ps where "split_on s ys = p # ps" by (cases "split_on s ys") simp_all
  with Cons show ?case by (cases "x \<in> set ys") auto
qed simp

lemma coordinate_no_zero: "validCoordinate v \<Longrightarrow> 0 \<notin> set (the_str v)"
proof
  assume v: "validCoordinate v" and "0 \<in> set (the_str v)"
  then obtain p where p: "p \<in> set (split_on 58 (the_str v))" "0 \<in> set p" using split_on_cover [of 0 "the_str v" 58] by auto
  have "\<not> coordinate_part ''_.-'' p" "\<not> coordinate_part ''._+-'' p"
    by (auto simp: coordinate_part_def list_all_iff char_class_defs js_simps dest!: bspec [OF _ p(2)])
  with v p(1) show False by (auto simp: validCoordinate_def split: list.splits)
qed

lemma parse_validated_artifact:
  assumes "validateArtifact P hosts () a = Inr ()"
  shows "\<exists>r. parseArtifact P hosts a = Inr r \<and> a_role r = the_str (get a ''role'') \<and> a_coordinate r = the_str (get a ''coordinate'') \<and>
    is_str (get a ''role'') \<and> is_str (get a ''coordinate'') \<and> 0 \<notin> set (a_coordinate r)"
proof -
  have perm: "sameKeys a [''role'', ''coordinate'', ''url'', ''sha256'', ''sizeBytes''] =
      sameKeys a [''coordinate'', ''role'', ''sha256'', ''sizeBytes'', ''url'']"
    unfolding sameKeys_def by (simp add: sort_key_def insort_key.simps js_simps)
  from assms obtain u where
    v: "plainObject a" "sameKeys a [''coordinate'', ''role'', ''sha256'', ''sizeBytes'', ''url'']"
      "get a ''role'' \<in> {Str (js ''primary''), Str (js ''dependency'')}" "validCoordinate (get a ''coordinate'')"
      "validSha256 (get a ''sha256'')" "validPositiveInteger (get a ''sizeBytes'') MAX_ARTIFACT_BYTES" "is_str (get a ''url'')"
      "parse_url P (the_str (get a ''url'')) = Some u" "trusted_url P hosts u"
    by (auto simp: validateArtifact_def assertTrustedUrl_def result_simps of_option_def split: option.splits)
  have "0 \<notin> set (the_str (get a ''coordinate''))" using coordinate_no_zero [OF v(4)] .
  with v show ?thesis
    by (auto simp: parseArtifact_def perm validPositiveInteger_def approved_url_def trusted_url_def validCoordinate_def)
qed

lemma list_all2_filter:
  "list_all2 R xs ys \<Longrightarrow> (\<And>x y. R x y \<Longrightarrow> p x \<longleftrightarrow> q y) \<Longrightarrow> list_all2 R (filter p xs) (filter q ys)"
  by (induction rule: list_all2_induct) auto

text \<open>What the worker requires of a toolchain and the validation does not check.\<close>

definition exact_toolchain :: "jsval \<Rightarrow> bool" where
  "exact_toolchain t = (sameKeys (get t ''java'') [''component'', ''major''] \<and>
     distinct (map (\<lambda>a. get a ''coordinate'') (the_arr (get t ''artifacts''))))"

lemma validJava_exact: "validJava v \<longleftrightarrow> validJavaRequirement v \<and> sameKeys v [''component'', ''major'']"
  by (auto simp: validJava_def validJavaRequirement_def)

lemma validateToolchain_ok:
  assumes "validateToolchain P loose c runtime ks t = Inr ks'"
  obtains tuple server where "lock_toolchain_ok P t = Inr True" "candidateKey P t = Inr tuple" "tuple \<notin> set ks" "ks' = ks @ [tuple]"
    "check_jre P runtime (get c ''runtimeCatalogRevision'') t = Inr ()" "check_required P t = Inr server"
    "\<forall>a \<in> set (the_arr (get t ''artifacts'')). validateArtifact P (map the_str (the_arr (get c ''approvedArtifactHosts''))) () a = Inr ()"
  using assms by (auto simp: validateToolchain_def result_simps Let_def foldR_unit)

lemma lock_toolchain_ok_fields:
  assumes "lock_toolchain_ok P t = Inr True"
  shows "plainObject t" "validMinecraftVersion (get t ''minecraftVersion'')" "validLoader P (get t ''loader'') = Inr True"
    "validJavaRequirement (get t ''java'')" "validJre (get t ''jre'')" "is_arr (get t ''artifacts'')"
    "2 \<le> length (the_arr (get t ''artifacts''))" "length (the_arr (get t ''artifacts'')) \<le> 256"
    "sameKeys t [''artifacts'', ''java'', ''jre'', ''launchTemplate'', ''loader'', ''minecraftVersion'']"
    "\<exists>kind. js_String P (get (get t ''loader'') ''kind'') = Inr kind \<and>
      strict_eq (get t ''launchTemplate'') (case map_of loaderTemplates kind of None \<Rightarrow> Undefined | Some t \<Rightarrow> Str t)"
  using assms by (auto simp: lock_toolchain_ok_def result_simps split: if_splits)

lemma toolchain_ok_exact:
  assumes "lock_toolchain_ok P t = Inr True"
  shows "toolchain_ok P t = Inr (sameKeys (get t ''java'') [''component'', ''major''])"
proof -
  note f = lock_toolchain_ok_fields [OF assms]
  have perm: "sameKeys t [''minecraftVersion'', ''loader'', ''java'', ''jre'', ''artifacts'', ''launchTemplate'']"
    using f(9) unfolding sameKeys_def by (simp add: sort_key_def insort_key.simps js_simps)
  have "plainObject (get t ''jre'')" using f(5) by (simp add: validJre_def)
  with f perm show ?thesis by (auto simp: toolchain_ok_def validJava_exact)
qed

lemma check_required_ok:
  assumes "check_required P t = Inr server"
  obtains primary coordinate where "filter (\<lambda>a. get a ''role'' = Str (js ''primary'')) (the_arr (get t ''artifacts'')) = [primary]"
    "get primary ''coordinate'' = Str coordinate"
    "expectedPrimaryCoordinate (the_str (get t ''minecraftVersion'')) (get (get t ''loader'') ''kind'')
      (the_str (get (get t ''loader'') ''version'')) = Inr coordinate"
  using assms
  by (auto simp: check_required_def Let_def result_simps primaryCoordinate_def expectedPrimaryCoordinate_def toolchain_candidate_def
      split: list.splits if_splits)

lemma list_all2_choice: "\<forall>x \<in> set xs. \<exists>y. R x y \<Longrightarrow> \<exists>ys. list_all2 R xs ys"
proof (induction xs)
  case (Cons x xs)
  then obtain y ys where "R x y" "list_all2 R xs ys" by auto
  then have "list_all2 R (x # xs) (y # ys)" by simp
  then show ?case ..
qed auto

lemma parse_validated_toolchain:
  assumes v: "validateToolchain P loose c runtime ks t = Inr ks'" and json: "json_text P" and dk: "distinct_keys t"
  defines "hosts \<equiv> map the_str (the_arr (get c ''approvedArtifactHosts''))" and "revision \<equiv> get c ''runtimeCatalogRevision''"
  shows "\<not> exact_toolchain t \<Longrightarrow> parseToolchain P revision hosts t = Inl invalid_catalog"
    and "exact_toolchain t \<Longrightarrow> \<exists>k. parseToolchain P revision hosts t = Inr k \<and> ks' = ks @ [toolchain_key P k] \<and>
      toolchain_key P k \<notin> set ks \<and> distinct (map a_coordinate (t_artifacts k)) \<and>
      (\<forall>a \<in> set (t_artifacts k). 0 \<notin> set (a_coordinate a))"
proof -
  let ?as = "the_arr (get t ''artifacts'')" and ?java = "get t ''java''" and ?loader = "get t ''loader''"
  let ?R = "\<lambda>a r. parseArtifact P hosts a = Inr r \<and> a_role r = the_str (get a ''role'') \<and>
      a_coordinate r = the_str (get a ''coordinate'') \<and> is_str (get a ''role'') \<and> is_str (get a ''coordinate'') \<and> 0 \<notin> set (a_coordinate r)"
  from v obtain tuple server where ok: "lock_toolchain_ok P t = Inr True" "candidateKey P t = Inr tuple" "tuple \<notin> set ks"
    "ks' = ks @ [tuple]" "check_jre P runtime revision t = Inr ()" "check_required P t = Inr server"
    "\<forall>a \<in> set ?as. validateArtifact P hosts () a = Inr ()"
    unfolding hosts_def revision_def by (rule validateToolchain_ok)
  note f = lock_toolchain_ok_fields [OF ok(1)] and tc = toolchain_ok_exact [OF ok(1)]
  have "\<forall>a \<in> set ?as. \<exists>r. ?R a r" using ok(7) parse_validated_artifact by blast
  from list_all2_choice [OF this] obtain rs where rs: "list_all2 ?R ?as rs" by blast
  have arts: "mapR (parseArtifact P hosts) ?as = Inr rs" unfolding mapR_Inr_iff by (rule list_all2_mono [OF rs]) simp
  have co: "map a_coordinate rs = map (the_str \<circ> (\<lambda>a. get a ''coordinate'')) ?as" "\<forall>a \<in> set ?as. is_str (get a ''coordinate'')"
    "\<forall>r \<in> set rs. 0 \<notin> set (a_coordinate r)"
    using rs by (induction rule: list_all2_induct) auto
  have "inj_on the_str ((\<lambda>a. get a ''coordinate'') ` set ?as)"
    using co(2) by (auto simp: inj_on_def) (metis is_str_the_str)
  then have dist: "distinct (map a_coordinate rs) \<longleftrightarrow> distinct (map (\<lambda>a. get a ''coordinate'') ?as)"
    unfolding co(1) by (simp add: distinct_map comp_inj_on_iff [symmetric] flip: map_map)
  have jre: "get (get t ''jre'') ''component'' = get ?java ''component''" "get (get t ''jre'') ''major'' = get ?java ''major''"
    "strict_eq (get (get t ''jre'') ''runtimeCatalogRevision'') revision"
    using check_jre_ok [OF ok(5) json dk f(5,4)] by blast+
  have perm: "sameKeys (get t ''jre'') [''id'', ''sha256'', ''component'', ''major'', ''runtimeCatalogRevision'']"
    using f(5) unfolding validJre_def sameKeys_def by (simp add: sort_key_def insort_key.simps js_simps)
  have str: "is_str (get ?java ''component'')" "isSafeInteger (get ?java ''major'')"
    using f(4) by (auto simp: validJavaRequirement_def validIdentifier_def)
  have "strict_eq (get ?java ''component'') (get ?java ''component'')" "strict_eq (get ?java ''major'') (get ?java ''major'')"
    using is_str_the_str [OF str(1)] isSafeInteger_the_int [OF str(2)] by (metis strict_eq.simps(6), metis strict_eq.simps(4))
  with jre perm f(5) obtain j where j: "parseJre (get t ''jre'') ?java revision = Inr j"
    by (simp add: parseJre_def validJre_def)
  from ok(6) obtain primary coordinate where prim: "filter (\<lambda>a. get a ''role'' = Str (js ''primary'')) ?as = [primary]"
    "get primary ''coordinate'' = Str coordinate"
    "expectedPrimaryCoordinate (the_str (get t ''minecraftVersion'')) (get ?loader ''kind'') (the_str (get ?loader ''version'')) = Inr coordinate"
    by (rule check_required_ok)
  have "list_all2 ?R (filter (\<lambda>a. get a ''role'' = Str (js ''primary'')) ?as) (filter (\<lambda>r. a_role r = js ''primary'') rs)"
    by (rule list_all2_filter [OF rs]) (metis is_str_the_str the_str.simps(1))
  then obtain r where "filter (\<lambda>r. a_role r = js ''primary'') rs = [r]" "a_coordinate r = coordinate"
    unfolding prim(1) using prim(2) by (auto simp: list_all2_Cons1)
  with prim(3) have cp: "check_primary (expectedPrimaryCoordinate (the_str (get t ''minecraftVersion'')) (get ?loader ''kind'')
      (the_str (get ?loader ''version''))) rs = Inr ()" by (simp add: check_primary_def)
  have p: "parseToolchain P revision hosts t = (if exact_toolchain t then Inr \<lparr>t_minecraftVersion = the_str (get t ''minecraftVersion''),
      t_loader_kind = get ?loader ''kind'', t_loader_version = the_str (get ?loader ''version''),
      t_java_component = the_str (get ?java ''component''), t_java_major = the_int (get ?java ''major''), t_jre = j, t_artifacts = rs\<rparr>
      else Inl invalid_catalog)"
    using cp by (auto simp: parseToolchain_def tc j arts Let_def exact_toolchain_def dist require_def)
  then show "\<not> exact_toolchain t \<Longrightarrow> parseToolchain P revision hosts t = Inl invalid_catalog" by simp
  assume ex: "exact_toolchain t"
  obtain kind where kind: "get ?loader ''kind'' = Str kind" using primary_kind [OF prim(3)] by auto
  have "toolchain_key P \<lparr>t_minecraftVersion = the_str (get t ''minecraftVersion''),
      t_loader_kind = get ?loader ''kind'', t_loader_version = the_str (get ?loader ''version''),
      t_java_component = the_str (get ?java ''component''), t_java_major = the_int (get ?java ''major''), t_jre = j, t_artifacts = rs\<rparr> = tuple"
    using ok(2) by (simp add: toolchain_key_def candidateKey_def javaKey_def kind)
  with ex p ok(3,4) co(3) dist show "\<exists>k. parseToolchain P revision hosts t = Inr k \<and> ks' = ks @ [toolchain_key P k] \<and>
      toolchain_key P k \<notin> set ks \<and> distinct (map a_coordinate (t_artifacts k)) \<and>
      (\<forall>a \<in> set (t_artifacts k). 0 \<notin> set (a_coordinate a))" by (auto simp: exact_toolchain_def)
qed

section \<open>Acceptance by the worker\<close>

text \<open>The coordinates seen so far, each behind the key of an earlier toolchain.\<close>

definition keyed :: "jsstr list \<Rightarrow> jsstr list \<Rightarrow> bool" where
  "keyed ks cs = (\<forall>c \<in> set cs. \<exists>k x. c = k @ [0] @ x \<and> k \<in> set ks \<and> 0 \<notin> set x)"

lemma takeWhile_zero: "0 \<notin> set x \<Longrightarrow> takeWhile (\<lambda>u. u \<noteq> 0) (x @ 0 # r) = x \<and> dropWhile (\<lambda>u. u \<noteq> 0) (x @ 0 # r) = 0 # r" for x :: jsstr
  by (induction x) auto

lemma zero_split: "a @ [0] @ x = b @ [0] @ y \<Longrightarrow> 0 \<notin> set x \<Longrightarrow> 0 \<notin> set y \<Longrightarrow> a = b \<and> x = y" for a :: jsstr
proof -
  assume e: "a @ [0] @ x = b @ [0] @ y" and z: "0 \<notin> set x" "0 \<notin> set y"
  from arg_cong [OF e, of rev] have r: "rev x @ 0 # rev a = rev y @ 0 # rev b" by simp
  have t: "takeWhile (\<lambda>u. u \<noteq> 0) (rev x @ 0 # rev a) = rev x" "dropWhile (\<lambda>u. u \<noteq> 0) (rev x @ 0 # rev a) = 0 # rev a"
    "takeWhile (\<lambda>u. u \<noteq> 0) (rev y @ 0 # rev b) = rev y" "dropWhile (\<lambda>u. u \<noteq> 0) (rev y @ 0 # rev b) = 0 # rev b"
    using z takeWhile_zero [of "rev x" "rev a"] takeWhile_zero [of "rev y" "rev b"] by simp_all
  have "rev x = rev y" using t(1) unfolding r t(3) by (rule sym)
  moreover have "0 # rev a = 0 # rev b" using t(2) unfolding r t(4) by (rule sym)
  ultimately show ?thesis by simp
qed

lemma add_coordinates:
  assumes "distinct (map a_coordinate as)" and "\<forall>a \<in> set as. key @ [0] @ a_coordinate a \<notin> set cs"
  shows "foldR (add_coordinate key) cs as = Inr (cs @ map (\<lambda>a. key @ [0] @ a_coordinate a) as)"
  using assms
proof (induction as arbitrary: cs)
  case (Cons a as)
  have "add_coordinate key cs a = Inr (cs @ [key @ [0] @ a_coordinate a])"
    using Cons.prems(2) by (simp add: add_coordinate_def Let_def)
  moreover have "\<forall>b \<in> set as. key @ [0] @ a_coordinate b \<notin> set (cs @ [key @ [0] @ a_coordinate a])"
    using Cons.prems by (auto simp: image_iff)
  ultimately show ?case using Cons.IH Cons.prems(1) by simp
qed simp

lemma keyed_snoc: "keyed ks cs \<Longrightarrow> keyed (ks @ [k]) cs"
  unfolding keyed_def set_append by blast

lemma add_validated_toolchain:
  assumes "parseToolchain P revision hosts t = Inr k" and "toolchain_key P k \<notin> set ks" and "keyed ks cs"
    and "distinct (map a_coordinate (t_artifacts k))" and "\<forall>a \<in> set (t_artifacts k). 0 \<notin> set (a_coordinate a)"
  shows "\<exists>cs'. add_toolchain P revision hosts (cs, ks, ts) t = Inr (cs', ks @ [toolchain_key P k], ts @ [k]) \<and>
    keyed (ks @ [toolchain_key P k]) cs'"
proof -
  let ?key = "toolchain_key P k"
  have "\<forall>a \<in> set (t_artifacts k). ?key @ [0] @ a_coordinate a \<notin> set cs"
    using assms(2,3,5) zero_split unfolding keyed_def by metis
  note f = add_coordinates [OF assms(4) this]
  have "keyed (ks @ [?key]) (map (\<lambda>a. ?key @ [0] @ a_coordinate a) (t_artifacts k))"
    unfolding keyed_def
  proof
    fix c assume "c \<in> set (map (\<lambda>a. ?key @ [0] @ a_coordinate a) (t_artifacts k))"
    then obtain a where "a \<in> set (t_artifacts k)" "c = ?key @ [0] @ a_coordinate a" by auto
    with assms(5) show "\<exists>k' x. c = k' @ [0] @ x \<and> k' \<in> set (ks @ [?key]) \<and> 0 \<notin> set x"
      by (intro exI [of _ ?key] exI [of _ "a_coordinate a"]) simp
  qed
  then have "keyed (ks @ [?key]) (cs @ map (\<lambda>a. ?key @ [0] @ a_coordinate a) (t_artifacts k))"
    using keyed_snoc [OF assms(3), of ?key] unfolding keyed_def set_append by blast
  moreover have "add_toolchain P revision hosts (cs, ks, ts) t =
      Inr (cs @ map (\<lambda>a. ?key @ [0] @ a_coordinate a) (t_artifacts k), ks @ [?key], ts @ [k])"
    using assms(1,2) f by (simp add: add_toolchain_def Let_def)
  ultimately show ?thesis by blast
qed

lemma worker_folds:
  assumes "foldR (validateToolchain P loose c runtime) ks ts = Inr ks'" and "json_text P" and "list_all distinct_keys ts" and "keyed ks cs"
  defines "add \<equiv> add_toolchain P (get c ''runtimeCatalogRevision'') (map the_str (the_arr (get c ''approvedArtifactHosts'')))"
  shows "(\<exists>r. foldR add (cs, ks, acc) ts = Inr r) \<longleftrightarrow> list_all exact_toolchain ts"
  using assms(1,3,4)
proof (induction ts arbitrary: ks cs acc)
  case (Cons t ts)
  from Cons.prems(1) obtain ks1 where v: "validateToolchain P loose c runtime ks t = Inr ks1"
    "foldR (validateToolchain P loose c runtime) ks1 ts = Inr ks'" by (auto simp: result_simps)
  have d: "distinct_keys t" "list_all distinct_keys ts" using Cons.prems(2) by simp_all
  note p = parse_validated_toolchain [OF v(1) assms(2) d(1)]
  show ?case
  proof (cases "exact_toolchain t")
    case False
    with p(1) have "add (cs, ks, acc) t = Inl invalid_catalog" by (simp add: add_def add_toolchain_def)
    with False show ?thesis by simp
  next
    case True
    with p(2) obtain k where k: "parseToolchain P (get c ''runtimeCatalogRevision'') (map the_str (the_arr (get c ''approvedArtifactHosts''))) t = Inr k"
      "ks1 = ks @ [toolchain_key P k]" "toolchain_key P k \<notin> set ks" "distinct (map a_coordinate (t_artifacts k))"
      "\<forall>a \<in> set (t_artifacts k). 0 \<notin> set (a_coordinate a)" by blast
    from add_validated_toolchain [OF k(1,3) Cons.prems(3) k(4,5), of acc] obtain cs' where
      "add (cs, ks, acc) t = Inr (cs', ks1, acc @ [k])" "keyed ks1 cs'" unfolding add_def k(2) by blast
    with True Cons.IH [OF v(2) d(2)] show ?thesis by simp
  qed
qed simp

text \<open>Lower-casing ASCII text is what the platform documents.\<close>

definition lower_ascii :: "platform \<Rightarrow> bool" where
  "lower_ascii P = (\<forall>s. ascii s \<longrightarrow> lower P s = ascii_lower s)"

text \<open>Host names in lower case.\<close>

definition host_unit :: "code_unit \<Rightarrow> bool" where
  "host_unit u = (is_lower u \<or> u = 46 \<or> u = 45)"

lemma host_units: "list_all host_unit h \<Longrightarrow> ascii h \<and> ascii_lower h = h"
proof -
  have "u < 128 \<and> ascii_lower_unit u = u" if "host_unit u" for u
    using that by (auto simp: host_unit_def ascii_lower_unit_def char_class_defs word_le_nat_alt word_less_nat_alt)
  then show "list_all host_unit h \<Longrightarrow> ascii h \<and> ascii_lower h = h"
    by (induction h) (auto simp: ascii_def ascii_lower_def)
qed

lemma approved_host_units: "list_all (\<lambda>h. list_all host_unit h \<and> h \<noteq> [] \<and> is_lower (hd h) \<and> is_lower (last h)) APPROVED_ARTIFACT_HOSTS"
  by (simp add: APPROVED_ARTIFACT_HOSTS_def js_simps host_unit_def char_class_defs)

lemma plain_host:
  assumes "lower_ascii P" and "list_all host_unit h" and "h \<noteq> []" and "is_lower (hd h)" and "is_lower (last h)"
  shows "catalog_host P (Str h) = Inr h"
proof -
  have "lower P h = h" using assms(1) host_units [OF assms(2)] by (simp add: lower_ascii_def)
  moreover have "list_all (\<lambda>u. (is_lower u \<or> is_digit u) \<or> one_of ''.-'' u) h"
    using assms(2) by (rule list.pred_mono_strong) (auto simp: host_unit_def one_of_def js_simps)
  ultimately show ?thesis using assms(3-5) by (simp add: catalog_host_def Let_def)
qed

lemma approved_hosts:
  assumes "lower_ascii P"
  shows "mapR (catalog_host P) (map Str APPROVED_ARTIFACT_HOSTS) = Inr APPROVED_ARTIFACT_HOSTS"
  using approved_host_units plain_host [OF assms]
  by (auto simp: mapR_Inr_iff list_all2_conv_all_nth list_all_length)

lemma validated_catalog:
  assumes "validateToolchainCatalog P loose document bytes candidates raw = Inr c" and "distinct_keys document"
  obtains runtime revision ks where "parseCatalogDocument c = Inr c" "distinct_keys c" "catalogRevisionFor P c = Inr revision"
    "get c ''catalogRevision'' = Str revision" "sameStringList (get c ''approvedArtifactHosts'') APPROVED_ARTIFACT_HOSTS"
    "foldR (validateToolchain P loose c runtime) [] (the_arr (get c ''toolchains'')) = Inr ks"
proof -
  from validated_again [OF assms] have v: "validateToolchainCatalog P loose c bytes candidates (Some (json_pretty P c @ [10])) = Inr c"
    "canonicalize document = Inr c" by blast+
  from assms(1) obtain catalog where p: "parseCatalogDocument document = Inr catalog"
    by (auto simp: validateToolchainCatalog_def result_simps)
  with v(2) have "catalog = c" using parseCatalogDocument_canonical(2) [OF p assms(2)] by simp
  with parseCatalogDocument_canonical [OF p assms(2)] have "parseCatalogDocument c = Inr c" "distinct_keys c" by simp_all
  moreover from v(1) this(1) obtain runtime revision ks where "catalogRevisionFor P c = Inr revision"
    "get c ''catalogRevision'' = Str revision" "sameStringList (get c ''approvedArtifactHosts'') APPROVED_ARTIFACT_HOSTS"
    "foldR (validateToolchain P loose c runtime) [] (the_arr (get c ''toolchains'')) = Inr ks"
    by (auto simp: validateToolchainCatalog_def result_simps)
  ultimately show thesis by (rule that)
qed

text \<open>
  C37. Two components read a toolchain catalog: the generator validates it, the worker parses it.
  The worker accepts a validated catalog exactly if it has at most 256 toolchains and in each of
  them the Java requirement has no other properties and no two artifacts have the same coordinate.
  The validation checks none of this, so a catalog may pass it and stop the worker.
\<close>

theorem validated_catalog_accepted:
  assumes "json_text P" and "sha256_hex P" and "lower_ascii P"
    and "validateToolchainCatalog P loose document bytes candidates raw = Inr c" and "distinct_keys document"
  shows "(\<exists>catalog. parseCatalog P c = Inr catalog) \<longleftrightarrow>
    length (the_arr (get c ''toolchains'')) \<le> 256 \<and>
    (\<forall>t \<in> set (the_arr (get c ''toolchains'')). sameKeys (get t ''java'') [''component'', ''major''] \<and>
      distinct (map (\<lambda>a. get a ''coordinate'') (the_arr (get t ''artifacts''))))"
  using assms(4,5)
proof (rule validated_catalog)
  fix runtime revision ks
  assume v: "parseCatalogDocument c = Inr c" "distinct_keys c" "catalogRevisionFor P c = Inr revision"
    "get c ''catalogRevision'' = Str revision" "sameStringList (get c ''approvedArtifactHosts'') APPROVED_ARTIFACT_HOSTS"
    "foldR (validateToolchain P loose c runtime) [] (the_arr (get c ''toolchains'')) = Inr ks"
  let ?ts = "the_arr (get c ''toolchains'')" and ?hosts = "get c ''approvedArtifactHosts''"
  have r: "plainObject c" "sameKeys c [''approvedArtifactHosts'', ''catalogRevision'', ''runtimeCatalogRevision'', ''schemaVersion'', ''toolchains'']"
    "get c ''schemaVersion'' = JInt 1" "validSha256 (get c ''catalogRevision'')" "validSha256 (get c ''runtimeCatalogRevision'')"
    "is_arr ?hosts" "is_arr (get c ''toolchains'')" "1 \<le> length ?ts"
    using v(1) by (auto simp: parseCatalogDocument_def result_simps)
  have keys: "sameKeys c generated_keys" "\<not> sameKeys c legacy_keys"
    using r(2) unfolding sameKeys_def generated_keys_def legacy_keys_def by (simp_all add: sort_key_def insort_key.simps js_simps)
  have h: "the_arr ?hosts = map Str APPROVED_ARTIFACT_HOSTS" "map the_str (the_arr ?hosts) = APPROVED_ARTIFACT_HOSTS"
    "distinct APPROVED_ARTIFACT_HOSTS" "1 \<le> length APPROVED_ARTIFACT_HOSTS"
    using v(5) by (simp_all add: sameStringList_def o_def) (simp_all add: APPROVED_ARTIFACT_HOSTS_def)
  have "ascii_lower revision = revision"
  proof -
    from v(3) assms(2) have "list_all is_hex_lower revision" by (auto simp: catalogRevisionFor_def result_simps sha256_hex_def)
    then show ?thesis
      by (induction revision) (auto simp: ascii_lower_def ascii_lower_unit_def char_class_defs word_le_nat_alt)
  qed
  then have "catalog_identified P c = Inr True" using keys(2) r(4) v(3,4) by (simp add: catalog_identified_def)
  then have parse: "(\<exists>catalog. parseCatalog P c = Inr catalog) \<longleftrightarrow> length ?ts \<le> 256 \<and>
      (\<exists>s. foldR (add_toolchain P (get c ''runtimeCatalogRevision'') APPROVED_ARTIFACT_HOSTS) ([], [], []) ?ts = Inr s)"
    using r keys h approved_hosts [OF assms(3)]
    by (auto simp: parseCatalog_def Let_def result_simps)
  have "list_all distinct_keys ?ts" using v(2) distinct_keys_get distinct_keys_arr by (auto simp: list_all_iff)
  from worker_folds [OF v(6) assms(1) this, of "[]" "[]"] parse show ?thesis
    by (simp add: keyed_def h(2) list_all_iff exact_toolchain_def)
qed

end
