(* ===== verification/Sample_Toolchain.thy ===== *)
theory Sample_Toolchain
  imports Toolchain_Properties Sample_Builder
begin

text \<open>
  A complete run of the catalog generator: one candidate for Fabric, a runtime catalog with one
  runtime, and a network that serves the six documents and artifacts the generator asks for. The
  witnesses of the generator's properties are instances at this run.
\<close>

section \<open>The platform\<close>

definition catalog_url :: "jsstr \<Rightarrow> url option" where
  "catalog_url s = (if prefix (js ''https://'') s then
     Some \<lparr>protocol = js ''https:'', username = [], password = [], hostname = takeWhile (\<lambda>u. u \<noteq> 47) (drop 8 s),
       port = [], pathname = dropWhile (\<lambda>u. u \<noteq> 47) (drop 8 s), search = [], hash = [], href = s,
       origin = js ''https://'' @ takeWhile (\<lambda>u. u \<noteq> 47) (drop 8 s)\<rparr> else None)"

definition sample_sha1 :: "bytes \<Rightarrow> jsstr" where
  "sample_sha1 bs = drop 24 (sample_sha256 bs)"

definition server_url :: jsstr where
  "server_url = js ''https://piston-data.mojang.com/v1/objects/aaaaaaaaaaaaaaaaaaaaaaaaaaaaaaaaaaaaaaaa/server.jar''"

definition version_url :: jsstr where
  "version_url = js ''https://piston-meta.mojang.com/v1/packages/1.21.1.json''"

definition sample_candidate :: jsval where
  "sample_candidate = Obj [(js ''java'', reviewed_java), (js ''loader'', reviewed_loader), (js ''minecraftVersion'', Str (js ''1.21.1''))]"

definition runtime_document :: jsval where
  "runtime_document = Obj [(js ''schemaVersion'', JInt 1),
     (js ''platform'', Obj [(js ''os'', Str (js ''linux'')), (js ''architecture'', Str (js ''x64''))]),
     (js ''requirements'', Arr [reviewed_java]), (js ''runtimes'', Arr [reviewed_java]), (js ''resolutions'', Arr [reviewed_java])]"

definition version_manifest :: jsval where
  "version_manifest = Obj [(js ''versions'', Arr [Obj [(js ''id'', Str (js ''1.21.1'')),
     (js ''sha1'', Str (sample_sha1 (encode (js ''v'')))), (js ''url'', Str version_url)]])]"

definition version_metadata :: jsval where
  "version_metadata = Obj [
     (js ''javaVersion'', Obj [(js ''component'', Str (js ''java-runtime-delta'')), (js ''majorVersion'', JInt 21)]),
     (js ''downloads'', Obj [(js ''server'', Obj [(js ''url'', Str server_url), (js ''sha1'', Str (sample_sha1 [8, 8])),
       (js ''size'', JInt 2)])])]"

definition fabric_metadata :: jsval where
  "fabric_metadata = Obj [
     (js ''loader'', Obj [(js ''version'', Str (js ''0.16.9'')), (js ''maven'', Str (js ''net.fabricmc:fabric-loader:0.16.9''))]),
     (js ''intermediary'', Obj [(js ''version'', Str (js ''1.21.1''))])]"

definition catalog_documents :: "(jsstr, jsval) jsmap" where
  "catalog_documents = [(js ''j'', runtime_document), (js ''m'', version_manifest), (js ''v'', version_metadata), (js ''l'', fabric_metadata)]"

definition catalog_value :: "jsstr \<Rightarrow> jsval option" where
  "catalog_value s = (case sample_value s of Some v \<Rightarrow> Some v | None \<Rightarrow> map_of catalog_documents s)"

definition catalog_platform :: platform where
  "catalog_platform = sample_platform\<lparr>json_parse := catalog_value, parse_url := catalog_url\<rparr>"

lemma catalog_platform_simps [simp]:
  "sha256 catalog_platform = sample_sha256" "sha1 catalog_platform = sample_sha1" "json_stringify catalog_platform = sample_text"
  "json_pretty catalog_platform = sample_text" "lower catalog_platform = ascii_lower" "parse_url catalog_platform = catalog_url"
  "json_parse catalog_platform = catalog_value" "number_to_string catalog_platform (of_int 21) = js ''21''"
  by (simp_all add: catalog_platform_def sample_platform_def sample_sha1_def [abs_def] fun_eq_iff)
    (simp add: int_to_string_def digits_of.simps js_simps)

lemma catalog_platform_laws: "sha256_hex catalog_platform" "json_text catalog_platform" "lower_ascii catalog_platform"
proof -
  show "sha256_hex catalog_platform" using sample_sha256_hex by (simp add: sha256_hex_def sample_platform_def)
  have "sample_value (sample_text v) = Some v" for v using sample_json by (simp add: sample_platform_def)
  then show "json_text catalog_platform" using sample_json_text
    by (simp add: json_text_def catalog_value_def) (simp add: sample_platform_def)
  show "lower_ascii catalog_platform" by (simp add: lower_ascii_def)
qed

lemma sha1_digest: "length (sample_sha1 bs) = 40" "list_all is_hex_lower (sample_sha1 bs)" "validSha1 (Str (sample_sha1 bs))"
  "ascii_lower (sample_sha1 bs) = sample_sha1 bs"
proof -
  have "length (sample_sha256 bs) = 64" and h: "list_all is_hex_lower (sample_sha256 bs)"
    using catalog_platform_laws(1) by (simp_all add: sha256_hex_def)
  then show l: "length (sample_sha1 bs) = 40" by (simp add: sample_sha1_def)
  show h: "list_all is_hex_lower (sample_sha1 bs)"
    using h by (auto simp: sample_sha1_def list_all_iff dest: in_set_dropD)
  then show "validSha1 (Str (sample_sha1 bs))" using l by (auto simp: validSha1_def list_all_iff char_class_defs)
  have "ascii_lower_unit u = u" if "is_hex_lower u" for u
    using that by (auto simp: ascii_lower_unit_def char_class_defs word_le_nat_alt)
  then show "ascii_lower (sample_sha1 bs) = sample_sha1 bs" using h
    by (simp add: ascii_lower_def list_all_iff map_idI)
qed

lemma parsed_documents: "parseJson catalog_platform (encode (js ''j'')) code = Inr runtime_document"
  "parseJson catalog_platform (encode (js ''m'')) code = Inr version_manifest"
  "parseJson catalog_platform (encode (js ''v'')) code = Inr version_metadata"
  "parseJson catalog_platform (encode (js ''l'')) code = Inr fabric_metadata"
proof -
  have "decode (encode (js s)) = Some (js s)" "catalog_value (js s) = map_of catalog_documents (js s)" if "s \<in> {''j'', ''m'', ''v'', ''l''}" for s
    using that by (auto intro!: decode_encode_ascii simp: ascii_def catalog_value_def sample_value_def js_simps char_class_defs)
  then show "parseJson catalog_platform (encode (js ''j'')) code = Inr runtime_document"
    "parseJson catalog_platform (encode (js ''m'')) code = Inr version_manifest"
    "parseJson catalog_platform (encode (js ''v'')) code = Inr version_metadata"
    "parseJson catalog_platform (encode (js ''l'')) code = Inr fabric_metadata"
    by (simp_all add: parseJson_def parse_json_def catalog_documents_def runtime_document_def version_manifest_def
        version_metadata_def fabric_metadata_def)
qed

section \<open>The network\<close>

definition manifest_url :: jsstr where
  "manifest_url = js ''https://piston-meta.mojang.com/mc/game/version_manifest_v2.json''"

definition loader_url :: jsstr where
  "loader_url = js ''https://meta.fabricmc.net/v2/versions/loader/1.21.1/0.16.9''"

definition jar_url :: jsstr where
  "jar_url = js ''https://maven.fabricmc.net/net/fabricmc/fabric-loader/0.16.9/fabric-loader-0.16.9.jar''"

definition catalog_pages :: "(jsstr \<times> bytes) list" where
  "catalog_pages = [(manifest_url, encode (js ''m'')), (version_url, encode (js ''v'')), (loader_url, encode (js ''l'')),
     (jar_url @ js ''.sha1'', encode (sample_sha1 [7])), (jar_url, [7]), (server_url, [8, 8])]"

definition catalog_page :: "bytes \<Rightarrow> response" where
  "catalog_page body = \<lparr>rs_ok = True, rs_status = 200, rs_redirected = False, rs_url = [],
     rs_headers = (\<lambda>k. if k = ''content-length'' then Some (digits_of 10 (length body)) else None), rs_body = Stream [Chunk body]\<rparr>"

definition catalog_fetch :: "jsstr list \<Rightarrow> response result \<times> bool" where
  "catalog_fetch h = (case map_of catalog_pages (last h) of None \<Rightarrow> Inl network_error | Some body \<Rightarrow> Inr (catalog_page body), False)"

definition sample_fetcher :: catalog_fetcher where
  "sample_fetcher = \<lparr>cf_fetch = catalog_fetch, cf_maxMetadataBytes = 4194304, cf_maxArtifactBytes = 536870912\<rparr>"

lemma sample_fetcher: "StrictCatalogFetcher (Some catalog_fetch) Undefined Undefined Undefined = Inr sample_fetcher"
  by (simp add: StrictCatalogFetcher_def default_to_def validPositiveInteger_def MAX_METADATA_BYTES_def MAX_ARTIFACT_BYTES_def
      max_safe_integer_def sample_fetcher_def)

lemma digits_plain: "plain_length (digits_of 10 n)"
proof (induction n rule: less_induct)
  case (less n)
  show ?case
  proof (cases "n < 10")
    case True
    then have "digits_of 10 n = [48 + of_nat n]" by (subst digits_of.simps) simp
    moreover from True have "n \<in> {0, 1, 2, 3, 4, 5, 6, 7, 8, 9}" by auto
    ultimately show ?thesis by (auto simp: plain_length_def js_simps char_class_defs)
  next
    case False
    then have "digits_of 10 n = digits_of 10 (n div 10) @ [48 + of_nat (n mod 10)]" by (subst digits_of.simps) simp
    moreover have "digits_of 10 (n div 10) \<noteq> js ''0''"
      using digits_of_value [of 10 "n div 10"] False by (auto simp: js_simps digits_value_def)
    moreover have "plain_length (digits_of 10 (n div 10))" using less False by simp
    ultimately show ?thesis using digits_digit [of n] by (auto simp: plain_length_def)
  qed
qed

lemma served_page:
  assumes "map_of catalog_pages url = Some body" and "length body \<le> m"
    and "assertTrustedUrl catalog_platform (Str url) hosts ''upstream_url_rejected'' = Inr ()"
  shows "catalog_download catalog_platform sample_fetcher url hosts m c 0 h = (Inr body, h @ [url])"
proof -
  have "catalog_response catalog_platform url m c (catalog_page body) = Inr body"
    using assms(2) digits_plain by (simp add: catalog_response_def catalog_page_def encoded_response_def declared_within_def
        digits_of_value catalog_body_def concatenate_concat)
  then have "catalog_answer catalog_platform sample_fetcher url m c (h @ [url]) = Inr body"
    using assms(1) by (simp add: catalog_answer_def catalog_raced_def sample_fetcher_def catalog_fetch_def)
  then show ?thesis
    by (subst catalog_download.simps) (simp add: downloadOnce_trusted [OF assms(3)])
qed

lemmas page_defs = manifest_url_def version_url_def loader_url_def jar_url_def server_url_def

lemma catalog_pages_distinct: "distinct (map fst catalog_pages)"
proof -
  have "distinct (map length (map fst catalog_pages))" by (simp add: catalog_pages_def page_defs)
  then show ?thesis using distinct_map by blast
qed

lemma safe_paths: "list_all safeUrlPath [js ''/mc/game/version_manifest_v2.json'', js ''/v1/packages/1.21.1.json'', js ''/v2/versions/loader/1.21.1/0.16.9'',
    js ''/net/fabricmc/fabric-loader/0.16.9/fabric-loader-0.16.9.jar'', js ''/net/fabricmc/fabric-loader/0.16.9/fabric-loader-0.16.9.jar.sha1'',
    js ''/v1/objects/aaaaaaaaaaaaaaaaaaaaaaaaaaaaaaaaaaaaaaaa/server.jar'']"
  by (simp add: safeUrlPath_def js_simps one_of_def)

lemma parsed_page:
  assumes "list_all host_unit h" and "prefix (js ''/'') path"
  shows "\<exists>u. catalog_url (js ''https://'' @ h @ path) = Some u \<and> protocol u = js ''https:'' \<and> username u = [] \<and> password u = [] \<and>
    port u = [] \<and> hash u = [] \<and> search u = [] \<and> hostname u = h \<and> pathname u = path"
proof -
  from assms(2) obtain r where p: "path = 47 # r" by (auto simp: prefix_def js_simps)
  have "\<forall>u \<in> set h. u \<noteq> 47" using assms(1) by (auto simp: list_all_iff host_unit_def char_class_defs)
  then have "takeWhile (\<lambda>u. u \<noteq> 47) (h @ path) = h" "dropWhile (\<lambda>u. u \<noteq> 47) (h @ path) = path"
    by (simp_all add: p takeWhile_append2 dropWhile_append2)
  moreover have "drop 8 (js ''https://'' @ h @ path) = h @ path" by (simp add: js_simps)
  ultimately show ?thesis by (simp add: catalog_url_def)
qed

lemma trusted_page:
  assumes "url = js ''https://'' @ js h @ path" and "h \<in> {''piston-meta.mojang.com'', ''meta.fabricmc.net'', ''maven.fabricmc.net'', ''piston-data.mojang.com''}"
    and "safeUrlPath path" and "js h \<in> set hosts"
  shows "assertTrustedUrl catalog_platform (Str url) hosts code = Inr ()"
proof -
  have h: "list_all host_unit (js h)" using assms(2) by (auto simp: js_simps host_unit_def char_class_defs)
  obtain u where "catalog_url url = Some u" "protocol u = js ''https:''" "username u = []" "password u = []"
    "port u = []" "hash u = []" "search u = []" "hostname u = js h" "pathname u = path"
    using parsed_page [OF h, of path] assms(1,3) by (auto simp: safeUrlPath_def)
  then show ?thesis using assms(3,4) host_units [OF h] by (simp add: assertTrustedUrl_def trusted_url_def)
qed

lemma trusted_pages:
  "assertTrustedUrl catalog_platform (Str manifest_url) APPROVED_METADATA_HOSTS code = Inr ()"
  "assertTrustedUrl catalog_platform (Str version_url) APPROVED_METADATA_HOSTS code = Inr ()"
  "assertTrustedUrl catalog_platform (Str version_url) [js ''piston-meta.mojang.com''] code = Inr ()"
  "assertTrustedUrl catalog_platform (Str loader_url) APPROVED_METADATA_HOSTS code = Inr ()"
  "assertTrustedUrl catalog_platform (Str (jar_url @ js ''.sha1'')) APPROVED_ARTIFACT_HOSTS code = Inr ()"
  "assertTrustedUrl catalog_platform (Str jar_url) APPROVED_ARTIFACT_HOSTS code = Inr ()"
  "assertTrustedUrl catalog_platform (Str server_url) APPROVED_ARTIFACT_HOSTS code = Inr ()"
  "assertTrustedUrl catalog_platform (Str server_url) [js ''piston-data.mojang.com''] code = Inr ()"
proof -
  note hosts = APPROVED_METADATA_HOSTS_def APPROVED_ARTIFACT_HOSTS_def
  have m: "manifest_url = js ''https://'' @ js ''piston-meta.mojang.com'' @ js ''/mc/game/version_manifest_v2.json''"
    "version_url = js ''https://'' @ js ''piston-meta.mojang.com'' @ js ''/v1/packages/1.21.1.json''"
    "loader_url = js ''https://'' @ js ''meta.fabricmc.net'' @ js ''/v2/versions/loader/1.21.1/0.16.9''"
    "jar_url @ js ''.sha1'' = js ''https://'' @ js ''maven.fabricmc.net'' @ js ''/net/fabricmc/fabric-loader/0.16.9/fabric-loader-0.16.9.jar.sha1''"
    "jar_url = js ''https://'' @ js ''maven.fabricmc.net'' @ js ''/net/fabricmc/fabric-loader/0.16.9/fabric-loader-0.16.9.jar''"
    "server_url = js ''https://'' @ js ''piston-data.mojang.com'' @ js ''/v1/objects/aaaaaaaaaaaaaaaaaaaaaaaaaaaaaaaaaaaaaaaa/server.jar''"
    by (simp_all add: page_defs js_simps)
  show "assertTrustedUrl catalog_platform (Str manifest_url) APPROVED_METADATA_HOSTS code = Inr ()"
    by (rule trusted_page [OF m(1)]) (use safe_paths in \<open>simp_all add: hosts\<close>)
  show "assertTrustedUrl catalog_platform (Str version_url) APPROVED_METADATA_HOSTS code = Inr ()"
    by (rule trusted_page [OF m(2)]) (use safe_paths in \<open>simp_all add: hosts\<close>)
  show "assertTrustedUrl catalog_platform (Str version_url) [js ''piston-meta.mojang.com''] code = Inr ()"
    by (rule trusted_page [OF m(2)]) (use safe_paths in simp_all)
  show "assertTrustedUrl catalog_platform (Str loader_url) APPROVED_METADATA_HOSTS code = Inr ()"
    by (rule trusted_page [OF m(3)]) (use safe_paths in \<open>simp_all add: hosts\<close>)
  show "assertTrustedUrl catalog_platform (Str (jar_url @ js ''.sha1'')) APPROVED_ARTIFACT_HOSTS code = Inr ()"
    by (rule trusted_page [OF m(4)]) (use safe_paths in \<open>simp_all add: hosts\<close>)
  show "assertTrustedUrl catalog_platform (Str jar_url) APPROVED_ARTIFACT_HOSTS code = Inr ()"
    by (rule trusted_page [OF m(5)]) (use safe_paths in \<open>simp_all add: hosts\<close>)
  show "assertTrustedUrl catalog_platform (Str server_url) APPROVED_ARTIFACT_HOSTS code = Inr ()"
    by (rule trusted_page [OF m(6)]) (use safe_paths in \<open>simp_all add: hosts\<close>)
  show "assertTrustedUrl catalog_platform (Str server_url) [js ''piston-data.mojang.com''] code = Inr ()"
    by (rule trusted_page [OF m(6)]) (use safe_paths in simp_all)
qed

lemma encode_short: "length (encode (js [c])) = 1" if "c \<in> {CHR ''m'', CHR ''v'', CHR ''l''}"
proof -
  have "ascii (js [c])" using that by (auto simp: ascii_def js_simps)
  then show ?thesis by (simp add: encode_ascii)
qed

lemma sample_sidecar: "decode (encode (sample_sha1 bs)) = Some (sample_sha1 bs)" "length (encode (sample_sha1 bs)) = 40"
  "sidecar_digest (trim (sample_sha1 bs)) = Some (sample_sha1 bs)"
proof -
  have "u < 128 \<and> \<not> is_space u" if "is_hex_lower u" for u
    using that by (auto simp: char_class_defs is_space_def word_le_nat_alt word_less_nat_alt)
  then have u: "\<forall>u \<in> set (sample_sha1 bs). u < 128 \<and> \<not> is_space u" using sha1_digest(2) [of bs] by (auto simp: list_all_iff)
  then have "ascii (sample_sha1 bs)" by (simp add: ascii_def list_all_iff)
  then show "decode (encode (sample_sha1 bs)) = Some (sample_sha1 bs)" "length (encode (sample_sha1 bs)) = 40"
    using sha1_digest(1) decode_encode_ascii by (blast, simp add: encode_ascii)
  have "dropWhile is_space xs = xs" if "\<forall>u \<in> set xs. \<not> is_space u" for xs using that by (cases xs) auto
  from this [of "sample_sha1 bs"] this [of "rev (sample_sha1 bs)"] u have "trim (sample_sha1 bs) = sample_sha1 bs" by (simp add: trim_def)
  then show "sidecar_digest (trim (sample_sha1 bs)) = Some (sample_sha1 bs)"
    using sha1_digest [of bs] by (auto simp: sidecar_digest_def validSha1_def Let_def)
qed

lemma sample_pages:
  "fetch_metadata catalog_platform sample_fetcher manifest_url h = (Inr (encode (js ''m'')), h @ [manifest_url])"
  "fetch_metadata catalog_platform sample_fetcher version_url h = (Inr (encode (js ''v'')), h @ [version_url])"
  "fetch_metadata catalog_platform sample_fetcher loader_url h = (Inr (encode (js ''l'')), h @ [loader_url])"
  "fetch_checksum catalog_platform sample_fetcher (jar_url @ js ''.sha1'') h = (Inr (encode (sample_sha1 [7])), h @ [jar_url @ js ''.sha1''])"
  "fetch_artifact catalog_platform sample_fetcher jar_url h = (Inr [7], h @ [jar_url])"
  "fetch_artifact catalog_platform sample_fetcher server_url h = (Inr [8, 8], h @ [server_url])"
proof -
  note page = served_page [OF map_of_is_SomeI [OF catalog_pages_distinct]] and defs = catalog_pages_def sample_fetcher_def
  show "fetch_metadata catalog_platform sample_fetcher manifest_url h = (Inr (encode (js ''m'')), h @ [manifest_url])"
    unfolding fetch_metadata_def by (rule page [OF _ _ trusted_pages(1)]) (simp_all add: defs encode_short)
  show "fetch_metadata catalog_platform sample_fetcher version_url h = (Inr (encode (js ''v'')), h @ [version_url])"
    unfolding fetch_metadata_def by (rule page [OF _ _ trusted_pages(2)]) (simp_all add: defs encode_short)
  show "fetch_metadata catalog_platform sample_fetcher loader_url h = (Inr (encode (js ''l'')), h @ [loader_url])"
    unfolding fetch_metadata_def by (rule page [OF _ _ trusted_pages(4)]) (simp_all add: defs encode_short)
  show "fetch_checksum catalog_platform sample_fetcher (jar_url @ js ''.sha1'') h = (Inr (encode (sample_sha1 [7])), h @ [jar_url @ js ''.sha1''])"
    unfolding fetch_checksum_def by (rule page [OF _ _ trusted_pages(5)]) (simp_all add: defs sample_sidecar(2))
  show "fetch_artifact catalog_platform sample_fetcher jar_url h = (Inr [7], h @ [jar_url])"
    unfolding fetch_artifact_def by (rule page [OF _ _ trusted_pages(6)]) (simp_all add: defs)
  show "fetch_artifact catalog_platform sample_fetcher server_url h = (Inr [8, 8], h @ [server_url])"
    unfolding fetch_artifact_def by (rule page [OF _ _ trusted_pages(7)]) (simp_all add: defs)
qed

section \<open>The run\<close>

lemma canonical_object:
  assumes "sort_key fst ps = qs" and "list_all (\<lambda>q. \<not> index_key (fst q)) qs"
    and "list_all2 (\<lambda>q r. fst r = fst q \<and> canonicalize (snd q) = Inr (snd r)) qs rs"
  shows "canonicalize (Obj ps) = Inr (Obj rs)"
proof -
  have "mapR (\<lambda>p. bindR (canonicalize (snd p)) (\<lambda>w. Inr (fst p, w))) qs = Inr rs"
    using assms(3) by (auto simp: mapR_Inr_iff elim: list_all2_mono)
  moreover have "map fst rs = map fst qs"
    using assms(3) by (induction rule: list_all2_induct) auto
  then have "own_order rs = rs" using assms(2)
    by (intro own_order_plain) (metis (mono_tags, lifting) comp_apply list.pred_map list.pred_mono_strong o_def)
  ultimately show ?thesis by (simp add: assms(1))
qed

lemma letter_key: "is_lower (of_char c) \<Longrightarrow> \<not> index_key (js (c # cs))"
  by (auto simp: index_key_def js_simps char_class_defs word_le_nat_alt)

lemma sorted_keys:
  "sort_key fst [(js ''component'', a), (js ''major'', b)] = [(js ''component'', a), (js ''major'', b)]"
  "sort_key fst [(js ''kind'', a), (js ''version'', b)] = [(js ''kind'', a), (js ''version'', b)]"
  "sort_key fst [(js ''id'', a), (js ''sha256'', b), (js ''component'', c), (js ''major'', d), (js ''runtimeCatalogRevision'', e)] =
    [(js ''component'', c), (js ''id'', a), (js ''major'', d), (js ''runtimeCatalogRevision'', e), (js ''sha256'', b)]"
  "sort_key fst [(js ''role'', a), (js ''coordinate'', b), (js ''url'', c), (js ''sizeBytes'', d), (js ''sha256'', e)] =
    [(js ''coordinate'', b), (js ''role'', a), (js ''sha256'', e), (js ''sizeBytes'', d), (js ''url'', c)]"
  "sort_key fst [(js ''minecraftVersion'', a), (js ''loader'', b), (js ''java'', c), (js ''jre'', d), (js ''artifacts'', e), (js ''launchTemplate'', f)] =
    [(js ''artifacts'', e), (js ''java'', c), (js ''jre'', d), (js ''launchTemplate'', f), (js ''loader'', b), (js ''minecraftVersion'', a)]"
  "sort_key fst [(js ''schemaVersion'', a), (js ''catalogRevision'', b), (js ''runtimeCatalogRevision'', c), (js ''approvedArtifactHosts'', d), (js ''toolchains'', e)] =
    [(js ''approvedArtifactHosts'', d), (js ''catalogRevision'', b), (js ''runtimeCatalogRevision'', c), (js ''schemaVersion'', a), (js ''toolchains'', e)]"
  by (simp_all add: sort_key_def insort_key.simps js_simps)

lemmas canonical_keys = canonical_object [OF sorted_keys(1)] canonical_object [OF sorted_keys(2)] canonical_object [OF sorted_keys(3)]
  canonical_object [OF sorted_keys(4)] canonical_object [OF sorted_keys(5)] canonical_object [OF sorted_keys(6)]

lemma java_canonical: "canonicalize reviewed_java = Inr reviewed_java"
  unfolding reviewed_java_def by (rule canonical_keys(1)) (simp_all add: letter_key char_class_defs)

lemma loader_canonical: "canonicalize reviewed_loader = Inr reviewed_loader"
  unfolding reviewed_loader_def by (rule canonical_keys(2)) (simp_all add: letter_key char_class_defs)

definition sample_runtimes :: runtime where
  "sample_runtimes = \<lparr>ru_revision = sample_sha256 (encode (js ''j'')),
     ru_selected = [(js ''java-runtime-delta'' @ [0] @ js ''21'', reviewed_java)],
     ru_resolutions = [(js ''java-runtime-delta'' @ [0] @ js ''21'', reviewed_java)]\<rparr>"

lemma sample_requirement: "validJavaRequirement reviewed_java" "javaKey catalog_platform reviewed_java = js ''java-runtime-delta'' @ [0] @ js ''21''"
  using reviewed_parts catalog_platform_simps(8)
  by (simp_all add: validJavaRequirement_def reviewed_java_def javaKey_def max_safe_integer_def)

lemma sample_runtimes: "parseReviewedRuntimeCatalog catalog_platform (Some (encode (js ''j''))) = Inr sample_runtimes"
proof -
  note r = sample_requirement java_canonical
  have "foldR (add_requirement catalog_platform) [] [reviewed_java] = Inr [js ''java-runtime-delta'' @ [0] @ js ''21'']"
    "foldR (add_resolution catalog_platform) [] [reviewed_java] = Inr [(js ''java-runtime-delta'' @ [0] @ js ''21'', reviewed_java)]"
    "foldR (add_runtime catalog_platform [js ''java-runtime-delta'' @ [0] @ js ''21''] [(js ''java-runtime-delta'' @ [0] @ js ''21'', reviewed_java)])
      [] [reviewed_java] = Inr [(js ''java-runtime-delta'' @ [0] @ js ''21'', reviewed_java)]"
    using r by (simp_all add: add_requirement_def add_resolution_def add_runtime_def)
  then show ?thesis
    by (simp add: parseReviewedRuntimeCatalog_def parsed_documents runtime_document_def sample_runtimes_def)
qed

lemma sample_candidate_fields [simp]: "get sample_candidate ''java'' = reviewed_java" "get sample_candidate ''loader'' = reviewed_loader"
  "get sample_candidate ''minecraftVersion'' = Str (js ''1.21.1'')"
  by (simp_all add: sample_candidate_def)

lemma loader_fields [simp]: "get reviewed_loader ''kind'' = Str (js ''fabric'')" "get reviewed_loader ''version'' = Str (js ''0.16.9'')"
  "get reviewed_java ''component'' = Str (js ''java-runtime-delta'')" "get reviewed_java ''major'' = JInt 21"
  by (simp_all add: reviewed_loader_def reviewed_java_def)

lemma sample_loader: "validLoader catalog_platform reviewed_loader = Inr True"
  using reviewed_parts(2) by (simp add: validLoader_def sameKeysI loaderTemplates_def) (simp add: reviewed_loader_def sameKeysI)

lemma sample_validated: "validateCandidate catalog_platform sample_candidate = Inr ()"
  using reviewed_parts(1) sample_loader sample_requirement(1)
  by (simp add: validateCandidate_def) (simp add: sample_candidate_def sameKeysI)

lemma sample_candidates: "validateCandidates catalog_platform (Arr [sample_candidate]) = Inr ()"
  using sample_validated by (simp add: validateCandidates_def add_candidate_def candidateKey_def)

lemma sample_version: "loadMinecraftMetadata catalog_platform sample_fetcher [sample_candidate] h =
    (Inr [(js ''1.21.1'', version_metadata)], h @ [manifest_url, version_url])"
proof -
  define m where "m = hd (the_arr (get version_manifest ''versions''))"
  have m: "get version_manifest ''versions'' = Arr [m]" "plainObject m" "get m ''id'' = Str (js ''1.21.1'')"
    "get m ''sha1'' = Str (sample_sha1 (encode (js ''v'')))" "get m ''url'' = Str version_url"
    by (simp_all add: m_def version_manifest_def)
  have "verifyMinecraftJava version_metadata sample_candidate = Inr ()"
    by (simp add: verifyMinecraftJava_def version_metadata_def)
  then have "load_version catalog_platform sample_fetcher version_manifest [] sample_candidate h' =
      (Inr [(js ''1.21.1'', version_metadata)], h' @ [version_url])" for h'
    using m sha1_digest(3,4) [of "encode (js ''v'')"] trusted_pages(3) sample_pages(2) [of h'] parsed_documents(3)
    by (simp add: load_version_def Let_def fetch_bind_def pure_def verifySha1_def)
  then show ?thesis
    using m(1) sample_pages(1) [of h] parsed_documents(2)
    by (simp add: loadMinecraftMetadata_def fetch_bind_def pure_def flip: manifest_url_def)
qed

definition primary_entry :: jsval where
  "primary_entry = artifact_entry catalog_platform ''primary'' (js ''net.fabricmc:fabric-loader:0.16.9'') jar_url [7]"

definition server_entry :: jsval where
  "server_entry = artifact_entry catalog_platform ''dependency'' (js ''com.mojang:minecraft-server:1.21.1:server'') server_url [8, 8]"

lemma sample_primary_names: "primaryArtifactUrl catalog_platform sample_candidate = Inr jar_url"
  "primaryCoordinate sample_candidate = Inr (js ''net.fabricmc:fabric-loader:0.16.9'')"
  "loader_metadata_url ''https://meta.fabricmc.net/v2/versions/loader/'' sample_candidate = loader_url"
  "server_coordinate sample_candidate = js ''com.mojang:minecraft-server:1.21.1:server''"
  using sample_validated
  by (simp_all add: primaryArtifactUrl_def primaryCoordinate_def loader_metadata_url_def server_coordinate_def page_defs Let_def flip: js_append)

lemma sample_primary: "resolvePrimaryArtifact catalog_platform sample_fetcher sample_candidate h =
    (Inr (primary_entry, [7]), h @ [loader_url, jar_url @ js ''.sha1'', jar_url])"
proof -
  have "fabric_metadata_ok sample_candidate fabric_metadata"
    by (simp add: fabric_metadata_ok_def fabric_metadata_def flip: js_append)
  then have "loadFabricMetadata catalog_platform sample_fetcher sample_candidate h = (Inr fabric_metadata, h @ [loader_url])"
    using sample_pages(3) parsed_documents(4) by (simp add: loadFabricMetadata_def sample_primary_names fetch_bind_def pure_def)
  moreover have "fetchMavenSha1 catalog_platform sample_fetcher jar_url h' = (Inr (sample_sha1 [7]), h' @ [jar_url @ js ''.sha1''])" for h'
    using sample_pages(4) sample_sidecar [of "[7]"] by (simp add: fetchMavenSha1_def fetch_bind_def pure_def)
  moreover have "get (get fabric_metadata ''loader'') ''version'' = Str (js ''0.16.9'')" by (simp add: fabric_metadata_def)
  moreover have "downloadArtifact catalog_platform sample_fetcher ''primary'' (js ''net.fabricmc:fabric-loader:0.16.9'') jar_url
      (Str (sample_sha1 [7])) Undefined h' = (Inr (primary_entry, [7]), h' @ [jar_url])" for h'
    using sample_pages(5) sha1_digest(3,4) [of "[7]"]
    by (simp add: downloadArtifact_def fetch_bind_def pure_def verifySha1_def primary_entry_def)
  ultimately show ?thesis
    by (simp add: resolvePrimaryArtifact_def sample_primary_names fetch_bind_def pure_def)
qed

lemma sample_server: "resolveMinecraftServer catalog_platform sample_fetcher version_metadata sample_candidate h =
    (Inr (server_entry, [8, 8]), h @ [server_url])"
proof -
  define s where "s = get (get version_metadata ''downloads'') ''server''"
  have s: "plainObject s" "get s ''url'' = Str server_url" "get s ''sha1'' = Str (sample_sha1 [8, 8])" "get s ''size'' = JInt 2"
    by (simp_all add: s_def version_metadata_def)
  then show ?thesis
    using sample_pages(6) sha1_digest(3,4) [of "[8, 8]"] trusted_pages(8)
    by (simp add: resolveMinecraftServer_def flip: s_def)
      (simp add: download_ok_def fetch_bind_def pure_def downloadArtifact_def verifySha1_def server_entry_def sample_primary_names
        validPositiveInteger_def MAX_ARTIFACT_BYTES_def max_safe_integer_def)
qed

section \<open>The lock\<close>

definition resolved_jre :: jsval where
  "resolved_jre = Obj [(js ''id'', Str (js ''java-runtime-delta-21'')), (js ''sha256'', Str (sample_sha256 (encode (sample_text reviewed_java)))),
     (js ''component'', Str (js ''java-runtime-delta'')), (js ''major'', JInt 21), (js ''runtimeCatalogRevision'', Str (ru_revision sample_runtimes))]"

definition locked_jre :: jsval where
  "locked_jre = Obj [(js ''component'', Str (js ''java-runtime-delta'')), (js ''id'', Str (js ''java-runtime-delta-21'')), (js ''major'', JInt 21),
     (js ''runtimeCatalogRevision'', Str (ru_revision sample_runtimes)), (js ''sha256'', Str (sample_sha256 (encode (sample_text reviewed_java))))]"

definition locked_artifact :: "string \<Rightarrow> jsstr \<Rightarrow> jsstr \<Rightarrow> bytes \<Rightarrow> jsval" where
  "locked_artifact role coordinate url bytes = Obj [(js ''coordinate'', Str coordinate), (js ''role'', Str (js role)),
     (js ''sha256'', Str (sample_sha256 bytes)), (js ''sizeBytes'', JInt (int (length bytes))), (js ''url'', Str url)]"

definition locked_server :: jsval where
  "locked_server = locked_artifact ''dependency'' (js ''com.mojang:minecraft-server:1.21.1:server'') server_url [8, 8]"

definition locked_primary :: jsval where
  "locked_primary = locked_artifact ''primary'' (js ''net.fabricmc:fabric-loader:0.16.9'') jar_url [7]"

definition locked_toolchain :: jsval where
  "locked_toolchain = Obj [(js ''artifacts'', Arr [locked_server, locked_primary]), (js ''java'', reviewed_java), (js ''jre'', locked_jre),
     (js ''launchTemplate'', Str (js ''fabric-server-jar-v1'')), (js ''loader'', reviewed_loader), (js ''minecraftVersion'', Str (js ''1.21.1''))]"

definition locked_catalog :: "jsstr \<Rightarrow> jsval" where
  "locked_catalog revision = Obj [(js ''approvedArtifactHosts'', Arr (map Str APPROVED_ARTIFACT_HOSTS)), (js ''catalogRevision'', Str revision),
     (js ''runtimeCatalogRevision'', Str (ru_revision sample_runtimes)), (js ''schemaVersion'', JInt 1), (js ''toolchains'', Arr [locked_toolchain])]"

definition resolved_toolchain :: jsval where
  "resolved_toolchain = toolchain_entry sample_candidate resolved_jre [server_entry, primary_entry]"

lemma sample_jre: "jreFor catalog_platform sample_runtimes reviewed_java = Inr resolved_jre"
  using sample_requirement(2) catalog_platform_simps(8) java_canonical
  by (simp add: jreFor_def sample_runtimes_def canonicalJsonBytes_def resolved_jre_def flip: js_append)

lemma jre_canonical: "canonicalize resolved_jre = Inr locked_jre"
  unfolding resolved_jre_def locked_jre_def by (rule canonical_keys(3)) (simp_all add: letter_key char_class_defs)

lemma artifact_canonical: "canonicalize (artifact_entry catalog_platform role coordinate url bytes) = Inr (locked_artifact role coordinate url bytes)"
  unfolding artifact_entry_def locked_artifact_def by (rule canonical_keys(4)) (simp_all add: letter_key char_class_defs)

lemma toolchain_canonical: "canonicalize resolved_toolchain = Inr locked_toolchain"
  unfolding resolved_toolchain_def toolchain_entry_def locked_toolchain_def
  by (rule canonical_keys(5))
    (simp_all add: letter_key char_class_defs java_canonical loader_canonical jre_canonical artifact_canonical server_entry_def primary_entry_def
      locked_server_def locked_primary_def loaderTemplates_def)

lemma lock_canonical: "canonicalize (lock_document revision (ru_revision sample_runtimes) [resolved_toolchain]) = Inr (locked_catalog revision)"
proof -
  have "mapR canonicalize (map Str ss) = Inr (map Str ss)" for ss by (induction ss) simp_all
  then show ?thesis
    unfolding lock_document_def locked_catalog_def
    by (intro canonical_keys(6)) (simp_all add: letter_key char_class_defs toolchain_canonical)
qed

lemma resolved_distinct_keys: "distinct_keys resolved_jre" "distinct_keys (lock_document revision (ru_revision sample_runtimes) [resolved_toolchain])"
proof -
  show j: "distinct_keys resolved_jre" by (simp add: resolved_jre_def)
  have "distinct_keys reviewed_java" "distinct_keys reviewed_loader" "distinct_keys server_entry" "distinct_keys primary_entry"
    by (simp_all add: reviewed_java_def reviewed_loader_def server_entry_def primary_entry_def artifact_entry_def)
  then show "distinct_keys (lock_document revision (ru_revision sample_runtimes) [resolved_toolchain])"
    using j by (simp add: lock_document_def resolved_toolchain_def toolchain_entry_def loaderTemplates_def list_all_iff)
qed

lemma locked_fields [simp]: "get locked_toolchain ''artifacts'' = Arr [locked_server, locked_primary]"
  "get locked_toolchain ''java'' = reviewed_java" "get locked_toolchain ''jre'' = locked_jre"
  "get locked_toolchain ''launchTemplate'' = Str (js ''fabric-server-jar-v1'')" "get locked_toolchain ''loader'' = reviewed_loader"
  "get locked_toolchain ''minecraftVersion'' = Str (js ''1.21.1'')"
  "get locked_server ''role'' = Str (js ''dependency'')" "get locked_primary ''role'' = Str (js ''primary'')"
  "get locked_server ''coordinate'' = Str (js ''com.mojang:minecraft-server:1.21.1:server'')"
  "get locked_primary ''coordinate'' = Str (js ''net.fabricmc:fabric-loader:0.16.9'')"
  "get locked_server ''url'' = Str server_url" "get locked_primary ''url'' = Str jar_url"
  "get (locked_catalog revision) ''approvedArtifactHosts'' = Arr (map Str APPROVED_ARTIFACT_HOSTS)"
  "get (locked_catalog revision) ''catalogRevision'' = Str revision"
  "get (locked_catalog revision) ''runtimeCatalogRevision'' = Str (ru_revision sample_runtimes)"
  "get (locked_catalog revision) ''toolchains'' = Arr [locked_toolchain]"
  "get locked_jre ''runtimeCatalogRevision'' = Str (ru_revision sample_runtimes)"
  by (simp_all add: locked_toolchain_def locked_server_def locked_primary_def locked_artifact_def locked_catalog_def locked_jre_def)

lemma locked_artifacts:
  "validateArtifact catalog_platform APPROVED_ARTIFACT_HOSTS () locked_server = Inr ()"
  "validateArtifact catalog_platform APPROVED_ARTIFACT_HOSTS () locked_primary = Inr ()"
proof -
  have c: "validCoordinate (Str (js ''com.mojang:minecraft-server:1.21.1:server''))" "validCoordinate (Str (js ''net.fabricmc:fabric-loader:0.16.9''))"
    by (simp_all add: validCoordinate_def coordinate_part_def js_simps char_class_defs one_of_def)
  have d: "validSha256 (Str (sample_sha256 bs))" for bs
    using sha256_validSha256 [OF catalog_platform_laws(1), of bs] by simp
  have a: "plainObject (locked_artifact r k u b)" "sameKeys (locked_artifact r k u b) [''coordinate'', ''role'', ''sha256'', ''sizeBytes'', ''url'']"
    "get (locked_artifact r k u b) ''sha256'' = Str (sample_sha256 b)" "get (locked_artifact r k u b) ''sizeBytes'' = JInt (int (length b))" for r k u b
    by (simp_all add: locked_artifact_def sameKeysI)
  have s: "validPositiveInteger (JInt 1) MAX_ARTIFACT_BYTES" "validPositiveInteger (JInt 2) MAX_ARTIFACT_BYTES"
    by (simp_all add: validPositiveInteger_def MAX_ARTIFACT_BYTES_def max_safe_integer_def)
  show "validateArtifact catalog_platform APPROVED_ARTIFACT_HOSTS () locked_server = Inr ()"
    using c d s trusted_pages(7) a [of "''dependency''" "js ''com.mojang:minecraft-server:1.21.1:server''" server_url "[8, 8]"]
    by (simp add: validateArtifact_def flip: locked_server_def)
  show "validateArtifact catalog_platform APPROVED_ARTIFACT_HOSTS () locked_primary = Inr ()"
    using c d s trusted_pages(6) a [of "''primary''" "js ''net.fabricmc:fabric-loader:0.16.9''" jar_url "[7]"]
    by (simp add: validateArtifact_def flip: locked_primary_def)
qed

lemma locked_ok: "lock_toolchain_ok catalog_platform locked_toolchain = Inr True"
proof -
  have "validIdentifier (Str (js ''java-runtime-delta-21''))" by (simp add: validIdentifier_def js_simps char_class_defs)
  then have "validJre locked_jre"
    using reviewed_parts(3) sha256_validSha256 [OF catalog_platform_laws(1)]
    by (simp add: validJre_def) (simp add: locked_jre_def sameKeysI sample_runtimes_def max_safe_integer_def)
  moreover have "plainObject locked_toolchain" "sameKeys locked_toolchain [''artifacts'', ''java'', ''jre'', ''launchTemplate'', ''loader'', ''minecraftVersion'']"
    by (simp_all add: locked_toolchain_def sameKeysI)
  ultimately show ?thesis
    using reviewed_parts(1) sample_loader sample_requirement(1) by (simp add: lock_toolchain_ok_def loaderTemplates_def)
qed

lemma locked_jre_checked: "check_jre catalog_platform sample_runtimes (Str (ru_revision sample_runtimes)) locked_toolchain = Inr ()"
  using sample_jre jre_canonical canonicalize_idempotent [OF jre_canonical resolved_distinct_keys(1)]
  by (simp add: check_jre_def)

lemma locked_required: "check_required catalog_platform locked_toolchain = Inr locked_server"
proof -
  have "validateCandidate catalog_platform (toolchain_candidate locked_toolchain) = Inr ()"
    using reviewed_parts(1) sample_loader sample_requirement(1)
    by (simp add: validateCandidate_def toolchain_candidate_def sameKeys_def sort_key_def insort_key.simps) (simp add: js_simps)
  then have "primaryArtifactUrl catalog_platform (toolchain_candidate locked_toolchain) = Inr jar_url"
    by (simp add: primaryArtifactUrl_def toolchain_candidate_def jar_url_def flip: js_append)
  then show ?thesis
    by (simp add: check_required_def primaryCoordinate_def server_coordinate_def Let_def flip: js_append)
      (simp add: toolchain_candidate_def flip: js_append)
qed

lemma locked_server_url: "validateMinecraftServerUrl catalog_platform (Str server_url) = Inr ()"
proof -
  have "server_url = js ''https://'' @ js ''piston-data.mojang.com'' @ js ''/v1/objects/aaaaaaaaaaaaaaaaaaaaaaaaaaaaaaaaaaaaaaaa/server.jar''"
    by (simp add: server_url_def flip: js_append)
  moreover have "list_all host_unit (js ''piston-data.mojang.com'')" by (simp add: js_simps host_unit_def char_class_defs)
  moreover have "server_path (js ''/v1/objects/aaaaaaaaaaaaaaaaaaaaaaaaaaaaaaaaaaaaaaaa/server.jar'')"
    by (simp add: server_path_def js_simps char_class_defs)
  ultimately show ?thesis
    using parsed_page [of "js ''piston-data.mojang.com''" "js ''/v1/objects/aaaaaaaaaaaaaaaaaaaaaaaaaaaaaaaaaaaaaaaa/server.jar''"]
    by (auto simp: validateMinecraftServerUrl_def prefix_def js_simps)
qed

definition locked_tuple :: jsstr where
  "locked_tuple = js ''1.21.1'' @ [0] @ js ''fabric'' @ [0] @ js ''0.16.9'' @ [0] @ js ''java-runtime-delta'' @ [0] @ js ''21''"

lemma locked_key: "candidateKey catalog_platform sample_candidate = Inr locked_tuple" "candidateKey catalog_platform locked_toolchain = Inr locked_tuple"
  using sample_requirement(2) by (simp_all add: candidateKey_def locked_tuple_def)

lemma locked_order: "sortArtifacts loose [locked_server, locked_primary] = Inr [locked_server, locked_primary]"
  by (simp add: sortArtifacts_def sort_key_def insort_key.simps artifact_order_def less_eq_prod_def) (simp add: js_simps)

lemma locked_validated: "validateToolchain catalog_platform loose (locked_catalog revision) sample_runtimes [] locked_toolchain =
    Inr [locked_tuple]"
  using locked_ok locked_key locked_jre_checked locked_required locked_order locked_artifacts locked_server_url
  by (simp add: validateToolchain_def o_def)

definition locked_revision :: jsstr where
  "locked_revision = sample_sha256 (encode (sample_text (locked_catalog ZERO_SHA256)))"

lemma locked_revisions:
  "catalogRevisionFor catalog_platform (lock_document ZERO_SHA256 (ru_revision sample_runtimes) [resolved_toolchain]) = Inr locked_revision"
  "catalogRevisionFor catalog_platform (locked_catalog revision) = Inr locked_revision"
proof -
  have "zero_revision (lock_document ZERO_SHA256 r ts) = lock_document ZERO_SHA256 r ts" for r ts by (simp add: lock_document_def)
  then show "catalogRevisionFor catalog_platform (lock_document ZERO_SHA256 (ru_revision sample_runtimes) [resolved_toolchain]) = Inr locked_revision"
    using lock_canonical by (simp add: catalogRevisionFor_def canonicalJsonBytes_def locked_revision_def) (simp add: lock_document_def)
  have "zero_revision (locked_catalog revision) = locked_catalog ZERO_SHA256" by (simp add: locked_catalog_def)
  then show "catalogRevisionFor catalog_platform (locked_catalog revision) = Inr locked_revision"
    using canonicalize_idempotent [OF lock_canonical resolved_distinct_keys(2)]
    by (simp add: catalogRevisionFor_def canonicalJsonBytes_def locked_revision_def) (simp add: locked_catalog_def)
qed

lemma sample_lock_valid:
  "validateToolchainCatalog catalog_platform loose (lock_document locked_revision (ru_revision sample_runtimes) [resolved_toolchain])
    (Some (encode (js ''j''))) (Some [sample_candidate]) None = Inr (locked_catalog locked_revision)"
proof -
  have d: "validSha256 (Str locked_revision)" "validSha256 (Str (ru_revision sample_runtimes))"
    using sha256_validSha256 [OF catalog_platform_laws(1)] by (simp_all add: locked_revision_def sample_runtimes_def)
  have k: "sameKeys (lock_document r rt ts) [''approvedArtifactHosts'', ''catalogRevision'', ''runtimeCatalogRevision'', ''schemaVersion'', ''toolchains'']"
    for r rt ts unfolding sameKeys_def lock_document_def by (simp add: sort_key_def insort_key.simps js_simps)
  have "parseCatalogDocument (lock_document locked_revision (ru_revision sample_runtimes) [resolved_toolchain]) = Inr (locked_catalog locked_revision)"
    using d k lock_canonical by (simp add: parseCatalogDocument_def) (simp add: lock_document_def)
  then show ?thesis
    using sample_runtimes locked_revisions(2) locked_validated locked_key canonicalize_idempotent [OF lock_canonical resolved_distinct_keys(2)]
    by (simp add: validateToolchainCatalog_def sameStringList_def check_coverage_def)
qed

lemma sample_generated: "generateToolchainCatalog catalog_platform loose (Some (encode (js ''j''))) (Some catalog_fetch) (Arr [sample_candidate]) Undefined [] =
    (Inr (locked_catalog locked_revision), [manifest_url, version_url, loader_url, jar_url @ js ''.sha1'', jar_url, server_url])"
proof -
  have "sortArtifacts loose [primary_entry, server_entry] = Inr [server_entry, primary_entry]"
    by (simp add: sortArtifacts_def primary_entry_def server_entry_def artifact_entry_def sort_key_def insort_key.simps artifact_order_def less_eq_prod_def)
      (simp add: js_simps)
  then have "resolve_candidate catalog_platform loose sample_fetcher sample_runtimes [(js ''1.21.1'', version_metadata)] [] sample_candidate h =
      (Inr [resolved_toolchain], h @ [loader_url, jar_url @ js ''.sha1'', jar_url, server_url])" for h
    using sample_jre sample_primary sample_server by (simp add: resolve_candidate_def fetch_bind_def pure_def resolved_toolchain_def)
  moreover have "finish_lock catalog_platform loose (Some (encode (js ''j''))) sample_runtimes [sample_candidate] [resolved_toolchain] =
      Inr (locked_catalog locked_revision)"
    using locked_revisions(1) sample_lock_valid lock_canonical by (simp add: finish_lock_def)
  ultimately show ?thesis
    using sample_runtimes sample_candidates sample_fetcher sample_version by (simp add: generateToolchainCatalog_def fetch_bind_def pure_def)
qed

section \<open>Witnesses\<close>

text \<open>A network that fails once: the second request for the server is answered.\<close>

definition flaky_fetcher :: catalog_fetcher where
  "flaky_fetcher = sample_fetcher\<lparr>cf_fetch := (\<lambda>h. if length h < 2 then (Inl network_error, False) else catalog_fetch h)\<rparr>"

theorem catalog_download_ends_witness:
  "\<exists>n. 0 < n \<and> n \<le> 3 \<and> snd (catalog_download catalog_platform flaky_fetcher server_url APPROVED_ARTIFACT_HOSTS 100 True 0 []) = replicate n server_url \<and>
    fst (catalog_download catalog_platform flaky_fetcher server_url APPROVED_ARTIFACT_HOSTS 100 True 0 []) =
      catalog_answer catalog_platform flaky_fetcher server_url 100 True (replicate n server_url) \<and>
    n \<noteq> 1"
proof -
  have "catalog_answer catalog_platform flaky_fetcher server_url 100 True [server_url] = Inl (ToolchainCatalogFailure ''upstream_fetch_failed'')"
    by (simp add: catalog_answer_def flaky_fetcher_def catalog_raced_def network_error_def)
  with catalog_download_ends [of catalog_platform flaky_fetcher server_url APPROVED_ARTIFACT_HOSTS 100 True "[]"] trusted_pages(7)
  show ?thesis by fastforce
qed

theorem generated_catalog_valid_witness:
  "validateToolchainCatalog catalog_platform Inr (locked_catalog locked_revision) (Some (encode (js ''j''))) (Some [sample_candidate])
    (Some (sample_text (locked_catalog locked_revision) @ [10])) = Inr (locked_catalog locked_revision)"
proof -
  have "distinct_keys (Arr [sample_candidate])" by (simp add: sample_candidate_def reviewed_java_def reviewed_loader_def)
  from generated_catalog_valid [OF sample_generated [of Inr] this] show ?thesis by simp
qed

theorem generated_artifacts_downloaded_witness:
  "\<exists>body r h1. length body = 2 \<and> get locked_server ''sha256'' = Str (sample_sha256 body) \<and>
    prefix (h1 @ [server_url]) [manifest_url, version_url, loader_url, jar_url @ js ''.sha1'', jar_url, server_url] \<and>
    catalog_fetch (h1 @ [server_url]) = (Inr r, False) \<and> catalog_body r 536870912 = Inr body"
proof -
  have "distinct_keys (Arr [sample_candidate])" by (simp add: sample_candidate_def reviewed_java_def reviewed_loader_def)
  moreover have "get locked_server ''sizeBytes'' = JInt 2" by (simp add: locked_server_def locked_artifact_def)
  ultimately show ?thesis
    using generated_artifacts_downloaded [OF sample_generated [of Inr], of locked_toolchain locked_server] by fastforce
qed

theorem validated_catalog_accepted_witness:
  "\<exists>catalog. parseCatalog catalog_platform (locked_catalog locked_revision) = Inr catalog"
proof -
  have "sameKeys reviewed_java [''component'', ''major'']" by (simp add: reviewed_java_def sameKeysI)
  then show ?thesis
    using validated_catalog_accepted [OF catalog_platform_laws(2,1,3) sample_lock_valid resolved_distinct_keys(2)] by simp
qed

end
