(* ===== verification/Spec2Isabelle.thy ===== *)
theory Spec2Isabelle
  imports Identity_Security Queue_Properties Sample_Worker Sample_Builder Sample_Http Sample_Toolchain
begin

text \<open>
  A verification development of the content compiler worker, the JavaScript program under
  \<open>src/compiler/src\<close>. The worker receives signed jobs, stores them in a durable queue, and for
  each of them downloads a bundle, validates it, builds immutable server content from reviewed
  toolchains, uploads the content and reports the outcome to the control plane.

  \<^bold>\<open>Conventions.\<close> A JavaScript string is a list of 16-bit code units (\<open>jsstr\<close>, literals
  \<open>js ''abc''\<close>), a \<open>Uint8Array\<close> a list of bytes, a JSON document a value of the datatype
  \<open>jsval\<close>. A computation that may throw has the type \<open>'a result\<close>, with the error as \<open>Inl\<close>.
  State is passed explicitly. What the program takes from its runtime and from the network is a
  parameter: the record \<open>platform\<close> has the digests, HMAC, \<open>JSON.parse\<close> and
  \<open>JSON.stringify\<close>, URL and date parsing, Unicode normalization, inflation and base64; network
  answers, the clock, the injected builder dependencies and the control plane are functions. The
  laws a property relies on are predicates of the platform, such as \<open>sha256_hex\<close> (a digest has 64
  lower-case hexadecimal digits), \<open>json_text\<close> (the text of a document parses to it) or
  \<open>lower_ascii\<close>. \<open>Sample_Platform\<close> is an executable platform that satisfies them; the
  witnesses use it.

  \<^bold>\<open>Foundations.\<close> \<open>Prelude\<close> (results, lists, byte slices), \<open>JS_Values\<close> (strings, numbers,
  documents, validators shared by the source files), \<open>Utf8\<close> (\<open>TextEncoder\<close> and the strict
  \<open>TextDecoder\<close>, with their round trip), \<open>Production_Limits\<close> (\<open>production-limits.mjs\<close>).

  \<^bold>\<open>Content archive\<close> (\<open>reviewed-builder.mjs\<close>, the packaging half). \<open>Tar_Package\<close> has the
  tar writer and reader and the raw-block Zstandard frame, byte by byte; \<open>Tar_Roundtrip\<close> and
  \<open>Archive_Roundtrip\<close> show that unpacking returns the packed files, exactly when packaging
  succeeds, that the archive does not depend on insertion order, and what an accepted archive
  guarantees.

  \<^bold>\<open>Identity\<close> (\<open>service-identity.mjs\<close>). \<open>Replay_Store\<close> has the two nonce stores with the
  outcomes of the file system and the locales \<open>replay_store\<close> and \<open>strict_replay_store\<close> as their
  contract; \<open>Service_Identity\<close> has the HMAC and Ed25519 identities. \<open>Identity_Security\<close> shows that
  the signed payload determines the request, that signing and verifying agree, what acceptance
  implies, and that a request is accepted at most once.

  \<^bold>\<open>Job queue\<close> (\<open>job-queue.mjs\<close>). \<open>Job_Queue\<close> gives each operation as the list of durable
  effects it performs, so a crash is a prefix of that list. \<open>Queue_Spec\<close> is the abstract queue and
  the locale \<open>job_queue\<close>; \<open>Queue_Documents\<close>, \<open>Queue_Filesystem\<close>, \<open>Queue_Operations\<close> and
  \<open>Queue_Refinement\<close> show that the filesystem and the memory queue implement it. \<open>Queue_Crash\<close>
  is the step relation with crashes and restarts; \<open>Queue_Properties\<close> shows that jobs survive
  crashes, that an archived job is never handed out again, and that a restart recovers.

  \<^bold>\<open>Bundles\<close> (\<open>bundle.mjs\<close>). \<open>Zip_Reader\<close> and \<open>Bundle\<close> model the ZIP reader with its bounds,
  the CRC and the validation; \<open>Zip_Roundtrip\<close> and \<open>Bundle_Properties\<close> show that a well laid out
  archive is read exactly, that no read leaves the bytes, and what an accepted bundle guarantees.

  \<^bold>\<open>Worker\<close> (\<open>compiler.mjs\<close>, \<open>world-seed.mjs\<close>). \<open>Exact_Transfer\<close> models bounded, timed
  transfers; \<open>Immutable_Content\<close> (also of \<open>reviewed-builder.mjs\<close>) the verification of built
  content; \<open>Compiler_Worker\<close> the run of a job as a trace of calls; \<open>World_Seed\<close> the seed worker.
  \<open>Worker_Properties\<close> shows the order of the calls: nothing is published before the store has
  exactly the published object, and a failure is reported only before a digest is bound.

  \<^bold>\<open>Builder\<close> (\<open>reviewed-builder.mjs\<close>, the building half). \<open>Canonical_Json\<close> (also of
  \<open>toolchain-catalog.mjs\<close>) has canonical documents and revisions, \<open>Reviewed_Catalog\<close> the parsed
  catalog, \<open>Artifact_Download\<close> the strict downloader with the locale \<open>artifact_source\<close>,
  \<open>Reviewed_Builder\<close> the build. \<open>Builder_Properties\<close> shows where every built file comes from, that
  the launcher runs the planned command, and that the builder's own check never rejects its output.

  \<^bold>\<open>HTTP worker\<close> (\<open>http-worker.mjs\<close>). \<open>Callback_Control_Plane\<close> models the signed callbacks,
  \<open>Http_Worker\<close> the endpoint and the processing of a queued job, \<open>Http_Properties\<close> the answers
  of the endpoint (locale \<open>http_services\<close>). \<open>Worker_System\<close> is the whole process as a step
  relation over deliveries, claims, runs, crashes and restarts; it spans all the parts above and
  shows that a job is archived only after the control plane accepted its outcome.

  \<^bold>\<open>Toolchain catalog\<close> (\<open>toolchain-catalog.mjs\<close>). \<open>Toolchain_Catalog\<close> models the candidates,
  the runtime catalog and the validation of a lock file, \<open>Catalog_Fetcher\<close> the fetcher with its
  retries, \<open>Toolchain_Generator\<close> the generator. Computations that fetch extend the history of
  requested URLs, and the network answers as a function of that history. \<open>Toolchain_Properties\<close>
  shows that a generated lock is valid and stable, that each of its artifacts was downloaded as
  recorded, and when the worker accepts a validated lock.

  \<^bold>\<open>Witnesses.\<close> \<open>Sample_Platform\<close>, \<open>Sample_Worker\<close>, \<open>Sample_Builder\<close>, \<open>Sample_Http\<close> and
  \<open>Sample_Toolchain\<close> have complete concrete runs, and the instances of the properties at them.

  \<^bold>\<open>Bounds.\<close> No definition uses fuel: every loop of the source is a recursion that is structural
  or has a termination proof. Reading loops end with the chunks of their stream; an endless stream
  ends with the error of the size limit or with the timer, which is part of the network's answer.
  Sizes and offsets are natural numbers where the source keeps them below \<open>2^53\<close>; the CRC, the
  code units and the bytes are words of their width, and \<open>isSafeInteger\<close> is written out.

  \<^bold>\<open>Not modelled.\<close> The verified JRE registry (\<open>verified-jre-registry.mjs\<close>) and the bubblewrap
  sandbox (\<open>bubblewrap-sandbox.mjs\<close>) inspect directories and mounts and run processes; the
  builder's model takes them as functions and checks their answers as the code does.
  \<open>production-composition.mjs\<close> and \<open>worker-server.mjs\<close> read configuration and start the server;
  the scripts under \<open>src/compiler/scripts\<close> are wrappers around files. Log lines, pauses between
  retries, directory syncs and the fake classes for tests are left out. The Go programs, the
  runtime image and the deployment files are other programs.
\<close>

end
